(* ===== verification/Prelude.thy ===== *)
theory Prelude
  imports Main "HOL-Library.Word" "HOL-Library.Char_ord" "HOL-Library.List_Lexorder"
    "HOL-Library.Product_Lexorder" "HOL-Library.Sublist"
begin

text \<open>
  What every component shares: the machine types of the Rust sources, panics as values, the
  ordered map \<open>BTreeMap\<close>, selection of a first maximum (the loop shape of both routing
  functions), and the named collections that carry the component proofs.

  A Rust \<open>String\<close> or \<open>&str\<close> is its UTF-8 byte sequence, a HOL \<open>string\<close>:
  an Isabelle \<open>char\<close> is one byte, so \<open>length\<close> is \<open>str::len\<close> and the list order is
  the byte order of \<open>Ord for str\<close>.
\<close>

section \<open>Machine types, panics, results\<close>

type_synonym u8 = "8 word"
type_synonym u16 = "16 word"
type_synonym u32 = "32 word"

text \<open>
  An \<open>f64\<close> is its IEEE 754 bit pattern; the model compares and classifies these patterns and
  never computes with them. An \<open>i32\<close> is read from a Kubernetes object and is an \<open>int\<close>
  here, the casts out of it written with \<open>word_of_int\<close>.
\<close>

type_synonym f64 = "64 word"
type_synonym i32 = int

datatype panic = SliceOutOfBounds | ExplicitPanic string

named_theorems outcome_simps "equations of the sum-valued operations"
named_theorems lens_simps "what a builder or update method leaves of each field"

text \<open>\<open>Iterator::any\<close> and \<open>Iterator::find\<close> on lists are \<open>list_ex\<close> and \<open>find\<close>.\<close>

lemma list_ex_iff_set: "list_ex P xs \<longleftrightarrow> (\<exists>x\<in>set xs. P x)"
  by (simp add: list_ex_iff)

lemma find_Some_set: "find P xs = Some x \<Longrightarrow> x \<in> set xs \<and> P x"
  by (induction xs) (auto split: if_splits)

lemma find_eq_None_iff: "find P xs = None \<longleftrightarrow> (\<forall>x\<in>set xs. \<not> P x)"
  by (induction xs) auto

lemma find_rev_distinct:
  assumes "distinct (map f xs)" and "x \<in> set xs"
  shows "find (\<lambda>y. f y = f x) (rev xs) = Some x"
proof (cases "find (\<lambda>y. f y = f x) (rev xs)")
  case None
  then show ?thesis using assms(2) by (auto simp: find_eq_None_iff)
next
  case (Some y)
  then have "y \<in> set xs" "f y = f x" by (auto dest: find_Some_set)
  then have "y = x" using assms by (meson distinct_map inj_onD)
  with Some show ?thesis by simp
qed

lemma map_option_eq_NoneD: "map_option f x = None \<Longrightarrow> x = None"
  by (cases x) auto

section \<open>Ordered maps\<close>

text \<open>
  \<open>std::collections::BTreeMap\<close>: an association list in strictly ascending key order, which
  \<open>bt_insert\<close> keeps. \<open>values()\<close> and \<open>into_values()\<close> read it in that order.
\<close>

type_synonym ('k, 'v) btree = "('k \<times> 'v) list"

fun bt_insert :: "'k::linorder \<Rightarrow> 'v \<Rightarrow> ('k, 'v) btree \<Rightarrow> ('k, 'v) btree" where
  "bt_insert k v [] = [(k, v)]"
| "bt_insert k v ((k', v') # m) =
     (if k < k' then (k, v) # (k', v') # m
      else if k = k' then (k, v) # m
      else (k', v') # bt_insert k v m)"

definition bt_get :: "'k \<Rightarrow> ('k, 'v) btree \<Rightarrow> 'v option" where
  "bt_get k m = map_of m k"

definition bt_contains :: "'k \<Rightarrow> ('k, 'v) btree \<Rightarrow> bool" where
  "bt_contains k m \<longleftrightarrow> bt_get k m \<noteq> None"

text \<open>\<open>entry(k).or_insert_with(f)\<close>: an existing entry stays.\<close>

definition bt_or_insert :: "'k::linorder \<Rightarrow> 'v \<Rightarrow> ('k, 'v) btree \<Rightarrow> ('k, 'v) btree" where
  "bt_or_insert k v m = (if bt_contains k m then m else bt_insert k v m)"

definition bt_values :: "('k, 'v) btree \<Rightarrow> 'v list" where
  "bt_values m = map snd m"

definition bt_wf :: "('k::linorder, 'v) btree \<Rightarrow> bool" where
  "bt_wf m \<longleftrightarrow> sorted_wrt (<) (map fst m)"

lemma bt_get_insert: "bt_get j (bt_insert k v m) = (if j = k then Some v else bt_get j m)"
  by (induction m) (auto simp: bt_get_def)

lemma bt_get_insert_same [simp]: "bt_get k (bt_insert k v m) = Some v"
  by (simp add: bt_get_insert)

lemma bt_get_insert_other [simp]: "j \<noteq> k \<Longrightarrow> bt_get j (bt_insert k v m) = bt_get j m"
  by (simp add: bt_get_insert)

lemma bt_get_Nil [simp]: "bt_get k [] = None"
  by (simp add: bt_get_def)

lemma bt_contains_insert [simp]: "bt_contains j (bt_insert k v m) \<longleftrightarrow> j = k \<or> bt_contains j m"
  by (auto simp: bt_contains_def bt_get_insert)

lemma keys_bt_insert: "fst ` set (bt_insert k v m) = insert k (fst ` set m)"
  by (induction k v m rule: bt_insert.induct) (simp_all add: insert_commute)

lemma bt_contains_iff: "bt_contains k m \<longleftrightarrow> k \<in> fst ` set m"
  by (auto simp: bt_contains_def bt_get_def map_of_eq_None_iff)

lemma bt_wf_Nil [simp]: "bt_wf []"
  by (simp add: bt_wf_def)

lemma bt_wf_insert [simp]: "bt_wf m \<Longrightarrow> bt_wf (bt_insert k v m)"
proof (induction m)
  case (Cons x m)
  then show ?case
    using keys_bt_insert [of k v m] by (cases x) (force simp: bt_wf_def)
qed (simp add: bt_wf_def)

lemma bt_wf_or_insert [simp]: "bt_wf m \<Longrightarrow> bt_wf (bt_or_insert k v m)"
  by (simp add: bt_or_insert_def)

lemma bt_wf_distinct: "bt_wf m \<Longrightarrow> distinct (map fst m)"
  by (simp add: bt_wf_def strict_sorted_iff)

lemma bt_get_mem: "bt_wf m \<Longrightarrow> bt_get k m = Some v \<longleftrightarrow> (k, v) \<in> set m"
  by (simp add: bt_get_def bt_wf_distinct)

lemma bt_get_or_insert:
  "bt_get j (bt_or_insert k v m) =
     (if j = k then Some (case bt_get k m of Some w \<Rightarrow> w | None \<Rightarrow> v) else bt_get j m)"
  by (auto simp: bt_or_insert_def bt_contains_def bt_get_insert split: option.splits)

lemma keys_bt_or_insert: "fst ` set (bt_or_insert k v m) = insert k (fst ` set m)"
  by (auto simp: bt_or_insert_def keys_bt_insert bt_contains_iff)

lemma bt_insert_new_mem:
  "bt_wf m \<Longrightarrow> (j, w) \<in> set (bt_insert k v m) \<longleftrightarrow> (if j = k then w = v else (j, w) \<in> set m)"
  by (simp flip: bt_get_mem) (auto simp: bt_get_insert)

text \<open>Filling a map from a list by \<open>or_insert_with\<close>: one entry per distinct key.\<close>

fun bt_fill :: "('a \<Rightarrow> 'k::linorder) \<Rightarrow> ('a \<Rightarrow> 'v) \<Rightarrow> 'a list \<Rightarrow> ('k, 'v) btree \<Rightarrow> ('k, 'v) btree" where
  "bt_fill key val [] m = m"
| "bt_fill key val (x # xs) m = bt_fill key val xs (bt_or_insert (key x) (val x) m)"

lemma bt_wf_fill [simp]: "bt_wf m \<Longrightarrow> bt_wf (bt_fill key val xs m)"
  by (induction xs arbitrary: m) auto

lemma keys_bt_fill: "fst ` set (bt_fill key val xs m) = key ` set xs \<union> fst ` set m"
  by (induction xs arbitrary: m) (auto simp: keys_bt_or_insert)

lemma bt_get_fill:
  "bt_get k (bt_fill key val xs m) =
     (case bt_get k m of Some w \<Rightarrow> Some w | None \<Rightarrow> map_option val (find (\<lambda>x. key x = k) xs))"
  by (induction xs arbitrary: m) (auto simp: bt_get_or_insert split: option.splits)

lemma bt_fill_entries:
  "(k, v) \<in> set (bt_fill key val xs []) \<Longrightarrow> \<exists>x\<in>set xs. k = key x \<and> v = val x"
  using bt_get_fill [of k key val xs "[]"] bt_get_mem [of "bt_fill key val xs []" k v]
  by (auto dest: find_Some_set split: option.splits)

lemma strict_sorted_eqI:
  "sorted_wrt (<) xs \<Longrightarrow> sorted_wrt (<) ys \<Longrightarrow> set xs = set ys \<Longrightarrow> xs = (ys :: 'a::linorder list)"
  by (simp add: strict_sorted_equal)

lemma map_fst_bt_fill: "map fst (bt_fill key val xs []) = sorted_list_of_set (key ` set xs)"
proof (rule strict_sorted_eqI)
  show "sorted_wrt (<) (map fst (bt_fill key val xs []))"
    using bt_wf_fill [of "[]" key val xs] by (simp add: bt_wf_def)
  show "set (map fst (bt_fill key val xs [])) = set (sorted_list_of_set (key ` set xs))"
    using keys_bt_fill [of key val xs "[]"] by simp
qed simp

lemma bt_fill_values:
  "bt_values (bt_fill key val xs []) =
     map (\<lambda>k. val (the (find (\<lambda>x. key x = k) xs))) (sorted_list_of_set (key ` set xs))"
proof -
  have "v = val (the (find (\<lambda>x. key x = k) xs))" if "(k, v) \<in> set (bt_fill key val xs [])" for k v
    using that bt_get_fill [of k key val xs "[]"] bt_get_mem [of "bt_fill key val xs []" k v]
    by auto
  then have "map snd (bt_fill key val xs []) =
      map (\<lambda>k. val (the (find (\<lambda>x. key x = k) xs))) (map fst (bt_fill key val xs []))"
    by auto
  then show ?thesis by (simp only: bt_values_def map_fst_bt_fill)
qed

lemma list_all2_mem: "list_all2 P xs ys \<Longrightarrow> x \<in> set xs \<Longrightarrow> \<exists>y\<in>set ys. P x y"
  by (induction rule: list_all2_induct) auto

end
