(* ===== verification/Config.thy ===== *)
theory Config
  imports RustStr
begin

text \<open>
  The data contract of the data plane, \<open>crates/proxy-core/src/config.rs\<close>: listeners, TLS,
  routes, rules, matches, filters, backends and timeouts, their defaults, constructors and
  builders. A field keeps the source's name after a prefix for its struct, because HOL
  selectors are global.
\<close>

section \<open>Listeners and TLS\<close>

record GatewayRef =
  gr_namespace :: string
  gr_name :: string

datatype Protocol = Http | Https

datatype TlsMode = Terminate | Passthrough

record CertificateRef =
  cr_namespace :: string
  cr_name :: string

record InlineCertificate =
  ic_cert_pem :: string
  ic_key_pem :: string
  ic_hostnames :: "string list"

record TlsConfig =
  tls_mode :: TlsMode
  tls_certificates :: "CertificateRef list"
  tls_inline_certificates :: "InlineCertificate list"

record ListenerConfig =
  lc_name :: string
  lc_port :: u16
  lc_protocol :: Protocol
  lc_hostname :: "string option"
  lc_tls :: "TlsConfig option"

definition listener_http :: "string \<Rightarrow> u16 \<Rightarrow> string option \<Rightarrow> ListenerConfig" where
  "listener_http name port hostname =
     \<lparr>lc_name = name, lc_port = port, lc_protocol = Http, lc_hostname = hostname, lc_tls = None\<rparr>"

definition listener_https :: "string \<Rightarrow> u16 \<Rightarrow> string option \<Rightarrow> TlsConfig \<Rightarrow> ListenerConfig" where
  "listener_https name port hostname tls =
     \<lparr>lc_name = name, lc_port = port, lc_protocol = Https, lc_hostname = hostname, lc_tls = Some tls\<rparr>"

section \<open>Matches\<close>

datatype PathMatchType = PathExact | PathPrefix | PathRegularExpression

record PathMatch =
  pm_match_type :: PathMatchType
  pm_value :: string

definition path_match_default :: PathMatch where
  "path_match_default = \<lparr>pm_match_type = PathPrefix, pm_value = ''/''\<rparr>"

datatype HeaderMatchType = HeaderExact | HeaderRegularExpression

record HeaderMatch =
  hm_name :: string
  hm_match_type :: HeaderMatchType
  hm_value :: string

datatype QueryParamMatchType = QueryExact | QueryRegularExpression

record QueryParamMatch =
  qm_name :: string
  qm_match_type :: QueryParamMatchType
  qm_value :: string

record RouteMatch =
  rm_path :: "PathMatch option"
  rm_headers :: "HeaderMatch list"
  rm_query_params :: "QueryParamMatch list"
  rm_method :: "string option"

definition route_match_default :: RouteMatch where
  "route_match_default = \<lparr>rm_path = None, rm_headers = [], rm_query_params = [], rm_method = None\<rparr>"

section \<open>Backends and filters\<close>

datatype BackendProtocol = Http1 | H2c

record Backend =
  be_namespace :: string
  be_name :: string
  be_port :: u16
  be_weight :: u32
  be_protocol :: BackendProtocol

definition default_weight :: u32 where
  "default_weight = 1"

definition backend_new :: "string \<Rightarrow> string \<Rightarrow> u16 \<Rightarrow> Backend" where
  "backend_new namespace name port =
     \<lparr>be_namespace = namespace, be_name = name, be_port = port, be_weight = 1, be_protocol = Http1\<rparr>"

definition backend_with_weight :: "Backend \<Rightarrow> u32 \<Rightarrow> Backend" where
  "backend_with_weight b weight = b\<lparr>be_weight := weight\<rparr>"

definition backend_with_protocol :: "Backend \<Rightarrow> BackendProtocol \<Rightarrow> Backend" where
  "backend_with_protocol b protocol = b\<lparr>be_protocol := protocol\<rparr>"

record HeaderValue =
  hv_name :: string
  hv_value :: string

datatype PathModifier = ReplaceFullPath string | ReplacePrefixMatch string

text \<open>
  The filter variants, their fields in the source's order: \<open>add\<close>, \<open>set\<close>, \<open>remove\<close> of
  the header modifiers; \<open>scheme\<close>, \<open>hostname\<close>, \<open>port\<close>, \<open>path\<close>, \<open>status_code\<close> of
  the redirect; \<open>hostname\<close>, \<open>path\<close> of the rewrite; \<open>backend\<close>, \<open>percent\<close> of the mirror.
\<close>

datatype Filter =
    RequestHeaderModifier "HeaderValue list" "HeaderValue list" "string list"
  | ResponseHeaderModifier "HeaderValue list" "HeaderValue list" "string list"
  | RequestRedirect "string option" "string option" "u16 option" "PathModifier option" "u16 option"
  | URLRewrite "string option" "PathModifier option"
  | RequestMirror Backend "u32 option"

definition filter_request_header_add :: "HeaderValue list \<Rightarrow> Filter" where
  "filter_request_header_add headers = RequestHeaderModifier headers [] []"

definition filter_request_header_remove :: "string list \<Rightarrow> Filter" where
  "filter_request_header_remove names = RequestHeaderModifier [] [] names"

definition filter_redirect :: "u16 \<Rightarrow> Filter" where
  "filter_redirect status_code = RequestRedirect None None None None (Some status_code)"

section \<open>Rules, routes, the configuration\<close>

record TimeoutConfig =
  to_request :: "f64 option"
  to_backend_request :: "f64 option"

record RouteRule =
  rr_name :: "string option"
  rr_matches :: "RouteMatch list"
  rr_filters :: "Filter list"
  rr_backends :: "Backend list"
  rr_timeout :: "TimeoutConfig option"

definition route_rule_default :: RouteRule where
  "route_rule_default = \<lparr>rr_name = None, rr_matches = [route_match_default], rr_filters = [],
     rr_backends = [], rr_timeout = None\<rparr>"

record RouteConfig =
  rc_name :: string
  rc_namespace :: string
  rc_hostnames :: "string list"
  rc_attached_listeners :: "string list"
  rc_rules :: "RouteRule list"

definition route_config_new :: "string \<Rightarrow> string \<Rightarrow> RouteConfig" where
  "route_config_new namespace name = \<lparr>rc_name = name, rc_namespace = namespace, rc_hostnames = [],
     rc_attached_listeners = [], rc_rules = []\<rparr>"

record ProxyConfig =
  pc_version :: string
  pc_gateway :: GatewayRef
  pc_listeners :: "ListenerConfig list"
  pc_routes :: "RouteConfig list"

definition proxy_config_default :: ProxyConfig where
  "proxy_config_default = \<lparr>pc_version = ''v1'', pc_gateway = \<lparr>gr_namespace = [], gr_name = []\<rparr>,
     pc_listeners = [], pc_routes = []\<rparr>"

definition routes_for_listener :: "ProxyConfig \<Rightarrow> string \<Rightarrow> RouteConfig list" where
  "routes_for_listener cfg listener_name =
     filter (\<lambda>r. listener_name \<in> set (rc_attached_listeners r)) (pc_routes cfg)"

section \<open>Builders\<close>

definition proxy_config_builder_new :: "string \<Rightarrow> string \<Rightarrow> ProxyConfig" where
  "proxy_config_builder_new ns name = \<lparr>pc_version = ''v1'',
     pc_gateway = \<lparr>gr_namespace = ns, gr_name = name\<rparr>, pc_listeners = [], pc_routes = []\<rparr>"

definition with_http_listener :: "ProxyConfig \<Rightarrow> string \<Rightarrow> u16 \<Rightarrow> string option \<Rightarrow> ProxyConfig" where
  "with_http_listener c name port hostname =
     c\<lparr>pc_listeners := pc_listeners c @ [listener_http name port hostname]\<rparr>"

definition with_https_listener ::
  "ProxyConfig \<Rightarrow> string \<Rightarrow> u16 \<Rightarrow> string option \<Rightarrow> TlsConfig \<Rightarrow> ProxyConfig" where
  "with_https_listener c name port hostname tls =
     c\<lparr>pc_listeners := pc_listeners c @ [listener_https name port hostname tls]\<rparr>"

definition with_route :: "ProxyConfig \<Rightarrow> RouteConfig \<Rightarrow> ProxyConfig" where
  "with_route c route = c\<lparr>pc_routes := pc_routes c @ [route]\<rparr>"

definition with_hostname :: "RouteConfig \<Rightarrow> string \<Rightarrow> RouteConfig" where
  "with_hostname r hostname = r\<lparr>rc_hostnames := rc_hostnames r @ [hostname]\<rparr>"

definition attached_to :: "RouteConfig \<Rightarrow> string \<Rightarrow> RouteConfig" where
  "attached_to r listener = r\<lparr>rc_attached_listeners := rc_attached_listeners r @ [listener]\<rparr>"

definition with_rule :: "RouteConfig \<Rightarrow> RouteRule \<Rightarrow> RouteConfig" where
  "with_rule r rule = r\<lparr>rc_rules := rc_rules r @ [rule]\<rparr>"

definition route_rule_builder_new :: RouteRule where
  "route_rule_builder_new = \<lparr>rr_name = None, rr_matches = [], rr_filters = [], rr_backends = [],
     rr_timeout = None\<rparr>"

definition with_name :: "RouteRule \<Rightarrow> string \<Rightarrow> RouteRule" where
  "with_name r name = r\<lparr>rr_name := Some name\<rparr>"

definition with_match :: "RouteRule \<Rightarrow> RouteMatch \<Rightarrow> RouteRule" where
  "with_match r m = r\<lparr>rr_matches := rr_matches r @ [m]\<rparr>"

definition with_path_prefix :: "RouteRule \<Rightarrow> string \<Rightarrow> RouteRule" where
  "with_path_prefix r p = r\<lparr>rr_matches := rr_matches r @
     [route_match_default\<lparr>rm_path := Some \<lparr>pm_match_type = PathPrefix, pm_value = p\<rparr>\<rparr>]\<rparr>"

definition with_exact_path :: "RouteRule \<Rightarrow> string \<Rightarrow> RouteRule" where
  "with_exact_path r p = r\<lparr>rr_matches := rr_matches r @
     [route_match_default\<lparr>rm_path := Some \<lparr>pm_match_type = PathExact, pm_value = p\<rparr>\<rparr>]\<rparr>"

definition with_filter :: "RouteRule \<Rightarrow> Filter \<Rightarrow> RouteRule" where
  "with_filter r f = r\<lparr>rr_filters := rr_filters r @ [f]\<rparr>"

definition with_backend :: "RouteRule \<Rightarrow> Backend \<Rightarrow> RouteRule" where
  "with_backend r b = r\<lparr>rr_backends := rr_backends r @ [b]\<rparr>"

definition with_timeout :: "RouteRule \<Rightarrow> TimeoutConfig \<Rightarrow> RouteRule" where
  "with_timeout r t = r\<lparr>rr_timeout := Some t\<rparr>"

lemmas builder_defs = proxy_config_builder_new_def with_http_listener_def with_https_listener_def
  with_route_def with_hostname_def attached_to_def with_rule_def route_rule_builder_new_def
  with_name_def with_match_def with_path_prefix_def with_exact_path_def with_filter_def
  with_backend_def with_timeout_def listener_http_def listener_https_def route_config_new_def
  route_match_default_def backend_new_def

lemma routes_for_listener_iff:
  "r \<in> set (routes_for_listener c l) \<longleftrightarrow> r \<in> set (pc_routes c) \<and> l \<in> set (rc_attached_listeners r)"
  by (simp add: routes_for_listener_def)

end
