(* ===== verification/Selection.thy ===== *)
theory Selection
  imports Prelude
begin

text \<open>
  The loop \<open>for x in xs { if best.is_none_or(|b| beats(x, b)) { best = Some(x) } }\<close>, which
  \<open>routing.rs\<close> runs twice (over the matches of a rule, and over the rules of all routes), and
  the contract under which it returns a first maximum: \<open>beats\<close> is a strict weak order.
\<close>

definition is_none_or :: "'a option \<Rightarrow> ('a \<Rightarrow> bool) \<Rightarrow> bool" where
  "is_none_or x P \<longleftrightarrow> (case x of None \<Rightarrow> True | Some a \<Rightarrow> P a)"

lemma is_none_or_simps [simp]: "is_none_or None P" "is_none_or (Some a) P = P a"
  by (simp_all add: is_none_or_def)

definition challenge :: "('p \<Rightarrow> 'p \<Rightarrow> bool) \<Rightarrow> ('a \<Rightarrow> 'p) \<Rightarrow> 'a option \<Rightarrow> 'a \<Rightarrow> 'a option" where
  "challenge beats key best x = (if is_none_or best (\<lambda>b. beats (key x) (key b)) then Some x else best)"

definition first_best :: "('p \<Rightarrow> 'p \<Rightarrow> bool) \<Rightarrow> ('a \<Rightarrow> 'p) \<Rightarrow> 'a list \<Rightarrow> 'a option" where
  "first_best beats key xs = foldl (challenge beats key) None xs"

text \<open>The declarative contract: everything before loses to the chosen element, nothing after beats it.\<close>

definition is_first_max :: "('p \<Rightarrow> 'p \<Rightarrow> bool) \<Rightarrow> ('a \<Rightarrow> 'p) \<Rightarrow> 'a list \<Rightarrow> 'a \<Rightarrow> bool" where
  "is_first_max beats key xs x \<longleftrightarrow>
     (\<exists>pre post. xs = pre @ x # post \<and> (\<forall>y\<in>set pre. beats (key x) (key y)) \<and>
        (\<forall>y\<in>set post. \<not> beats (key y) (key x)))"

lemma first_best_Nil [simp]: "first_best beats key [] = None"
  by (simp add: first_best_def)

lemma first_best_single [simp]: "first_best beats key [x] = Some x"
  by (simp add: first_best_def challenge_def)

lemma first_best_snoc:
  "first_best beats key (xs @ [x]) = challenge beats key (first_best beats key xs) x"
  by (simp add: first_best_def)

lemma foldl_challenge_ne: "foldl (challenge beats key) (Some b) xs \<noteq> None"
  by (induction xs arbitrary: b) (auto simp: challenge_def)

lemma first_best_None [simp]: "first_best beats key xs = None \<longleftrightarrow> xs = []"
  by (cases xs) (auto simp: first_best_def challenge_def foldl_challenge_ne)

lemma first_best_map:
  "first_best beats key (map f xs) = map_option f (first_best beats (key \<circ> f) xs)"
proof (induction xs rule: rev_induct)
  case (snoc x xs)
  then show ?case
    by (cases "first_best beats (key \<circ> f) xs")
      (simp_all add: first_best_snoc challenge_def comp_def)
qed simp

locale strict_weak_order =
  fixes beats :: "'p \<Rightarrow> 'p \<Rightarrow> bool"
  assumes beats_irrefl: "\<not> beats a a"
    and beats_trans: "beats a b \<Longrightarrow> beats b c \<Longrightarrow> beats a c"
    and beats_negtrans: "\<not> beats a b \<Longrightarrow> \<not> beats b c \<Longrightarrow> \<not> beats a c"
begin

lemma beats_asym: "beats a b \<Longrightarrow> \<not> beats b a"
  using beats_irrefl beats_trans by blast

lemma beats_weak: "beats a b \<Longrightarrow> \<not> beats c b \<Longrightarrow> beats a c"
  using beats_negtrans by blast

lemma first_best_is_first_max: "first_best beats key xs = Some x \<Longrightarrow> is_first_max beats key xs x"
proof (induction xs arbitrary: x rule: rev_induct)
  case Nil
  then show ?case by simp
next
  case (snoc y xs)
  show ?case
  proof (cases "first_best beats key xs")
    case None
    with snoc.prems have "xs @ [y] = [] @ x # []" by simp
    then show ?thesis unfolding is_first_max_def by fastforce
  next
    case (Some b)
    then obtain pre post where split: "xs = pre @ b # post"
      and pre: "\<forall>z\<in>set pre. beats (key b) (key z)" and post: "\<forall>z\<in>set post. \<not> beats (key z) (key b)"
      using snoc.IH by (auto simp: is_first_max_def)
    show ?thesis
    proof (cases "beats (key y) (key b)")
      case True
      with snoc.prems Some have "x = y" by (simp add: first_best_snoc challenge_def)
      moreover have "\<forall>z\<in>set xs. beats (key y) (key z)"
        unfolding split using True pre post beats_trans [OF True] beats_weak [OF True] by auto
      ultimately show ?thesis unfolding is_first_max_def
        by (intro exI [of _ xs] exI [of _ "[]"]) simp
    next
      case False
      with snoc.prems Some have "x = b" by (simp add: first_best_snoc challenge_def)
      with split pre post False have "xs @ [y] = pre @ x # (post @ [y])"
        and "\<forall>z\<in>set (post @ [y]). \<not> beats (key z) (key x)" by auto
      with pre \<open>x = b\<close> show ?thesis unfolding is_first_max_def by blast
    qed
  qed
qed

lemma is_first_max_not_beaten: "is_first_max beats key xs x \<Longrightarrow> y \<in> set xs \<Longrightarrow> \<not> beats (key y) (key x)"
  unfolding is_first_max_def using beats_irrefl beats_asym by fastforce

lemma first_best_unique:
  assumes "is_first_max beats key xs x"
  shows "first_best beats key xs = Some x"
proof -
  obtain pre post where split: "xs = pre @ x # post"
    and pre: "\<forall>y\<in>set pre. beats (key x) (key y)" and post: "\<forall>y\<in>set post. \<not> beats (key y) (key x)"
    using assms by (auto simp: is_first_max_def)
  have keep: "foldl (challenge beats key) (Some x) ys = Some x"
    if "\<forall>y\<in>set ys. \<not> beats (key y) (key x)" for ys
    using that by (induction ys) (simp_all add: challenge_def)
  have "first_best beats key (pre @ [x]) = Some x"
  proof (cases "first_best beats key pre")
    case (Some b)
    then have "b \<in> set pre" using first_best_is_first_max [of key pre b] by (auto simp: is_first_max_def)
    with Some pre show ?thesis by (simp add: first_best_snoc challenge_def)
  qed simp
  with keep [OF post] split show ?thesis by (simp add: first_best_def)
qed

lemma first_best_iff: "first_best beats key xs = Some x \<longleftrightarrow> is_first_max beats key xs x"
  by (rule iffI) (erule first_best_is_first_max, erule first_best_unique)

end

end
