(* ===== verification/Routing.thy ===== *)
theory Routing
  imports Config Selection
begin

text \<open>
  The route matching engine, \<open>crates/proxy-core/src/routing.rs\<close>: hostname, path, header,
  method and query matching, the precedence order, the selection loop of \<open>route\<close> and the
  decision built from the winning rule. The \<open>regex\<close> crate is the parameter \<open>re\<close>:
  \<open>re v\<close> is \<open>None\<close> where \<open>Regex::new(v)\<close> fails, else the compiled \<open>is_match\<close>.
\<close>

section \<open>Requests and decisions\<close>

type_synonym regex = "string \<Rightarrow> (string \<Rightarrow> bool) option"

definition regex_is_match :: "regex \<Rightarrow> string \<Rightarrow> string \<Rightarrow> bool" where
  "regex_is_match re v s \<longleftrightarrow> (case re v of None \<Rightarrow> False | Some m \<Rightarrow> m s)"

record RequestMeta =
  rq_host :: "string option"
  rq_path :: string
  rq_method :: string
  rq_headers :: "(string \<times> string) list"
  rq_query_params :: "(string \<times> string) list"

record RedirectResponse =
  rd_status_code :: u16
  rd_location :: string

datatype RoutingDecision =
    Forward "Backend list" "Filter list" "TimeoutConfig option"
  | Redirect RedirectResponse
  | NotFound

record MatchPrecedence =
  mp_path_kind :: nat
  mp_path_length :: nat
  mp_has_method :: bool
  mp_header_count :: nat
  mp_query_param_count :: nat

record MatchCandidate =
  mc_rule :: RouteRule
  mc_precedence :: MatchPrecedence

definition prec_tuple :: "MatchPrecedence \<Rightarrow> nat \<times> nat \<times> bool \<times> nat \<times> nat" where
  "prec_tuple p = (mp_path_kind p, mp_path_length p, mp_has_method p, mp_header_count p,
     mp_query_param_count p)"

definition precedence_beats :: "MatchPrecedence \<Rightarrow> MatchPrecedence \<Rightarrow> bool" where
  "precedence_beats a b \<longleftrightarrow> prec_tuple b < prec_tuple a"

interpretation prec: strict_weak_order precedence_beats
  by unfold_locales (auto simp: precedence_beats_def)

section \<open>Hostnames\<close>

definition strip_port :: "string \<Rightarrow> string" where
  "strip_port host =
     (if prefix ''['' host then host
      else (case rfind_char (CHR '':'') host of Some pos \<Rightarrow> take pos host | None \<Rightarrow> host))"

definition hostname_pattern_matches :: "string \<Rightarrow> string \<Rightarrow> bool" where
  "hostname_pattern_matches host pattern =
     (case strip_prefix ''*.'' pattern of
        Some sfx \<Rightarrow>
          (let host_lower = to_ascii_lowercase host; suffix_lower = to_ascii_lowercase sfx
           in (case strip_suffix (CHR ''.'' # suffix_lower) host_lower of
                 Some pre \<Rightarrow> pre \<noteq> [] \<and> CHR ''.'' \<notin> set pre
               | None \<Rightarrow> False))
      | None \<Rightarrow> eq_ignore_ascii_case host pattern)"

definition hostname_matches :: "RouteConfig \<Rightarrow> string option \<Rightarrow> bool" where
  "hostname_matches route host \<longleftrightarrow>
     (if rc_hostnames route = [] then True
      else (case host of
              None \<Rightarrow> False
            | Some h \<Rightarrow> list_ex (hostname_pattern_matches (strip_port h)) (rc_hostnames route)))"

section \<open>Conditions of a match\<close>

definition prefix_path_matches :: "string \<Rightarrow> string \<Rightarrow> bool" where
  "prefix_path_matches pre path \<longleftrightarrow>
     (if pre = ''/'' then True
      else if path = pre then True
      else prefix pre path \<and> length pre < length path \<and> path ! length pre = CHR ''/'')"

definition path_matches :: "regex \<Rightarrow> PathMatchType \<Rightarrow> string \<Rightarrow> string \<Rightarrow> bool" where
  "path_matches re match_type v path =
     (case match_type of
        PathExact \<Rightarrow> path = v
      | PathPrefix \<Rightarrow> prefix_path_matches v path
      | PathRegularExpression \<Rightarrow> regex_is_match re v path)"

definition header_matches :: "regex \<Rightarrow> HeaderMatch \<Rightarrow> (string \<times> string) list \<Rightarrow> bool" where
  "header_matches re hm headers =
     list_ex (\<lambda>(name, v). eq_ignore_ascii_case name (hm_name hm) \<and>
       (case hm_match_type hm of
          HeaderExact \<Rightarrow> v = hm_value hm
        | HeaderRegularExpression \<Rightarrow> regex_is_match re (hm_value hm) v)) headers"

definition query_param_matches :: "regex \<Rightarrow> QueryParamMatch \<Rightarrow> (string \<times> string) list \<Rightarrow> bool" where
  "query_param_matches re qpm query_params =
     list_ex (\<lambda>(name, v). name = qm_name qpm \<and>
       (case qm_match_type qpm of
          QueryExact \<Rightarrow> v = qm_value qpm
        | QueryRegularExpression \<Rightarrow> regex_is_match re (qm_value qpm) v)) query_params"

definition path_kind_of :: "PathMatchType \<Rightarrow> nat" where
  "path_kind_of t = (case t of PathExact \<Rightarrow> 2 | PathPrefix \<Rightarrow> 1 | PathRegularExpression \<Rightarrow> 0)"

definition single_match_applies :: "regex \<Rightarrow> RouteMatch \<Rightarrow> RequestMeta \<Rightarrow> MatchPrecedence option" where
  "single_match_applies re route_match request =
     (case (case rm_path route_match of
              Some pm \<Rightarrow> (if path_matches re (pm_match_type pm) (pm_value pm) (rq_path request)
                          then Some (path_kind_of (pm_match_type pm), length (pm_value pm)) else None)
            | None \<Rightarrow> Some (0, 0)) of
        None \<Rightarrow> None
      | Some (path_kind, path_length) \<Rightarrow>
          if (case rm_method route_match of
                Some method \<Rightarrow> \<not> eq_ignore_ascii_case (rq_method request) method
              | None \<Rightarrow> False) then None
          else if \<not> list_all (\<lambda>hm. header_matches re hm (rq_headers request)) (rm_headers route_match)
          then None
          else if \<not> list_all (\<lambda>qp. query_param_matches re qp (rq_query_params request))
                      (rm_query_params route_match)
          then None
          else Some \<lparr>mp_path_kind = path_kind, mp_path_length = path_length,
                 mp_has_method = (rm_method route_match \<noteq> None),
                 mp_header_count = length (rm_headers route_match),
                 mp_query_param_count = length (rm_query_params route_match)\<rparr>)"

section \<open>Rules and the selection loop\<close>

fun best_match ::
  "regex \<Rightarrow> RequestMeta \<Rightarrow> RouteMatch list \<Rightarrow> MatchPrecedence option \<Rightarrow> MatchPrecedence option" where
  "best_match re request [] best = best"
| "best_match re request (m # ms) best =
     best_match re request ms
       (case single_match_applies re m request of
          Some prec \<Rightarrow> (if is_none_or best (\<lambda>b. precedence_beats prec b) then Some prec else best)
        | None \<Rightarrow> best)"

definition no_match_precedence :: MatchPrecedence where
  "no_match_precedence = \<lparr>mp_path_kind = 0, mp_path_length = 0, mp_has_method = False,
     mp_header_count = 0, mp_query_param_count = 0\<rparr>"

definition rule_matches :: "regex \<Rightarrow> RouteRule \<Rightarrow> RequestMeta \<Rightarrow> MatchPrecedence option" where
  "rule_matches re rule request =
     (if rr_matches rule = [] then Some no_match_precedence
      else best_match re request (rr_matches rule) None)"

fun route_rules ::
  "regex \<Rightarrow> RequestMeta \<Rightarrow> RouteRule list \<Rightarrow> MatchCandidate option \<Rightarrow> MatchCandidate option" where
  "route_rules re request [] best = best"
| "route_rules re request (rule # rules) best =
     route_rules re request rules
       (case rule_matches re rule request of
          Some prec \<Rightarrow>
            (if is_none_or best (\<lambda>b. precedence_beats prec (mc_precedence b))
             then Some \<lparr>mc_rule = rule, mc_precedence = prec\<rparr> else best)
        | None \<Rightarrow> best)"

fun route_loop ::
  "regex \<Rightarrow> string \<Rightarrow> RequestMeta \<Rightarrow> RouteConfig list \<Rightarrow> MatchCandidate option \<Rightarrow> MatchCandidate option" where
  "route_loop re listener_name request [] best = best"
| "route_loop re listener_name request (r # rs) best =
     (if listener_name \<notin> set (rc_attached_listeners r)
      then route_loop re listener_name request rs best
      else if \<not> hostname_matches r (rq_host request)
      then route_loop re listener_name request rs best
      else route_loop re listener_name request rs (route_rules re request (rc_rules r) best))"

section \<open>The decision\<close>

definition build_redirect_location ::
  "string option \<Rightarrow> string option \<Rightarrow> u16 option \<Rightarrow> PathModifier option \<Rightarrow> RequestMeta \<Rightarrow> string" where
  "build_redirect_location scheme hostname port path request =
     (let scheme = (case scheme of Some s \<Rightarrow> s | None \<Rightarrow> ''http'');
          host = (case (case hostname of Some h \<Rightarrow> Some h | None \<Rightarrow> rq_host request) of
                    Some h \<Rightarrow> h | None \<Rightarrow> ''localhost'');
          path = (case path of
                    Some (ReplaceFullPath v) \<Rightarrow> v
                  | Some (ReplacePrefixMatch v) \<Rightarrow> v
                  | None \<Rightarrow> rq_path request)
      in (case port of
            Some p \<Rightarrow> scheme @ ''://'' @ host @ '':'' @ show_nat (unat p) @ path
          | None \<Rightarrow> scheme @ ''://'' @ host @ path))"

fun first_redirect :: "RequestMeta \<Rightarrow> Filter list \<Rightarrow> RedirectResponse option" where
  "first_redirect request [] = None"
| "first_redirect request (RequestRedirect scheme hostname port path status_code # fs) =
     Some \<lparr>rd_status_code = (case status_code of Some c \<Rightarrow> c | None \<Rightarrow> 302),
       rd_location = build_redirect_location scheme hostname port path request\<rparr>"
| "first_redirect request (f # fs) = first_redirect request fs"

definition build_decision :: "RouteRule \<Rightarrow> RequestMeta \<Rightarrow> RoutingDecision" where
  "build_decision rule request =
     (case first_redirect request (rr_filters rule) of
        Some resp \<Rightarrow> Redirect resp
      | None \<Rightarrow> Forward (rr_backends rule) (rr_filters rule) (rr_timeout rule))"

definition route :: "regex \<Rightarrow> ProxyConfig \<Rightarrow> string \<Rightarrow> RequestMeta \<Rightarrow> RoutingDecision" where
  "route re config listener_name request =
     (case route_loop re listener_name request (pc_routes config) None of
        Some candidate \<Rightarrow> build_decision (mc_rule candidate) request
      | None \<Rightarrow> NotFound)"

section \<open>The loops select a first maximum\<close>

definition rule_candidates :: "regex \<Rightarrow> RequestMeta \<Rightarrow> RouteRule list \<Rightarrow> MatchCandidate list" where
  "rule_candidates re request rules =
     List.map_filter (\<lambda>rule. map_option (\<lambda>p. \<lparr>mc_rule = rule, mc_precedence = p\<rparr>)
       (rule_matches re rule request)) rules"

definition attached :: "string \<Rightarrow> RequestMeta \<Rightarrow> RouteConfig \<Rightarrow> bool" where
  "attached listener_name request r \<longleftrightarrow>
     listener_name \<in> set (rc_attached_listeners r) \<and> hostname_matches r (rq_host request)"

definition candidates :: "regex \<Rightarrow> ProxyConfig \<Rightarrow> string \<Rightarrow> RequestMeta \<Rightarrow> MatchCandidate list" where
  "candidates re config listener_name request =
     concat (map (\<lambda>r. rule_candidates re request (rc_rules r))
       (filter (attached listener_name request) (pc_routes config)))"

lemma best_match_foldl:
  "best_match re request ms best =
     foldl (challenge precedence_beats id) best
       (List.map_filter (\<lambda>m. single_match_applies re m request) ms)"
  by (induction ms arbitrary: best)
    (auto simp: map_filter_simps challenge_def split: option.splits)

lemma route_rules_foldl:
  "route_rules re request rules best =
     foldl (challenge precedence_beats mc_precedence) best (rule_candidates re request rules)"
  by (induction rules arbitrary: best)
    (auto simp: rule_candidates_def map_filter_simps challenge_def split: option.splits)

lemma route_loop_foldl:
  "route_loop re listener_name request rs best =
     foldl (challenge precedence_beats mc_precedence) best
       (concat (map (\<lambda>r. rule_candidates re request (rc_rules r))
         (filter (attached listener_name request) rs)))"
  by (induction rs arbitrary: best) (auto simp: attached_def route_rules_foldl)

lemma rule_matches_first_best:
  "rr_matches rule \<noteq> [] \<Longrightarrow> rule_matches re rule request =
     first_best precedence_beats id
       (List.map_filter (\<lambda>m. single_match_applies re m request) (rr_matches rule))"
  by (simp add: rule_matches_def best_match_foldl first_best_def)

lemma route_first_best:
  "route re config listener_name request =
     (case first_best precedence_beats mc_precedence (candidates re config listener_name request) of
        Some c \<Rightarrow> build_decision (mc_rule c) request | None \<Rightarrow> NotFound)"
  by (simp add: route_def route_loop_foldl first_best_def candidates_def)

lemma map_filter_set: "y \<in> set (List.map_filter f xs) \<longleftrightarrow> (\<exists>x\<in>set xs. f x = Some y)"
  by (induction xs) (auto simp: map_filter_simps split: option.splits)

lemma rule_candidates_iff:
  "c \<in> set (rule_candidates re request rules) \<longleftrightarrow>
     mc_rule c \<in> set rules \<and> rule_matches re (mc_rule c) request = Some (mc_precedence c)"
  by (cases c) (auto simp: rule_candidates_def map_filter_set)

lemma candidates_iff:
  "c \<in> set (candidates re config listener_name request) \<longleftrightarrow>
     (\<exists>r\<in>set (pc_routes config). listener_name \<in> set (rc_attached_listeners r) \<and>
        hostname_matches r (rq_host request) \<and> mc_rule c \<in> set (rc_rules r) \<and>
        rule_matches re (mc_rule c) request = Some (mc_precedence c))"
  by (auto simp: candidates_def attached_def rule_candidates_iff)

lemma build_decision_not_NotFound [simp]: "build_decision rule request \<noteq> NotFound"
  by (simp add: build_decision_def split: option.splits)

lemma build_decision_Forward:
  "build_decision rule request = Forward bs fs t \<longleftrightarrow>
     bs = rr_backends rule \<and> fs = rr_filters rule \<and> t = rr_timeout rule \<and>
     first_redirect request (rr_filters rule) = None"
  by (auto simp: build_decision_def split: option.splits)

lemma first_redirect_None:
  "first_redirect request fs = None \<longleftrightarrow>
     (\<forall>f\<in>set fs. \<nexists>s h p pa c. f = RequestRedirect s h p pa c)"
  by (induction request fs rule: first_redirect.induct) auto

section \<open>Strings of the matching functions\<close>

lemma prefix_split_on:
  "p \<noteq> ''/'' \<Longrightarrow> prefix_path_matches p path \<longleftrightarrow>
     path = p \<or> (\<exists>rest. path = p @ CHR ''/'' # rest)"
proof -
  have "prefix p path \<and> length p < length path \<and> path ! length p = CHR ''/'' \<longleftrightarrow>
    (\<exists>rest. path = p @ CHR ''/'' # rest)"
    by (auto simp: prefix_def nth_append) (metis append_Nil2 hd_conv_nth list.exhaust_sel)
  then show "p \<noteq> ''/'' \<Longrightarrow> ?thesis" by (auto simp: prefix_path_matches_def)
qed

lemma join_split_on: "concat (map (\<lambda>p. CHR ''/'' # p) (split_on (CHR ''/'') s)) = CHR ''/'' # s"
proof (induction s)
  case (Cons x s)
  then show ?case by (cases "split_on (CHR ''/'') s") auto
qed simp

lemma split_on_prefix_iff:
  "prefix (split_on (CHR ''/'') p) (split_on (CHR ''/'') path) \<longleftrightarrow>
     path = p \<or> (\<exists>rest. path = p @ CHR ''/'' # rest)"
proof
  assume "prefix (split_on (CHR ''/'') p) (split_on (CHR ''/'') path)"
  then obtain ps where ps: "split_on (CHR ''/'') path = split_on (CHR ''/'') p @ ps"
    by (auto simp: prefix_def)
  have "CHR ''/'' # path = CHR ''/'' # p @ concat (map (\<lambda>q. CHR ''/'' # q) ps)"
    using join_split_on [of path] join_split_on [of p] by (simp add: ps)
  then show "path = p \<or> (\<exists>rest. path = p @ CHR ''/'' # rest)"
    by (cases ps) auto
qed (auto simp: split_on_append_sep)

lemma wildcard_strip: "strip_prefix ''*.'' (''*.'' @ sfx) = Some sfx"
  by (simp add: strip_prefix_Some)

lemma hostname_pattern_wildcard:
  "hostname_pattern_matches host (CHR ''*'' # CHR ''.'' # sfx) \<longleftrightarrow>
     (\<exists>label. to_ascii_lowercase host = label @ CHR ''.'' # to_ascii_lowercase sfx \<and>
        label \<noteq> [] \<and> CHR ''.'' \<notin> set label)"
  using wildcard_strip [of sfx]
  by (auto simp: hostname_pattern_matches_def Let_def strip_suffix_Some split: option.splits)
    (metis option.distinct(1) strip_suffix_Some)

lemma hostname_pattern_plain:
  "\<not> prefix ''*.'' pattern \<Longrightarrow>
     hostname_pattern_matches host pattern \<longleftrightarrow> eq_ignore_ascii_case host pattern"
  by (simp add: hostname_pattern_matches_def strip_prefix_def)

lemma dot_eq_ascii_lower [simp]: "CHR ''.'' = ascii_lower c \<longleftrightarrow> c = CHR ''.''"
  by (metis ascii_lower_eq_dot)

lemma dot_in_lowercase [simp]:
  "CHR ''.'' \<in> set (to_ascii_lowercase s) \<longleftrightarrow> CHR ''.'' \<in> set s"
  by (induction s) (auto simp: to_ascii_lowercase_def)

lemma to_ascii_lowercase_split:
  "to_ascii_lowercase host = label @ CHR ''.'' # to_ascii_lowercase sfx \<Longrightarrow>
     \<exists>l s. host = l @ CHR ''.'' # s \<and> to_ascii_lowercase l = label \<and> eq_ignore_ascii_case s sfx"
  unfolding to_ascii_lowercase_def eq_ignore_ascii_case_def
  by (fastforce simp: map_eq_append_conv map_eq_Cons_conv)

lemma map_filter_eq_Nil: "List.map_filter f xs = [] \<longleftrightarrow> (\<forall>x\<in>set xs. f x = None)"
  by (induction xs) (auto simp: map_filter_simps split: option.splits)

text \<open>What a match requires, as the conjunction of its conditions.\<close>

definition match_holds :: "regex \<Rightarrow> RouteMatch \<Rightarrow> RequestMeta \<Rightarrow> bool" where
  "match_holds re m request \<longleftrightarrow>
     (\<forall>pm. rm_path m = Some pm \<longrightarrow> path_matches re (pm_match_type pm) (pm_value pm) (rq_path request)) \<and>
     (\<forall>method. rm_method m = Some method \<longrightarrow> eq_ignore_ascii_case (rq_method request) method) \<and>
     (\<forall>hm\<in>set (rm_headers m). header_matches re hm (rq_headers request)) \<and>
     (\<forall>qp\<in>set (rm_query_params m). query_param_matches re qp (rq_query_params request))"

lemma single_match_applies_eq_None: "single_match_applies re m request = None \<longleftrightarrow> \<not> match_holds re m request"
  by (auto simp: single_match_applies_def match_holds_def list_all_iff
      split: option.splits prod.splits if_splits)

lemma ascii_lower_eq_special:
  "byte d < 65 \<or> 90 < byte d \<and> byte d < 97 \<Longrightarrow> ascii_lower c = d \<longleftrightarrow> c = d"
  by (auto simp: ascii_lower_def byte_char_of simp flip: byte_inj)

lemma rfind_char_lowercase:
  "byte d < 65 \<Longrightarrow> rfind_char d (to_ascii_lowercase s) = rfind_char d s"
  by (induction s) (auto simp: to_ascii_lowercase_def ascii_lower_eq_special split: option.splits)

lemma strip_port_lowercase: "strip_port (to_ascii_lowercase h) = to_ascii_lowercase (strip_port h)"
proof -
  have "prefix ''['' (to_ascii_lowercase h) \<longleftrightarrow> prefix ''['' h"
    by (cases h) (auto simp: to_ascii_lowercase_def ascii_lower_eq_special byte_def eq_commute [of "CHR ''[''"])
  then show ?thesis
    by (auto simp: strip_port_def rfind_char_lowercase byte_def take_map to_ascii_lowercase_def [symmetric]
        split: option.splits) (simp_all add: to_ascii_lowercase_def take_map)
qed

lemma hostname_pattern_lowercase:
  "hostname_pattern_matches (to_ascii_lowercase h) p = hostname_pattern_matches h p"
  by (simp add: hostname_pattern_matches_def eq_ignore_ascii_case_def split: option.split)

lemma hostname_matches_lowercase:
  "hostname_matches r (Some (to_ascii_lowercase h)) = hostname_matches r (Some h)"
proof -
  have "hostname_pattern_matches (to_ascii_lowercase x) = hostname_pattern_matches x" for x
    by (rule ext) (rule hostname_pattern_lowercase)
  then show ?thesis by (simp add: hostname_matches_def strip_port_lowercase)
qed

section \<open>Properties\<close>

text \<open>
  C1: \<open>route\<close> implements the declarative selection. Over the list of all matching rules of
  the routes attached to the listener whose hostnames accept the host, in document order,
  it answers \<open>NotFound\<close> exactly when the list is empty, and otherwise decides by the first
  rule of maximal precedence: every earlier candidate has strictly lower precedence and no
  later one has a higher.
\<close>

theorem route_selects_first_maximum:
  "(candidates re config l request = [] \<and> route re config l request = NotFound) \<or>
   (\<exists>c. is_first_max precedence_beats mc_precedence (candidates re config l request) c \<and>
        route re config l request = build_decision (mc_rule c) request)"
proof (cases "first_best precedence_beats mc_precedence (candidates re config l request)")
  case (Some c)
  show ?thesis
    by (rule disjI2, rule exI [of _ c])
      (simp add: Some route_first_best prec.first_best_is_first_max)
qed (simp add: route_first_best)

text \<open>A decision is made by a rule of a route that is attached to the listener.\<close>

lemma route_decided:
  assumes "route re config l request = d" and "d \<noteq> NotFound"
  shows "\<exists>r\<in>set (pc_routes config). \<exists>rule\<in>set (rc_rules r). l \<in> set (rc_attached_listeners r) \<and>
    d = build_decision rule request"
proof -
  obtain c where b: "first_best precedence_beats mc_precedence (candidates re config l request) = Some c"
    and d: "d = build_decision (mc_rule c) request"
    using assms by (auto simp: route_first_best split: option.splits)
  have "c \<in> set (candidates re config l request)"
    using prec.first_best_is_first_max [OF b] by (auto simp: is_first_max_def)
  then obtain r where "r \<in> set (pc_routes config)" "l \<in> set (rc_attached_listeners r)"
    "mc_rule c \<in> set (rc_rules r)" by (auto simp: candidates_iff)
  with d show ?thesis by blast
qed

lemma route_Forward:
  assumes "route re config l request = Forward bs fs t"
  shows "\<exists>r\<in>set (pc_routes config). \<exists>rule\<in>set (rc_rules r). l \<in> set (rc_attached_listeners r) \<and>
    bs = rr_backends rule \<and> fs = rr_filters rule \<and> t = rr_timeout rule"
  using route_decided [OF assms] build_decision_Forward by (metis RoutingDecision.distinct(3))

lemma first_redirect_mem:
  "first_redirect request fs = Some rd \<Longrightarrow> \<exists>s h p pa c. RequestRedirect s h p pa c \<in> set fs \<and>
     rd_location rd = build_redirect_location s h p pa request"
proof (induction request fs rule: first_redirect.induct)
  case (2 request scheme hostname port path status_code fs)
  then have "rd_location rd = build_redirect_location scheme hostname port path request" by auto
  then show ?case by (metis list.set_intros(1))
qed auto

lemma route_Redirect:
  assumes "route re config l request = Redirect rd"
  shows "\<exists>r\<in>set (pc_routes config). \<exists>rule\<in>set (rc_rules r). l \<in> set (rc_attached_listeners r) \<and>
    (\<exists>s h p pa c. RequestRedirect s h p pa c \<in> set (rr_filters rule) \<and>
       rd_location rd = build_redirect_location s h p pa request)"
proof -
  from route_decided [OF assms] obtain r rule where "r \<in> set (pc_routes config)" "rule \<in> set (rc_rules r)"
    "l \<in> set (rc_attached_listeners r)" "Redirect rd = build_decision rule request" by auto
  moreover from this(4) have "first_redirect request (rr_filters rule) = Some rd"
    by (auto simp: build_decision_def split: option.splits)
  ultimately show ?thesis using first_redirect_mem by blast
qed

text \<open>
  Soundness of a forward. A request is forwarded only to the backends of a rule of a
  configured route that is attached to the listener it arrived on, whose hostnames accept
  its host, whose conditions it meets and which no other such rule beats; the rule has no
  redirect filter, and its filters and timeout go with the decision.
\<close>

theorem forward_is_from_best_attached_rule:
  assumes "route re config l request = Forward bs fs t"
  shows "\<exists>r rule p. r \<in> set (pc_routes config) \<and> l \<in> set (rc_attached_listeners r) \<and>
    hostname_matches r (rq_host request) \<and> rule \<in> set (rc_rules r) \<and>
    rule_matches re rule request = Some p \<and>
    bs = rr_backends rule \<and> fs = rr_filters rule \<and> t = rr_timeout rule \<and>
    first_redirect request fs = None \<and>
    (\<forall>r' rule' p'. r' \<in> set (pc_routes config) \<and> l \<in> set (rc_attached_listeners r') \<and>
       hostname_matches r' (rq_host request) \<and> rule' \<in> set (rc_rules r') \<and>
       rule_matches re rule' request = Some p' \<longrightarrow> \<not> precedence_beats p' p)"
proof -
  obtain c where b: "first_best precedence_beats mc_precedence (candidates re config l request) = Some c"
    and d: "build_decision (mc_rule c) request = Forward bs fs t"
    using assms by (auto simp: route_first_best split: option.splits)
  note c = prec.first_best_is_first_max [OF b]
  have "c \<in> set (candidates re config l request)" using c by (auto simp: is_first_max_def)
  then obtain r where "r \<in> set (pc_routes config)" "l \<in> set (rc_attached_listeners r)"
    "hostname_matches r (rq_host request)" "mc_rule c \<in> set (rc_rules r)"
    "rule_matches re (mc_rule c) request = Some (mc_precedence c)"
    by (auto simp: candidates_iff)
  moreover have "\<not> precedence_beats p' (mc_precedence c)"
    if "r' \<in> set (pc_routes config)" "l \<in> set (rc_attached_listeners r')"
      "hostname_matches r' (rq_host request)" "rule' \<in> set (rc_rules r')"
      "rule_matches re rule' request = Some p'" for r' rule' p'
    using prec.is_first_max_not_beaten [OF c, of "\<lparr>mc_rule = rule', mc_precedence = p'\<rparr>"] that
    by (auto simp: candidates_iff)
  ultimately show ?thesis using d unfolding build_decision_Forward by blast
qed

definition demo_request :: RequestMeta where
  "demo_request = \<lparr>rq_host = Some ''Example.com:80'', rq_path = ''/a/b'', rq_method = ''GET'',
     rq_headers = [], rq_query_params = []\<rparr>"

definition demo_config :: ProxyConfig where
  "demo_config = with_route (with_http_listener (proxy_config_builder_new ''ns'' ''gw'') ''http'' 80 None)
     (with_rule (with_rule (attached_to (with_hostname (route_config_new ''ns'' ''r'') ''example.com'') ''http'')
        (with_backend (with_path_prefix route_rule_builder_new ''/'') (backend_new ''ns'' ''root'' 80)))
        (with_backend (with_path_prefix route_rule_builder_new ''/a'') (backend_new ''ns'' ''a'' 80)))"

lemma demo_route:
  "route (\<lambda>_. None) demo_config ''http'' demo_request = Forward [backend_new ''ns'' ''a'' 80] [] None"
  by code_simp

theorem forward_is_from_best_attached_rule_witness:
  "\<exists>r rule. r \<in> set (pc_routes demo_config) \<and> rule \<in> set (rc_rules r) \<and>
     rr_backends rule = [backend_new ''ns'' ''a'' 80]"
  using forward_is_from_best_attached_rule [OF demo_route] by metis

text \<open>C38: segment-wise prefix matching. A path matches the prefix exactly when the prefix is
  \<open>/\<close> or the list of its segments, split at \<open>/\<close>, is a prefix of the path's segments.\<close>

theorem prefix_path_matches_segments:
  "prefix_path_matches p path \<longleftrightarrow>
     p = ''/'' \<or> prefix (split_on (CHR ''/'') p) (split_on (CHR ''/'') path)"
proof (cases "p = ''/''")
  case False
  then show ?thesis by (simp add: prefix_split_on split_on_prefix_iff)
qed (simp add: prefix_path_matches_def)

text \<open>C37: a wildcard hostname stands for exactly one label. \<open>*.sfx\<close> accepts a host exactly when
  the host is a non-empty label without a dot, a dot, and a spelling of \<open>sfx\<close> that differs
  from it in ASCII case only.\<close>

theorem wildcard_matches_one_label:
  "hostname_pattern_matches host (''*.'' @ sfx) \<longleftrightarrow>
     (\<exists>label rest. host = label @ CHR ''.'' # rest \<and> label \<noteq> [] \<and> CHR ''.'' \<notin> set label \<and>
        eq_ignore_ascii_case rest sfx)"
proof
  assume "hostname_pattern_matches host (''*.'' @ sfx)"
  then obtain label where l: "label \<noteq> []" "CHR ''.'' \<notin> set label"
    "to_ascii_lowercase host = label @ CHR ''.'' # to_ascii_lowercase sfx"
    by (auto simp: hostname_pattern_wildcard)
  from to_ascii_lowercase_split [OF l(3)] l(1,2)
  show "\<exists>label rest. host = label @ CHR ''.'' # rest \<and> label \<noteq> [] \<and> CHR ''.'' \<notin> set label \<and>
      eq_ignore_ascii_case rest sfx"
    by (metis Nil_is_map_conv dot_in_lowercase to_ascii_lowercase_def)
next
  assume "\<exists>label rest. host = label @ CHR ''.'' # rest \<and> label \<noteq> [] \<and> CHR ''.'' \<notin> set label \<and>
    eq_ignore_ascii_case rest sfx"
  then obtain label rest where "host = label @ CHR ''.'' # rest" "label \<noteq> []" "CHR ''.'' \<notin> set label"
    "eq_ignore_ascii_case rest sfx" by blast
  then have "to_ascii_lowercase host = to_ascii_lowercase label @ CHR ''.'' # to_ascii_lowercase sfx"
    "to_ascii_lowercase label \<noteq> []" "CHR ''.'' \<notin> set (to_ascii_lowercase label)"
    by (auto simp: to_ascii_lowercase_append eq_ignore_ascii_case_def to_ascii_lowercase_def [of "_ # _"]
      simp flip: to_ascii_lowercase_def) (simp add: to_ascii_lowercase_def)
  then show "hostname_pattern_matches host (''*.'' @ sfx)"
    by (auto simp: hostname_pattern_wildcard)
qed

text \<open>Case and port of the Host header do not matter. Two hosts that differ in ASCII case
  only are accepted by the same routes, and a \<open>:port\<close> after a host name without colon or
  bracket changes nothing.\<close>

theorem hostname_matches_ignores_case_and_port:
  assumes "eq_ignore_ascii_case h h'" and "CHR '':'' \<notin> set h" and "CHR '':'' \<notin> set p"
    and "\<not> prefix ''['' h"
  shows "hostname_matches r (Some (h @ CHR '':'' # p)) = hostname_matches r (Some h')"
proof -
  have "strip_port (h @ CHR '':'' # p) = h" "strip_port h = h"
    using assms rfind_char_split [of "CHR '':''" p h] rfind_char_None [of "CHR '':''" h]
    by (cases h; simp add: strip_port_def)+
  then have "hostname_matches r (Some (h @ CHR '':'' # p)) = hostname_matches r (Some h)"
    by (simp add: hostname_matches_def)
  also have "\<dots> = hostname_matches r (Some h')"
    using assms(1) by (metis eq_ignore_ascii_case_def hostname_matches_lowercase)
  finally show ?thesis .
qed

theorem hostname_matches_ignores_case_and_port_witness:
  "hostname_matches (with_hostname (route_config_new ''n'' ''r'') ''*.Example.com'')
       (Some (''Api.EXAMPLE.com'' @ CHR '':'' # ''8080'')) =
     hostname_matches (with_hostname (route_config_new ''n'' ''r'') ''*.Example.com'')
       (Some ''api.example.com'')"
  by (rule hostname_matches_ignores_case_and_port) code_simp+

text \<open>A rule accepts a request exactly when it has no matches or one of them holds, a match
  holding when its path, its method, all its headers and all its query parameters do.\<close>

theorem rule_matches_or_of_ands:
  "rule_matches re rule request \<noteq> None \<longleftrightarrow>
     rr_matches rule = [] \<or> (\<exists>m\<in>set (rr_matches rule). match_holds re m request)"
proof (cases "rr_matches rule = []")
  case False
  then show ?thesis
    by (simp add: rule_matches_first_best map_filter_eq_Nil single_match_applies_eq_None)
qed (simp add: rule_matches_def)

end
