(* ===== verification/HttpFilter.thy ===== *)
theory HttpFilter
  imports Routing
begin

text \<open>
  The filter computations of \<open>crates/proxy-core/src/filter.rs\<close>: accumulation of a rule's
  filters, redirect and rewrite computation, and header modification. A function that can
  panic returns a sum. The header operations are the interface \<open>header_store\<close>, provided by
  the \<open>Vec\<close> of name and value pairs here and by the \<open>HeaderMap\<close> of the pipeline.
\<close>

section \<open>Types\<close>

record RewriteResult =
  rw_hostname :: "string option"
  rw_path :: "string option"

record MirrorTarget =
  mt_backend :: Backend
  mt_percent :: u32

record AppliedFilter =
  af_request_header_add :: "HeaderValue list"
  af_request_header_set :: "HeaderValue list"
  af_request_header_remove :: "string list"
  af_response_header_add :: "HeaderValue list"
  af_response_header_set :: "HeaderValue list"
  af_response_header_remove :: "string list"
  af_rewrite :: "RewriteResult option"
  af_mirrors :: "MirrorTarget list"
  af_timeout :: "TimeoutConfig option"

definition applied_filter_default :: AppliedFilter where
  "applied_filter_default = \<lparr>af_request_header_add = [], af_request_header_set = [],
     af_request_header_remove = [], af_response_header_add = [], af_response_header_set = [],
     af_response_header_remove = [], af_rewrite = None, af_mirrors = [], af_timeout = None\<rparr>"

section \<open>Paths\<close>

definition split_uri :: "string \<Rightarrow> string \<times> string" where
  "split_uri uri =
     (case find_char (CHR ''?'') uri of
        Some idx \<Rightarrow> (take idx uri, drop (idx + 1) uri)
      | None \<Rightarrow> (uri, []))"

definition is_standard_port :: "string \<Rightarrow> u16 \<Rightarrow> bool" where
  "is_standard_port scheme port \<longleftrightarrow>
     scheme = ''http'' \<and> port = 80 \<or> scheme = ''https'' \<and> port = 443"

text \<open>The inner slice \<open>&remainder[1..]\<close> follows an ASCII slash and cannot panic.\<close>

definition replace_prefix :: "string \<Rightarrow> string \<Rightarrow> string \<Rightarrow> panic + string" where
  "replace_prefix original matched_prefix replacement =
     (case str_from original (length matched_prefix) of
        Inl p \<Rightarrow> Inl p
      | Inr remainder \<Rightarrow>
          (let replacement_has_trailing_slash = suffix ''/'' replacement;
               remainder_has_leading_slash = prefix ''/'' remainder
           in if replacement_has_trailing_slash \<and> remainder_has_leading_slash
              then Inr (replacement @ drop 1 remainder)
              else if \<not> replacement_has_trailing_slash \<and> \<not> remainder_has_leading_slash \<and> remainder \<noteq> []
              then Inr (replacement @ ''/'' @ remainder)
              else Inr (replacement @ remainder)))"

section \<open>Rewrite and redirect\<close>

fun compute_rewrite :: "Filter \<Rightarrow> string \<Rightarrow> string option \<Rightarrow> panic + RewriteResult" where
  "compute_rewrite (URLRewrite hostname path) original_path matched_path_prefix =
     (case path of
        Some (ReplaceFullPath v) \<Rightarrow> Inr \<lparr>rw_hostname = hostname, rw_path = Some v\<rparr>
      | Some (ReplacePrefixMatch v) \<Rightarrow>
          (case replace_prefix original_path
                  (case matched_path_prefix of Some p \<Rightarrow> p | None \<Rightarrow> ''/'') v of
             Inl p \<Rightarrow> Inl p
           | Inr s \<Rightarrow> Inr \<lparr>rw_hostname = hostname, rw_path = Some s\<rparr>)
      | None \<Rightarrow> Inr \<lparr>rw_hostname = hostname, rw_path = None\<rparr>)"
| "compute_rewrite _ _ _ =
     Inl (ExplicitPanic ''compute_rewrite called with non-URLRewrite filter'')"

fun compute_redirect :: "Filter \<Rightarrow> string \<Rightarrow> string \<Rightarrow> string option \<Rightarrow> panic + RedirectResponse" where
  "compute_redirect (RequestRedirect scheme hostname port path status_code) original_uri original_host
       matched_path_prefix =
     (let effective_scheme = (case scheme of Some s \<Rightarrow> s | None \<Rightarrow> ''http'');
          effective_host = (case hostname of Some h \<Rightarrow> h | None \<Rightarrow> original_host);
          status = (case status_code of Some c \<Rightarrow> c | None \<Rightarrow> 302);
          (original_path, query) = split_uri original_uri
      in case (case path of
                 Some (ReplaceFullPath v) \<Rightarrow> Inr v
               | Some (ReplacePrefixMatch v) \<Rightarrow>
                   replace_prefix original_path
                     (case matched_path_prefix of Some p \<Rightarrow> p | None \<Rightarrow> ''/'') v
               | None \<Rightarrow> Inr original_path) of
           Inl p \<Rightarrow> Inl p
         | Inr effective_path \<Rightarrow>
             (let port_str = (case port of
                    Some p \<Rightarrow> if is_standard_port effective_scheme p then []
                              else '':'' @ show_nat (unat p)
                  | None \<Rightarrow> []);
                  query_str = (if query = [] then [] else ''?'' @ query)
              in Inr \<lparr>rd_status_code = status,
                   rd_location = effective_scheme @ ''://'' @ effective_host @ port_str @
                     effective_path @ query_str\<rparr>))"
| "compute_redirect _ _ _ _ =
     Inl (ExplicitPanic ''compute_redirect called with non-RequestRedirect filter'')"

section \<open>Accumulating the filters of a rule\<close>

fun collect_loop :: "Filter list \<Rightarrow> AppliedFilter \<Rightarrow> panic + AppliedFilter" where
  "collect_loop [] applied = Inr applied"
| "collect_loop (RequestHeaderModifier add sets remove # fs) applied =
     collect_loop fs (applied
       \<lparr>af_request_header_add := af_request_header_add applied @ add,
        af_request_header_set := af_request_header_set applied @ sets,
        af_request_header_remove := af_request_header_remove applied @ remove\<rparr>)"
| "collect_loop (ResponseHeaderModifier add sets remove # fs) applied =
     collect_loop fs (applied
       \<lparr>af_response_header_add := af_response_header_add applied @ add,
        af_response_header_set := af_response_header_set applied @ sets,
        af_response_header_remove := af_response_header_remove applied @ remove\<rparr>)"
| "collect_loop (URLRewrite hostname path # fs) applied =
     (case compute_rewrite (URLRewrite hostname path) [] None of
        Inl p \<Rightarrow> Inl p
      | Inr rw \<Rightarrow> collect_loop fs (applied\<lparr>af_rewrite := Some rw\<rparr>))"
| "collect_loop (RequestMirror backend percent # fs) applied =
     collect_loop fs (applied\<lparr>af_mirrors := af_mirrors applied @
       [\<lparr>mt_backend = backend, mt_percent = (case percent of Some p \<Rightarrow> p | None \<Rightarrow> 100)\<rparr>]\<rparr>)"
| "collect_loop (RequestRedirect scheme hostname port path status_code # fs) applied =
     collect_loop fs applied"

definition collect_filters :: "Filter list \<Rightarrow> panic + AppliedFilter" where
  "collect_filters filters = collect_loop filters applied_filter_default"

section \<open>Header lists\<close>

type_synonym header_vec = "(string \<times> string) list"

definition vec_remove :: "string \<Rightarrow> header_vec \<Rightarrow> header_vec" where
  "vec_remove name headers = filter (\<lambda>(h, _). \<not> eq_ignore_ascii_case h name) headers"

definition vec_set :: "HeaderValue \<Rightarrow> header_vec \<Rightarrow> header_vec" where
  "vec_set hv headers =
     (let found = list_ex (\<lambda>(h, _). eq_ignore_ascii_case h (hv_name hv)) headers;
          headers' = map (\<lambda>(h, v). if eq_ignore_ascii_case h (hv_name hv) then (h, hv_value hv) else (h, v))
                       headers
      in if \<not> found then headers' @ [(hv_name hv, hv_value hv)] else headers')"

definition vec_add :: "HeaderValue \<Rightarrow> header_vec \<Rightarrow> header_vec" where
  "vec_add hv headers = headers @ [(hv_name hv, hv_value hv)]"

definition apply_header_modifications ::
  "header_vec \<Rightarrow> string list \<Rightarrow> HeaderValue list \<Rightarrow> HeaderValue list \<Rightarrow> header_vec" where
  "apply_header_modifications headers remove sets add =
     fold vec_add add (fold vec_set sets (fold vec_remove remove headers))"

definition apply_request_headers :: "header_vec \<Rightarrow> AppliedFilter \<Rightarrow> header_vec" where
  "apply_request_headers headers applied = apply_header_modifications headers
     (af_request_header_remove applied) (af_request_header_set applied) (af_request_header_add applied)"

definition apply_response_headers :: "header_vec \<Rightarrow> AppliedFilter \<Rightarrow> header_vec" where
  "apply_response_headers headers applied = apply_header_modifications headers
     (af_response_header_remove applied) (af_response_header_set applied) (af_response_header_add applied)"

section \<open>The header interface\<close>

text \<open>
  What a client of a header collection relies on: the values stored under a name, with names
  compared up to ASCII case, and how removal, overwriting and appending change them.
  \<open>insert\<close> of one collection keeps one value and the loop of the other overwrites every
  occurrence, so the contract fixes the set of values after an overwrite.
\<close>

locale header_store =
  fixes vals :: "'h \<Rightarrow> string \<Rightarrow> string list"
    and hremove :: "string \<Rightarrow> 'h \<Rightarrow> 'h"
    and hset :: "HeaderValue \<Rightarrow> 'h \<Rightarrow> 'h"
    and hadd :: "HeaderValue \<Rightarrow> 'h \<Rightarrow> 'h"
    and ok :: "HeaderValue \<Rightarrow> bool"
    and name_ok :: "string \<Rightarrow> bool"
  assumes vals_remove: "vals (hremove n h) m =
      (if name_ok n \<and> eq_ignore_ascii_case n m then [] else vals h m)"
    and vals_set_other: "\<not> (ok hv \<and> eq_ignore_ascii_case (hv_name hv) m) \<Longrightarrow>
      vals (hset hv h) m = vals h m"
    and vals_set_same: "ok hv \<Longrightarrow> eq_ignore_ascii_case (hv_name hv) m \<Longrightarrow>
      set (vals (hset hv h) m) = {hv_value hv}"
    and vals_add: "vals (hadd hv h) m =
      vals h m @ (if ok hv \<and> eq_ignore_ascii_case (hv_name hv) m then [hv_value hv] else [])"
begin

definition modify :: "'h \<Rightarrow> string list \<Rightarrow> HeaderValue list \<Rightarrow> HeaderValue list \<Rightarrow> 'h" where
  "modify h removes sets adds = fold hadd adds (fold hset sets (fold hremove removes h))"

definition concerns :: "string \<Rightarrow> HeaderValue \<Rightarrow> bool" where
  "concerns m hv \<longleftrightarrow> ok hv \<and> eq_ignore_ascii_case (hv_name hv) m"

lemma vals_removes:
  "vals (fold hremove ns h) m =
     (if \<exists>n\<in>set ns. name_ok n \<and> eq_ignore_ascii_case n m then [] else vals h m)"
  by (induction ns arbitrary: h) (auto simp: vals_remove)

lemma vals_adds:
  "vals (fold hadd hvs h) m = vals h m @ map hv_value (filter (concerns m) hvs)"
  by (induction hvs arbitrary: h) (auto simp: vals_add concerns_def)

lemma vals_sets_other: "filter (concerns m) hvs = [] \<Longrightarrow> vals (fold hset hvs h) m = vals h m"
  by (induction hvs arbitrary: h) (auto simp: vals_set_other concerns_def split: if_splits)

lemma vals_sets_last:
  "filter (concerns m) hvs \<noteq> [] \<Longrightarrow>
     set (vals (fold hset hvs h) m) = {hv_value (last (filter (concerns m) hvs))}"
proof (induction hvs rule: rev_induct)
  case (snoc hv hvs)
  show ?case
  proof (cases "concerns m hv")
    case True
    then show ?thesis by (simp add: vals_set_same concerns_def)
  next
    case False
    with snoc show ?thesis by (simp add: vals_set_other concerns_def)
  qed
qed simp

lemma vals_modify:
  "\<exists>base. vals (modify h removes sets adds) m = base @ map hv_value (filter (concerns m) adds) \<and>
     (if filter (concerns m) sets \<noteq> []
      then set base = {hv_value (last (filter (concerns m) sets))}
      else base = (if \<exists>n\<in>set removes. name_ok n \<and> eq_ignore_ascii_case n m then [] else vals h m))"
  by (simp add: modify_def vals_adds vals_sets_last vals_sets_other vals_removes)

lemma vals_modify_untouched:
  "\<forall>n\<in>set removes. \<not> eq_ignore_ascii_case n m \<Longrightarrow>
   \<forall>hv\<in>set (sets @ adds). \<not> eq_ignore_ascii_case (hv_name hv) m \<Longrightarrow>
     vals (modify h removes sets adds) m = vals h m"
  by (simp add: modify_def vals_adds vals_sets_other vals_removes concerns_def)

end

definition vec_values :: "header_vec \<Rightarrow> string \<Rightarrow> string list" where
  "vec_values headers name = map snd (filter (\<lambda>(h, _). eq_ignore_ascii_case h name) headers)"

lemma vec_values_simps [simp]:
  "vec_values [] m = []"
  "vec_values ((h, v) # hs) m = (if eq_ignore_ascii_case h m then v # vec_values hs m else vec_values hs m)"
  "vec_values (xs @ ys) m = vec_values xs m @ vec_values ys m"
  by (simp_all add: vec_values_def)

lemma vec_values_remove:
  "vec_values (vec_remove n headers) m = (if eq_ignore_ascii_case n m then [] else vec_values headers m)"
  by (induction headers) (auto simp: vec_remove_def eq_ignore_ascii_case_def)

lemma vec_values_add:
  "vec_values (vec_add hv headers) m =
     vec_values headers m @ (if eq_ignore_ascii_case (hv_name hv) m then [hv_value hv] else [])"
  by (simp add: vec_add_def)

lemma vec_values_overwrite:
  "vec_values (map (\<lambda>(h, v). if eq_ignore_ascii_case h n then (h, w) else (h, v)) headers) m =
     (if eq_ignore_ascii_case n m then map (\<lambda>_. w) (vec_values headers m) else vec_values headers m)"
proof (induction headers)
  case (Cons x headers)
  then show ?case
    by (cases x; cases "eq_ignore_ascii_case (fst x) n"; cases "eq_ignore_ascii_case n m")
      (auto simp: eq_ignore_ascii_case_def)
qed simp

lemma vec_values_eq_Nil:
  "vec_values headers m = [] \<longleftrightarrow> \<not> list_ex (\<lambda>(h, _). eq_ignore_ascii_case h m) headers"
  by (induction headers) (auto split: if_splits)

lemma vec_values_set:
  "vec_values (vec_set hv headers) m =
     (if eq_ignore_ascii_case (hv_name hv) m
      then (if vec_values headers (hv_name hv) = [] then [hv_value hv]
            else map (\<lambda>_. hv_value hv) (vec_values headers m))
      else vec_values headers m)"
proof -
  have eqi: "eq_ignore_ascii_case (hv_name hv) m \<Longrightarrow>
      vec_values headers m = vec_values headers (hv_name hv)"
    by (simp add: vec_values_def eq_ignore_ascii_case_def)
  show ?thesis
    using eqi vec_values_eq_Nil [of headers "hv_name hv"]
    by (cases "vec_values headers (hv_name hv) = []")
      (simp_all add: vec_set_def Let_def vec_values_overwrite)
qed

lemma vec_values_cong: "eq_ignore_ascii_case n m \<Longrightarrow> vec_values headers n = vec_values headers m"
  by (simp add: vec_values_def eq_ignore_ascii_case_def)

lemma set_map_const: "xs \<noteq> [] \<Longrightarrow> set (map (\<lambda>_. c) xs) = {c}"
  by (cases xs) auto

interpretation vec: header_store vec_values vec_remove vec_set vec_add "\<lambda>_. True" "\<lambda>_. True"
proof
  show "set (vec_values (vec_set hv h) m) = {hv_value hv}"
    if "eq_ignore_ascii_case (hv_name hv) m" for hv :: HeaderValue and h m
    using that vec_values_cong [OF that, of h]
    by (cases "vec_values h m = []") (simp_all add: vec_values_set set_map_const del: set_map)
qed (auto simp: vec_values_remove vec_values_add vec_values_set)

lemma apply_header_modifications_modify: "apply_header_modifications h rem sets add = vec.modify h rem sets add"
  by (simp add: apply_header_modifications_def vec.modify_def)

lemma True_and: "(True \<and> P) = P"
  by simp

section \<open>What accumulation returns\<close>

fun is_prefix_rewrite :: "Filter \<Rightarrow> bool" where
  "is_prefix_rewrite (URLRewrite _ (Some (ReplacePrefixMatch _))) = True"
| "is_prefix_rewrite _ = False"

fun rewrite_of :: "Filter \<Rightarrow> RewriteResult option" where
  "rewrite_of (URLRewrite h (Some (ReplaceFullPath v))) = Some \<lparr>rw_hostname = h, rw_path = Some v\<rparr>"
| "rewrite_of (URLRewrite h _) = Some \<lparr>rw_hostname = h, rw_path = None\<rparr>"
| "rewrite_of _ = None"

fun mirror_of :: "Filter \<Rightarrow> MirrorTarget option" where
  "mirror_of (RequestMirror b p) =
     Some \<lparr>mt_backend = b, mt_percent = (case p of Some p \<Rightarrow> p | None \<Rightarrow> 100)\<rparr>"
| "mirror_of _ = None"

fun request_mods :: "Filter \<Rightarrow> HeaderValue list \<times> HeaderValue list \<times> string list" where
  "request_mods (RequestHeaderModifier a s r) = (a, s, r)"
| "request_mods _ = ([], [], [])"

fun response_mods :: "Filter \<Rightarrow> HeaderValue list \<times> HeaderValue list \<times> string list" where
  "response_mods (ResponseHeaderModifier a s r) = (a, s, r)"
| "response_mods _ = ([], [], [])"

definition gathered :: "Filter list \<Rightarrow> AppliedFilter \<Rightarrow> AppliedFilter" where
  "gathered fs a = \<lparr>
     af_request_header_add = af_request_header_add a @ concat (map (fst \<circ> request_mods) fs),
     af_request_header_set = af_request_header_set a @ concat (map (fst \<circ> snd \<circ> request_mods) fs),
     af_request_header_remove = af_request_header_remove a @ concat (map (snd \<circ> snd \<circ> request_mods) fs),
     af_response_header_add = af_response_header_add a @ concat (map (fst \<circ> response_mods) fs),
     af_response_header_set = af_response_header_set a @ concat (map (fst \<circ> snd \<circ> response_mods) fs),
     af_response_header_remove = af_response_header_remove a @ concat (map (snd \<circ> snd \<circ> response_mods) fs),
     af_rewrite = (case rev (List.map_filter rewrite_of fs) of [] \<Rightarrow> af_rewrite a | r # _ \<Rightarrow> Some r),
     af_mirrors = af_mirrors a @ List.map_filter mirror_of fs,
     af_timeout = af_timeout a\<rparr>"

lemma gathered_Nil [simp]: "gathered [] a = a"
  by (simp add: gathered_def map_filter_simps)

lemma replace_prefix_empty [simp]: "replace_prefix [] ''/'' v = Inl SliceOutOfBounds"
  by (simp add: replace_prefix_def)

lemma gathered_modifiers:
  "gathered (RequestHeaderModifier add sets remove # fs) a =
     gathered fs (a\<lparr>af_request_header_add := af_request_header_add a @ add,
        af_request_header_set := af_request_header_set a @ sets,
        af_request_header_remove := af_request_header_remove a @ remove\<rparr>)"
  "gathered (ResponseHeaderModifier add sets remove # fs) a =
     gathered fs (a\<lparr>af_response_header_add := af_response_header_add a @ add,
        af_response_header_set := af_response_header_set a @ sets,
        af_response_header_remove := af_response_header_remove a @ remove\<rparr>)"
  "gathered (RequestMirror b p # fs) a =
     gathered fs (a\<lparr>af_mirrors := af_mirrors a @
       [\<lparr>mt_backend = b, mt_percent = (case p of Some p \<Rightarrow> p | None \<Rightarrow> 100)\<rparr>]\<rparr>)"
  "gathered (RequestRedirect sc hn po pa st # fs) a = gathered fs a"
  by (simp_all add: gathered_def map_filter_simps split: list.split)

lemma gathered_rewrite:
  "rewrite_of f = Some rw \<Longrightarrow> f = URLRewrite h m \<Longrightarrow>
     gathered (f # fs) a = gathered fs (a\<lparr>af_rewrite := Some rw\<rparr>)"
  by (simp add: gathered_def map_filter_simps split: list.split)

lemma compute_rewrite_empty:
  "compute_rewrite (URLRewrite h m) [] None =
     (case m of Some (ReplacePrefixMatch _) \<Rightarrow> Inl SliceOutOfBounds
      | _ \<Rightarrow> Inr (the (rewrite_of (URLRewrite h m))))"
  by (simp split: option.split PathModifier.split)

lemma collect_loop_gathered:
  "collect_loop fs a = (if list_ex is_prefix_rewrite fs then Inl SliceOutOfBounds else Inr (gathered fs a))"
proof (induction fs a rule: collect_loop.induct)
  case (4 hostname path fs a)
  show ?case
  proof (cases path)
    case None
    with 4 show ?thesis
      by (simp add: compute_rewrite_empty gathered_rewrite [of _ _ hostname path] del: compute_rewrite.simps)
  next
    case (Some m)
    with 4 show ?thesis
      by (cases m) (simp_all add: compute_rewrite_empty gathered_rewrite [of _ _ hostname path]
        del: compute_rewrite.simps)
  qed
qed (simp_all add: gathered_modifiers)

section \<open>Properties\<close>

text \<open>C27: \<open>collect_filters\<close> panics exactly when the filters contain a URL rewrite with a
  \<open>ReplacePrefixMatch\<close>, for it computes the rewrite of the empty path and slices past its
  end; otherwise it gathers every header modification in order, the last rewrite and all
  mirrors, and no timeout.\<close>

theorem collect_filters_outcome:
  "collect_filters fs =
     (if \<exists>h v. URLRewrite h (Some (ReplacePrefixMatch v)) \<in> set fs then Inl SliceOutOfBounds
      else Inr (gathered fs applied_filter_default))"
proof -
  have "is_prefix_rewrite f \<longleftrightarrow> (\<exists>h v. f = URLRewrite h (Some (ReplacePrefixMatch v)))" for f
    by (cases f rule: is_prefix_rewrite.cases) auto
  then have "list_ex is_prefix_rewrite fs \<longleftrightarrow> (\<exists>h v. URLRewrite h (Some (ReplacePrefixMatch v)) \<in> set fs)"
    by (auto simp: list_ex_iff)
  then show ?thesis by (simp add: collect_filters_def collect_loop_gathered)
qed

text \<open>Header modification in the order remove, set, add. Under every name the values are
  a base followed by all added values in order; the base is the last value set for the name,
  repeated where the name occurred, when there is one, and else empty if the name was removed
  and the original values if it was not.\<close>

theorem apply_header_modifications_values:
  "\<exists>base. vec_values (apply_header_modifications headers removes sets adds) m =
       base @ map hv_value (filter (\<lambda>hv. eq_ignore_ascii_case (hv_name hv) m) adds) \<and>
     (if filter (\<lambda>hv. eq_ignore_ascii_case (hv_name hv) m) sets \<noteq> []
      then set base = {hv_value (last (filter (\<lambda>hv. eq_ignore_ascii_case (hv_name hv) m) sets))}
      else base = (if list_ex (\<lambda>n. eq_ignore_ascii_case n m) removes then [] else vec_values headers m))"
  using vec.vals_modify [of headers removes sets adds m]
  unfolding apply_header_modifications_modify vec.concerns_def list_ex_iff_set True_and .

definition char_start :: "string \<Rightarrow> bool" where
  "char_start s \<longleftrightarrow> (case s of [] \<Rightarrow> True | c # _ \<Rightarrow> \<not> is_cont_byte c)"

definition one_slash_join :: "string \<Rightarrow> string \<Rightarrow> string" where
  "one_slash_join a b =
     (if b = [] then a
      else (if suffix ''/'' a then butlast a else a) @ ''/'' @ (if prefix ''/'' b then tl b else b))"

lemma str_from_char_start: "char_start b \<Longrightarrow> str_from (a @ b) (length a) = Inr b"
  by (rule str_from_append) (auto simp: char_start_def)

lemma replace_prefix_append:
  "char_start b \<Longrightarrow> replace_prefix (p @ b) p v = Inr (one_slash_join v b)"
  by (cases b)
    (auto simp: replace_prefix_def str_from_char_start [of _ p] one_slash_join_def Let_def suffix_def
      prefix_def simp del: append_Nil2)

lemma slash_not_cont: "\<not> is_cont_byte (CHR ''/'')"
  by (simp add: is_cont_byte_def byte_def)

lemma prefix_path_matches_split:
  "prefix_path_matches p (CHR ''/'' # cs) \<Longrightarrow> char_start cs \<Longrightarrow>
     \<exists>rest. CHR ''/'' # cs = p @ rest \<and> char_start rest"
proof (cases "p = ''/''")
  case False
  assume "prefix_path_matches p (CHR ''/'' # cs)"
  with False have "CHR ''/'' # cs = p \<or> (\<exists>rest. CHR ''/'' # cs = p @ CHR ''/'' # rest)"
    by (simp add: prefix_split_on)
  then show ?thesis
  proof
    assume "CHR ''/'' # cs = p"
    then show ?thesis by (intro exI [of _ "[]"]) (simp add: char_start_def)
  next
    assume "\<exists>rest. CHR ''/'' # cs = p @ CHR ''/'' # rest"
    then obtain rest where "CHR ''/'' # cs = p @ CHR ''/'' # rest" ..
    then show ?thesis
      by (intro exI [of _ "CHR ''/'' # rest"]) (simp add: char_start_def slash_not_cont)
  qed
qed (simp add: exI [of _ cs])

text \<open>Replacing a matched prefix joins with exactly one slash. Whenever the prefix matches a
  path that is a sequence of characters starting with a slash, \<open>replace_prefix\<close> does not
  panic and returns the replacement, when nothing remains, and otherwise the replacement
  without its trailing slash, one slash, and the remainder without its leading slash.\<close>

theorem replace_prefix_joins_once:
  assumes "prefix_path_matches p (CHR ''/'' # cs)" and "char_start cs"
  shows "replace_prefix (CHR ''/'' # cs) p v =
    Inr (one_slash_join v (drop (length p) (CHR ''/'' # cs)))"
proof -
  obtain rest where r: "CHR ''/'' # cs = p @ rest" and "char_start rest"
    using prefix_path_matches_split [OF assms] by blast
  then show ?thesis by (simp only: r replace_prefix_append) simp
qed

theorem replace_prefix_joins_once_witness:
  "replace_prefix ''/old/x'' ''/old'' ''/new/'' = Inr ''/new/x''"
proof -
  have "replace_prefix ''/old/x'' ''/old'' ''/new/'' =
      Inr (one_slash_join ''/new/'' (drop (length ''/old'') ''/old/x''))"
    by (rule replace_prefix_joins_once) code_simp+
  then show ?thesis by (simp add: one_slash_join_def suffix_def)
qed

text \<open>C39: the router's redirect against the module's own computation. For a path without query
  mark, a query, and a redirect filter without \<open>ReplacePrefixMatch\<close> and with no standard port
  spelled out, the \<open>Location\<close> that \<open>compute_redirect\<close> gives is the one the router sends,
  followed by the query string, which the router drops; the status is the same.\<close>

theorem redirect_location_agrees:
  assumes "CHR ''?'' \<notin> set (rq_path request)" and "rq_host request = Some host"
    and "\<nexists>v. pa = Some (ReplacePrefixMatch v)"
    and "\<forall>p. po = Some p \<longrightarrow> \<not> is_standard_port (case sc of Some s \<Rightarrow> s | None \<Rightarrow> ''http'') p"
  shows "compute_redirect (RequestRedirect sc hn po pa st) (rq_path request @ CHR ''?'' # q) host pre =
    (case first_redirect request [RequestRedirect sc hn po pa st] of
       Some rd \<Rightarrow> Inr (rd\<lparr>rd_location := rd_location rd @ (if q = [] then [] else CHR ''?'' # q)\<rparr>)
     | None \<Rightarrow> Inl SliceOutOfBounds)"
proof -
  have "split_uri (rq_path request @ CHR ''?'' # q) = (rq_path request, q)"
    using assms(1) by (simp add: split_uri_def find_char_split)
  then show ?thesis
    using assms(2-4)
    by (cases sc; cases hn; cases po; cases pa)
      (auto simp: build_redirect_location_def Let_def split: PathModifier.split)
qed

theorem redirect_location_agrees_witness:
  "compute_redirect (RequestRedirect (Some ''https'') (Some ''b.org'') (Some 8443) None None)
     (rq_path demo_request @ CHR ''?'' # ''q=1'') ''Example.com:80'' None =
   Inr \<lparr>rd_status_code = 302, rd_location = ''https://b.org:8443/a/b?q=1''\<rparr>"
proof -
  have "compute_redirect (RequestRedirect (Some ''https'') (Some ''b.org'') (Some 8443) None None)
     (rq_path demo_request @ CHR ''?'' # ''q=1'') ''Example.com:80'' None =
    (case first_redirect demo_request [RequestRedirect (Some ''https'') (Some ''b.org'') (Some 8443) None None] of
       Some rd \<Rightarrow> Inr (rd\<lparr>rd_location := rd_location rd @ (if ''q=1'' = [] then [] else CHR ''?'' # ''q=1'')\<rparr>)
     | None \<Rightarrow> Inl SliceOutOfBounds)"
    by (rule redirect_location_agrees)
      (simp_all add: demo_request_def is_standard_port_def)
  also have "\<dots> = Inr \<lparr>rd_status_code = 302, rd_location = ''https://b.org:8443/a/b?q=1''\<rparr>"
    by (simp add: build_redirect_location_def demo_request_def show_nat_def show_base.simps digit_char_digits)
  finally show ?thesis .
qed

end
