(* ===== verification/RequestHead.thy ===== *)
theory RequestHead
  imports RustStr
begin

text \<open>
  The bytes of a connection before any HTTP codec sees them,
  \<open>crates/proxy-core/src/pipeline.rs\<close>: reading the request head under a size limit, detecting a
  WebSocket upgrade in it, and the stream that gives the bytes read back to the codec. Also the
  operations of \<open>str\<close> that only this code uses.
\<close>

section \<open>White space and lines\<close>

text \<open>The number of bytes of the Unicode white space character that a text starts with.\<close>

fun ws_head :: "nat list \<Rightarrow> nat" where
  "ws_head (a # b # c # _) =
     (if 9 \<le> a \<and> a \<le> 13 \<or> a = 32 then 1
      else if a = 194 \<and> (b = 133 \<or> b = 160) then 2
      else if a = 225 \<and> b = 154 \<and> c = 128 \<or>
        a = 226 \<and> b = 128 \<and> (128 \<le> c \<and> c \<le> 138 \<or> c = 168 \<or> c = 169 \<or> c = 175) \<or>
        a = 226 \<and> b = 129 \<and> c = 159 \<or> a = 227 \<and> b = 128 \<and> c = 128 then 3
      else 0)"
| "ws_head [a, b] =
     (if 9 \<le> a \<and> a \<le> 13 \<or> a = 32 then 1
      else if a = 194 \<and> (b = 133 \<or> b = 160) then 2 else 0)"
| "ws_head [a] = (if 9 \<le> a \<and> a \<le> 13 \<or> a = 32 then 1 else 0)"
| "ws_head [] = 0"

definition ws_len :: "string \<Rightarrow> nat" where
  "ws_len s = ws_head (map byte (take 3 s))"

lemma ws_head_le: "ws_head xs \<le> length xs"
  by (induction xs rule: ws_head.induct) auto

lemma ws_len_le: "ws_len s \<le> length s"
  using ws_head_le [of "map byte (take 3 s)"] by (simp add: ws_len_def)

function trim_start :: "string \<Rightarrow> string" where
  "trim_start s = (if ws_len s = 0 then s else trim_start (drop (ws_len s) s))"
  by auto
termination
proof (relation "measure length")
  fix s :: string
  assume "ws_len s \<noteq> 0"
  then show "(drop (ws_len s) s, s) \<in> measure length"
    using ws_len_le [of s] by (cases s) auto
qed simp

declare trim_start.simps [simp del]

text \<open>The white space character a text ends with has one, two or three bytes.\<close>

definition ws_len_end :: "string \<Rightarrow> nat" where
  "ws_len_end s =
     (if 1 \<le> length s \<and> ws_len (drop (length s - 1) s) = 1 then 1
      else if 2 \<le> length s \<and> ws_len (drop (length s - 2) s) = 2 then 2
      else if 3 \<le> length s \<and> ws_len (drop (length s - 3) s) = 3 then 3
      else 0)"

lemma ws_len_end_le: "ws_len_end s \<le> length s"
  by (simp add: ws_len_end_def)

function trim_end :: "string \<Rightarrow> string" where
  "trim_end s = (if ws_len_end s = 0 then s else trim_end (take (length s - ws_len_end s) s))"
  by auto
termination
proof (relation "measure length")
  fix s :: string
  assume "ws_len_end s \<noteq> 0"
  then show "(take (length s - ws_len_end s) s, s) \<in> measure length"
    using ws_len_end_le [of s] by auto
qed simp

declare trim_end.simps [simp del]

definition trim :: "string \<Rightarrow> string" where
  "trim s = trim_end (trim_start s)"

text \<open>\<open>str::lines\<close>: pieces ending in a line feed, without it and one carriage return before it.\<close>

definition chomp :: "string \<Rightarrow> string" where
  "chomp s = (if s \<noteq> [] \<and> last s = CHR 13 then butlast s else s)"

fun lines :: "string \<Rightarrow> string list" where
  "lines [] = []"
| "lines (c # s) =
     (case find_char (CHR 10) (c # s) of
        None \<Rightarrow> [c # s]
      | Some i \<Rightarrow> chomp (take i (c # s)) # lines (drop (Suc i) (c # s)))"

text \<open>\<open>str::split_whitespace\<close>; the first argument is the piece being read, reversed.\<close>

function split_ws :: "string \<Rightarrow> string \<Rightarrow> string list" where
  "split_ws cur s =
     (if s = [] then (if cur = [] then [] else [rev cur])
      else if ws_len s = 0 then split_ws (hd s # cur) (tl s)
      else (if cur = [] then [] else [rev cur]) @ split_ws [] (drop (ws_len s) s))"
  by pat_completeness auto
termination
  by (relation "measure (\<lambda>(_, s). length s)") auto

declare split_ws.simps [simp del]

definition split_whitespace :: "string \<Rightarrow> string list" where
  "split_whitespace s = split_ws [] s"

text \<open>
  \<open>str::to_lowercase\<close> on header names. Of the characters outside ASCII only U+212A (bytes E2 84 AA)
  becomes an ASCII letter alone; the others are kept as they are here, so that every comparison
  with an ASCII name is exact.
\<close>

fun to_lowercase :: "string \<Rightarrow> string" where
  "to_lowercase (c # d # e # s) =
     (if byte c = 226 \<and> byte d = 132 \<and> byte e = 170 then CHR ''k'' # to_lowercase s
      else ascii_lower c # to_lowercase (d # e # s))"
| "to_lowercase s = to_ascii_lowercase s"

section \<open>Reading the request head\<close>

text \<open>The kinds of \<open>io::Error\<close> that the pipeline makes or asks for; the last one stands for all others.\<close>

datatype io_error =
    UnexpectedEof | InvalidData | TimedOut | BrokenPipe | ConnectionRefused | InvalidInput | OtherIo string

definition CRLF2 :: string where
  "CRLF2 = [CHR 13, CHR 10, CHR 13, CHR 10]"

text \<open>\<open>buf.windows(4).any(|w| w == b"\r\n\r\n")\<close>\<close>

definition has_terminator :: "string \<Rightarrow> bool" where
  "has_terminator buf \<longleftrightarrow> sublist CRLF2 buf"

text \<open>
  The stream is the parameter \<open>reads\<close>: the outcome of its \<open>i\<close>-th read, at most 4096 bytes. The
  result carries the number of reads made.
\<close>

function read_http_request_head ::
  "(nat \<Rightarrow> io_error + string) \<Rightarrow> nat \<Rightarrow> string \<Rightarrow> (io_error + string) \<times> nat" where
  "read_http_request_head reads i buf =
     (case reads i of
        Inl e \<Rightarrow> (Inl e, Suc i)
      | Inr chunk \<Rightarrow>
          if chunk = [] then (Inl UnexpectedEof, Suc i)
          else if has_terminator (buf @ chunk) then (Inr (buf @ chunk), Suc i)
          else if length (buf @ chunk) > 65536 then (Inl InvalidData, Suc i)
          else read_http_request_head reads (Suc i) (buf @ chunk))"
  by pat_completeness auto
termination
proof (relation "measure (\<lambda>(_, _, buf). 65537 - length buf)")
  fix reads :: "nat \<Rightarrow> io_error + string" and i buf chunk
  assume "chunk \<noteq> []" "\<not> length (buf @ chunk) > 65536"
  then show "((reads, Suc i, buf @ chunk), reads, i, buf) \<in> measure (\<lambda>(_, _, buf). 65537 - length buf)"
    by (cases chunk) auto
qed simp

declare read_http_request_head.simps [simp del]

section \<open>WebSocket detection\<close>

record ws_flags =
  wf_connection_upgrade :: bool
  wf_upgrade_websocket :: bool
  wf_ws_version :: bool
  wf_ws_key :: bool

definition ws_header :: "ws_flags \<Rightarrow> string \<Rightarrow> string \<Rightarrow> ws_flags" where
  "ws_header f name v =
     (if eq_ignore_ascii_case name ''connection''
      then f\<lparr>wf_connection_upgrade := list_ex (\<lambda>part. eq_ignore_ascii_case (trim part) ''upgrade'')
             (split_on (CHR '','') v)\<rparr>
      else if eq_ignore_ascii_case name ''upgrade''
      then f\<lparr>wf_upgrade_websocket := eq_ignore_ascii_case v ''websocket''\<rparr>
      else if eq_ignore_ascii_case name ''sec-websocket-version'' then f\<lparr>wf_ws_version := True\<rparr>
      else if eq_ignore_ascii_case name ''sec-websocket-key'' then f\<lparr>wf_ws_key := True\<rparr>
      else f)"

fun ws_lines :: "string list \<Rightarrow> ws_flags \<Rightarrow> ws_flags" where
  "ws_lines [] f = f"
| "ws_lines (line # ls) f =
     (if line = [] \<or> line = [CHR 13] then f
      else (case split_once (CHR '':'') line of
          Some (name, v) \<Rightarrow> ws_lines ls (ws_header f (trim name) (trim v))
        | None \<Rightarrow> ws_lines ls f))"

definition is_raw_websocket_upgrade :: "string \<Rightarrow> bool" where
  "is_raw_websocket_upgrade raw =
     (case from_utf8 raw of
        None \<Rightarrow> False
      | Some text \<Rightarrow>
          (let f = ws_lines (drop 1 (lines text)) \<lparr>wf_connection_upgrade = False,
                 wf_upgrade_websocket = False, wf_ws_version = False, wf_ws_key = False\<rparr>
           in wf_connection_upgrade f \<and> wf_upgrade_websocket f \<and> wf_ws_version f \<and> wf_ws_key f))"

section \<open>The prefixed stream\<close>

record 's PrefixedStream =
  ps_inner :: 's
  ps_prefix :: string
  ps_prefix_offset :: nat

definition prefixed_new :: "'s \<Rightarrow> string \<Rightarrow> 's PrefixedStream" where
  "prefixed_new inner pre = \<lparr>ps_inner = inner, ps_prefix = pre, ps_prefix_offset = 0\<rparr>"

definition prefix_remaining :: "'s PrefixedStream \<Rightarrow> nat" where
  "prefix_remaining s = length (ps_prefix s) - ps_prefix_offset s"

text \<open>A read into a buffer of \<open>cap\<close> bytes; \<open>inner_read\<close> is the read of the wrapped stream.\<close>

definition prefixed_read ::
  "(nat \<Rightarrow> 's \<Rightarrow> (io_error + string) \<times> 's) \<Rightarrow> nat \<Rightarrow> 's PrefixedStream \<Rightarrow>
     (io_error + string) \<times> 's PrefixedStream" where
  "prefixed_read inner_read cap s =
     (let remaining = prefix_remaining s
      in if remaining > 0 then
           (let to_copy = min remaining cap
            in (Inr (take to_copy (drop (ps_prefix_offset s) (ps_prefix s))),
                s\<lparr>ps_prefix_offset := ps_prefix_offset s + to_copy\<rparr>))
         else (let (r, inner) = inner_read cap (ps_inner s) in (r, s\<lparr>ps_inner := inner\<rparr>)))"

section \<open>What reading the head returns\<close>

text \<open>The bytes delivered by the first \<open>n\<close> reads.\<close>

definition delivered :: "(nat \<Rightarrow> io_error + string) \<Rightarrow> nat \<Rightarrow> string" where
  "delivered reads n = concat (map (\<lambda>j. case reads j of Inr c \<Rightarrow> c | Inl _ \<Rightarrow> []) [0..<n])"

lemma delivered_simps [simp]:
  "delivered reads 0 = []"
  "delivered reads (Suc n) = delivered reads n @ (case reads n of Inr c \<Rightarrow> c | Inl _ \<Rightarrow> [])"
  by (simp_all add: delivered_def)

text \<open>What the loop knows on entry to the round after read \<open>i\<close>, and how a round ends it.\<close>

definition head_open :: "(nat \<Rightarrow> io_error + string) \<Rightarrow> nat \<Rightarrow> bool" where
  "head_open reads i \<longleftrightarrow> (\<forall>j<i. \<exists>c. reads j = Inr c \<and> c \<noteq> []) \<and>
     \<not> has_terminator (delivered reads i) \<and> length (delivered reads i) \<le> 65536"

definition head_outcome :: "(nat \<Rightarrow> io_error + string) \<Rightarrow> nat \<Rightarrow> io_error + string" where
  "head_outcome reads i =
     (case reads i of
        Inl e \<Rightarrow> Inl e
      | Inr c \<Rightarrow>
          if c = [] then Inl UnexpectedEof
          else if has_terminator (delivered reads (Suc i)) then Inr (delivered reads (Suc i))
          else Inl InvalidData)"

lemma read_head_outcome:
  assumes "head_open reads i"
  shows "\<exists>n\<ge>i. read_http_request_head reads i (delivered reads i) = (head_outcome reads n, Suc n) \<and>
    head_open reads n \<and>
    (head_outcome reads n = Inl InvalidData \<and> (\<exists>c. reads n = Inr c) \<longrightarrow> length (delivered reads (Suc n)) > 65536)"
  using assms
proof (induction "65537 - length (delivered reads i)" arbitrary: i rule: less_induct)
  case less
  show ?case
  proof (cases "\<exists>c. reads i = Inr c \<and> c \<noteq> [] \<and> \<not> has_terminator (delivered reads i @ c) \<and>
      length (delivered reads i @ c) \<le> 65536")
    case True
    then obtain c where c: "reads i = Inr c" "c \<noteq> []" "\<not> has_terminator (delivered reads i @ c)"
      "length (delivered reads i @ c) \<le> 65536" by blast
    then have "head_open reads (Suc i)"
      using less.prems by (auto simp: head_open_def less_Suc_eq)
    moreover have "65537 - length (delivered reads (Suc i)) < 65537 - length (delivered reads i)"
      using c by (cases c) auto
    ultimately obtain n where n: "n \<ge> Suc i"
      "read_http_request_head reads (Suc i) (delivered reads (Suc i)) = (head_outcome reads n, Suc n)"
      "head_open reads n" "head_outcome reads n = Inl InvalidData \<and> (\<exists>c. reads n = Inr c) \<longrightarrow>
         length (delivered reads (Suc n)) > 65536"
      using less.hyps by blast
    have "read_http_request_head reads i (delivered reads i) = (head_outcome reads n, Suc n)"
      using n(2) c by (subst read_http_request_head.simps) simp
    with n show ?thesis by (intro exI [of _ n]) simp
  next
    case False
    then have "read_http_request_head reads i (delivered reads i) = (head_outcome reads i, Suc i)"
      by (subst read_http_request_head.simps) (auto simp: head_outcome_def split: sum.split)
    moreover have "head_outcome reads i = Inl InvalidData \<and> (\<exists>c. reads i = Inr c) \<longrightarrow>
        length (delivered reads (Suc i)) > 65536"
      using False by (auto simp: head_outcome_def split: if_splits)
    ultimately show ?thesis using less.prems by blast
  qed
qed

section \<open>The prefixed stream\<close>

text \<open>A sequence of reads into buffers of the given sizes, and the reads it makes of the inner stream.\<close>

fun prefixed_reads ::
  "(nat \<Rightarrow> 's \<Rightarrow> (io_error + string) \<times> 's) \<Rightarrow> nat list \<Rightarrow> 's PrefixedStream \<Rightarrow> (io_error + string) list" where
  "prefixed_reads rd [] s = []"
| "prefixed_reads rd (cap # caps) s =
     (let (r, s') = prefixed_read rd cap s in r # prefixed_reads rd caps s')"

fun inner_reads ::
  "(nat \<Rightarrow> 's \<Rightarrow> (io_error + string) \<times> 's) \<Rightarrow> nat list \<Rightarrow> 's \<Rightarrow> (io_error + string) list" where
  "inner_reads rd [] s = []"
| "inner_reads rd (cap # caps) s = (let (r, s') = rd cap s in r # inner_reads rd caps s')"

text \<open>Cutting a text into pieces of at most the given sizes; empty pieces are not asked for.\<close>

fun pieces :: "nat list \<Rightarrow> string \<Rightarrow> string list" where
  "pieces [] pre = []"
| "pieces (cap # caps) pre = (if pre = [] then [] else take cap pre # pieces caps (drop cap pre))"

lemma prefix_remaining_drop: "prefix_remaining s = length (drop (ps_prefix_offset s) (ps_prefix s))"
  by (simp add: prefix_remaining_def)

lemma prefixed_reads_split:
  "prefixed_reads rd caps s =
     (let ps = pieces caps (drop (ps_prefix_offset s) (ps_prefix s))
      in map Inr ps @ inner_reads rd (drop (length ps) caps) (ps_inner s))"
proof (induction caps arbitrary: s)
  case (Cons cap caps)
  show ?case
  proof (cases "prefix_remaining s > 0")
    case True
    then show ?thesis
      using Cons.IH
      by (simp add: prefixed_read_def Let_def prefix_remaining_drop min_def add.commute)
  next
    case False
    have drain: "prefixed_reads rd caps t = inner_reads rd caps (ps_inner t)"
      if "drop (ps_prefix_offset t) (ps_prefix t) = []" for t
      using Cons.IH [of t] that by (cases caps) (simp_all add: Let_def)
    from False show ?thesis
      by (simp add: prefixed_read_def Let_def prefix_remaining_drop split_beta drain)
  qed
qed simp

lemma pieces_concat: "\<exists>k. concat (pieces caps pre) = take k pre \<and> (length (pieces caps pre) < length caps \<longrightarrow> k = length pre)"
proof (induction caps arbitrary: pre)
  case (Cons cap caps)
  obtain k where k: "concat (pieces caps (drop cap pre)) = take k (drop cap pre)"
    "length (pieces caps (drop cap pre)) < length caps \<longrightarrow> k = length (drop cap pre)"
    using Cons by blast
  then show ?case
    by (intro exI [of _ "if pre = [] then 0 else min cap (length pre) + k"]) (auto simp: take_add min_def)
qed (auto intro: exI [of _ 0])

section \<open>Properties\<close>


text \<open>The prefixed stream gives every byte of the prefix once, in order, before any byte of
  the stream it wraps, and then is that stream: whatever the buffer sizes of a sequence of reads,
  the first reads return consecutive pieces of the prefix and the others are the inner stream's
  own reads, which begin only when the prefix is used up.\<close>

theorem prefixed_stream_loses_nothing:
  "\<exists>ps k. prefixed_reads rd caps (prefixed_new inner pre) =
       map Inr ps @ inner_reads rd (drop (length ps) caps) inner \<and>
     length ps \<le> length caps \<and> concat ps = take k pre \<and>
     (length ps = length caps \<or> k = length pre)"
proof -
  obtain k where k: "concat (pieces caps pre) = take k pre"
    "length (pieces caps pre) < length caps \<longrightarrow> k = length pre"
    using pieces_concat by blast
  have "length (pieces caps pre) \<le> length caps"
    by (induction caps arbitrary: pre) auto
  with k show ?thesis
    using prefixed_reads_split [of rd caps "prefixed_new inner pre"]
    by (intro exI [of _ "pieces caps pre"] exI [of _ k]) (auto simp: prefixed_new_def Let_def)
qed

end
