(* ===== verification/HttpTypes.thy ===== *)
theory HttpTypes
  imports HttpFilter RequestHead
begin

text \<open>
  Requests, responses and the operations that the pipeline takes from the \<open>http\<close> and
  \<open>monoio_http\<close> crates. The crates are the parameter \<open>http\<close>, over a type \<open>'u\<close> of URIs and a
  type \<open>'h\<close> of header maps; what their documentation promises of header maps is the predicate
  \<open>header_laws\<close>, under which a header map satisfies the interface \<open>header_store\<close>. Header names
  and values are byte strings.
\<close>

record ('u, 'h) http =
  uri_parse :: "string \<Rightarrow> 'u option"
  uri_path :: "'u \<Rightarrow> string"
  uri_query :: "'u \<Rightarrow> string option"
  uri_with_authority :: "string \<Rightarrow> 'u \<Rightarrow> 'u option"
  name_parse :: "string \<Rightarrow> string option"
  value_parse :: "string \<Rightarrow> string option"
  value_to_str :: "string \<Rightarrow> string option"
  status_from_u16 :: "u16 \<Rightarrow> u16 option"
  hm_new :: 'h
  hm_iter :: "'h \<Rightarrow> (string \<times> string) list"
  hm_get_all :: "'h \<Rightarrow> string \<Rightarrow> string list"
  hm_insert :: "string \<Rightarrow> string \<Rightarrow> 'h \<Rightarrow> 'h"
  hm_append :: "string \<Rightarrow> string \<Rightarrow> 'h \<Rightarrow> 'h"
  hm_remove :: "string \<Rightarrow> 'h \<Rightarrow> 'h"

definition hm_get :: "('u, 'h) http \<Rightarrow> 'h \<Rightarrow> string \<Rightarrow> string option" where
  "hm_get ht h name = (case hm_get_all ht h name of [] \<Rightarrow> None | v # _ \<Rightarrow> Some v)"

definition hm_contains_key :: "('u, 'h) http \<Rightarrow> 'h \<Rightarrow> string \<Rightarrow> bool" where
  "hm_contains_key ht h name \<longleftrightarrow> hm_get_all ht h name \<noteq> []"

definition HOST :: string where "HOST = ''host''"
definition CONTENT_TYPE :: string where "CONTENT_TYPE = ''content-type''"
definition CONTENT_LENGTH :: string where "CONTENT_LENGTH = ''content-length''"
definition LOCATION :: string where "LOCATION = ''location''"
definition TRANSFER_ENCODING :: string where "TRANSFER_ENCODING = ''transfer-encoding''"
definition CONNECTION :: string where "CONNECTION = ''connection''"

text \<open>A body: none, in memory, or a stream that delivers chunks until it fails or ends.\<close>

datatype payload = PayloadNone | PayloadFixed string | PayloadStream "(string + string) list"

record ('u, 'h) HttpRequest =
  hq_method :: string
  hq_uri :: 'u
  hq_version :: string
  hq_headers :: 'h
  hq_body :: payload

record 'h HttpResponse =
  hs_status :: u16
  hs_headers :: 'h
  hs_body :: payload

text \<open>\<open>while let Some(Ok(chunk)) = body.next_data().await\<close>\<close>

fun read_chunks :: "(string + string) list \<Rightarrow> string" where
  "read_chunks (Inr chunk # cs) = chunk @ read_chunks cs"
| "read_chunks _ = []"

fun payload_bytes :: "payload \<Rightarrow> string" where
  "payload_bytes PayloadNone = []"
| "payload_bytes (PayloadFixed s) = s"
| "payload_bytes (PayloadStream cs) = read_chunks cs"

definition collected :: "string \<Rightarrow> payload" where
  "collected body_bytes = (if body_bytes = [] then PayloadNone else PayloadFixed body_bytes)"

section \<open>Header modification on a header map\<close>

definition hm_remove_named :: "('u, 'h) http \<Rightarrow> string \<Rightarrow> 'h \<Rightarrow> 'h" where
  "hm_remove_named ht name h =
     (case name_parse ht name of Some header_name \<Rightarrow> hm_remove ht header_name h | None \<Rightarrow> h)"

definition hm_set_named :: "('u, 'h) http \<Rightarrow> HeaderValue \<Rightarrow> 'h \<Rightarrow> 'h" where
  "hm_set_named ht hv h =
     (case (name_parse ht (hv_name hv), value_parse ht (hv_value hv)) of
        (Some name, Some v) \<Rightarrow> hm_insert ht name v h
      | _ \<Rightarrow> h)"

definition hm_add_named :: "('u, 'h) http \<Rightarrow> HeaderValue \<Rightarrow> 'h \<Rightarrow> 'h" where
  "hm_add_named ht hv h =
     (case (name_parse ht (hv_name hv), value_parse ht (hv_value hv)) of
        (Some name, Some v) \<Rightarrow> hm_append ht name v h
      | _ \<Rightarrow> h)"

definition hm_vals :: "('u, 'h) http \<Rightarrow> 'h \<Rightarrow> string \<Rightarrow> string list" where
  "hm_vals ht h name = hm_get_all ht h (to_ascii_lowercase name)"

definition hv_ok :: "('u, 'h) http \<Rightarrow> HeaderValue \<Rightarrow> bool" where
  "hv_ok ht hv \<longleftrightarrow> name_parse ht (hv_name hv) \<noteq> None \<and> value_parse ht (hv_value hv) \<noteq> None"

text \<open>
  The documented behaviour of \<open>HeaderName\<close>, \<open>HeaderValue\<close> and \<open>HeaderMap\<close>: names are kept in
  lower case, values are kept as they are, and the multimap operations.
\<close>

definition header_laws :: "('u, 'h) http \<Rightarrow> bool" where
  "header_laws ht \<longleftrightarrow>
     (\<forall>n c. name_parse ht n = Some c \<longrightarrow> c = to_ascii_lowercase n) \<and>
     (\<forall>v w. value_parse ht v = Some w \<longrightarrow> w = v) \<and>
     (\<forall>m. hm_get_all ht (hm_new ht) m = []) \<and>
     (\<forall>n v h m. hm_get_all ht (hm_insert ht n v h) m = (if m = n then [v] else hm_get_all ht h m)) \<and>
     (\<forall>n v h m. hm_get_all ht (hm_append ht n v h) m = hm_get_all ht h m @ (if m = n then [v] else [])) \<and>
     (\<forall>n h m. hm_get_all ht (hm_remove ht n h) m = (if m = n then [] else hm_get_all ht h m))"

lemma header_lawsD:
  assumes "header_laws ht"
  shows "name_parse ht n = Some c \<Longrightarrow> c = to_ascii_lowercase n"
    and "value_parse ht v = Some w \<Longrightarrow> w = v"
    and "hm_get_all ht (hm_new ht) m = []"
    and "hm_get_all ht (hm_insert ht k v h) m = (if m = k then [v] else hm_get_all ht h m)"
    and "hm_get_all ht (hm_append ht k v h) m = hm_get_all ht h m @ (if m = k then [v] else [])"
    and "hm_get_all ht (hm_remove ht k h) m = (if m = k then [] else hm_get_all ht h m)"
  using assms by (simp_all add: header_laws_def)

lemma header_map_store:
  assumes "header_laws ht"
  shows "header_store (hm_vals ht) (hm_remove_named ht) (hm_set_named ht) (hm_add_named ht) (hv_ok ht)
    (\<lambda>n. name_parse ht n \<noteq> None)"
proof
  note laws = header_lawsD [OF assms]
  fix h m
  show "hm_vals ht (hm_remove_named ht n h) m =
      (if name_parse ht n \<noteq> None \<and> eq_ignore_ascii_case n m then [] else hm_vals ht h m)" for n
    by (auto simp: hm_vals_def hm_remove_named_def laws(6) eq_ignore_ascii_case_def dest: laws(1) split: option.split)
  show "hm_vals ht (hm_add_named ht hv h) m = hm_vals ht h m @
      (if hv_ok ht hv \<and> eq_ignore_ascii_case (hv_name hv) m then [hv_value hv] else [])" for hv :: HeaderValue
    by (auto simp: hm_vals_def hm_add_named_def hv_ok_def laws(5) eq_ignore_ascii_case_def dest: laws(1,2) split: option.split)
  show "hm_vals ht (hm_set_named ht hv h) m = hm_vals ht h m"
    if "\<not> (hv_ok ht hv \<and> eq_ignore_ascii_case (hv_name hv) m)" for hv :: HeaderValue
    using that
    by (auto simp: hm_vals_def hm_set_named_def hv_ok_def laws(4) eq_ignore_ascii_case_def dest: laws(1) split: option.split)
  show "set (hm_vals ht (hm_set_named ht hv h) m) = {hv_value hv}"
    if ok: "hv_ok ht hv" "eq_ignore_ascii_case (hv_name hv) m" for hv :: HeaderValue
  proof -
    from ok(1) obtain n v where nv: "name_parse ht (hv_name hv) = Some n" "value_parse ht (hv_value hv) = Some v"
      by (auto simp: hv_ok_def)
    with ok(2) laws(1) [OF nv(1)] laws(2) [OF nv(2)] show ?thesis
      by (simp add: hm_vals_def hm_set_named_def laws(4) eq_ignore_ascii_case_def)
  qed
qed

section \<open>A concrete instance\<close>

text \<open>
  A header map as a list of pairs and a URI as its path and query, with names and values accepted
  when they are not empty.
\<close>

definition demo_http :: "(string \<times> string option, (string \<times> string) list) http" where
  "demo_http = \<lparr>
     uri_parse = \<lambda>s. if s = [] then None else Some (case split_once (CHR ''?'') s of
         Some (p, q) \<Rightarrow> (p, Some q) | None \<Rightarrow> (s, None)),
     uri_path = fst, uri_query = snd, uri_with_authority = \<lambda>a u. Some u,
     name_parse = \<lambda>s. if s = [] then None else Some (to_ascii_lowercase s),
     value_parse = \<lambda>s. if s = [] then None else Some s, value_to_str = Some,
     status_from_u16 = \<lambda>s. if 100 \<le> s \<and> s < 1000 then Some s else None,
     hm_new = [], hm_iter = \<lambda>h. h, hm_get_all = \<lambda>h n. map snd (filter (\<lambda>(k, _). k = n) h),
     hm_insert = \<lambda>n v h. filter (\<lambda>(k, _). k \<noteq> n) h @ [(n, v)],
     hm_append = \<lambda>n v h. h @ [(n, v)], hm_remove = \<lambda>n h. filter (\<lambda>(k, _). k \<noteq> n) h\<rparr>"

lemma demo_http_laws: "header_laws demo_http"
proof -
  have drop: "filter (\<lambda>x. (\<lambda>(k, _). k \<noteq> n) x \<and> (\<lambda>(k, _). k = m) x) h =
      (if m = n then [] else filter (\<lambda>(k, _). k = m) h)" for n m and h :: "(string \<times> string) list"
    by (auto simp: filter_empty_conv intro: filter_cong)
  show ?thesis
    by (auto simp: header_laws_def demo_http_def drop split: if_splits)
qed

end
