(* ===== verification/Upgrade.thy ===== *)
theory Upgrade
  imports HttpTypes
begin

text \<open>
  The two checks for a WebSocket upgrade in \<open>crates/proxy-core/src/pipeline.rs\<close>: the one on the raw
  bytes that serves connections, and \<open>is_websocket_upgrade\<close> on a parsed request, which states the
  contract and which the tests use. They agree on a head that both can read.
\<close>

definition is_websocket_upgrade :: "('u, 'h) http \<Rightarrow> ('u, 'h) HttpRequest \<Rightarrow> bool" where
  "is_websocket_upgrade ht req =
     (let headers = hq_headers req;
          has_connection_upgrade =
            (case Option.bind (hm_get ht headers CONNECTION) (value_to_str ht) of
               Some v \<Rightarrow> list_ex (\<lambda>part. eq_ignore_ascii_case (trim part) ''upgrade'') (split_on (CHR '','') v)
             | None \<Rightarrow> False)
      in if \<not> has_connection_upgrade then False
         else (let has_upgrade_websocket =
                (case Option.bind (hm_get ht headers ''upgrade'') (value_to_str ht) of
                   Some v \<Rightarrow> eq_ignore_ascii_case v ''websocket''
                 | None \<Rightarrow> False)
           in if \<not> has_upgrade_websocket then False
              else if \<not> hm_contains_key ht headers ''sec-websocket-version'' then False
              else if \<not> hm_contains_key ht headers ''sec-websocket-key'' then False
              else True))"

section \<open>The fields of a raw head\<close>

text \<open>Names and values of the lines that have a colon, up to the empty line.\<close>

fun raw_fields :: "string list \<Rightarrow> (string \<times> string) list" where
  "raw_fields [] = []"
| "raw_fields (line # ls) =
     (if line = [] \<or> line = [CHR 13] then []
      else (case split_once (CHR '':'') line of
          Some (name, v) \<Rightarrow> (trim name, trim v) # raw_fields ls
        | None \<Rightarrow> raw_fields ls))"

text \<open>The values of a header, whose name is given in lower case.\<close>

definition field_values :: "string \<Rightarrow> (string \<times> string) list \<Rightarrow> string list" where
  "field_values n fds = map snd (filter (\<lambda>(k, _). to_ascii_lowercase k = n) fds)"

lemma field_values_Cons:
  "field_values n ((k, v) # fs) = (if to_ascii_lowercase k = n then v # field_values n fs else field_values n fs)"
  by (simp add: field_values_def)

lemma field_values_Nil [simp]: "field_values n [] = []"
  by (simp add: field_values_def)

lemma ws_lines_fields: "ws_lines ls f = foldl (\<lambda>f (n, v). ws_header f n v) f (raw_fields ls)"
  by (induction ls arbitrary: f) (simp_all split: option.split)

text \<open>Of a header that occurs several times the last one decides.\<close>

definition last_value :: "(string \<Rightarrow> bool) \<Rightarrow> bool \<Rightarrow> string list \<Rightarrow> bool" where
  "last_value P b vs = (if vs = [] then b else P (last vs))"

lemma last_value_simps [simp]:
  "last_value P b [] = b"
  "last_value P b (v # vs) = last_value P (P v) vs"
  by (simp_all add: last_value_def)

definition has_upgrade_token :: "string \<Rightarrow> bool" where
  "has_upgrade_token v \<longleftrightarrow> list_ex (\<lambda>part. eq_ignore_ascii_case (trim part) ''upgrade'') (split_on (CHR '','') v)"

lemma lower_ws_names:
  "to_ascii_lowercase ''connection'' = ''connection''" "to_ascii_lowercase ''upgrade'' = ''upgrade''"
  "to_ascii_lowercase ''sec-websocket-version'' = ''sec-websocket-version''"
  "to_ascii_lowercase ''sec-websocket-key'' = ''sec-websocket-key''"
  by code_simp+

lemma ws_fold:
  "foldl (\<lambda>f (n, v). ws_header f n v) f fs = \<lparr>
     wf_connection_upgrade = last_value has_upgrade_token (wf_connection_upgrade f) (field_values ''connection'' fs),
     wf_upgrade_websocket = last_value (\<lambda>v. eq_ignore_ascii_case v ''websocket'') (wf_upgrade_websocket f)
       (field_values ''upgrade'' fs),
     wf_ws_version = (wf_ws_version f \<or> field_values ''sec-websocket-version'' fs \<noteq> []),
     wf_ws_key = (wf_ws_key f \<or> field_values ''sec-websocket-key'' fs \<noteq> [])\<rparr>"
proof (induction fs arbitrary: f)
  case (Cons x fs)
  obtain n v where x: "x = (n, v)" by fastforce
  show ?case
    using Cons.IH [of "ws_header f n v"]
    by (simp add: x field_values_Cons ws_header_def eq_ignore_ascii_case_def lower_ws_names
        has_upgrade_token_def)
qed simp

lemma last_value_single: "length vs \<le> 1 \<Longrightarrow> last_value P False vs \<longleftrightarrow> (\<exists>v. vs = [v] \<and> P v)"
  by (cases vs) auto

text \<open>
  A parsed request has the fields of a raw head: for each of the four headers the values in the
  order of the head, as readable text.
\<close>

definition parsed_from :: "('u, 'h) http \<Rightarrow> (string \<times> string) list \<Rightarrow> ('u, 'h) HttpRequest \<Rightarrow> bool" where
  "parsed_from ht fds req \<longleftrightarrow>
     list_all (\<lambda>n. hm_get_all ht (hq_headers req) n = field_values n fds \<and>
         list_all (\<lambda>v. value_to_str ht v = Some v) (field_values n fds))
       [''connection'', ''upgrade'', ''sec-websocket-version'', ''sec-websocket-key'']"

text \<open>C34: the raw check is the check on headers. When the bytes are UTF-8, the parsed request has the
  fields of their lines, and \<open>Connection\<close> and \<open>Upgrade\<close> occur at most once each, the check on the raw
  bytes gives what the check on the parsed request gives. (Of repeated headers the raw check
  reads the last one, the other the first.)\<close>

theorem raw_upgrade_check_agrees:
  assumes "from_utf8 raw = Some t" and "parsed_from ht (raw_fields (drop 1 (lines t))) req"
    and "length (field_values ''connection'' (raw_fields (drop 1 (lines t)))) \<le> 1"
    and "length (field_values ''upgrade'' (raw_fields (drop 1 (lines t)))) \<le> 1"
  shows "is_raw_websocket_upgrade raw \<longleftrightarrow> is_websocket_upgrade ht req"
proof -
  let ?fs = "raw_fields (drop 1 (lines t))"
  have single: "(case Option.bind (hm_get ht (hq_headers req) n) (value_to_str ht) of Some v \<Rightarrow> P v | None \<Rightarrow> False) \<longleftrightarrow>
      last_value P False (field_values n ?fs)"
    if "hm_get_all ht (hq_headers req) n = field_values n ?fs"
      "list_all (\<lambda>v. value_to_str ht v = Some v) (field_values n ?fs)" "length (field_values n ?fs) \<le> 1" for n P
    using that by (cases "field_values n ?fs") (simp_all add: hm_get_def)
  have vals: "hm_get_all ht (hq_headers req) ''connection'' = field_values ''connection'' ?fs"
    "hm_get_all ht (hq_headers req) ''upgrade'' = field_values ''upgrade'' ?fs"
    "hm_get_all ht (hq_headers req) ''sec-websocket-version'' = field_values ''sec-websocket-version'' ?fs"
    "hm_get_all ht (hq_headers req) ''sec-websocket-key'' = field_values ''sec-websocket-key'' ?fs"
    "list_all (\<lambda>v. value_to_str ht v = Some v) (field_values ''connection'' ?fs)"
    "list_all (\<lambda>v. value_to_str ht v = Some v) (field_values ''upgrade'' ?fs)"
    using assms(2) by (simp_all add: parsed_from_def)
  note connection = single [OF vals(1,5) assms(3), of has_upgrade_token, unfolded has_upgrade_token_def [abs_def]]
  note upgrade = single [OF vals(2,6) assms(4), of "\<lambda>v. eq_ignore_ascii_case v ''websocket''"]
  show ?thesis
    unfolding is_raw_websocket_upgrade_def assms(1) option.case ws_lines_fields ws_fold is_websocket_upgrade_def
      Let_def CONNECTION_def connection upgrade hm_contains_key_def vals has_upgrade_token_def [abs_def]
    by simp
qed

text \<open>A head with the four headers, one of them a list and none spelled in lower case.\<close>

definition demo_ws_head :: string where
  "demo_ws_head = ''GET / HTTP/1.1'' @ [CHR 13, CHR 10] @ ''Connection: keep-alive, Upgrade'' @ [CHR 13, CHR 10] @
     ''Upgrade: WebSocket'' @ [CHR 13, CHR 10] @ ''Sec-WebSocket-Version: 13'' @ [CHR 13, CHR 10] @
     ''Sec-WebSocket-Key: abc'' @ [CHR 13, CHR 10] @ [CHR 13, CHR 10]"

definition demo_ws_request :: "(string \<times> string option, (string \<times> string) list) HttpRequest" where
  "demo_ws_request = \<lparr>hq_method = ''GET'', hq_uri = (''/'', None), hq_version = ''HTTP/1.1'',
     hq_headers = [(''connection'', ''keep-alive, Upgrade''), (''upgrade'', ''WebSocket''),
       (''sec-websocket-version'', ''13''), (''sec-websocket-key'', ''abc'')], hq_body = PayloadNone\<rparr>"

lemma demo_ws_fields:
  "raw_fields (drop 1 (lines demo_ws_head)) = [(''Connection'', ''keep-alive, Upgrade''), (''Upgrade'', ''WebSocket''),
     (''Sec-WebSocket-Version'', ''13''), (''Sec-WebSocket-Key'', ''abc'')]"
  by code_simp

lemma demo_ws_utf8: "from_utf8 demo_ws_head = Some demo_ws_head"
  by (simp add: from_utf8_def utf8_valid_ascii is_ascii_def demo_ws_head_def byte_def del: utf8_valid.simps)

lemma demo_ws_names:
  "to_ascii_lowercase ''Connection'' = ''connection''" "to_ascii_lowercase ''Upgrade'' = ''upgrade''"
  "to_ascii_lowercase ''Sec-WebSocket-Version'' = ''sec-websocket-version''"
  "to_ascii_lowercase ''Sec-WebSocket-Key'' = ''sec-websocket-key''"
  by code_simp+

lemma demo_ws_parsed:
  "parsed_from demo_http (raw_fields (drop 1 (lines demo_ws_head))) demo_ws_request"
  "length (field_values ''connection'' (raw_fields (drop 1 (lines demo_ws_head)))) \<le> 1"
  "length (field_values ''upgrade'' (raw_fields (drop 1 (lines demo_ws_head)))) \<le> 1"
  unfolding demo_ws_fields
  by (simp_all add: parsed_from_def field_values_Cons demo_ws_names demo_http_def demo_ws_request_def)

lemma demo_ws_upgrade: "is_websocket_upgrade demo_http demo_ws_request"
proof -
  have "has_upgrade_token ''keep-alive, Upgrade''" "eq_ignore_ascii_case ''WebSocket'' ''websocket''" by code_simp+
  then show ?thesis
    by (simp add: is_websocket_upgrade_def hm_get_def hm_contains_key_def CONNECTION_def demo_http_def
        demo_ws_request_def has_upgrade_token_def)
qed

theorem raw_upgrade_check_agrees_witness: "is_raw_websocket_upgrade demo_ws_head"
  using raw_upgrade_check_agrees [OF demo_ws_utf8 demo_ws_parsed] demo_ws_upgrade by simp

end
