(* ===== verification/Kube.thy ===== *)
theory Kube
  imports RustStr
begin

text \<open>
  The Kubernetes and Gateway API objects, with the fields that \<open>crates/controlplane\<close> reads or
  writes; a field the sources leave to \<open>Default\<close> and never read is not represented. The
  Gateway API types follow the custom resource definitions under \<open>.crds/v1.2.1\<close>, from which
  the bindings are generated. \<open>name_any\<close> is the accessor of \<open>kube::ResourceExt\<close>: the name,
  else the \<open>generateName\<close> prefix, else the empty string.
\<close>

section \<open>Metadata and conditions\<close>

type_synonym timestamp = int
type_synonym namespaced = "string \<times> string"

record OwnerReference =
  or_api_version :: string
  or_kind :: string
  or_name :: string
  or_uid :: string
  or_controller :: "bool option"
  or_block_owner_deletion :: "bool option"

record ObjectMeta =
  om_name :: "string option"
  om_generate_name :: "string option"
  om_namespace :: "string option"
  om_uid :: "string option"
  om_generation :: "int option"
  om_resource_version :: "string option"
  om_labels :: "(string, string) btree option"
  om_owner_references :: "OwnerReference list option"

definition object_meta_default :: ObjectMeta where
  "object_meta_default = \<lparr>om_name = None, om_generate_name = None, om_namespace = None, om_uid = None,
     om_generation = None, om_resource_version = None, om_labels = None, om_owner_references = None\<rparr>"

definition unwrap_or :: "'a \<Rightarrow> 'a option \<Rightarrow> 'a" where
  "unwrap_or d x = (case x of Some v \<Rightarrow> v | None \<Rightarrow> d)"

lemma unwrap_or_simps [simp]: "unwrap_or d None = d" "unwrap_or d (Some v) = v"
  by (simp_all add: unwrap_or_def)

definition name_any :: "ObjectMeta \<Rightarrow> string" where
  "name_any m = (case om_name m of Some n \<Rightarrow> n | None \<Rightarrow> unwrap_or [] (om_generate_name m))"

definition namespace_or_default :: "ObjectMeta \<Rightarrow> string" where
  "namespace_or_default m = unwrap_or [] (om_namespace m)"

definition meta_key :: "ObjectMeta \<Rightarrow> namespaced" where
  "meta_key m = (namespace_or_default m, name_any m)"

record Condition =
  co_type :: string
  co_status :: string
  co_observed_generation :: "int option"
  co_last_transition_time :: timestamp
  co_reason :: string
  co_message :: string

section \<open>Gateway API objects\<close>

record ParametersRef =
  par_group :: string
  par_kind :: string
  par_name :: string

record GatewayClassStatus =
  gcs_conditions :: "Condition list option"

record GatewayClass =
  gc_metadata :: ObjectMeta
  gc_controller_name :: string
  gc_parameters_ref :: "ParametersRef option"
  gc_status :: "GatewayClassStatus option"

record SecretRef =
  sr_namespace :: "string option"
  sr_name :: string

datatype ListenerTlsMode = LtmTerminate | LtmPassthrough

record GatewayListenersTls =
  glt_mode :: "ListenerTlsMode option"
  glt_certificate_refs :: "SecretRef list option"

datatype NamespacesFrom = FromAll | FromSelector | FromSame

record LabelSelector =
  ls_match_labels :: "(string, string) btree option"

record RouteNamespaces =
  rn_from :: "NamespacesFrom option"
  rn_selector :: "LabelSelector option"

record AllowedRoutes =
  ar_namespaces :: "RouteNamespaces option"

record GatewayListeners =
  gl_name :: string
  gl_port :: i32
  gl_protocol :: string
  gl_hostname :: "string option"
  gl_tls :: "GatewayListenersTls option"
  gl_allowed_routes :: "AllowedRoutes option"

record GatewayAddress =
  ga_type :: "string option"
  ga_value :: string

record ListenerSupportedKind =
  sk_group :: "string option"
  sk_kind :: string

record GatewayStatusListeners =
  gsl_name :: string
  gsl_attached_routes :: i32
  gsl_supported_kinds :: "ListenerSupportedKind list"
  gsl_conditions :: "Condition list"

record GatewayStatus =
  gs_addresses :: "GatewayAddress list option"
  gs_conditions :: "Condition list option"
  gs_listeners :: "GatewayStatusListeners list option"

record Gateway =
  gw_metadata :: ObjectMeta
  gw_gateway_class_name :: string
  gw_listeners :: "GatewayListeners list"
  gw_addresses :: "GatewayAddress list option"

record ParentRef =
  pr_group :: "string option"
  pr_kind :: "string option"
  pr_name :: string
  pr_namespace :: "string option"
  pr_port :: "i32 option"
  pr_section_name :: "string option"

datatype HrPathType = HrPathExact | HrPathPrefix | HrPathRegularExpression
datatype HrMatchType = HrExact | HrRegularExpression
datatype HrMethod = HrGet | HrHead | HrPost | HrPut | HrDelete | HrConnect | HrOptions | HrTrace | HrPatch

record HrPathMatch =
  hrp_type :: "HrPathType option"
  hrp_value :: "string option"

record HrNamedMatch =
  hrn_name :: string
  hrn_type :: "HrMatchType option"
  hrn_value :: string

record HttpRouteMatch =
  hrm_path :: "HrPathMatch option"
  hrm_headers :: "HrNamedMatch list option"
  hrm_query_params :: "HrNamedMatch list option"
  hrm_method :: "HrMethod option"

record HrHeader =
  hrh_name :: string
  hrh_value :: string

record HrHeaderModifier =
  hhm_add :: "HrHeader list option"
  hhm_set :: "HrHeader list option"
  hhm_remove :: "string list option"

datatype HrPathModifierType = HrReplaceFullPath | HrReplacePrefixMatch
datatype HrScheme = HrHttp | HrHttps

record HrPathModifier =
  hpm_type :: HrPathModifierType
  hpm_replace_full_path :: "string option"
  hpm_replace_prefix_match :: "string option"

record HrRedirect =
  hrr_scheme :: "HrScheme option"
  hrr_hostname :: "string option"
  hrr_port :: "i32 option"
  hrr_path :: "HrPathModifier option"
  hrr_status_code :: "int option"

record HrUrlRewrite =
  hru_hostname :: "string option"
  hru_path :: "HrPathModifier option"

record HrMirrorBackendRef =
  hmb_name :: string
  hmb_namespace :: "string option"
  hmb_port :: "i32 option"

datatype HrFilterType =
    HrRequestHeaderModifier | HrResponseHeaderModifier | HrRequestMirror | HrRequestRedirect
  | HrUrlRewriteType | HrExtensionRef

record HttpRouteFilter =
  hrf_type :: HrFilterType
  hrf_request_header_modifier :: "HrHeaderModifier option"
  hrf_response_header_modifier :: "HrHeaderModifier option"
  hrf_request_redirect :: "HrRedirect option"
  hrf_url_rewrite :: "HrUrlRewrite option"
  hrf_request_mirror :: "HrMirrorBackendRef option"

record HttpRouteBackendRef =
  hrb_group :: "string option"
  hrb_kind :: "string option"
  hrb_name :: string
  hrb_namespace :: "string option"
  hrb_port :: "i32 option"
  hrb_weight :: "i32 option"

record HttpRouteTimeouts =
  hrt_request :: "string option"
  hrt_backend_request :: "string option"

record HttpRouteRule =
  hrl_matches :: "HttpRouteMatch list option"
  hrl_filters :: "HttpRouteFilter list option"
  hrl_backend_refs :: "HttpRouteBackendRef list option"
  hrl_timeouts :: "HttpRouteTimeouts option"

record HTTPRoute =
  hr_metadata :: ObjectMeta
  hr_parent_refs :: "ParentRef list option"
  hr_hostnames :: "string list option"
  hr_rules :: "HttpRouteRule list option"

record RouteParentStatus =
  rps_controller_name :: string
  rps_parent_ref :: ParentRef
  rps_conditions :: "Condition list option"

record HttpRouteStatus =
  hrs_parents :: "RouteParentStatus list"

record GrantFrom =
  gf_group :: string
  gf_kind :: string
  gf_namespace :: string

record GrantTo =
  gt_group :: string
  gt_kind :: string
  gt_name :: "string option"

record ReferenceGrant =
  rg_metadata :: ObjectMeta
  rg_from :: "GrantFrom list"
  rg_to :: "GrantTo list"

section \<open>Core objects\<close>

record LoadBalancerIngress =
  lb_ip :: "string option"
  lb_hostname :: "string option"

record ServicePort =
  sp_name :: "string option"
  sp_port :: i32
  sp_target_port :: "i32 option"
  sp_protocol :: "string option"

record ServiceSpec =
  ss_selector :: "(string, string) btree option"
  ss_ports :: "ServicePort list option"
  ss_type :: "string option"
  ss_cluster_ip :: "string option"

text \<open>The status keeps \<open>load_balancer.ingress\<close>, each level optional.\<close>

record Service =
  sv_metadata :: ObjectMeta
  sv_spec :: "ServiceSpec option"
  sv_load_balancer_ingress :: "LoadBalancerIngress list option option option"

record ConfigMap =
  cm_metadata :: ObjectMeta
  cm_data :: "(string, string) btree option"

record Secret =
  se_metadata :: ObjectMeta
  se_data :: "(string, string) btree option"

record ContainerPort =
  cp_name :: "string option"
  cp_container_port :: i32
  cp_host_port :: "i32 option"
  cp_protocol :: "string option"

record EnvVar =
  ev_name :: string
  ev_value :: "string option"

record Container =
  ct_name :: string
  ct_image :: "string option"
  ct_image_pull_policy :: "string option"
  ct_ports :: "ContainerPort list option"
  ct_env :: "EnvVar list option"
  ct_requests :: "(string, string) btree option"
  ct_limits :: "(string, string) btree option"

record DeploymentSpec =
  ds_replicas :: "i32 option"
  ds_selector_match_labels :: "(string, string) btree option"
  ds_template_labels :: "(string, string) btree option"
  ds_service_account_name :: "string option"
  ds_containers :: "Container list"

record Deployment =
  de_metadata :: ObjectMeta
  de_spec :: "DeploymentSpec option"

record ServiceAccount =
  sa_metadata :: ObjectMeta

record PolicyRule =
  po_api_groups :: "string list option"
  po_resources :: "string list option"
  po_verbs :: "string list"
  po_resource_names :: "string list option"

record Role =
  ro_metadata :: ObjectMeta
  ro_rules :: "PolicyRule list option"

record RoleRef =
  rf_api_group :: string
  rf_kind :: string
  rf_name :: string

record Subject =
  su_kind :: string
  su_name :: string
  su_namespace :: "string option"

record RoleBinding =
  rb_metadata :: ObjectMeta
  rb_role_ref :: RoleRef
  rb_subjects :: "Subject list option"

record NodeCondition =
  nc_type :: string
  nc_status :: string

record NodeAddress =
  na_type :: string
  na_address :: string

record NodeStatus =
  ns_conditions :: "NodeCondition list option"
  ns_addresses :: "NodeAddress list option"

record Node =
  no_metadata :: ObjectMeta
  no_status :: "NodeStatus option"

end
