(* ===== verification/CpConfig.thy ===== *)
theory CpConfig
  imports Kube
begin

text \<open>
  The control plane's half of the data contract, \<open>controller/config.rs\<close>: the types it writes
  into the ConfigMap, the names and labels of the data plane objects; and the controller's own
  configuration, \<open>controller/context.rs\<close>. Types that also exist in the data plane's crate carry
  the prefix \<open>Cp\<close>.
\<close>

section \<open>Constants\<close>

definition CONTROLLER_NAME :: string where
  "CONTROLLER_NAME = ''io.multiway/gateway-controller''"

definition MANAGED_BY_LABEL :: string where
  "MANAGED_BY_LABEL = ''app.kubernetes.io/managed-by''"

definition MANAGED_BY_VALUE :: string where
  "MANAGED_BY_VALUE = ''multiway-gateway-controller''"

definition GATEWAY_NAME_LABEL :: string where
  "GATEWAY_NAME_LABEL = ''gateway.networking.k8s.io/gateway-name''"

definition GATEWAY_NAMESPACE_LABEL :: string where
  "GATEWAY_NAMESPACE_LABEL = ''gateway.networking.k8s.io/gateway-namespace''"

definition CONFIG_KEY :: string where
  "CONFIG_KEY = ''config.json''"

section \<open>The configuration types\<close>

record CpGatewayRef =
  cgr_namespace :: string
  cgr_name :: string

datatype CpProtocol = CpHttp | CpHttps

definition protocol_from_str :: "string \<Rightarrow> CpProtocol option" where
  "protocol_from_str s =
     (if to_uppercase s = ''HTTP'' then Some CpHttp
      else if to_uppercase s = ''HTTPS'' then Some CpHttps
      else None)"

datatype CpTlsMode = CpTerminate | CpPassthrough

record CpCertificateRef =
  ccr_namespace :: string
  ccr_name :: string

record CpInlineCertificate =
  cic_cert_pem :: string
  cic_key_pem :: string
  cic_hostnames :: "string list"

record CpTlsConfig =
  ctl_mode :: CpTlsMode
  ctl_certificates :: "CpCertificateRef list"
  ctl_inline_certificates :: "CpInlineCertificate list"

record CpListenerConfig =
  clc_name :: string
  clc_port :: u16
  clc_protocol :: CpProtocol
  clc_hostname :: "string option"
  clc_tls :: "CpTlsConfig option"

definition cp_listener_http :: "string \<Rightarrow> u16 \<Rightarrow> string option \<Rightarrow> CpListenerConfig" where
  "cp_listener_http name port hostname =
     \<lparr>clc_name = name, clc_port = port, clc_protocol = CpHttp, clc_hostname = hostname, clc_tls = None\<rparr>"

definition cp_listener_https ::
  "string \<Rightarrow> u16 \<Rightarrow> string option \<Rightarrow> CpTlsConfig \<Rightarrow> CpListenerConfig" where
  "cp_listener_https name port hostname tls =
     \<lparr>clc_name = name, clc_port = port, clc_protocol = CpHttps, clc_hostname = hostname,
      clc_tls = Some tls\<rparr>"

datatype CpPathMatchType = CpPathExact | CpPathPrefix | CpPathRegularExpression

record CpPathMatch =
  cpm_match_type :: CpPathMatchType
  cpm_value :: string

definition cp_path_match_default :: CpPathMatch where
  "cp_path_match_default = \<lparr>cpm_match_type = CpPathPrefix, cpm_value = ''/''\<rparr>"

datatype CpHeaderMatchType = CpHeaderExact | CpHeaderRegularExpression

record CpHeaderMatch =
  chm_name :: string
  chm_match_type :: CpHeaderMatchType
  chm_value :: string

datatype CpQueryParamMatchType = CpQueryExact | CpQueryRegularExpression

record CpQueryParamMatch =
  cqm_name :: string
  cqm_match_type :: CpQueryParamMatchType
  cqm_value :: string

record CpRouteMatch =
  crm_path :: "CpPathMatch option"
  crm_headers :: "CpHeaderMatch list"
  crm_query_params :: "CpQueryParamMatch list"
  crm_method :: "string option"

definition cp_route_match_default :: CpRouteMatch where
  "cp_route_match_default =
     \<lparr>crm_path = None, crm_headers = [], crm_query_params = [], crm_method = None\<rparr>"

datatype CpBackendProtocol = CpHttp1 | CpH2c

record CpBackendRef =
  cbe_namespace :: string
  cbe_name :: string
  cbe_port :: u16
  cbe_weight :: u32
  cbe_protocol :: CpBackendProtocol

definition backend_ref_new :: "string \<Rightarrow> string \<Rightarrow> u16 \<Rightarrow> CpBackendRef" where
  "backend_ref_new namespace name port =
     \<lparr>cbe_namespace = namespace, cbe_name = name, cbe_port = port, cbe_weight = 1, cbe_protocol = CpHttp1\<rparr>"

definition backend_ref_with_weight :: "CpBackendRef \<Rightarrow> u32 \<Rightarrow> CpBackendRef" where
  "backend_ref_with_weight b weight = b\<lparr>cbe_weight := weight\<rparr>"

record CpHeaderValue =
  chv_name :: string
  chv_value :: string

datatype CpPathModifier = CpReplaceFullPath string | CpReplacePrefixMatch string

datatype CpRouteFilter =
    CpRequestHeaderModifier "CpHeaderValue list" "CpHeaderValue list" "string list"
  | CpResponseHeaderModifier "CpHeaderValue list" "CpHeaderValue list" "string list"
  | CpRequestRedirect "string option" "string option" "u16 option" "CpPathModifier option" "u16 option"
  | CpURLRewrite "string option" "CpPathModifier option"
  | CpRequestMirror CpBackendRef "u32 option"

record CpTimeoutConfig =
  cto_request :: "f64 option"
  cto_backend_request :: "f64 option"

record CpRouteRule =
  crr_name :: "string option"
  crr_matches :: "CpRouteMatch list"
  crr_filters :: "CpRouteFilter list"
  crr_backends :: "CpBackendRef list"
  crr_timeout :: "CpTimeoutConfig option"

definition cp_route_rule_default :: CpRouteRule where
  "cp_route_rule_default = \<lparr>crr_name = None, crr_matches = [cp_route_match_default], crr_filters = [],
     crr_backends = [], crr_timeout = None\<rparr>"

record CpRouteConfig =
  crc_name :: string
  crc_namespace :: string
  crc_hostnames :: "string list"
  crc_attached_listeners :: "string list"
  crc_rules :: "CpRouteRule list"

definition cp_route_config_new :: "string \<Rightarrow> string \<Rightarrow> CpRouteConfig" where
  "cp_route_config_new namespace name = \<lparr>crc_name = name, crc_namespace = namespace,
     crc_hostnames = [], crc_attached_listeners = [], crc_rules = []\<rparr>"

record CpGatewayConfig =
  cgc_version :: string
  cgc_gateway :: CpGatewayRef
  cgc_listeners :: "CpListenerConfig list"
  cgc_routes :: "CpRouteConfig list"

definition gateway_config_default :: CpGatewayConfig where
  "gateway_config_default = \<lparr>cgc_version = ''v1'', cgc_gateway = \<lparr>cgr_namespace = [], cgr_name = []\<rparr>,
     cgc_listeners = [], cgc_routes = []\<rparr>"

definition gateway_config_new :: "string \<Rightarrow> string \<Rightarrow> CpGatewayConfig" where
  "gateway_config_new gateway_namespace gateway_name = \<lparr>cgc_version = ''v1'',
     cgc_gateway = \<lparr>cgr_namespace = gateway_namespace, cgr_name = gateway_name\<rparr>,
     cgc_listeners = [], cgc_routes = []\<rparr>"

definition add_listener :: "CpGatewayConfig \<Rightarrow> CpListenerConfig \<Rightarrow> CpGatewayConfig" where
  "add_listener c listener = c\<lparr>cgc_listeners := cgc_listeners c @ [listener]\<rparr>"

definition add_route :: "CpGatewayConfig \<Rightarrow> CpRouteConfig \<Rightarrow> CpGatewayConfig" where
  "add_route c r = c\<lparr>cgc_routes := cgc_routes c @ [r]\<rparr>"

definition cp_routes_for_listener :: "CpGatewayConfig \<Rightarrow> string \<Rightarrow> CpRouteConfig list" where
  "cp_routes_for_listener c listener_name =
     filter (\<lambda>r. listener_name \<in> set (crc_attached_listeners r)) (cgc_routes c)"

lemma add_listener_simps [simp]:
  "cgc_listeners (add_listener c l) = cgc_listeners c @ [l]" "cgc_routes (add_listener c l) = cgc_routes c"
  "cgc_gateway (add_listener c l) = cgc_gateway c" "cgc_version (add_listener c l) = cgc_version c"
  by (simp_all add: add_listener_def)

lemma add_route_simps [simp]:
  "cgc_routes (add_route c r) = cgc_routes c @ [r]" "cgc_listeners (add_route c r) = cgc_listeners c"
  "cgc_gateway (add_route c r) = cgc_gateway c" "cgc_version (add_route c r) = cgc_version c"
  by (simp_all add: add_route_def)

section \<open>Names and labels of the data plane\<close>

record DataPlaneNames =
  dn_gateway_namespace :: string
  dn_gateway_name :: string

definition data_plane_names_new :: "string \<Rightarrow> string \<Rightarrow> DataPlaneNames" where
  "data_plane_names_new ns name = \<lparr>dn_gateway_namespace = ns, dn_gateway_name = name\<rparr>"

definition deployment_name :: "DataPlaneNames \<Rightarrow> string" where
  "deployment_name n = ''multiway-dp-'' @ dn_gateway_name n"

definition service_name :: "DataPlaneNames \<Rightarrow> string" where
  "service_name n = ''multiway-dp-'' @ dn_gateway_name n"

definition configmap_name :: "DataPlaneNames \<Rightarrow> string" where
  "configmap_name n = ''multiway-config-'' @ dn_gateway_name n"

definition serviceaccount_name :: "DataPlaneNames \<Rightarrow> string" where
  "serviceaccount_name n = ''multiway-dp-'' @ dn_gateway_name n"

definition role_name :: "DataPlaneNames \<Rightarrow> string" where
  "role_name n = ''multiway-dp-'' @ dn_gateway_name n"

definition rolebinding_name :: "DataPlaneNames \<Rightarrow> string" where
  "rolebinding_name n = ''multiway-dp-'' @ dn_gateway_name n"

definition dp_namespace :: "DataPlaneNames \<Rightarrow> string" where
  "dp_namespace n = dn_gateway_namespace n"

definition labels :: "DataPlaneNames \<Rightarrow> (string, string) btree" where
  "labels n =
     bt_insert ''app.kubernetes.io/name'' ''multiway''
     (bt_insert ''app.kubernetes.io/component'' ''dataplane''
     (bt_insert GATEWAY_NAMESPACE_LABEL (dn_gateway_namespace n)
     (bt_insert GATEWAY_NAME_LABEL (dn_gateway_name n)
     (bt_insert MANAGED_BY_LABEL MANAGED_BY_VALUE []))))"

definition selector_labels :: "DataPlaneNames \<Rightarrow> (string, string) btree" where
  "selector_labels n =
     bt_insert ''app.kubernetes.io/component'' ''dataplane''
     (bt_insert GATEWAY_NAMESPACE_LABEL (dn_gateway_namespace n)
     (bt_insert GATEWAY_NAME_LABEL (dn_gateway_name n) []))"

lemmas label_defs = MANAGED_BY_LABEL_def MANAGED_BY_VALUE_def GATEWAY_NAME_LABEL_def
  GATEWAY_NAMESPACE_LABEL_def

lemma label_keys_distinct [simp]:
  "GATEWAY_NAME_LABEL \<noteq> GATEWAY_NAMESPACE_LABEL" "GATEWAY_NAMESPACE_LABEL \<noteq> GATEWAY_NAME_LABEL"
  "GATEWAY_NAME_LABEL \<noteq> MANAGED_BY_LABEL" "GATEWAY_NAMESPACE_LABEL \<noteq> MANAGED_BY_LABEL"
  "GATEWAY_NAME_LABEL \<noteq> ''app.kubernetes.io/component''"
  "GATEWAY_NAMESPACE_LABEL \<noteq> ''app.kubernetes.io/component''"
  "GATEWAY_NAME_LABEL \<noteq> ''app.kubernetes.io/name''"
  "GATEWAY_NAMESPACE_LABEL \<noteq> ''app.kubernetes.io/name''"
  "MANAGED_BY_LABEL \<noteq> ''app.kubernetes.io/component''"
  "MANAGED_BY_LABEL \<noteq> ''app.kubernetes.io/name''"
  by (simp_all add: label_defs)

lemma selector_labels_get:
  "bt_get k (selector_labels n) =
     (if k = ''app.kubernetes.io/component'' then Some ''dataplane''
      else if k = GATEWAY_NAMESPACE_LABEL then Some (dn_gateway_namespace n)
      else if k = GATEWAY_NAME_LABEL then Some (dn_gateway_name n) else None)"
  by (simp add: selector_labels_def bt_get_insert del: bt_insert.simps)

lemma labels_get:
  "bt_get k (labels n) =
     (if k = ''app.kubernetes.io/name'' then Some ''multiway''
      else if k = ''app.kubernetes.io/component'' then Some ''dataplane''
      else if k = GATEWAY_NAMESPACE_LABEL then Some (dn_gateway_namespace n)
      else if k = GATEWAY_NAME_LABEL then Some (dn_gateway_name n)
      else if k = MANAGED_BY_LABEL then Some MANAGED_BY_VALUE else None)"
  by (simp add: labels_def bt_get_insert del: bt_insert.simps)

lemma wf_labels: "bt_wf (labels n)"
  by (simp add: labels_def del: bt_insert.simps)

lemma wf_selector_labels: "bt_wf (selector_labels n)"
  by (simp add: selector_labels_def del: bt_insert.simps)

section \<open>The controller's configuration\<close>

record ResourceConfig =
  rs_cpu :: string
  rs_memory :: string

definition resource_config_default :: ResourceConfig where
  "resource_config_default = \<lparr>rs_cpu = ''100m'', rs_memory = ''128Mi''\<rparr>"

record ControllerConfig =
  cc_dataplane_image :: string
  cc_image_pull_policy :: string
  cc_default_replicas :: i32
  cc_resource_requests :: ResourceConfig
  cc_resource_limits :: ResourceConfig
  cc_requeue_after_secs :: nat
  cc_error_requeue_secs :: nat
  cc_leader_election :: bool
  cc_watch_namespace :: "string option"

definition controller_config_default :: ControllerConfig where
  "controller_config_default = \<lparr>
     cc_dataplane_image = ''ghcr.io/wack/multiway-dataplane:latest'',
     cc_image_pull_policy = ''IfNotPresent'', cc_default_replicas = 1,
     cc_resource_requests = \<lparr>rs_cpu = ''100m'', rs_memory = ''128Mi''\<rparr>,
     cc_resource_limits = \<lparr>rs_cpu = ''500m'', rs_memory = ''256Mi''\<rparr>,
     cc_requeue_after_secs = 300, cc_error_requeue_secs = 5, cc_leader_election = False,
     cc_watch_namespace = None\<rparr>"

text \<open>The builder is the configuration it builds; it starts from the default one.\<close>

definition controller_config_builder :: ControllerConfig where
  "controller_config_builder = controller_config_default"

definition ccb_build :: "ControllerConfig \<Rightarrow> ControllerConfig" where
  "ccb_build b = b"

definition ccb_dataplane_image :: "ControllerConfig \<Rightarrow> string \<Rightarrow> ControllerConfig" where
  "ccb_dataplane_image c img = c\<lparr>cc_dataplane_image := img\<rparr>"

definition ccb_image_pull_policy :: "ControllerConfig \<Rightarrow> string \<Rightarrow> ControllerConfig" where
  "ccb_image_pull_policy c policy = c\<lparr>cc_image_pull_policy := policy\<rparr>"

definition ccb_default_replicas :: "ControllerConfig \<Rightarrow> i32 \<Rightarrow> ControllerConfig" where
  "ccb_default_replicas c replicas = c\<lparr>cc_default_replicas := replicas\<rparr>"

definition ccb_resource_requests :: "ControllerConfig \<Rightarrow> string \<Rightarrow> string \<Rightarrow> ControllerConfig" where
  "ccb_resource_requests c cpu memory = c\<lparr>cc_resource_requests := \<lparr>rs_cpu = cpu, rs_memory = memory\<rparr>\<rparr>"

definition ccb_resource_limits :: "ControllerConfig \<Rightarrow> string \<Rightarrow> string \<Rightarrow> ControllerConfig" where
  "ccb_resource_limits c cpu memory = c\<lparr>cc_resource_limits := \<lparr>rs_cpu = cpu, rs_memory = memory\<rparr>\<rparr>"

definition ccb_requeue_after_secs :: "ControllerConfig \<Rightarrow> nat \<Rightarrow> ControllerConfig" where
  "ccb_requeue_after_secs c secs = c\<lparr>cc_requeue_after_secs := secs\<rparr>"

definition ccb_error_requeue_secs :: "ControllerConfig \<Rightarrow> nat \<Rightarrow> ControllerConfig" where
  "ccb_error_requeue_secs c secs = c\<lparr>cc_error_requeue_secs := secs\<rparr>"

definition ccb_leader_election :: "ControllerConfig \<Rightarrow> bool \<Rightarrow> ControllerConfig" where
  "ccb_leader_election c enabled = c\<lparr>cc_leader_election := enabled\<rparr>"

definition ccb_watch_namespace :: "ControllerConfig \<Rightarrow> string option \<Rightarrow> ControllerConfig" where
  "ccb_watch_namespace c ns = c\<lparr>cc_watch_namespace := ns\<rparr>"

text \<open>The labels tie a gateway to its pods. Two gateways have the same selector labels only
  if they are the same gateway, and every selector label is among the labels put on the pods,
  so that the Deployment and the Service select exactly their own gateway's pods.\<close>

theorem selector_labels_identify_gateway:
  "(selector_labels n = selector_labels m \<longleftrightarrow>
      dn_gateway_namespace n = dn_gateway_namespace m \<and> dn_gateway_name n = dn_gateway_name m) \<and>
   set (selector_labels n) \<subseteq> set (labels n)"
proof -
  have name: "dn_gateway_name n = dn_gateway_name m"
    and ns: "dn_gateway_namespace n = dn_gateway_namespace m"
    if "selector_labels n = selector_labels m"
    using arg_cong [OF that, of "bt_get GATEWAY_NAME_LABEL"]
      arg_cong [OF that, of "bt_get GATEWAY_NAMESPACE_LABEL"]
    by (simp_all add: selector_labels_get)
  have conv: "selector_labels n = selector_labels m"
    if "dn_gateway_namespace n = dn_gateway_namespace m" "dn_gateway_name n = dn_gateway_name m"
    by (simp only: selector_labels_def that)
  have "bt_get k (labels n) = Some v" if "bt_get k (selector_labels n) = Some v" for k v
    using that by (simp add: selector_labels_get labels_get label_keys_distinct [THEN not_sym] split: if_splits)
  then have "x \<in> set (labels n)" if "x \<in> set (selector_labels n)" for x
    using that by (cases x) (simp flip: bt_get_mem [OF wf_selector_labels] bt_get_mem [OF wf_labels])
  with name ns conv show ?thesis by blast
qed

end
