(* ===== verification/Snapshot.thy ===== *)
theory Snapshot
  imports CpConfig
begin

text \<open>
  The snapshot of the cluster that the reconciliation core reads,
  \<open>crates/controlplane/src/core/snapshot.rs\<close>: the state, its queries and its builder. The
  contract of the builder towards the queries is the locale \<open>resource_store\<close>, interpreted for
  every kind of resource.
\<close>

section \<open>The snapshot and its builder\<close>

record WorldSnapshot =
  ws_now :: timestamp
  ws_gateway_classes :: "(string, GatewayClass) btree"
  ws_gateways :: "(namespaced, Gateway) btree"
  ws_httproutes :: "(namespaced, HTTPRoute) btree"
  ws_services :: "(namespaced, Service) btree"
  ws_configmaps :: "(namespaced, ConfigMap) btree"
  ws_deployments :: "(namespaced, Deployment) btree"
  ws_secrets :: "(namespaced, Secret) btree"
  ws_reference_grants :: "(namespaced, ReferenceGrant) btree"
  ws_nodes :: "(string, Node) btree"

definition snapshot_new :: "timestamp \<Rightarrow> WorldSnapshot" where
  "snapshot_new now = \<lparr>ws_now = now, ws_gateway_classes = [], ws_gateways = [], ws_httproutes = [],
     ws_services = [], ws_configmaps = [], ws_deployments = [], ws_secrets = [],
     ws_reference_grants = [], ws_nodes = []\<rparr>"

definition at_time :: "timestamp \<Rightarrow> WorldSnapshot \<Rightarrow> WorldSnapshot" where
  "at_time time s = s\<lparr>ws_now := time\<rparr>"

definition with_gateway_class :: "GatewayClass \<Rightarrow> WorldSnapshot \<Rightarrow> WorldSnapshot" where
  "with_gateway_class gc s =
     s\<lparr>ws_gateway_classes := bt_insert (name_any (gc_metadata gc)) gc (ws_gateway_classes s)\<rparr>"

definition with_gateway :: "Gateway \<Rightarrow> WorldSnapshot \<Rightarrow> WorldSnapshot" where
  "with_gateway gw s = s\<lparr>ws_gateways := bt_insert (meta_key (gw_metadata gw)) gw (ws_gateways s)\<rparr>"

definition with_httproute :: "HTTPRoute \<Rightarrow> WorldSnapshot \<Rightarrow> WorldSnapshot" where
  "with_httproute r s = s\<lparr>ws_httproutes := bt_insert (meta_key (hr_metadata r)) r (ws_httproutes s)\<rparr>"

definition with_service :: "Service \<Rightarrow> WorldSnapshot \<Rightarrow> WorldSnapshot" where
  "with_service svc s = s\<lparr>ws_services := bt_insert (meta_key (sv_metadata svc)) svc (ws_services s)\<rparr>"

definition with_configmap :: "ConfigMap \<Rightarrow> WorldSnapshot \<Rightarrow> WorldSnapshot" where
  "with_configmap cm s = s\<lparr>ws_configmaps := bt_insert (meta_key (cm_metadata cm)) cm (ws_configmaps s)\<rparr>"

definition with_deployment :: "Deployment \<Rightarrow> WorldSnapshot \<Rightarrow> WorldSnapshot" where
  "with_deployment d s = s\<lparr>ws_deployments := bt_insert (meta_key (de_metadata d)) d (ws_deployments s)\<rparr>"

definition with_secret :: "Secret \<Rightarrow> WorldSnapshot \<Rightarrow> WorldSnapshot" where
  "with_secret sec s = s\<lparr>ws_secrets := bt_insert (meta_key (se_metadata sec)) sec (ws_secrets s)\<rparr>"

definition with_reference_grant :: "ReferenceGrant \<Rightarrow> WorldSnapshot \<Rightarrow> WorldSnapshot" where
  "with_reference_grant g s =
     s\<lparr>ws_reference_grants := bt_insert (meta_key (rg_metadata g)) g (ws_reference_grants s)\<rparr>"

definition with_node :: "Node \<Rightarrow> WorldSnapshot \<Rightarrow> WorldSnapshot" where
  "with_node n s = s\<lparr>ws_nodes := bt_insert (name_any (no_metadata n)) n (ws_nodes s)\<rparr>"

section \<open>Queries\<close>

definition get_gateway_class :: "WorldSnapshot \<Rightarrow> string \<Rightarrow> GatewayClass option" where
  "get_gateway_class s name = bt_get name (ws_gateway_classes s)"

definition get_gateway :: "WorldSnapshot \<Rightarrow> string \<Rightarrow> string \<Rightarrow> Gateway option" where
  "get_gateway s namespace name = bt_get (namespace, name) (ws_gateways s)"

definition get_httproute :: "WorldSnapshot \<Rightarrow> string \<Rightarrow> string \<Rightarrow> HTTPRoute option" where
  "get_httproute s namespace name = bt_get (namespace, name) (ws_httproutes s)"

definition get_service :: "WorldSnapshot \<Rightarrow> string \<Rightarrow> string \<Rightarrow> Service option" where
  "get_service s namespace name = bt_get (namespace, name) (ws_services s)"

definition get_configmap :: "WorldSnapshot \<Rightarrow> string \<Rightarrow> string \<Rightarrow> ConfigMap option" where
  "get_configmap s namespace name = bt_get (namespace, name) (ws_configmaps s)"

definition get_deployment :: "WorldSnapshot \<Rightarrow> string \<Rightarrow> string \<Rightarrow> Deployment option" where
  "get_deployment s namespace name = bt_get (namespace, name) (ws_deployments s)"

definition get_secret :: "WorldSnapshot \<Rightarrow> string \<Rightarrow> string \<Rightarrow> Secret option" where
  "get_secret s namespace name = bt_get (namespace, name) (ws_secrets s)"

definition parent_is :: "HTTPRoute \<Rightarrow> string \<Rightarrow> string \<Rightarrow> ParentRef \<Rightarrow> bool" where
  "parent_is r gateway_ns gateway_name p \<longleftrightarrow>
     unwrap_or (namespace_or_default (hr_metadata r)) (pr_namespace p) = gateway_ns \<and>
     pr_name p = gateway_name"

definition references_gateway :: "string \<Rightarrow> string \<Rightarrow> HTTPRoute \<Rightarrow> bool" where
  "references_gateway gateway_ns gateway_name r =
     (case hr_parent_refs r of
        None \<Rightarrow> False
      | Some refs \<Rightarrow> list_ex (parent_is r gateway_ns gateway_name) refs)"

definition routes_for_gateway :: "WorldSnapshot \<Rightarrow> string \<Rightarrow> string \<Rightarrow> HTTPRoute list" where
  "routes_for_gateway s gateway_ns gateway_name =
     filter (references_gateway gateway_ns gateway_name) (bt_values (ws_httproutes s))"

definition gateways_for_class :: "WorldSnapshot \<Rightarrow> string \<Rightarrow> Gateway list" where
  "gateways_for_class s class_name =
     filter (\<lambda>gw. gw_gateway_class_name gw = class_name) (bt_values (ws_gateways s))"

definition service_exists :: "WorldSnapshot \<Rightarrow> string \<Rightarrow> string \<Rightarrow> bool" where
  "service_exists s namespace name = bt_contains (namespace, name) (ws_services s)"

definition secret_exists :: "WorldSnapshot \<Rightarrow> string \<Rightarrow> string \<Rightarrow> bool" where
  "secret_exists s namespace name = bt_contains (namespace, name) (ws_secrets s)"

definition is_reference_allowed ::
  "WorldSnapshot \<Rightarrow> string \<Rightarrow> string \<Rightarrow> string \<Rightarrow> string \<Rightarrow> string \<Rightarrow> string \<Rightarrow> bool" where
  "is_reference_allowed s from_ns from_group from_kind to_ns to_group to_kind =
     list_ex (\<lambda>grant.
         list_ex (\<lambda>f. gf_namespace f = from_ns \<and> gf_group f = from_group \<and> gf_kind f = from_kind)
           (rg_from grant) \<and>
         list_ex (\<lambda>t. gt_group t = to_group \<and> gt_kind t = to_kind) (rg_to grant))
       (filter (\<lambda>grant. om_namespace (rg_metadata grant) = Some to_ns)
         (bt_values (ws_reference_grants s)))"

definition is_gateway_reference_allowed :: "WorldSnapshot \<Rightarrow> string \<Rightarrow> string \<Rightarrow> bool" where
  "is_gateway_reference_allowed s from_ns to_ns =
     is_reference_allowed s from_ns ''gateway.networking.k8s.io'' ''HTTPRoute'' to_ns
       ''gateway.networking.k8s.io'' ''Gateway''"

definition is_service_reference_allowed :: "WorldSnapshot \<Rightarrow> string \<Rightarrow> string \<Rightarrow> bool" where
  "is_service_reference_allowed s from_ns to_ns =
     is_reference_allowed s from_ns ''gateway.networking.k8s.io'' ''HTTPRoute'' to_ns [] ''Service''"

definition is_secret_reference_allowed :: "WorldSnapshot \<Rightarrow> string \<Rightarrow> string \<Rightarrow> bool" where
  "is_secret_reference_allowed s gateway_ns secret_ns =
     is_reference_allowed s gateway_ns ''gateway.networking.k8s.io'' ''Gateway'' secret_ns [] ''Secret''"

definition node_is_ready :: "Node \<Rightarrow> bool" where
  "node_is_ready node =
     (case no_status node of
        None \<Rightarrow> False
      | Some st \<Rightarrow> (case ns_conditions st of
          None \<Rightarrow> False
        | Some conditions \<Rightarrow> list_ex (\<lambda>c. nc_type c = ''Ready'' \<and> nc_status c = ''True'') conditions))"

definition node_internal_ip :: "Node \<Rightarrow> string option" where
  "node_internal_ip node =
     (case no_status node of
        None \<Rightarrow> None
      | Some st \<Rightarrow> (case ns_addresses st of
          None \<Rightarrow> None
        | Some addresses \<Rightarrow> map_option na_address (find (\<lambda>a. na_type a = ''InternalIP'') addresses)))"

fun first_node_ip :: "Node list \<Rightarrow> string option" where
  "first_node_ip [] = None"
| "first_node_ip (node # nodes) =
     (if \<not> node_is_ready node then first_node_ip nodes
      else (case node_internal_ip node of Some ip \<Rightarrow> Some ip | None \<Rightarrow> first_node_ip nodes))"

definition get_node_internal_ip :: "WorldSnapshot \<Rightarrow> string option" where
  "get_node_internal_ip s = first_node_ip (bt_values (ws_nodes s))"

section \<open>The builder's contract\<close>

locale resource_store =
  fixes look :: "'s \<Rightarrow> 'k \<Rightarrow> 'v option"
    and put :: "'v \<Rightarrow> 's \<Rightarrow> 's"
    and key :: "'v \<Rightarrow> 'k"
  assumes look_put: "look (put v s) k = (if k = key v then Some v else look s k)"
begin

lemma look_put_same: "look (put v s) (key v) = Some v"
  by (simp add: look_put)

lemma look_fold:
  "look (fold put vs s) k =
     (case find (\<lambda>v. key v = k) (rev vs) of Some v \<Rightarrow> Some v | None \<Rightarrow> look s k)"
proof (induction vs rule: rev_induct)
  case (snoc v vs)
  then show ?case by (auto simp: look_put)
qed simp

lemma look_fold_cases:
  "look (fold put vs s) k = Some v \<Longrightarrow> (v \<in> set vs \<and> key v = k) \<or> look s k = Some v"
  by (auto simp: look_fold split: option.splits dest: find_Some_set)

lemma look_fold_keeps:
  "v \<in> set vs \<Longrightarrow> look (fold put vs s) (key v) \<noteq> None"
  by (auto simp: look_fold find_eq_None_iff split: option.split)

end

lemmas with_defs = with_gateway_class_def with_gateway_def with_httproute_def with_service_def
  with_configmap_def with_deployment_def with_secret_def with_reference_grant_def with_node_def

lemmas get_defs = get_gateway_class_def get_gateway_def get_httproute_def get_service_def
  get_configmap_def get_deployment_def get_secret_def service_exists_def secret_exists_def

interpretation gc_store: resource_store get_gateway_class with_gateway_class "\<lambda>v. name_any (gc_metadata v)"
  by unfold_locales (simp add: with_defs get_defs bt_get_insert)

interpretation gw_store: resource_store "\<lambda>s (ns, n). get_gateway s ns n" with_gateway
    "\<lambda>v. meta_key (gw_metadata v)"
  by unfold_locales (auto simp: with_defs get_defs bt_get_insert)

interpretation hr_store: resource_store "\<lambda>s (ns, n). get_httproute s ns n" with_httproute
    "\<lambda>v. meta_key (hr_metadata v)"
  by unfold_locales (auto simp: with_defs get_defs bt_get_insert)

interpretation sv_store: resource_store "\<lambda>s (ns, n). get_service s ns n" with_service
    "\<lambda>v. meta_key (sv_metadata v)"
  by unfold_locales (auto simp: with_defs get_defs bt_get_insert)

interpretation cm_store: resource_store "\<lambda>s (ns, n). get_configmap s ns n" with_configmap
    "\<lambda>v. meta_key (cm_metadata v)"
  by unfold_locales (auto simp: with_defs get_defs bt_get_insert)

interpretation de_store: resource_store "\<lambda>s (ns, n). get_deployment s ns n" with_deployment
    "\<lambda>v. meta_key (de_metadata v)"
  by unfold_locales (auto simp: with_defs get_defs bt_get_insert)

interpretation se_store: resource_store "\<lambda>s (ns, n). get_secret s ns n" with_secret
    "\<lambda>v. meta_key (se_metadata v)"
  by unfold_locales (auto simp: with_defs get_defs bt_get_insert)

text \<open>A builder touches one map only.\<close>

lemma with_frame [lens_simps]:
  "ws_httproutes (with_gateway g s) = ws_httproutes s" "ws_httproutes (with_service v s) = ws_httproutes s"
  "ws_httproutes (with_gateway_class c s) = ws_httproutes s" "ws_httproutes (with_node n s) = ws_httproutes s"
  "ws_httproutes (with_configmap m s) = ws_httproutes s" "ws_httproutes (with_deployment d s) = ws_httproutes s"
  "ws_httproutes (with_reference_grant r s) = ws_httproutes s"
  "ws_secrets (with_gateway g s) = ws_secrets s" "ws_secrets (with_service v s) = ws_secrets s"
  "ws_secrets (with_gateway_class c s) = ws_secrets s" "ws_secrets (with_node n s) = ws_secrets s"
  "ws_secrets (with_configmap m s) = ws_secrets s" "ws_secrets (with_deployment d s) = ws_secrets s"
  "ws_secrets (with_reference_grant r s) = ws_secrets s" "ws_secrets (with_httproute h s) = ws_secrets s"
  "ws_reference_grants (with_gateway g s) = ws_reference_grants s"
  "ws_reference_grants (with_service v s) = ws_reference_grants s"
  "ws_reference_grants (with_gateway_class c s) = ws_reference_grants s"
  "ws_reference_grants (with_node n s) = ws_reference_grants s"
  "ws_reference_grants (with_configmap m s) = ws_reference_grants s"
  "ws_reference_grants (with_deployment d s) = ws_reference_grants s"
  "ws_reference_grants (with_httproute h s) = ws_reference_grants s"
  by (simp_all add: with_defs)

section \<open>Well-formed snapshots\<close>

definition keyed :: "('v \<Rightarrow> 'k) \<Rightarrow> ('k::linorder, 'v) btree \<Rightarrow> bool" where
  "keyed key m \<longleftrightarrow> bt_wf m \<and> (\<forall>(k, v)\<in>set m. k = key v)"

definition snapshot_wf :: "WorldSnapshot \<Rightarrow> bool" where
  "snapshot_wf s \<longleftrightarrow>
     keyed (\<lambda>v. name_any (gc_metadata v)) (ws_gateway_classes s) \<and>
     keyed (\<lambda>v. meta_key (gw_metadata v)) (ws_gateways s) \<and>
     keyed (\<lambda>v. meta_key (hr_metadata v)) (ws_httproutes s) \<and>
     keyed (\<lambda>v. meta_key (sv_metadata v)) (ws_services s) \<and>
     keyed (\<lambda>v. meta_key (cm_metadata v)) (ws_configmaps s) \<and>
     keyed (\<lambda>v. meta_key (de_metadata v)) (ws_deployments s) \<and>
     keyed (\<lambda>v. meta_key (se_metadata v)) (ws_secrets s) \<and>
     keyed (\<lambda>v. meta_key (rg_metadata v)) (ws_reference_grants s) \<and>
     keyed (\<lambda>v. name_any (no_metadata v)) (ws_nodes s)"

lemma keyed_Nil [simp]: "keyed key []"
  by (simp add: keyed_def)

lemma keyed_insert: "keyed key m \<Longrightarrow> k = key v \<Longrightarrow> keyed key (bt_insert k v m)"
  by (auto simp: keyed_def bt_insert_new_mem split: if_splits)

lemma snapshot_wf_new [simp]: "snapshot_wf (snapshot_new now)"
  by (simp add: snapshot_wf_def snapshot_new_def)

lemma snapshot_wf_with [simp]:
  assumes "snapshot_wf s"
  shows "snapshot_wf (with_gateway_class gc s)" "snapshot_wf (with_gateway gw s)"
    "snapshot_wf (with_httproute hr s)" "snapshot_wf (with_service sv s)"
    "snapshot_wf (with_configmap cm s)" "snapshot_wf (with_deployment de s)"
    "snapshot_wf (with_secret se s)" "snapshot_wf (with_reference_grant rg s)"
    "snapshot_wf (with_node no s)" "snapshot_wf (at_time t s)"
  using assms by (simp_all add: snapshot_wf_def with_defs at_time_def keyed_insert)

text \<open>The snapshots that the builder can produce.\<close>

inductive built :: "WorldSnapshot \<Rightarrow> bool" where
  new: "built (snapshot_new now)"
| at: "built s \<Longrightarrow> built (at_time t s)"
| gateway_class: "built s \<Longrightarrow> built (with_gateway_class gc s)"
| gateway: "built s \<Longrightarrow> built (with_gateway gw s)"
| httproute: "built s \<Longrightarrow> built (with_httproute r s)"
| service: "built s \<Longrightarrow> built (with_service sv s)"
| configmap: "built s \<Longrightarrow> built (with_configmap cm s)"
| deployment: "built s \<Longrightarrow> built (with_deployment d s)"
| secret: "built s \<Longrightarrow> built (with_secret se s)"
| reference_grant: "built s \<Longrightarrow> built (with_reference_grant g s)"
| node: "built s \<Longrightarrow> built (with_node n s)"

lemma built_wf: "built s \<Longrightarrow> snapshot_wf s"
  by (induction rule: built.induct) simp_all

lemma built_fold: "(\<And>v s. built s \<Longrightarrow> built (f v s)) \<Longrightarrow> built s \<Longrightarrow> built (fold f vs s)"
  by (induction vs arbitrary: s) simp_all

lemma keyed_get: "keyed key m \<Longrightarrow> bt_get k m = Some v \<Longrightarrow> k = key v"
  by (auto simp: keyed_def bt_get_mem)

lemma keyed_values_get: "keyed key m \<Longrightarrow> v \<in> set (bt_values m) \<longleftrightarrow> bt_get (key v) m = Some v"
  by (force simp: keyed_def bt_values_def bt_get_mem)

lemma keyed_values_sorted: "keyed key m \<Longrightarrow> sorted_wrt (<) (map key (bt_values m))"
proof -
  assume k: "keyed key m"
  then have "map key (map snd m) = map fst m" by (auto simp: keyed_def)
  with k show ?thesis by (simp add: keyed_def bt_wf_def bt_values_def del: map_map)
qed

lemma sorted_wrt_map_filter: "sorted_wrt P (map f xs) \<Longrightarrow> sorted_wrt P (map f (filter Q xs))"
  by (induction xs) auto

lemma grant_from_mem:
  "(\<exists>f\<in>set fs. gf_namespace f = n \<and> gf_group f = g \<and> gf_kind f = k) \<longleftrightarrow>
     \<lparr>gf_group = g, gf_kind = k, gf_namespace = n\<rparr> \<in> set fs"
proof
  assume "\<exists>f\<in>set fs. gf_namespace f = n \<and> gf_group f = g \<and> gf_kind f = k"
  then obtain f where "f \<in> set fs" "gf_namespace f = n" "gf_group f = g" "gf_kind f = k" by blast
  moreover from this have "f = \<lparr>gf_group = g, gf_kind = k, gf_namespace = n\<rparr>" by simp
  ultimately show "\<lparr>gf_group = g, gf_kind = k, gf_namespace = n\<rparr> \<in> set fs" by simp
qed force

lemma grant_to_mem:
  "(\<exists>t\<in>set ts. gt_group t = g \<and> gt_kind t = k) \<longleftrightarrow>
     (\<exists>name. \<lparr>gt_group = g, gt_kind = k, gt_name = name\<rparr> \<in> set ts)"
proof
  assume "\<exists>t\<in>set ts. gt_group t = g \<and> gt_kind t = k"
  then obtain t where "t \<in> set ts" "gt_group t = g" "gt_kind t = k" by blast
  moreover from this have "t = \<lparr>gt_group = g, gt_kind = k, gt_name = gt_name t\<rparr>" by simp
  ultimately show "\<exists>name. \<lparr>gt_group = g, gt_kind = k, gt_name = name\<rparr> \<in> set ts" by metis
qed force

section \<open>Properties\<close>

text \<open>A reference is allowed exactly when some ReferenceGrant of the snapshot lies in the
  target namespace and lists the source (namespace, group and kind) and the target's group and
  kind. The name that an entry of \<open>to\<close> may carry plays no part.\<close>

theorem reference_allowed_iff:
  "is_reference_allowed s from_ns from_group from_kind to_ns to_group to_kind \<longleftrightarrow>
     (\<exists>k g name. (k, g) \<in> set (ws_reference_grants s) \<and> om_namespace (rg_metadata g) = Some to_ns \<and>
        \<lparr>gf_group = from_group, gf_kind = from_kind, gf_namespace = from_ns\<rparr> \<in> set (rg_from g) \<and>
        \<lparr>gt_group = to_group, gt_kind = to_kind, gt_name = name\<rparr> \<in> set (rg_to g))"
  by (force simp: is_reference_allowed_def list_ex_iff grant_from_mem grant_to_mem bt_values_def)


definition demo_meta :: "string \<Rightarrow> string \<Rightarrow> ObjectMeta" where
  "demo_meta ns n = object_meta_default\<lparr>om_name := Some n, om_namespace := Some ns\<rparr>"

definition demo_gateway :: Gateway where
  "demo_gateway = \<lparr>gw_metadata = demo_meta ''ns'' ''gw'', gw_gateway_class_name = ''multiway'',
     gw_listeners = [\<lparr>gl_name = ''http'', gl_port = 80, gl_protocol = ''HTTP'', gl_hostname = None,
       gl_tls = None, gl_allowed_routes = None\<rparr>], gw_addresses = None\<rparr>"

definition demo_httproute :: "string \<Rightarrow> HTTPRoute" where
  "demo_httproute n = \<lparr>hr_metadata = demo_meta ''ns'' n, hr_parent_refs = Some [\<lparr>pr_group = None,
     pr_kind = None, pr_name = ''gw'', pr_namespace = None, pr_port = None, pr_section_name = None\<rparr>],
     hr_hostnames = None, hr_rules = None\<rparr>"

definition demo_snapshot :: WorldSnapshot where
  "demo_snapshot = with_httproute (demo_httproute ''b'') (with_httproute (demo_httproute ''a'')
     (with_gateway demo_gateway (snapshot_new 0)))"

lemma built_demo: "built demo_snapshot"
  by (simp add: demo_snapshot_def built.intros)

lemma demo_meta_simps [simp]:
  "name_any (demo_meta ns n) = n" "namespace_or_default (demo_meta ns n) = ns"
  "meta_key (demo_meta ns n) = (ns, n)"
  by (simp_all add: demo_meta_def name_any_def namespace_or_default_def meta_key_def object_meta_default_def)


text \<open>The routes of a gateway are the stored routes that name it as a parent, each once, in
  ascending order of namespace and name, whatever the order in which they were added. Ties
  between rules of equal precedence are decided by that order.\<close>

theorem routes_for_gateway_sorted:
  assumes "built s"
  shows "sorted_wrt (<) (map (\<lambda>r. meta_key (hr_metadata r)) (routes_for_gateway s ns n)) \<and>
    (\<forall>r. r \<in> set (routes_for_gateway s ns n) \<longleftrightarrow>
       get_httproute s (fst (meta_key (hr_metadata r))) (snd (meta_key (hr_metadata r))) = Some r \<and>
       (\<exists>refs p. hr_parent_refs r = Some refs \<and> p \<in> set refs \<and> pr_name p = n \<and>
          unwrap_or (namespace_or_default (hr_metadata r)) (pr_namespace p) = ns))"
proof -
  have k: "keyed (\<lambda>v. meta_key (hr_metadata v)) (ws_httproutes s)"
    using built_wf [OF assms] by (simp add: snapshot_wf_def)
  have r: "references_gateway ns n r \<longleftrightarrow> (\<exists>refs p. hr_parent_refs r = Some refs \<and> p \<in> set refs \<and>
      pr_name p = n \<and> unwrap_or (namespace_or_default (hr_metadata r)) (pr_namespace p) = ns)" for r
    by (auto simp: references_gateway_def parent_is_def list_ex_iff split: option.split)
  show ?thesis
    using keyed_values_sorted [OF k] keyed_values_get [OF k]
    by (auto simp: routes_for_gateway_def r get_defs sorted_wrt_map_filter)
qed

theorem routes_for_gateway_sorted_witness:
  "sorted_wrt (<) (map (\<lambda>r. meta_key (hr_metadata r)) (routes_for_gateway demo_snapshot ''ns'' ''gw''))"
  using routes_for_gateway_sorted [OF built_demo] by blast

end
