(* ===== verification/CpError.thy ===== *)
theory CpError
  imports Kube
begin

text \<open>
  The controller's errors, \<open>crates/controlplane/src/controller/error.rs\<close>, with the messages of
  their \<open>Display\<close> instance. An error of the \<open>kube\<close> client is what the sources observe of it:
  an API error with its status code, or another error, each with its own rendering.
\<close>

datatype KubeError = KubeApi nat string | KubeOther string

fun kube_error_text :: "KubeError \<Rightarrow> string" where
  "kube_error_text (KubeApi code text) = text"
| "kube_error_text (KubeOther text) = text"

definition is_not_found :: "KubeError \<Rightarrow> bool" where
  "is_not_found e \<longleftrightarrow> (case e of KubeApi code _ \<Rightarrow> code = 404 | KubeOther _ \<Rightarrow> False)"

datatype ControllerError =
    KubernetesError KubeError
  | JsonError string
  | GatewayClassNotFound string
  | GatewayClassNotAccepted string
  | GatewayNotFound string string
  | InvalidGatewayConfig string
  | InvalidHttpRouteConfig string
  | BackendNotFound string string
  | ReferenceGrantRequired string string string
  | UnsupportedProtocol string
  | TlsConfigError string
  | SecretNotFound string string
  | InvalidSecretFormat string string string
  | ResourceConflict string
  | InternalError string
  | ConfigParseError string

definition quoted :: "string \<Rightarrow> string" where
  "quoted s = [CHR 39] @ s @ [CHR 39]"

fun error_message :: "ControllerError \<Rightarrow> string" where
  "error_message (KubernetesError e) = ''Kubernetes API error: '' @ kube_error_text e"
| "error_message (JsonError e) = ''JSON serialization error: '' @ e"
| "error_message (GatewayClassNotFound name) = ''GatewayClass '' @ quoted name @ '' not found''"
| "error_message (GatewayClassNotAccepted name) =
     ''GatewayClass '' @ quoted name @ '' is not accepted by this controller''"
| "error_message (GatewayNotFound namespace name) =
     ''Gateway '' @ quoted (namespace @ ''/'' @ name) @ '' not found''"
| "error_message (InvalidGatewayConfig message) = ''Invalid Gateway configuration: '' @ message"
| "error_message (InvalidHttpRouteConfig message) = ''Invalid HTTPRoute configuration: '' @ message"
| "error_message (BackendNotFound namespace name) =
     ''Backend service '' @ quoted (namespace @ ''/'' @ name) @ '' not found''"
| "error_message (ReferenceGrantRequired from_namespace to_namespace to_name) =
     ''Cross-namespace reference from '' @ from_namespace @ '' to '' @ to_namespace @ ''/'' @ to_name @
     '' requires a ReferenceGrant''"
| "error_message (UnsupportedProtocol protocol) =
     ''Listener protocol '' @ quoted protocol @ '' is not supported''"
| "error_message (TlsConfigError message) = ''TLS configuration error: '' @ message"
| "error_message (SecretNotFound namespace name) =
     ''Secret '' @ quoted (namespace @ ''/'' @ name) @ '' not found''"
| "error_message (InvalidSecretFormat namespace name message) =
     ''Secret '' @ quoted (namespace @ ''/'' @ name) @ '' has invalid format: '' @ message"
| "error_message (ResourceConflict message) = ''Resource conflict: '' @ message"
| "error_message (InternalError message) = ''Internal error: '' @ message"
| "error_message (ConfigParseError message) = ''Configuration parsing error: '' @ message"

text \<open>The constructor functions.\<close>

definition gateway_class_not_found :: "string \<Rightarrow> ControllerError" where
  "gateway_class_not_found name = GatewayClassNotFound name"

definition gateway_class_not_accepted :: "string \<Rightarrow> ControllerError" where
  "gateway_class_not_accepted name = GatewayClassNotAccepted name"

definition gateway_not_found :: "string \<Rightarrow> string \<Rightarrow> ControllerError" where
  "gateway_not_found namespace name = GatewayNotFound namespace name"

definition invalid_gateway_config :: "string \<Rightarrow> ControllerError" where
  "invalid_gateway_config message = InvalidGatewayConfig message"

definition invalid_httproute_config :: "string \<Rightarrow> ControllerError" where
  "invalid_httproute_config message = InvalidHttpRouteConfig message"

definition backend_not_found :: "string \<Rightarrow> string \<Rightarrow> ControllerError" where
  "backend_not_found namespace name = BackendNotFound namespace name"

definition reference_grant_required :: "string \<Rightarrow> string \<Rightarrow> string \<Rightarrow> ControllerError" where
  "reference_grant_required from_namespace to_namespace to_name =
     ReferenceGrantRequired from_namespace to_namespace to_name"

definition unsupported_protocol :: "string \<Rightarrow> ControllerError" where
  "unsupported_protocol protocol = UnsupportedProtocol protocol"

definition tls_config_error :: "string \<Rightarrow> ControllerError" where
  "tls_config_error message = TlsConfigError message"

definition secret_not_found :: "string \<Rightarrow> string \<Rightarrow> ControllerError" where
  "secret_not_found namespace name = SecretNotFound namespace name"

definition invalid_secret_format :: "string \<Rightarrow> string \<Rightarrow> string \<Rightarrow> ControllerError" where
  "invalid_secret_format namespace name message = InvalidSecretFormat namespace name message"

definition resource_conflict :: "string \<Rightarrow> ControllerError" where
  "resource_conflict message = ResourceConflict message"

definition internal_error :: "string \<Rightarrow> ControllerError" where
  "internal_error message = InternalError message"

section \<open>Results\<close>

text \<open>
  A fallible loop \<open>for x in xs { out.push(f(x)?) }\<close> collects until the first error, and \<open>?\<close>
  passes the error on.
\<close>

type_synonym 'a result = "ControllerError + 'a"

fun collect_results :: "('a \<Rightarrow> 'e + 'b) \<Rightarrow> 'a list \<Rightarrow> 'e + 'b list" where
  "collect_results f [] = Inr []"
| "collect_results f (x # xs) =
     (case f x of
        Inl e \<Rightarrow> Inl e
      | Inr y \<Rightarrow> (case collect_results f xs of Inl e \<Rightarrow> Inl e | Inr ys \<Rightarrow> Inr (y # ys)))"

lemma collect_results_Inr: "(\<And>x. x \<in> set xs \<Longrightarrow> f x = Inr (g x)) \<Longrightarrow> collect_results f xs = Inr (map g xs)"
  by (induction xs) auto

lemma collect_results_length: "collect_results f xs = Inr ys \<Longrightarrow> length ys = length xs"
  by (induction xs arbitrary: ys) (auto split: sum.splits)

end
