(* ===== verification/Convert.thy ===== *)
theory Convert
  imports CpConfig CpError
begin

text \<open>
  Conversion of an HTTPRoute into the data plane's route configuration, the functions
  \<open>convert_*\<close> and \<open>parse_duration\<close> of \<open>crates/controlplane/src/controller/httproute.rs\<close>. The
  decimal reading of an \<open>f64\<close> and the products with 60 and 3600 are the parameter \<open>fl\<close>.
\<close>

record float_ops =
  parse_f64 :: "string \<Rightarrow> f64 option"
  times_60 :: "f64 \<Rightarrow> f64"
  times_3600 :: "f64 \<Rightarrow> f64"

section \<open>Matches\<close>

definition convert_path_match :: "HrPathMatch \<Rightarrow> CpPathMatch result" where
  "convert_path_match path =
     (let match_type = (case hrp_type path of
            Some HrPathExact \<Rightarrow> CpPathExact
          | Some HrPathPrefix \<Rightarrow> CpPathPrefix
          | None \<Rightarrow> CpPathPrefix
          | Some HrPathRegularExpression \<Rightarrow> CpPathRegularExpression)
      in Inr \<lparr>cpm_match_type = match_type, cpm_value = unwrap_or ''/'' (hrp_value path)\<rparr>)"

definition convert_header_match :: "HrNamedMatch \<Rightarrow> CpHeaderMatch result" where
  "convert_header_match header =
     (let match_type = (case hrn_type header of
            Some HrExact \<Rightarrow> CpHeaderExact
          | None \<Rightarrow> CpHeaderExact
          | Some HrRegularExpression \<Rightarrow> CpHeaderRegularExpression)
      in Inr \<lparr>chm_name = hrn_name header, chm_match_type = match_type, chm_value = hrn_value header\<rparr>)"

definition convert_query_param_match :: "HrNamedMatch \<Rightarrow> CpQueryParamMatch result" where
  "convert_query_param_match param =
     (let match_type = (case hrn_type param of
            Some HrExact \<Rightarrow> CpQueryExact
          | None \<Rightarrow> CpQueryExact
          | Some HrRegularExpression \<Rightarrow> CpQueryRegularExpression)
      in Inr \<lparr>cqm_name = hrn_name param, cqm_match_type = match_type, cqm_value = hrn_value param\<rparr>)"

fun convert_method :: "HrMethod \<Rightarrow> string" where
  "convert_method HrGet = ''GET''"
| "convert_method HrHead = ''HEAD''"
| "convert_method HrPost = ''POST''"
| "convert_method HrPut = ''PUT''"
| "convert_method HrDelete = ''DELETE''"
| "convert_method HrConnect = ''CONNECT''"
| "convert_method HrOptions = ''OPTIONS''"
| "convert_method HrTrace = ''TRACE''"
| "convert_method HrPatch = ''PATCH''"

definition convert_match :: "HttpRouteMatch \<Rightarrow> CpRouteMatch result" where
  "convert_match m =
     (case (case hrm_path m of
              None \<Rightarrow> Inr None
            | Some path \<Rightarrow> (case convert_path_match path of Inl e \<Rightarrow> Inl e | Inr p \<Rightarrow> Inr (Some p))) of
        Inl e \<Rightarrow> Inl e
      | Inr path \<Rightarrow> (case collect_results convert_header_match (unwrap_or [] (hrm_headers m)) of
          Inl e \<Rightarrow> Inl e
        | Inr headers \<Rightarrow>
            (case collect_results convert_query_param_match (unwrap_or [] (hrm_query_params m)) of
               Inl e \<Rightarrow> Inl e
             | Inr params \<Rightarrow> Inr \<lparr>crm_path = path, crm_headers = headers, crm_query_params = params,
                 crm_method = map_option convert_method (hrm_method m)\<rparr>)))"

section \<open>Filters and backends\<close>

definition convert_headers :: "HrHeaderModifier option \<Rightarrow> (HrHeaderModifier \<Rightarrow> HrHeader list option) \<Rightarrow>
    CpHeaderValue list" where
  "convert_headers modifier field =
     (case modifier of
        None \<Rightarrow> []
      | Some m \<Rightarrow> map (\<lambda>h. \<lparr>chv_name = hrh_name h, chv_value = hrh_value h\<rparr>) (unwrap_or [] (field m)))"

definition convert_removes :: "HrHeaderModifier option \<Rightarrow> string list" where
  "convert_removes modifier = (case modifier of None \<Rightarrow> [] | Some m \<Rightarrow> unwrap_or [] (hhm_remove m))"

definition convert_path_modifier :: "HrPathModifier \<Rightarrow> CpPathModifier" where
  "convert_path_modifier p =
     (case hpm_type p of
        HrReplaceFullPath \<Rightarrow> CpReplaceFullPath (unwrap_or [] (hpm_replace_full_path p))
      | HrReplacePrefixMatch \<Rightarrow> CpReplacePrefixMatch (unwrap_or [] (hpm_replace_prefix_match p)))"

definition convert_filter :: "HttpRouteFilter \<Rightarrow> CpRouteFilter option result" where
  "convert_filter flt =
     (case hrf_type flt of
        HrRequestHeaderModifier \<Rightarrow>
          (let modifier = hrf_request_header_modifier flt
           in Inr (Some (CpRequestHeaderModifier (convert_headers modifier hhm_add)
                (convert_headers modifier hhm_set) (convert_removes modifier))))
      | HrResponseHeaderModifier \<Rightarrow>
          (let modifier = hrf_response_header_modifier flt
           in Inr (Some (CpResponseHeaderModifier (convert_headers modifier hhm_add)
                (convert_headers modifier hhm_set) (convert_removes modifier))))
      | HrRequestRedirect \<Rightarrow>
          (case hrf_request_redirect flt of
             Some redirect \<Rightarrow> Inr (Some (CpRequestRedirect
               (map_option (\<lambda>s. case s of HrHttp \<Rightarrow> ''http'' | HrHttps \<Rightarrow> ''https'') (hrr_scheme redirect))
               (hrr_hostname redirect)
               (map_option word_of_int (hrr_port redirect))
               (map_option convert_path_modifier (hrr_path redirect))
               (map_option word_of_int (hrr_status_code redirect))))
           | None \<Rightarrow> Inr None)
      | HrUrlRewriteType \<Rightarrow>
          (case hrf_url_rewrite flt of
             Some rewrite \<Rightarrow> Inr (Some (CpURLRewrite (hru_hostname rewrite)
               (map_option convert_path_modifier (hru_path rewrite))))
           | None \<Rightarrow> Inr None)
      | HrRequestMirror \<Rightarrow>
          (case hrf_request_mirror flt of
             Some backend_ref \<Rightarrow> Inr (Some (CpRequestMirror
               (backend_ref_new (unwrap_or [] (hmb_namespace backend_ref)) (hmb_name backend_ref)
                  (word_of_int (unwrap_or 80 (hmb_port backend_ref)))) None))
           | None \<Rightarrow> Inr None)
      | HrExtensionRef \<Rightarrow> Inr None)"

definition convert_backend :: "HttpRouteBackendRef \<Rightarrow> string \<Rightarrow> CpBackendRef result" where
  "convert_backend backend route_namespace =
     (let namespace = unwrap_or route_namespace (hrb_namespace backend);
          port = word_of_int (unwrap_or 80 (hrb_port backend));
          weight = word_of_int (unwrap_or 1 (hrb_weight backend))
      in Inr (backend_ref_with_weight (backend_ref_new namespace (hrb_name backend) port) weight))"

section \<open>Durations\<close>

definition parse_duration :: "float_ops \<Rightarrow> string \<Rightarrow> f64 option" where
  "parse_duration fl duration =
     (case strip_suffix ''s'' duration of
        Some s \<Rightarrow> parse_f64 fl s
      | None \<Rightarrow> (case strip_suffix ''m'' duration of
          Some m \<Rightarrow> map_option (times_60 fl) (parse_f64 fl m)
        | None \<Rightarrow> (case strip_suffix ''h'' duration of
            Some h \<Rightarrow> map_option (times_3600 fl) (parse_f64 fl h)
          | None \<Rightarrow> parse_f64 fl duration)))"

section \<open>Rules and routes\<close>

definition convert_rule :: "float_ops \<Rightarrow> HttpRouteRule \<Rightarrow> string \<Rightarrow> CpRouteRule result" where
  "convert_rule fl rule route_namespace =
     (case collect_results convert_match (unwrap_or [] (hrl_matches rule)) of
        Inl e \<Rightarrow> Inl e
      | Inr ms \<Rightarrow>
          (let matches = (if ms = [] then ms @ [cp_route_match_default] else ms)
           in case collect_results convert_filter (unwrap_or [] (hrl_filters rule)) of
                Inl e \<Rightarrow> Inl e
              | Inr fs \<Rightarrow>
                  (case collect_results (\<lambda>b. convert_backend b route_namespace)
                          (unwrap_or [] (hrl_backend_refs rule)) of
                     Inl e \<Rightarrow> Inl e
                   | Inr bs \<Rightarrow> Inr \<lparr>crr_name = None, crr_matches = matches,
                       crr_filters = List.map_filter id fs, crr_backends = bs,
                       crr_timeout = map_option (\<lambda>t.
                         \<lparr>cto_request = Option.bind (hrt_request t) (parse_duration fl),
                          cto_backend_request = Option.bind (hrt_backend_request t) (parse_duration fl)\<rparr>)
                         (hrl_timeouts rule)\<rparr>)))"

definition convert_httproute_to_config ::
  "float_ops \<Rightarrow> HTTPRoute \<Rightarrow> string list \<Rightarrow> CpRouteConfig result" where
  "convert_httproute_to_config fl httproute attached_listeners =
     (let route_namespace = namespace_or_default (hr_metadata httproute);
          route_config = (cp_route_config_new route_namespace (name_any (hr_metadata httproute)))
            \<lparr>crc_hostnames := unwrap_or [] (hr_hostnames httproute),
             crc_attached_listeners := attached_listeners\<rparr>
      in case collect_results (\<lambda>rule. convert_rule fl rule route_namespace)
                (unwrap_or [] (hr_rules httproute)) of
           Inl e \<Rightarrow> Inl e
         | Inr rules \<Rightarrow> Inr (route_config\<lparr>crc_rules := crc_rules route_config @ rules\<rparr>))"

section \<open>The conversion is total\<close>

definition path_match_of :: "HrPathMatch \<Rightarrow> CpPathMatch" where
  "path_match_of p = projr (convert_path_match p)"

definition header_match_of :: "HrNamedMatch \<Rightarrow> CpHeaderMatch" where
  "header_match_of h = projr (convert_header_match h)"

definition query_match_of :: "HrNamedMatch \<Rightarrow> CpQueryParamMatch" where
  "query_match_of q = projr (convert_query_param_match q)"

definition match_of :: "HttpRouteMatch \<Rightarrow> CpRouteMatch" where
  "match_of m = \<lparr>crm_path = map_option path_match_of (hrm_path m),
     crm_headers = map header_match_of (unwrap_or [] (hrm_headers m)),
     crm_query_params = map query_match_of (unwrap_or [] (hrm_query_params m)),
     crm_method = map_option convert_method (hrm_method m)\<rparr>"

definition rule_of :: "float_ops \<Rightarrow> string \<Rightarrow> HttpRouteRule \<Rightarrow> CpRouteRule" where
  "rule_of fl ns rule = \<lparr>crr_name = None,
     crr_matches = (case unwrap_or [] (hrl_matches rule) of
         [] \<Rightarrow> [cp_route_match_default] | ms \<Rightarrow> map match_of ms),
     crr_filters = List.map_filter (\<lambda>f. projr (convert_filter f)) (unwrap_or [] (hrl_filters rule)),
     crr_backends = map (\<lambda>b. projr (convert_backend b ns)) (unwrap_or [] (hrl_backend_refs rule)),
     crr_timeout = map_option (\<lambda>t.
       \<lparr>cto_request = Option.bind (hrt_request t) (parse_duration fl),
        cto_backend_request = Option.bind (hrt_backend_request t) (parse_duration fl)\<rparr>)
       (hrl_timeouts rule)\<rparr>"

lemma convert_path_match_Inr [outcome_simps]: "convert_path_match p = Inr (path_match_of p)"
  by (simp add: path_match_of_def convert_path_match_def Let_def)

lemma convert_header_match_Inr [outcome_simps]: "convert_header_match h = Inr (header_match_of h)"
  by (simp add: header_match_of_def convert_header_match_def Let_def)

lemma convert_query_param_match_Inr [outcome_simps]: "convert_query_param_match q = Inr (query_match_of q)"
  by (simp add: query_match_of_def convert_query_param_match_def Let_def)

lemma convert_match_Inr [outcome_simps]: "convert_match m = Inr (match_of m)"
  by (auto simp: convert_match_def match_of_def outcome_simps collect_results_Inr split: option.split)

lemma convert_filter_Inr [outcome_simps]: "convert_filter f = Inr (projr (convert_filter f))"
  by (auto simp: convert_filter_def Let_def split: HrFilterType.split option.split)

lemma convert_backend_Inr [outcome_simps]: "convert_backend b ns = Inr (projr (convert_backend b ns))"
  by (simp add: convert_backend_def Let_def)

lemma map_filter_id_map: "List.map_filter id (map f xs) = List.map_filter f xs"
  by (induction xs) (auto simp: map_filter_simps split: option.split)

lemma convert_rule_Inr [outcome_simps]: "convert_rule fl rule ns = Inr (rule_of fl ns rule)"
proof -
  have f: "collect_results convert_filter xs = Inr (map (\<lambda>f. projr (convert_filter f)) xs)" for xs
    by (rule collect_results_Inr) (rule convert_filter_Inr)
  have b: "collect_results (\<lambda>b. convert_backend b ns) xs = Inr (map (\<lambda>b. projr (convert_backend b ns)) xs)" for xs
    by (rule collect_results_Inr) (rule convert_backend_Inr)
  have m: "collect_results convert_match xs = Inr (map match_of xs)" for xs
    by (rule collect_results_Inr) (rule convert_match_Inr)
  show ?thesis
    by (simp add: convert_rule_def rule_of_def f b m map_filter_id_map Let_def split: list.split)
qed

lemma convert_httproute_Inr:
  "convert_httproute_to_config fl r ls = Inr \<lparr>crc_name = name_any (hr_metadata r),
     crc_namespace = namespace_or_default (hr_metadata r), crc_hostnames = unwrap_or [] (hr_hostnames r),
     crc_attached_listeners = ls,
     crc_rules = map (rule_of fl (namespace_or_default (hr_metadata r))) (unwrap_or [] (hr_rules r))\<rparr>"
proof -
  have "collect_results (\<lambda>rule. convert_rule fl rule ns) xs = Inr (map (rule_of fl ns) xs)" for ns xs
    by (rule collect_results_Inr) (rule convert_rule_Inr)
  then show ?thesis
    by (simp add: convert_httproute_to_config_def cp_route_config_new_def Let_def)
qed

section \<open>Properties\<close>

text \<open>Conversion of a route never fails, although its type lets it. The configuration carries
  the route's name and namespace, its hostnames and the given listeners, one rule per rule in
  order, and every converted rule has at least one match and only backends whose namespace is
  their own or the route's.\<close>

theorem convert_httproute_total:
  "\<exists>cfg. convert_httproute_to_config fl r ls = Inr cfg \<and>
     crc_name cfg = name_any (hr_metadata r) \<and> crc_namespace cfg = namespace_or_default (hr_metadata r) \<and>
     crc_hostnames cfg = unwrap_or [] (hr_hostnames r) \<and> crc_attached_listeners cfg = ls \<and>
     length (crc_rules cfg) = length (unwrap_or [] (hr_rules r)) \<and>
     list_all (\<lambda>rule. crr_matches rule \<noteq> []) (crc_rules cfg) \<and>
     list_all2 (\<lambda>hr rule. map cbe_name (crr_backends rule) = map hrb_name (unwrap_or [] (hrl_backend_refs hr)) \<and>
         map cbe_namespace (crr_backends rule) =
           map (\<lambda>b. unwrap_or (crc_namespace cfg) (hrb_namespace b)) (unwrap_or [] (hrl_backend_refs hr)))
       (unwrap_or [] (hr_rules r)) (crc_rules cfg)"
proof -
  have be: "cbe_name (projr (convert_backend b ns)) = hrb_name b"
    "cbe_namespace (projr (convert_backend b ns)) = unwrap_or ns (hrb_namespace b)" for b ns
    by (simp_all add: convert_backend_def backend_ref_with_weight_def backend_ref_new_def Let_def)
  have ne: "crr_matches (rule_of fl ns rule) \<noteq> []" for ns rule
    by (simp add: rule_of_def split: list.split)
  show ?thesis
    by (simp add: convert_httproute_Inr list_all_length ne list_all2_conv_all_nth)
      (simp add: rule_of_def be)
qed

text \<open>Which unit a duration is read in. The last letter alone decides, so of the durations
  the resource definition admits, those in milliseconds and those of several parts hand a text
  that still holds a unit letter to the float reader, and are lost when it rejects that.\<close>

theorem parse_duration_units:
  "parse_duration fl (d @ ''s'') = parse_f64 fl d \<and>
   parse_duration fl (d @ ''m'') = map_option (times_60 fl) (parse_f64 fl d) \<and>
   parse_duration fl (d @ ''h'') = map_option (times_3600 fl) (parse_f64 fl d) \<and>
   parse_duration fl (d @ ''ms'') = parse_f64 fl (d @ ''m'') \<and>
   parse_duration fl (a @ ''h'' @ d @ ''m'') = map_option (times_60 fl) (parse_f64 fl (a @ ''h'' @ d))"
proof -
  have strip: "strip_suffix [c] (x @ [c]) = Some x" "c \<noteq> b \<Longrightarrow> strip_suffix [b] (x @ [c]) = None" for c b x
    by (simp_all add: strip_suffix_def suffix_def)
  show ?thesis
    using strip(1) [of "CHR ''s''" d] strip(1) [of "CHR ''s''" "d @ ''m''"] strip(1) [of "CHR ''m''" d]
      strip(1) [of "CHR ''h''" d] strip(2) [of "CHR ''m''" "CHR ''s''" d]
      strip(2) [of "CHR ''h''" "CHR ''s''" d] strip(2) [of "CHR ''h''" "CHR ''m''" d]
      strip(1) [of "CHR ''m''" "a @ ''h'' @ d"] strip(2) [of "CHR ''m''" "CHR ''s''" "a @ ''h'' @ d"]
    by (simp add: parse_duration_def)
qed

text \<open>Floating point operations that read only the number 1, for concrete instances.\<close>

definition demo_float_ops :: float_ops where
  "demo_float_ops = \<lparr>parse_f64 = \<lambda>s. if s = ''1'' then Some 0x3FF0000000000000 else None,
     times_60 = \<lambda>x. if x = 0x3FF0000000000000 then 0x404E000000000000 else x,
     times_3600 = \<lambda>x. if x = 0x3FF0000000000000 then 0x40AC200000000000 else x\<rparr>"

end
