(* ===== verification/Resources.thy ===== *)
theory Resources
  imports Snapshot Convert
begin

text \<open>
  What the reconciliation core computes from a Gateway, \<open>crates/controlplane/src/core/reconcile.rs\<close>:
  statuses, addresses, TLS material, the data plane configuration, and the objects it deploys.
  The parameter \<open>to_json\<close> is \<open>serde_json::to_string_pretty\<close>, with \<open>None\<close> for an error.
\<close>

section \<open>Statuses\<close>

definition build_gateway_class_status ::
  "timestamp \<Rightarrow> int option \<Rightarrow> bool \<Rightarrow> string \<Rightarrow> string \<Rightarrow> GatewayClassStatus" where
  "build_gateway_class_status now generation accepted reason message =
     \<lparr>gcs_conditions = Some [\<lparr>co_type = ''Accepted'',
        co_status = (if accepted then ''True'' else ''False''),
        co_observed_generation = generation, co_last_transition_time = now,
        co_reason = reason, co_message = message\<rparr>]\<rparr>"

definition supported_kinds_of :: "GatewayListeners \<Rightarrow> ListenerSupportedKind list" where
  "supported_kinds_of l =
     (if to_uppercase (gl_protocol l) = ''HTTP'' \<or> to_uppercase (gl_protocol l) = ''HTTPS''
      then [\<lparr>sk_group = Some ''gateway.networking.k8s.io'', sk_kind = ''HTTPRoute''\<rparr>] else [])"

definition build_gateway_status_with_routes ::
  "timestamp \<Rightarrow> Gateway \<Rightarrow> bool \<Rightarrow> string \<Rightarrow> string \<Rightarrow> GatewayAddress list option \<Rightarrow> i32 \<Rightarrow> GatewayStatus" where
  "build_gateway_status_with_routes now gateway accepted reason message addresses attached_routes =
     (let status_value = (if accepted then ''True'' else ''False'');
          generation = om_generation (gw_metadata gateway);
          condition = (\<lambda>type r m. \<lparr>co_type = type, co_status = status_value,
            co_observed_generation = generation, co_last_transition_time = now,
            co_reason = r, co_message = m\<rparr>)
      in \<lparr>gs_addresses = addresses,
          gs_conditions = Some [
            condition ''Accepted'' reason message,
            condition ''Programmed'' (if accepted then ''Programmed'' else ''Invalid'')
              (if accepted then ''Data plane is programmed'' else message)],
          gs_listeners = Some (map (\<lambda>l. \<lparr>gsl_name = gl_name l, gsl_attached_routes = attached_routes,
            gsl_supported_kinds = supported_kinds_of l,
            gsl_conditions = [
              condition ''Accepted'' reason message,
              condition ''ResolvedRefs'' (if accepted then ''ResolvedRefs'' else reason)
                (if accepted then ''All references resolved'' else message),
              condition ''Programmed'' (if accepted then ''Programmed'' else ''Invalid'')
                (if accepted then ''Listener is programmed'' else message)]\<rparr>) (gw_listeners gateway))\<rparr>)"

definition build_gateway_status ::
  "timestamp \<Rightarrow> Gateway \<Rightarrow> bool \<Rightarrow> string \<Rightarrow> string \<Rightarrow> GatewayAddress list option \<Rightarrow> GatewayStatus" where
  "build_gateway_status now gateway accepted reason message addresses =
     build_gateway_status_with_routes now gateway accepted reason message addresses 0"

definition build_gateway_status_accepted ::
  "timestamp \<Rightarrow> Gateway \<Rightarrow> bool \<Rightarrow> string \<Rightarrow> string \<Rightarrow> GatewayAddress list option \<Rightarrow> i32 \<Rightarrow>
     (string, bool) btree \<Rightarrow> GatewayStatus" where
  "build_gateway_status_accepted now gateway programmed programmed_reason programmed_message addresses
       attached_routes listener_refs_resolved =
     (let programmed_status = (if programmed then ''True'' else ''False'');
          generation = om_generation (gw_metadata gateway);
          condition = (\<lambda>type st r m. \<lparr>co_type = type, co_status = st,
            co_observed_generation = generation, co_last_transition_time = now,
            co_reason = r, co_message = m\<rparr>)
      in \<lparr>gs_addresses = addresses,
          gs_conditions = Some [
            condition ''Accepted'' ''True'' ''Accepted'' ''Gateway is accepted'',
            condition ''Programmed'' programmed_status programmed_reason programmed_message],
          gs_listeners = Some (map (\<lambda>l.
            let refs_resolved = unwrap_or True (bt_get (gl_name l) listener_refs_resolved)
            in \<lparr>gsl_name = gl_name l, gsl_attached_routes = attached_routes,
                gsl_supported_kinds = supported_kinds_of l,
                gsl_conditions = [
                  condition ''Accepted'' ''True'' ''Accepted'' ''Listener is accepted'',
                  (if refs_resolved
                   then condition ''ResolvedRefs'' ''True'' ''ResolvedRefs'' ''All references resolved''
                   else condition ''ResolvedRefs'' ''False'' ''InvalidCertificateRef''
                     ''One or more certificate references could not be resolved''),
                  condition ''Programmed'' programmed_status programmed_reason
                    (if programmed then ''Listener is programmed'' else programmed_message)]\<rparr>)
            (gw_listeners gateway))\<rparr>)"

definition build_parent_status ::
  "timestamp \<Rightarrow> ParentRef \<Rightarrow> bool \<Rightarrow> string \<Rightarrow> string \<Rightarrow> int option \<Rightarrow> RouteParentStatus" where
  "build_parent_status now parent_ref accepted reason message generation =
     (let status_value = (if accepted then ''True'' else ''False'')
      in \<lparr>rps_controller_name = CONTROLLER_NAME, rps_parent_ref = parent_ref,
          rps_conditions = Some [
            \<lparr>co_type = ''Accepted'', co_status = status_value, co_observed_generation = generation,
             co_last_transition_time = now, co_reason = reason, co_message = message\<rparr>,
            \<lparr>co_type = ''ResolvedRefs'', co_status = status_value, co_observed_generation = generation,
             co_last_transition_time = now, co_reason = (if accepted then ''ResolvedRefs'' else reason),
             co_message = message\<rparr>]\<rparr>)"

section \<open>Addresses\<close>

definition ingress_address :: "LoadBalancerIngress \<Rightarrow> GatewayAddress option" where
  "ingress_address entry =
     (case lb_ip entry of
        Some ip \<Rightarrow> Some \<lparr>ga_type = Some ''IPAddress'', ga_value = ip\<rparr>
      | None \<Rightarrow> map_option (\<lambda>h. \<lparr>ga_type = Some ''Hostname'', ga_value = h\<rparr>) (lb_hostname entry))"

definition load_balancer_addresses :: "Service \<Rightarrow> GatewayAddress list option" where
  "load_balancer_addresses svc =
     (case sv_load_balancer_ingress svc of
        Some (Some (Some ingress)) \<Rightarrow>
          (if ingress = [] then None
           else (let addrs = List.map_filter ingress_address ingress
                 in if addrs = [] then None else Some addrs))
      | _ \<Rightarrow> None)"

definition usable_cluster_ip :: "Service \<Rightarrow> string option" where
  "usable_cluster_ip svc =
     (case sv_spec svc of
        None \<Rightarrow> None
      | Some spec \<Rightarrow> (case ss_cluster_ip spec of
          None \<Rightarrow> None
        | Some ip \<Rightarrow> if ip \<noteq> [] \<and> ip \<noteq> ''None'' then Some ip else None))"

definition derive_gateway_addresses ::
  "WorldSnapshot \<Rightarrow> Gateway \<Rightarrow> DataPlaneNames \<Rightarrow> GatewayAddress list option \<times> bool" where
  "derive_gateway_addresses snapshot gateway names =
     (case (case gw_addresses gateway of
              Some spec_addresses \<Rightarrow> if spec_addresses \<noteq> [] then Some spec_addresses else None
            | None \<Rightarrow> None) of
        Some addresses \<Rightarrow> (Some addresses, True)
      | None \<Rightarrow>
          (case get_service snapshot (dp_namespace names) (service_name names) of
             None \<Rightarrow> (None, False)
           | Some svc \<Rightarrow>
               (case load_balancer_addresses svc of
                  Some addrs \<Rightarrow> (Some addrs, True)
                | None \<Rightarrow>
                    (case get_node_internal_ip snapshot of
                       Some node_ip \<Rightarrow> (Some [\<lparr>ga_type = Some ''IPAddress'', ga_value = node_ip\<rparr>], True)
                     | None \<Rightarrow>
                         (case usable_cluster_ip svc of
                            Some ip \<Rightarrow> (Some [\<lparr>ga_type = Some ''IPAddress'', ga_value = ip\<rparr>], True)
                          | None \<Rightarrow> (None, False))))))"

section \<open>TLS material\<close>

text \<open>One round of the loop over the certificate references, with its four early \<open>continue\<close>s.\<close>

definition resolve_cert_ref ::
  "GatewayListeners \<Rightarrow> string \<Rightarrow> WorldSnapshot \<Rightarrow> SecretRef \<Rightarrow> CpInlineCertificate option" where
  "resolve_cert_ref listener gateway_ns snapshot cert_ref =
     (let secret_ns = unwrap_or gateway_ns (sr_namespace cert_ref)
      in if secret_ns \<noteq> gateway_ns \<and> \<not> is_secret_reference_allowed snapshot gateway_ns secret_ns
         then None
         else (case get_secret snapshot secret_ns (sr_name cert_ref) of
             None \<Rightarrow> None
           | Some secret \<Rightarrow> (case se_data secret of
               None \<Rightarrow> None
             | Some data \<Rightarrow>
                 (case (Option.bind (bt_get ''tls.crt'' data) from_utf8,
                        Option.bind (bt_get ''tls.key'' data) from_utf8) of
                    (Some cert, Some key) \<Rightarrow> Some \<lparr>cic_cert_pem = cert, cic_key_pem = key,
                        cic_hostnames = (case gl_hostname listener of Some h \<Rightarrow> [h] | None \<Rightarrow> [])\<rparr>
                  | _ \<Rightarrow> None))))"

fun resolve_cert_refs ::
  "GatewayListeners \<Rightarrow> string \<Rightarrow> WorldSnapshot \<Rightarrow> SecretRef list \<Rightarrow>
     CpCertificateRef list \<Rightarrow> CpInlineCertificate list \<Rightarrow> bool \<Rightarrow>
     CpCertificateRef list \<times> CpInlineCertificate list \<times> bool" where
  "resolve_cert_refs listener gateway_ns snapshot [] certificates inline all_resolved =
     (certificates, inline, all_resolved)"
| "resolve_cert_refs listener gateway_ns snapshot (c # cs) certificates inline all_resolved =
     (let certificates = certificates @
            [\<lparr>ccr_namespace = unwrap_or gateway_ns (sr_namespace c), ccr_name = sr_name c\<rparr>]
      in case resolve_cert_ref listener gateway_ns snapshot c of
           Some ic \<Rightarrow> resolve_cert_refs listener gateway_ns snapshot cs certificates (inline @ [ic]) all_resolved
         | None \<Rightarrow> resolve_cert_refs listener gateway_ns snapshot cs certificates inline False)"

definition resolve_listener_tls ::
  "GatewayListeners \<Rightarrow> string \<Rightarrow> WorldSnapshot \<Rightarrow> CpTlsConfig option \<times> bool" where
  "resolve_listener_tls listener gateway_ns snapshot =
     (case gl_tls listener of
        None \<Rightarrow> (None, True)
      | Some tls_spec \<Rightarrow>
          (let mode = (case glt_mode tls_spec of
                 Some LtmPassthrough \<Rightarrow> CpPassthrough
               | _ \<Rightarrow> CpTerminate);
               cert_refs = unwrap_or [] (glt_certificate_refs tls_spec);
               (certificates, inline, all_resolved) =
                 resolve_cert_refs listener gateway_ns snapshot cert_refs [] [] True
           in (Some \<lparr>ctl_mode = mode, ctl_certificates = certificates,
                 ctl_inline_certificates = inline\<rparr>, all_resolved)))"

section \<open>The data plane configuration\<close>

fun add_listeners ::
  "GatewayListeners list \<Rightarrow> string \<Rightarrow> WorldSnapshot \<Rightarrow> CpGatewayConfig \<Rightarrow> (string, bool) btree \<Rightarrow>
     CpGatewayConfig \<times> (string, bool) btree" where
  "add_listeners [] namespace snapshot config resolved = (config, resolved)"
| "add_listeners (listener # ls) namespace snapshot config resolved =
     (let protocol = unwrap_or CpHttp (protocol_from_str (gl_protocol listener));
          (tls, refs_resolved) = resolve_listener_tls listener namespace snapshot
      in add_listeners ls namespace snapshot
           (add_listener config \<lparr>clc_name = gl_name listener, clc_port = word_of_int (gl_port listener),
              clc_protocol = protocol, clc_hostname = gl_hostname listener, clc_tls = tls\<rparr>)
           (bt_insert (gl_name listener) refs_resolved resolved))"

fun add_routes ::
  "float_ops \<Rightarrow> Gateway \<Rightarrow> HTTPRoute list \<Rightarrow> CpGatewayConfig \<Rightarrow> CpGatewayConfig" where
  "add_routes fl gateway [] config = config"
| "add_routes fl gateway (r # rs) config =
     (case convert_httproute_to_config fl r (map gl_name (gw_listeners gateway)) of
        Inr route_config \<Rightarrow> add_routes fl gateway rs (add_route config route_config)
      | Inl _ \<Rightarrow> add_routes fl gateway rs config)"

definition build_gateway_config ::
  "float_ops \<Rightarrow> Gateway \<Rightarrow> string \<Rightarrow> WorldSnapshot \<Rightarrow> CpGatewayConfig \<times> (string, bool) btree" where
  "build_gateway_config fl gateway namespace snapshot =
     (let (config, listener_refs_resolved) =
            add_listeners (gw_listeners gateway) namespace snapshot
              (gateway_config_new namespace (name_any (gw_metadata gateway))) [];
          routes = routes_for_gateway snapshot namespace (name_any (gw_metadata gateway))
      in (add_routes fl gateway routes config, listener_refs_resolved))"

section \<open>Deployed objects\<close>

definition owner_reference :: "Gateway \<Rightarrow> OwnerReference" where
  "owner_reference gateway = \<lparr>or_api_version = ''gateway.networking.k8s.io/v1'', or_kind = ''Gateway'',
     or_name = name_any (gw_metadata gateway), or_uid = unwrap_or [] (om_uid (gw_metadata gateway)),
     or_controller = Some True, or_block_owner_deletion = Some True\<rparr>"

definition managed_meta :: "string \<Rightarrow> DataPlaneNames \<Rightarrow> Gateway \<Rightarrow> ObjectMeta" where
  "managed_meta name names gateway = object_meta_default\<lparr>om_name := Some name,
     om_namespace := Some (dp_namespace names), om_labels := Some (labels names),
     om_owner_references := Some [owner_reference gateway]\<rparr>"

definition build_configmap ::
  "(CpGatewayConfig \<Rightarrow> string option) \<Rightarrow> DataPlaneNames \<Rightarrow> CpGatewayConfig \<Rightarrow> Gateway \<Rightarrow> ConfigMap" where
  "build_configmap to_json names config gateway =
     (let config_json = unwrap_or [] (to_json config)
      in \<lparr>cm_metadata = managed_meta (configmap_name names) names gateway,
          cm_data = Some (bt_insert CONFIG_KEY config_json [])\<rparr>)"

definition build_serviceaccount :: "DataPlaneNames \<Rightarrow> Gateway \<Rightarrow> ServiceAccount" where
  "build_serviceaccount names gateway =
     \<lparr>sa_metadata = managed_meta (serviceaccount_name names) names gateway\<rparr>"

definition build_role :: "DataPlaneNames \<Rightarrow> Gateway \<Rightarrow> Role" where
  "build_role names gateway = \<lparr>ro_metadata = managed_meta (role_name names) names gateway,
     ro_rules = Some [\<lparr>po_api_groups = Some [[]], po_resources = Some [''configmaps''],
       po_verbs = [''get'', ''list'', ''watch''], po_resource_names = Some [configmap_name names]\<rparr>]\<rparr>"

definition build_rolebinding :: "DataPlaneNames \<Rightarrow> Gateway \<Rightarrow> RoleBinding" where
  "build_rolebinding names gateway = \<lparr>rb_metadata = managed_meta (rolebinding_name names) names gateway,
     rb_role_ref = \<lparr>rf_api_group = ''rbac.authorization.k8s.io'', rf_kind = ''Role'',
       rf_name = role_name names\<rparr>,
     rb_subjects = Some [\<lparr>su_kind = ''ServiceAccount'', su_name = serviceaccount_name names,
       su_namespace = Some (dp_namespace names)\<rparr>]\<rparr>"

definition MAX_PORT_NAME_LENGTH :: nat where
  "MAX_PORT_NAME_LENGTH = 15"

definition port_name_hash :: "string \<Rightarrow> u32" where
  "port_name_hash name = foldl (\<lambda>acc b. acc * 31 + word_of_nat (byte b)) 0 name"

definition sanitize_port_name :: "string \<Rightarrow> string" where
  "sanitize_port_name name =
     (if length name \<le> MAX_PORT_NAME_LENGTH then name
      else (let hash_suffix = show_hex (unat (and (port_name_hash name) 0xFFFF));
                truncate_len = MAX_PORT_NAME_LENGTH - 1 - length hash_suffix;
                truncated = trim_end_matches (CHR ''-'') (take_chars truncate_len name)
            in truncated @ ''-'' @ hash_suffix))"

definition service_port_of :: "GatewayListeners \<Rightarrow> ServicePort" where
  "service_port_of listener = \<lparr>sp_name = Some (sanitize_port_name (gl_name listener)),
     sp_port = gl_port listener, sp_target_port = Some (gl_port listener), sp_protocol = Some ''TCP''\<rparr>"

definition build_service :: "DataPlaneNames \<Rightarrow> Gateway \<Rightarrow> Service" where
  "build_service names gateway =
     (let port_map = bt_fill gl_port service_port_of (gw_listeners gateway) []
      in \<lparr>sv_metadata = managed_meta (service_name names) names gateway,
          sv_spec = Some \<lparr>ss_selector = Some (selector_labels names), ss_ports = Some (bt_values port_map),
            ss_type = Some ''ClusterIP'', ss_cluster_ip = None\<rparr>,
          sv_load_balancer_ingress = None\<rparr>)"

definition container_port_of :: "GatewayListeners \<Rightarrow> ContainerPort" where
  "container_port_of listener = \<lparr>cp_name = Some (sanitize_port_name (gl_name listener)),
     cp_container_port = gl_port listener, cp_host_port = Some (gl_port listener),
     cp_protocol = Some ''TCP''\<rparr>"

definition resource_quantities :: "ResourceConfig \<Rightarrow> (string, string) btree" where
  "resource_quantities r = bt_insert ''memory'' (rs_memory r) (bt_insert ''cpu'' (rs_cpu r) [])"

definition build_deployment :: "DataPlaneNames \<Rightarrow> Gateway \<Rightarrow> ControllerConfig \<Rightarrow> Deployment" where
  "build_deployment names gateway config =
     (let port_map = bt_fill gl_port container_port_of (gw_listeners gateway) [];
          container = \<lparr>ct_name = ''dataplane'', ct_image = Some (cc_dataplane_image config),
            ct_image_pull_policy = Some (cc_image_pull_policy config),
            ct_ports = Some (bt_values port_map),
            ct_env = Some [
              \<lparr>ev_name = ''GATEWAY_NAME'', ev_value = Some (name_any (gw_metadata gateway))\<rparr>,
              \<lparr>ev_name = ''GATEWAY_NAMESPACE'', ev_value = Some (dp_namespace names)\<rparr>],
            ct_requests = Some (resource_quantities (cc_resource_requests config)),
            ct_limits = Some (resource_quantities (cc_resource_limits config))\<rparr>
      in \<lparr>de_metadata = managed_meta (deployment_name names) names gateway,
          de_spec = Some \<lparr>ds_replicas = Some (cc_default_replicas config),
            ds_selector_match_labels = Some (selector_labels names),
            ds_template_labels = Some (labels names),
            ds_service_account_name = Some (serviceaccount_name names),
            ds_containers = [container]\<rparr>\<rparr>)"

section \<open>Lemmas\<close>

lemma resolve_cert_refs_eq:
  "resolve_cert_refs l ns s cs certs inl ok =
     (certs @ map (\<lambda>c. \<lparr>ccr_namespace = unwrap_or ns (sr_namespace c), ccr_name = sr_name c\<rparr>) cs,
      inl @ List.map_filter (resolve_cert_ref l ns s) cs,
      ok \<and> list_all (\<lambda>c. resolve_cert_ref l ns s c \<noteq> None) cs)"
  by (induction cs arbitrary: certs inl ok) (auto simp: Let_def map_filter_simps split: option.split)

lemma resolve_cert_ref_Some:
  "resolve_cert_ref l ns s c = Some ic \<longleftrightarrow>
     (\<exists>se data. (unwrap_or ns (sr_namespace c) = ns \<or>
          is_secret_reference_allowed s ns (unwrap_or ns (sr_namespace c))) \<and>
        get_secret s (unwrap_or ns (sr_namespace c)) (sr_name c) = Some se \<and> se_data se = Some data \<and>
        bt_get ''tls.crt'' data = Some (cic_cert_pem ic) \<and> utf8_valid (cic_cert_pem ic) \<and>
        bt_get ''tls.key'' data = Some (cic_key_pem ic) \<and> utf8_valid (cic_key_pem ic) \<and>
        cic_hostnames ic = (case gl_hostname l of Some h \<Rightarrow> [h] | None \<Rightarrow> []))"
proof -
  define m where "m = unwrap_or ns (sr_namespace c)"
  show ?thesis
  proof (cases "(m = ns \<or> is_secret_reference_allowed s ns m) \<and> get_secret s m (sr_name c) \<noteq> None")
    case True
    then obtain se where se: "get_secret s m (sr_name c) = Some se" by blast
    show ?thesis
      using True se
      by (cases "se_data se"; cases "bt_get ''tls.crt'' (the (se_data se))";
          cases "bt_get ''tls.key'' (the (se_data se))"; cases ic)
        (auto simp: resolve_cert_ref_def Let_def from_utf8_def simp flip: m_def)
  next
    case False
    then show ?thesis by (auto simp: resolve_cert_ref_def Let_def simp flip: m_def)
  qed
qed

definition listener_config_of :: "string \<Rightarrow> WorldSnapshot \<Rightarrow> GatewayListeners \<Rightarrow> CpListenerConfig" where
  "listener_config_of ns s l = \<lparr>clc_name = gl_name l, clc_port = word_of_int (gl_port l),
     clc_protocol = unwrap_or CpHttp (protocol_from_str (gl_protocol l)), clc_hostname = gl_hostname l,
     clc_tls = fst (resolve_listener_tls l ns s)\<rparr>"

lemma add_listeners_fst:
  "fst (add_listeners ls ns s c m) = c\<lparr>cgc_listeners := cgc_listeners c @ map (listener_config_of ns s) ls\<rparr>"
proof (induction ls arbitrary: c m)
  case (Cons l ls)
  then show ?case
    by (cases "resolve_listener_tls l ns s") (simp add: add_listener_def listener_config_of_def Let_def)
qed simp

lemma add_listeners_snd:
  "bt_get n (snd (add_listeners ls ns s c m)) =
     (case find (\<lambda>l. gl_name l = n) (rev ls) of
        Some l \<Rightarrow> Some (snd (resolve_listener_tls l ns s)) | None \<Rightarrow> bt_get n m)"
proof -
  have "bt_get n (snd (add_listeners ls ns s c m)) =
      foldl (\<lambda>r l. if gl_name l = n then Some (snd (resolve_listener_tls l ns s)) else r) (bt_get n m) ls"
    by (induction ls arbitrary: c m)
      (auto simp: Let_def bt_get_insert split: prod.split intro!: arg_cong2 [where f = "\<lambda>r. foldl _ r"])
  also have "\<dots> = (case find (\<lambda>l. gl_name l = n) (rev ls) of
        Some l \<Rightarrow> Some (snd (resolve_listener_tls l ns s)) | None \<Rightarrow> bt_get n m)"
    by (induction ls rule: rev_induct) auto
  finally show ?thesis .
qed

definition route_config_of :: "float_ops \<Rightarrow> Gateway \<Rightarrow> HTTPRoute \<Rightarrow> CpRouteConfig" where
  "route_config_of fl gw r = projr (convert_httproute_to_config fl r (map gl_name (gw_listeners gw)))"

lemma add_routes_eq:
  "add_routes fl gw rs c = c\<lparr>cgc_routes := cgc_routes c @ map (route_config_of fl gw) rs\<rparr>"
  by (induction rs arbitrary: c) (simp_all add: convert_httproute_Inr add_route_def route_config_of_def)

lemma build_gateway_config_fst:
  "fst (build_gateway_config fl gw ns s) = \<lparr>cgc_version = ''v1'',
     cgc_gateway = \<lparr>cgr_namespace = ns, cgr_name = name_any (gw_metadata gw)\<rparr>,
     cgc_listeners = map (listener_config_of ns s) (gw_listeners gw),
     cgc_routes = map (route_config_of fl gw) (routes_for_gateway s ns (name_any (gw_metadata gw)))\<rparr>"
  using add_listeners_fst [of "gw_listeners gw" ns s "gateway_config_new ns (name_any (gw_metadata gw))" "[]"]
  by (auto simp: build_gateway_config_def Let_def add_routes_eq gateway_config_new_def split: prod.split)

lemma build_gateway_config_snd:
  "bt_get n (snd (build_gateway_config fl gw ns s)) =
     map_option (\<lambda>l. snd (resolve_listener_tls l ns s)) (find (\<lambda>l. gl_name l = n) (rev (gw_listeners gw)))"
  using add_listeners_snd [of n "gw_listeners gw" ns s "gateway_config_new ns (name_any (gw_metadata gw))" "[]"]
  by (auto simp: build_gateway_config_def Let_def split: prod.split option.split)

lemma u16_of_port: "0 \<le> p \<Longrightarrow> p \<le> 65535 \<Longrightarrow> uint (word_of_int p :: u16) = p"
  by (simp add: uint_word_of_int)

lemma length_port_name_suffix: "length (show_hex (unat (and (h :: u32) 0xFFFF))) \<le> 4"
proof (rule length_show_hex)
  have "and h 0xFFFF \<le> (0xFFFF :: u32)" by (rule word_and_le1)
  then have "unat (and h 0xFFFF) \<le> unat (0xFFFF :: u32)" by (simp only: word_le_nat_alt)
  then show "unat (and h 0xFFFF) < 65536" by simp
qed

lemma prefix_trim_end_matches: "prefix (trim_end_matches c s) s"
proof -
  have "suffix (dropWhile (\<lambda>x. x = c) (rev s)) (rev s)" by (rule suffix_dropWhile)
  then show ?thesis by (simp add: trim_end_matches_def suffix_to_prefix)
qed

lemma map_filter_mem: "y \<in> set (List.map_filter f xs) \<longleftrightarrow> (\<exists>x\<in>set xs. f x = Some y)"
  by (induction xs) (auto simp: map_filter_simps split: option.splits)

lemma length_map_filter_le: "length (List.map_filter f xs) \<le> length xs"
  by (simp add: List.map_filter_def)

lemma length_map_filter: "length (List.map_filter f xs) = length xs \<longleftrightarrow> list_all (\<lambda>x. f x \<noteq> None) xs"
proof (induction xs)
  case (Cons x xs)
  then show ?case
    using length_map_filter_le [of f xs] by (auto simp: map_filter_simps split: option.split)
qed (simp add: map_filter_simps)

lemma port_name_hash_append:
  "port_name_hash (a @ b) = foldl (\<lambda>acc c. acc * 31 + word_of_nat (byte c)) (port_name_hash a) b"
  by (simp add: port_name_hash_def)

section \<open>Properties\<close>

text \<open>The ports of the data plane. The Service has exactly one port for every distinct listener
  port, in ascending order, named after the first listener with that port, and the pod's
  container opens the same ports under the same names, on the node as well.\<close>

theorem data_plane_ports:
  "\<exists>spec ports dspec cont cports.
     sv_spec (build_service names gw) = Some spec \<and> ss_ports spec = Some ports \<and>
     de_spec (build_deployment names gw cfg) = Some dspec \<and> ds_containers dspec = [cont] \<and>
     ct_ports cont = Some cports \<and>
     map sp_port ports = sorted_list_of_set (gl_port ` set (gw_listeners gw)) \<and>
     map sp_name ports = map (\<lambda>p. Some (sanitize_port_name
       (gl_name (the (find (\<lambda>l. gl_port l = p) (gw_listeners gw)))))) (map sp_port ports) \<and>
     map cp_container_port cports = map sp_port ports \<and> map cp_name cports = map sp_name ports \<and>
     map cp_host_port cports = map (\<lambda>p. Some p) (map sp_port ports)"
proof -
  have gp: "gl_port (the (find (\<lambda>l. gl_port l = p) (gw_listeners gw))) = p"
    if "p \<in> gl_port ` set (gw_listeners gw)" for p
    using that by (cases "find (\<lambda>l. gl_port l = p) (gw_listeners gw)")
      (auto simp: find_eq_None_iff dest: find_Some_set)
  have "map (\<lambda>p. gl_port (the (find (\<lambda>l. gl_port l = p) (gw_listeners gw))))
      (sorted_list_of_set (gl_port ` set (gw_listeners gw))) =
    sorted_list_of_set (gl_port ` set (gw_listeners gw))"
    by (intro map_idI) (simp add: gp)
  with gp show ?thesis
    by (simp add: build_service_def build_deployment_def Let_def bt_fill_values service_port_of_def
        container_port_of_def comp_def)
qed



text \<open>A truncated port name is not unique. Two ASCII listener names that differ only in the
  endings \<open>an\<close> and \<open>c0\<close> after at least 14 characters get the same port name, because their
  31-hashes agree.\<close>

theorem sanitize_port_name_collides:
  assumes "is_ascii p" and "14 \<le> length p"
  shows "p @ ''an'' \<noteq> p @ ''c0'' \<and> sanitize_port_name (p @ ''an'') = sanitize_port_name (p @ ''c0'')"
proof -
  have "port_name_hash (p @ ''an'') = port_name_hash (p @ ''c0'')"
    by (simp add: port_name_hash_append byte_def algebra_simps)
  moreover have "is_ascii (p @ ''an'')" "is_ascii (p @ ''c0'')"
    using assms(1) by (auto simp: is_ascii_def byte_def)
  ultimately show ?thesis
    using assms(2) by (simp add: sanitize_port_name_def MAX_PORT_NAME_LENGTH_def Let_def take_chars_ascii)
qed

theorem sanitize_port_name_collides_witness:
  "sanitize_port_name ''listener-https-an'' = sanitize_port_name ''listener-https-c0''"
  using sanitize_port_name_collides [of "''listener-https-''"] by (simp add: is_ascii_def byte_def)

text \<open>C18: TLS material of a listener. Every inline certificate is the UTF-8 content of the keys
  \<open>tls.crt\<close> and \<open>tls.key\<close> of a Secret that one of the listener's references names, in the
  Gateway's own namespace or in one that grants it; every reference is listed; and the resolved
  flag says that every reference produced a certificate.\<close>

theorem resolve_listener_tls_safe:
  assumes "resolve_listener_tls l ns s = (Some tls, ok)"
  shows "\<exists>spec. gl_tls l = Some spec \<and>
    map ccr_name (ctl_certificates tls) = map sr_name (unwrap_or [] (glt_certificate_refs spec)) \<and>
    (ok \<longleftrightarrow> length (ctl_inline_certificates tls) = length (unwrap_or [] (glt_certificate_refs spec))) \<and>
    (\<forall>ic\<in>set (ctl_inline_certificates tls). \<exists>c se data.
       c \<in> set (unwrap_or [] (glt_certificate_refs spec)) \<and>
       (unwrap_or ns (sr_namespace c) = ns \<or> is_secret_reference_allowed s ns (unwrap_or ns (sr_namespace c))) \<and>
       get_secret s (unwrap_or ns (sr_namespace c)) (sr_name c) = Some se \<and> se_data se = Some data \<and>
       bt_get ''tls.crt'' data = Some (cic_cert_pem ic) \<and> utf8_valid (cic_cert_pem ic) \<and>
       bt_get ''tls.key'' data = Some (cic_key_pem ic) \<and> utf8_valid (cic_key_pem ic))"
proof -
  obtain spec where spec: "gl_tls l = Some spec"
    using assms by (auto simp: resolve_listener_tls_def split: option.splits)
  define refs where "refs = unwrap_or [] (glt_certificate_refs spec)"
  have tls: "ctl_certificates tls = map (\<lambda>c. \<lparr>ccr_namespace = unwrap_or ns (sr_namespace c), ccr_name = sr_name c\<rparr>) refs"
    "ctl_inline_certificates tls = List.map_filter (resolve_cert_ref l ns s) refs"
    "ok \<longleftrightarrow> list_all (\<lambda>c. resolve_cert_ref l ns s c \<noteq> None) refs"
    using assms spec by (auto simp: resolve_listener_tls_def resolve_cert_refs_eq Let_def refs_def)
  have "\<exists>c se data. c \<in> set refs \<and>
      (unwrap_or ns (sr_namespace c) = ns \<or> is_secret_reference_allowed s ns (unwrap_or ns (sr_namespace c))) \<and>
      get_secret s (unwrap_or ns (sr_namespace c)) (sr_name c) = Some se \<and> se_data se = Some data \<and>
      bt_get ''tls.crt'' data = Some (cic_cert_pem ic) \<and> utf8_valid (cic_cert_pem ic) \<and>
      bt_get ''tls.key'' data = Some (cic_key_pem ic) \<and> utf8_valid (cic_key_pem ic)"
    if ic: "ic \<in> set (ctl_inline_certificates tls)" for ic
  proof -
    obtain c where "c \<in> set refs" "resolve_cert_ref l ns s c = Some ic"
      using ic tls(2) by (auto simp: map_filter_mem)
    then show ?thesis unfolding resolve_cert_ref_Some by blast
  qed
  moreover have "map ccr_name (ctl_certificates tls) = map sr_name refs"
    by (simp add: tls(1))
  moreover have "ok \<longleftrightarrow> length (ctl_inline_certificates tls) = length refs"
    by (simp only: tls(2,3) length_map_filter)
  ultimately show ?thesis using spec unfolding refs_def by blast
qed

definition demo_json :: "CpGatewayConfig \<Rightarrow> string option" where
  "demo_json c = Some (cgc_version c)"

definition demo_tls_listener :: GatewayListeners where
  "demo_tls_listener = \<lparr>gl_name = ''https'', gl_port = 443, gl_protocol = ''HTTPS'',
     gl_hostname = Some ''a.org'', gl_tls = Some \<lparr>glt_mode = None,
       glt_certificate_refs = Some [\<lparr>sr_namespace = None, sr_name = ''cert''\<rparr>]\<rparr>,
     gl_allowed_routes = None\<rparr>"

definition demo_secret :: Secret where
  "demo_secret = \<lparr>se_metadata = demo_meta ''ns'' ''cert'',
     se_data = Some [(''tls.crt'', ''C''), (''tls.key'', ''K'')]\<rparr>"

lemma demo_tls_resolved:
  "resolve_listener_tls demo_tls_listener ''ns'' (with_secret demo_secret demo_snapshot) =
     (Some \<lparr>ctl_mode = CpTerminate, ctl_certificates = [\<lparr>ccr_namespace = ''ns'', ccr_name = ''cert''\<rparr>],
        ctl_inline_certificates = [\<lparr>cic_cert_pem = ''C'', cic_key_pem = ''K'', cic_hostnames = [''a.org'']\<rparr>]\<rparr>,
      True)"
  by (simp add: resolve_listener_tls_def demo_tls_listener_def resolve_cert_ref_def demo_secret_def
      get_secret_def with_secret_def bt_get_def demo_snapshot_def with_defs snapshot_new_def
      from_utf8_def byte_def)

theorem resolve_listener_tls_safe_witness:
  "\<exists>se data. get_secret (with_secret demo_secret demo_snapshot) ''ns'' ''cert'' = Some se \<and>
     se_data se = Some data \<and> bt_get ''tls.crt'' data = Some ''C''"
  using resolve_listener_tls_safe [OF demo_tls_resolved]
  by (simp add: demo_tls_listener_def del: utf8_valid.simps) blast

text \<open>The address of a gateway. An address is reported exactly when the gateway counts as having
  one, and the list is never empty: first the addresses of the spec, then, once the data plane's
  Service exists, its load balancer's, else the first ready node's internal one, else the usable
  cluster IP. A gateway with an address in its spec has it even without a Service.\<close>

theorem derive_gateway_addresses_spec:
  "(snd (derive_gateway_addresses s gw names) \<longleftrightarrow> fst (derive_gateway_addresses s gw names) \<noteq> None) \<and>
   fst (derive_gateway_addresses s gw names) \<noteq> Some [] \<and>
   (unwrap_or [] (gw_addresses gw) \<noteq> [] \<longrightarrow>
      fst (derive_gateway_addresses s gw names) = gw_addresses gw) \<and>
   (unwrap_or [] (gw_addresses gw) = [] \<longrightarrow>
      (snd (derive_gateway_addresses s gw names) \<longleftrightarrow>
         (\<exists>svc. get_service s (dp_namespace names) (service_name names) = Some svc \<and>
            (load_balancer_addresses svc \<noteq> None \<or> get_node_internal_ip s \<noteq> None \<or>
             usable_cluster_ip svc \<noteq> None))))"
proof -
  have "load_balancer_addresses svc \<noteq> Some []" for svc
    by (auto simp: load_balancer_addresses_def Let_def split: option.splits)
  then show ?thesis
    by (cases "gw_addresses gw") (auto simp: derive_gateway_addresses_def split: option.splits)
qed

theorem derive_gateway_addresses_spec_witness:
  "fst (derive_gateway_addresses demo_snapshot
      (demo_gateway\<lparr>gw_addresses := Some [\<lparr>ga_type = None, ga_value = ''10.0.0.1''\<rparr>]\<rparr>)
      (data_plane_names_new ''ns'' ''gw'')) = Some [\<lparr>ga_type = None, ga_value = ''10.0.0.1''\<rparr>]"
  using derive_gateway_addresses_spec [of demo_snapshot
      "demo_gateway\<lparr>gw_addresses := Some [\<lparr>ga_type = None, ga_value = ''10.0.0.1''\<rparr>]\<rparr>"
      "data_plane_names_new ''ns'' ''gw''"]
  by simp

end
