(* ===== verification/Validate.thy ===== *)
theory Validate
  imports Snapshot
begin

text \<open>
  Validation of Gateway API resources, \<open>crates/controlplane/src/core/validate.rs\<close>: gateway
  classes, listeners, parent references and backends. Every early return of the source is a
  branch here, with its reason and message.
\<close>

section \<open>Gateway classes\<close>

definition SUPPORTED_FEATURES :: "string list" where
  "SUPPORTED_FEATURES = [''Gateway'', ''HTTPRoute'', ''HTTPRouteDestinationPortMatching'',
     ''HTTPRouteHostRewrite'', ''HTTPRouteMethodMatching'', ''HTTPRoutePathRedirect'',
     ''HTTPRoutePathRewrite'', ''HTTPRoutePortRedirect'', ''HTTPRouteQueryParamMatching'',
     ''HTTPRouteRequestHeaderModifier'', ''HTTPRouteRequestMirror'', ''HTTPRouteRequestRedirect'',
     ''HTTPRouteResponseHeaderModifier'', ''HTTPRouteSchemeRedirect'']"

record GatewayClassValidation =
  gcv_accepted :: bool
  gcv_reason :: string
  gcv_message :: string

definition validate_gateway_class :: "GatewayClass \<Rightarrow> GatewayClassValidation" where
  "validate_gateway_class gateway_class = \<lparr>gcv_accepted = True, gcv_reason = ''Accepted'',
     gcv_message = ''GatewayClass is accepted by the multiway controller''\<rparr>"

definition is_our_gateway_class :: "GatewayClass \<Rightarrow> bool" where
  "is_our_gateway_class gateway_class \<longleftrightarrow> gc_controller_name gateway_class = CONTROLLER_NAME"

definition is_gateway_class_accepted :: "GatewayClass \<Rightarrow> bool" where
  "is_gateway_class_accepted gateway_class =
     (if \<not> is_our_gateway_class gateway_class then False
      else (case gc_status gateway_class of
              None \<Rightarrow> False
            | Some status \<Rightarrow> (case gcs_conditions status of
                None \<Rightarrow> False
              | Some conditions \<Rightarrow>
                  list_ex (\<lambda>c. co_type c = ''Accepted'' \<and> co_status c = ''True'') conditions)))"

definition get_accepted_gateway_class :: "WorldSnapshot \<Rightarrow> string \<Rightarrow> GatewayClass option" where
  "get_accepted_gateway_class snapshot class_name =
     (case get_gateway_class snapshot class_name of
        Some gc \<Rightarrow> if is_gateway_class_accepted gc then Some gc else None
      | None \<Rightarrow> None)"

section \<open>Listeners\<close>

record ListenerValidationResult =
  lvr_name :: string
  lvr_valid :: bool
  lvr_reason :: string
  lvr_message :: string

record ListenerValidation =
  lv_all_valid :: bool
  lv_listeners :: "ListenerValidationResult list"

definition validate_port :: "GatewayListeners \<Rightarrow> ListenerValidationResult" where
  "validate_port listener =
     (if gl_port listener \<le> 0 \<or> gl_port listener > 65535
      then \<lparr>lvr_name = gl_name listener, lvr_valid = False, lvr_reason = ''InvalidPort'',
             lvr_message = ''Port '' @ show_int (gl_port listener) @
               '' is out of valid range (1-65535)''\<rparr>
      else \<lparr>lvr_name = gl_name listener, lvr_valid = True, lvr_reason = ''Accepted'',
             lvr_message = []\<rparr>)"

definition validate_single_listener :: "GatewayListeners \<Rightarrow> ListenerValidationResult" where
  "validate_single_listener listener =
     (let name = gl_name listener; protocol = to_uppercase (gl_protocol listener)
      in if protocol = ''HTTP'' then
           (if gl_tls listener \<noteq> None
            then \<lparr>lvr_name = name, lvr_valid = False, lvr_reason = ''InvalidTLS'',
                   lvr_message = ''HTTP listeners should not have TLS configuration''\<rparr>
            else validate_port listener)
         else if protocol = ''HTTPS'' then
           (if gl_tls listener = None
            then \<lparr>lvr_name = name, lvr_valid = False, lvr_reason = ''InvalidTLS'',
                   lvr_message = ''HTTPS listeners require TLS configuration''\<rparr>
            else validate_port listener)
         else \<lparr>lvr_name = name, lvr_valid = False, lvr_reason = ''UnsupportedProtocol'',
                lvr_message = ''Protocol '' @ [CHR 39] @ protocol @ [CHR 39] @ '' is not supported''\<rparr>)"

fun validate_listeners_loop ::
  "GatewayListeners list \<Rightarrow> bool \<Rightarrow> ListenerValidationResult list \<Rightarrow> ListenerValidation" where
  "validate_listeners_loop [] all_valid results =
     \<lparr>lv_all_valid = all_valid, lv_listeners = results\<rparr>"
| "validate_listeners_loop (listener # ls) all_valid results =
     (let result = validate_single_listener listener
      in validate_listeners_loop ls (if \<not> lvr_valid result then False else all_valid)
           (results @ [result]))"

definition validate_listeners :: "GatewayListeners list \<Rightarrow> ListenerValidation" where
  "validate_listeners listeners = validate_listeners_loop listeners True []"

section \<open>Namespaces\<close>

datatype AllowedNamespaces =
    AllowAll
  | AllowSame string
  | AllowSelector "(string, string) btree"

definition get_allowed_route_namespaces :: "GatewayListeners \<Rightarrow> string \<Rightarrow> AllowedNamespaces" where
  "get_allowed_route_namespaces listener gateway_namespace =
     (case gl_allowed_routes listener of
        None \<Rightarrow> AllowSame gateway_namespace
      | Some allowed \<Rightarrow> (case ar_namespaces allowed of
          None \<Rightarrow> AllowSame gateway_namespace
        | Some ns_config \<Rightarrow> (case rn_from ns_config of
            None \<Rightarrow> AllowSame gateway_namespace
          | Some FromAll \<Rightarrow> AllowAll
          | Some FromSame \<Rightarrow> AllowSame gateway_namespace
          | Some FromSelector \<Rightarrow> (case rn_selector ns_config of
              Some selector \<Rightarrow> AllowSelector (unwrap_or [] (ls_match_labels selector))
            | None \<Rightarrow> AllowSame gateway_namespace))))"

definition is_namespace_allowed :: "AllowedNamespaces \<Rightarrow> string \<Rightarrow> bool" where
  "is_namespace_allowed allowed namespace =
     (case allowed of
        AllowAll \<Rightarrow> True
      | AllowSame gw_ns \<Rightarrow> namespace = gw_ns
      | AllowSelector match_labels \<Rightarrow> match_labels \<noteq> [])"

section \<open>Backends\<close>

record BackendValidationError =
  bve_reason :: string
  bve_message :: string

definition validate_backend ::
  "WorldSnapshot \<Rightarrow> string \<Rightarrow> HttpRouteBackendRef \<Rightarrow> BackendValidationError option" where
  "validate_backend snapshot route_namespace backend =
     (let backend_namespace = unwrap_or route_namespace (hrb_namespace backend);
          backend_kind = unwrap_or ''Service'' (hrb_kind backend);
          backend_group = unwrap_or [] (hrb_group backend)
      in if backend_group \<noteq> [] \<or> backend_kind \<noteq> ''Service''
         then Some \<lparr>bve_reason = ''InvalidBackendRef'',
                bve_message = ''Unsupported backend type: '' @ backend_group @ ''/'' @ backend_kind\<rparr>
         else if \<not> service_exists snapshot backend_namespace (hrb_name backend)
         then Some \<lparr>bve_reason = ''BackendNotFound'',
                bve_message = ''Service '' @ backend_namespace @ ''/'' @ hrb_name backend @ '' not found''\<rparr>
         else if backend_namespace \<noteq> route_namespace \<and>
                 \<not> is_service_reference_allowed snapshot route_namespace backend_namespace
         then Some \<lparr>bve_reason = ''RefNotPermitted'',
                bve_message = ''Cross-namespace reference to Service '' @ backend_namespace @ ''/'' @
                  hrb_name backend @ '' requires ReferenceGrant''\<rparr>
         else None)"

fun first_backend_error ::
  "WorldSnapshot \<Rightarrow> string \<Rightarrow> HttpRouteBackendRef list \<Rightarrow> BackendValidationError option" where
  "first_backend_error snapshot route_namespace [] = None"
| "first_backend_error snapshot route_namespace (b # bs) =
     (case validate_backend snapshot route_namespace b of
        Some error \<Rightarrow> Some error
      | None \<Rightarrow> first_backend_error snapshot route_namespace bs)"

fun first_rule_error ::
  "WorldSnapshot \<Rightarrow> string \<Rightarrow> HttpRouteRule list \<Rightarrow> BackendValidationError option" where
  "first_rule_error snapshot route_namespace [] = None"
| "first_rule_error snapshot route_namespace (rule # rules) =
     (case (case hrl_backend_refs rule of
              Some backends \<Rightarrow> first_backend_error snapshot route_namespace backends
            | None \<Rightarrow> None) of
        Some error \<Rightarrow> Some error
      | None \<Rightarrow> first_rule_error snapshot route_namespace rules)"

section \<open>Parent references\<close>

record ParentRefValidation =
  prv_parent_ref :: ParentRef
  prv_accepted :: bool
  prv_reason :: string
  prv_message :: string
  prv_attached_listeners :: "string list"

definition find_matching_listeners ::
  "Gateway \<Rightarrow> string option \<Rightarrow> i32 option \<Rightarrow> GatewayListeners list" where
  "find_matching_listeners gateway section_name port =
     filter (\<lambda>l.
         if (case section_name of Some name \<Rightarrow> gl_name l \<noteq> name | None \<Rightarrow> False) then False
         else if (case port of Some p \<Rightarrow> gl_port l \<noteq> p | None \<Rightarrow> False) then False
         else (let protocol = to_uppercase (gl_protocol l)
               in protocol = ''HTTP'' \<or> protocol = ''HTTPS''))
       (gw_listeners gateway)"

definition parent_rejected :: "ParentRef \<Rightarrow> string \<Rightarrow> string \<Rightarrow> ParentRefValidation" where
  "parent_rejected p reason message = \<lparr>prv_parent_ref = p, prv_accepted = False,
     prv_reason = reason, prv_message = message, prv_attached_listeners = []\<rparr>"

definition validate_parent_ref ::
  "WorldSnapshot \<Rightarrow> HTTPRoute \<Rightarrow> ParentRef \<Rightarrow> string \<Rightarrow> ParentRefValidation" where
  "validate_parent_ref snapshot r parent_ref route_namespace =
     (let parent_namespace = unwrap_or route_namespace (pr_namespace parent_ref);
          parent_name = pr_name parent_ref;
          parent_kind = unwrap_or ''Gateway'' (pr_kind parent_ref);
          parent_group = unwrap_or ''gateway.networking.k8s.io'' (pr_group parent_ref)
      in if parent_group \<noteq> ''gateway.networking.k8s.io'' \<or> parent_kind \<noteq> ''Gateway''
         then parent_rejected parent_ref ''InvalidParentRef''
                (''Unsupported parent type: '' @ parent_group @ ''/'' @ parent_kind)
         else (case get_gateway snapshot parent_namespace parent_name of
             None \<Rightarrow> parent_rejected parent_ref ''NoMatchingParent''
                (''Gateway '' @ parent_namespace @ ''/'' @ parent_name @ '' not found'')
           | Some gateway \<Rightarrow>
               if get_accepted_gateway_class snapshot (gw_gateway_class_name gateway) = None
               then parent_rejected parent_ref ''NotAllowedByGateway''
                      (''Gateway'' @ [CHR 39] @ ''s GatewayClass is not managed by this controller'')
               else (let matching_listeners =
                         find_matching_listeners gateway (pr_section_name parent_ref) (pr_port parent_ref)
                     in if matching_listeners = []
                        then parent_rejected parent_ref ''NoMatchingListenerHostname''
                               ''No matching listener found on Gateway''
                        else (let gateway_namespace = namespace_or_default (gw_metadata gateway);
                                  allowed = list_ex (\<lambda>l. is_namespace_allowed
                                    (get_allowed_route_namespaces l gateway_namespace) route_namespace)
                                    matching_listeners
                              in if \<not> allowed \<and> route_namespace \<noteq> gateway_namespace \<and>
                                    \<not> is_gateway_reference_allowed snapshot route_namespace gateway_namespace
                                 then parent_rejected parent_ref ''RefNotPermitted''
                                        (''Route namespace '' @ route_namespace @
                                         '' is not allowed by Gateway listener policies'')
                                 else (case first_rule_error snapshot route_namespace
                                              (unwrap_or [] (hr_rules r)) of
                                     Some error \<Rightarrow> parent_rejected parent_ref (bve_reason error)
                                        (bve_message error)
                                   | None \<Rightarrow> \<lparr>prv_parent_ref = parent_ref, prv_accepted = True,
                                        prv_reason = ''Accepted'',
                                        prv_message = ''Route is accepted by Gateway'',
                                        prv_attached_listeners = map gl_name matching_listeners\<rparr>)))))"

section \<open>Lemmas\<close>

lemma get_accepted_gateway_class_Some:
  "get_accepted_gateway_class s c = Some gc \<longleftrightarrow>
     get_gateway_class s c = Some gc \<and> is_gateway_class_accepted gc"
  by (auto simp: get_accepted_gateway_class_def split: option.split)

lemma is_gateway_class_accepted_iff:
  "is_gateway_class_accepted gc \<longleftrightarrow>
     gc_controller_name gc = CONTROLLER_NAME \<and>
     (\<exists>st cs c. gc_status gc = Some st \<and> gcs_conditions st = Some cs \<and> c \<in> set cs \<and>
        co_type c = ''Accepted'' \<and> co_status c = ''True'')"
  by (auto simp: is_gateway_class_accepted_def is_our_gateway_class_def list_ex_iff split: option.split)

lemma first_backend_error_None:
  "first_backend_error s ns bs = None \<longleftrightarrow> (\<forall>b\<in>set bs. validate_backend s ns b = None)"
  by (induction bs) (auto split: option.splits)

lemma first_backend_error_Some:
  "first_backend_error s ns bs = Some e \<Longrightarrow> \<exists>b\<in>set bs. validate_backend s ns b = Some e"
  by (induction bs) (auto split: option.splits)

lemma first_rule_error_None:
  "first_rule_error s ns rules = None \<longleftrightarrow>
     (\<forall>rule\<in>set rules. \<forall>b\<in>set (unwrap_or [] (hrl_backend_refs rule)). validate_backend s ns b = None)"
  by (induction rules)
    (auto simp: first_backend_error_None split: option.splits dest!: first_backend_error_Some)

lemma validate_listeners_loop:
  "validate_listeners_loop ls v rs =
     \<lparr>lv_all_valid = (v \<and> list_all (\<lambda>l. lvr_valid (validate_single_listener l)) ls),
      lv_listeners = rs @ map validate_single_listener ls\<rparr>"
  by (induction ls arbitrary: v rs) (auto simp: Let_def)

definition http_or_https :: "GatewayListeners \<Rightarrow> bool" where
  "http_or_https l \<longleftrightarrow> to_uppercase (gl_protocol l) = ''HTTP'' \<or> to_uppercase (gl_protocol l) = ''HTTPS''"

definition listener_ok :: "GatewayListeners \<Rightarrow> bool" where
  "listener_ok l \<longleftrightarrow>
     (to_uppercase (gl_protocol l) = ''HTTP'' \<and> gl_tls l = None \<or>
      to_uppercase (gl_protocol l) = ''HTTPS'' \<and> gl_tls l \<noteq> None) \<and>
     1 \<le> gl_port l \<and> gl_port l \<le> 65535"

lemma validate_single_listener_valid: "lvr_valid (validate_single_listener l) \<longleftrightarrow> listener_ok l"
  by (auto simp: validate_single_listener_def validate_port_def listener_ok_def Let_def)

lemma validate_listeners_all_valid:
  "lv_all_valid (validate_listeners ls) \<longleftrightarrow> (\<forall>l\<in>set ls. listener_ok l)"
  by (simp add: validate_listeners_def validate_listeners_loop validate_single_listener_valid list_all_iff)

lemma find_matching_listeners_iff:
  "l \<in> set (find_matching_listeners g sec port) \<longleftrightarrow>
     l \<in> set (gw_listeners g) \<and> (\<forall>n. sec = Some n \<longrightarrow> gl_name l = n) \<and>
     (\<forall>p. port = Some p \<longrightarrow> gl_port l = p) \<and> http_or_https l"
  by (auto simp: find_matching_listeners_def http_or_https_def Let_def split: option.splits)

section \<open>Properties\<close>

text \<open>Listener validation. All listeners are valid exactly when each of them is HTTP without a
  TLS block or HTTPS with one, in any spelling of the protocol's case, and has a port between 1
  and 65535; there is one result per listener, in order, carrying its name.\<close>

theorem validate_listeners_iff:
  "(lv_all_valid (validate_listeners ls) \<longleftrightarrow> (\<forall>l\<in>set ls. listener_ok l)) \<and>
   map lvr_name (lv_listeners (validate_listeners ls)) = map gl_name ls \<and>
   map lvr_valid (lv_listeners (validate_listeners ls)) = map listener_ok ls"
proof -
  have "lvr_name (validate_single_listener l) = gl_name l" for l
    by (simp add: validate_single_listener_def validate_port_def Let_def)
  then show ?thesis
    by (simp add: validate_listeners_all_valid)
      (simp add: validate_listeners_def validate_listeners_loop validate_single_listener_valid)
qed

theorem validate_listeners_iff_witness:
  "lv_all_valid (validate_listeners (gw_listeners demo_gateway))"
proof -
  have "\<forall>l\<in>set (gw_listeners demo_gateway). listener_ok l"
    by (simp add: demo_gateway_def listener_ok_def ascii_upper_def byte_def)
  then show ?thesis using validate_listeners_iff [of "gw_listeners demo_gateway"] by blast
qed


definition demo_gateway_class :: GatewayClass where
  "demo_gateway_class = \<lparr>gc_metadata = object_meta_default\<lparr>om_name := Some ''multiway''\<rparr>,
     gc_controller_name = CONTROLLER_NAME, gc_parameters_ref = None,
     gc_status = Some \<lparr>gcs_conditions = Some [\<lparr>co_type = ''Accepted'', co_status = ''True'',
       co_observed_generation = None, co_last_transition_time = 0, co_reason = ''Accepted'',
       co_message = []\<rparr>]\<rparr>\<rparr>"

definition demo_cluster :: WorldSnapshot where
  "demo_cluster = with_gateway_class demo_gateway_class demo_snapshot"

definition demo_parent_ref :: ParentRef where
  "demo_parent_ref = \<lparr>pr_group = None, pr_kind = None, pr_name = ''gw'', pr_namespace = None,
     pr_port = None, pr_section_name = Some ''http''\<rparr>"


text \<open>A backend reference is valid exactly when it is a core Service that the snapshot has,
  in the route's namespace or in one that grants routes of that namespace its Services; a
  reference that is not valid is reported with one of three reasons.\<close>

theorem validate_backend_iff:
  "(validate_backend s route_ns b = None \<longleftrightarrow>
      unwrap_or [] (hrb_group b) = [] \<and> unwrap_or ''Service'' (hrb_kind b) = ''Service'' \<and>
      service_exists s (unwrap_or route_ns (hrb_namespace b)) (hrb_name b) \<and>
      (unwrap_or route_ns (hrb_namespace b) \<noteq> route_ns \<longrightarrow>
         is_service_reference_allowed s route_ns (unwrap_or route_ns (hrb_namespace b)))) \<and>
   bve_reason ` set_option (validate_backend s route_ns b) \<subseteq>
     {''InvalidBackendRef'', ''BackendNotFound'', ''RefNotPermitted''}"
  by (auto simp: validate_backend_def Let_def)

definition demo_backend :: HttpRouteBackendRef where
  "demo_backend = \<lparr>hrb_group = None, hrb_kind = None, hrb_name = ''svc'', hrb_namespace = None,
     hrb_port = Some 80, hrb_weight = None\<rparr>"

definition demo_service :: Service where
  "demo_service = \<lparr>sv_metadata = demo_meta ''ns'' ''svc'', sv_spec = None, sv_load_balancer_ingress = None\<rparr>"

theorem validate_backend_iff_witness:
  "validate_backend (with_service demo_service demo_cluster) ''ns'' demo_backend = None"
proof -
  have "service_exists (with_service demo_service demo_cluster) ''ns'' ''svc''"
    by (simp add: service_exists_def with_service_def demo_service_def)
  then show ?thesis
    using validate_backend_iff [of "with_service demo_service demo_cluster" "''ns''" demo_backend]
    by (simp add: demo_backend_def)
qed

end
