(* ===== verification/Fetcher.thy ===== *)
theory Fetcher
  imports Resources Validate
begin

text \<open>
  The snapshot fetcher, \<open>crates/controlplane/src/shell/fetcher.rs\<close>. The Kubernetes API is the
  parameter \<open>Cluster\<close>: the answer to every get and list the fetcher can make. It does not
  change while one snapshot is fetched.
\<close>

record Cluster =
  k_now :: timestamp
  k_get_gateway_class :: "string \<Rightarrow> KubeError + GatewayClass"
  k_get_gateway :: "string \<Rightarrow> string \<Rightarrow> KubeError + Gateway"
  k_get_httproute :: "string \<Rightarrow> string \<Rightarrow> KubeError + HTTPRoute"
  k_get_configmap :: "string \<Rightarrow> string \<Rightarrow> KubeError + ConfigMap"
  k_get_service :: "string \<Rightarrow> string \<Rightarrow> KubeError + Service"
  k_get_deployment :: "string \<Rightarrow> string \<Rightarrow> KubeError + Deployment"
  k_list_gateway_classes :: "KubeError + GatewayClass list"
  k_list_gateways :: "string option \<Rightarrow> KubeError + Gateway list"
  k_list_httproutes :: "string option \<Rightarrow> KubeError + HTTPRoute list"
  k_list_reference_grants :: "string option \<Rightarrow> KubeError + ReferenceGrant list"
  k_list_nodes :: "KubeError + Node list"

section \<open>Partial fetches\<close>

definition fetch_managed_resources :: "Cluster \<Rightarrow> WorldSnapshot \<Rightarrow> DataPlaneNames \<Rightarrow> WorldSnapshot result" where
  "fetch_managed_resources k s names =
     (let namespace = dp_namespace names;
          s = (case k_get_configmap k namespace (configmap_name names) of
                 Inr cm \<Rightarrow> with_configmap cm s | Inl _ \<Rightarrow> s);
          s = (case k_get_service k namespace (service_name names) of
                 Inr svc \<Rightarrow> with_service svc s | Inl _ \<Rightarrow> s);
          s = (case k_get_deployment k namespace (deployment_name names) of
                 Inr dep \<Rightarrow> with_deployment dep s | Inl _ \<Rightarrow> s)
      in Inr s)"

fun fetch_backends :: "Cluster \<Rightarrow> string \<Rightarrow> HttpRouteBackendRef list \<Rightarrow> WorldSnapshot \<Rightarrow> WorldSnapshot" where
  "fetch_backends k route_namespace [] s = s"
| "fetch_backends k route_namespace (backend # bs) s =
     (let backend_ns = unwrap_or route_namespace (hrb_namespace backend);
          backend_kind = unwrap_or ''Service'' (hrb_kind backend)
      in if backend_kind \<noteq> ''Service'' then fetch_backends k route_namespace bs s
         else (case k_get_service k backend_ns (hrb_name backend) of
             Inr svc \<Rightarrow> fetch_backends k route_namespace bs (with_service svc s)
           | Inl _ \<Rightarrow> fetch_backends k route_namespace bs s))"

fun fetch_rule_backends :: "Cluster \<Rightarrow> string \<Rightarrow> HttpRouteRule list \<Rightarrow> WorldSnapshot \<Rightarrow> WorldSnapshot" where
  "fetch_rule_backends k route_namespace [] s = s"
| "fetch_rule_backends k route_namespace (rule # rules) s =
     fetch_rule_backends k route_namespace rules
       (fetch_backends k route_namespace (unwrap_or [] (hrl_backend_refs rule)) s)"

definition fetch_backend_services ::
  "Cluster \<Rightarrow> WorldSnapshot \<Rightarrow> HTTPRoute \<Rightarrow> string \<Rightarrow> WorldSnapshot result" where
  "fetch_backend_services k s r route_namespace =
     Inr (fetch_rule_backends k route_namespace (unwrap_or [] (hr_rules r)) s)"

fun fetch_routes_loop ::
  "Cluster \<Rightarrow> string \<Rightarrow> string \<Rightarrow> HTTPRoute list \<Rightarrow> WorldSnapshot \<Rightarrow> WorldSnapshot result" where
  "fetch_routes_loop k gateway_ns gateway_name [] s = Inr s"
| "fetch_routes_loop k gateway_ns gateway_name (r # rs) s =
     (if references_gateway gateway_ns gateway_name r
      then (case fetch_backend_services k s r (namespace_or_default (hr_metadata r)) of
          Inl e \<Rightarrow> Inl e
        | Inr s \<Rightarrow> fetch_routes_loop k gateway_ns gateway_name rs (with_httproute r s))
      else fetch_routes_loop k gateway_ns gateway_name rs s)"

definition fetch_routes_for_gateway ::
  "Cluster \<Rightarrow> WorldSnapshot \<Rightarrow> string \<Rightarrow> string \<Rightarrow> WorldSnapshot result" where
  "fetch_routes_for_gateway k s gateway_ns gateway_name =
     (case k_list_httproutes k None of
        Inl e \<Rightarrow> Inl (KubernetesError e)
      | Inr routes \<Rightarrow> fetch_routes_loop k gateway_ns gateway_name routes s)"

definition fetch_reference_grants :: "Cluster \<Rightarrow> WorldSnapshot \<Rightarrow> string \<Rightarrow> WorldSnapshot result" where
  "fetch_reference_grants k s namespace =
     (case k_list_reference_grants k None of
        Inl e \<Rightarrow> Inl (KubernetesError e)
      | Inr grants \<Rightarrow>
          Inr (fold with_reference_grant
            (filter (\<lambda>grant. namespace_or_default (rg_metadata grant) = namespace \<or>
               list_ex (\<lambda>f. gf_namespace f = namespace) (rg_from grant)) grants) s))"

definition fetch_nodes :: "Cluster \<Rightarrow> WorldSnapshot \<Rightarrow> WorldSnapshot result" where
  "fetch_nodes k s =
     (case k_list_nodes k of Inr nodes \<Rightarrow> Inr (fold with_node nodes s) | Inl _ \<Rightarrow> Inr s)"

section \<open>Snapshots\<close>

definition snapshot_for_gateway_class :: "Cluster \<Rightarrow> string \<Rightarrow> WorldSnapshot result" where
  "snapshot_for_gateway_class k name =
     (let s = snapshot_new (k_now k)
      in case k_get_gateway_class k name of
           Inr gc \<Rightarrow> Inr (with_gateway_class gc s)
         | Inl e \<Rightarrow> if is_not_found e then Inr s else Inl (KubernetesError e))"

definition fetch_gateway_with_class :: "Cluster \<Rightarrow> WorldSnapshot \<Rightarrow> string \<Rightarrow> string \<Rightarrow> WorldSnapshot result" where
  "fetch_gateway_with_class k s namespace name =
     (case k_get_gateway k namespace name of
        Inl e \<Rightarrow> if is_not_found e then Inr s else Inl (KubernetesError e)
      | Inr gw \<Rightarrow>
          (let s = with_gateway gw s
           in case k_get_gateway_class k (gw_gateway_class_name gw) of
                Inr gc \<Rightarrow> Inr (with_gateway_class gc s)
              | Inl e \<Rightarrow> if is_not_found e then Inr s else Inl (KubernetesError e)))"

definition snapshot_for_gateway :: "Cluster \<Rightarrow> string \<Rightarrow> string \<Rightarrow> WorldSnapshot result" where
  "snapshot_for_gateway k namespace name =
     (case fetch_gateway_with_class k (snapshot_new (k_now k)) namespace name of
        Inl e \<Rightarrow> Inl e
      | Inr s \<Rightarrow> (case fetch_routes_for_gateway k s namespace name of
          Inl e \<Rightarrow> Inl e
        | Inr s \<Rightarrow> (case fetch_managed_resources k s (data_plane_names_new namespace name) of
            Inl e \<Rightarrow> Inl e
          | Inr s \<Rightarrow> fetch_nodes k s)))"

fun fetch_parents ::
  "Cluster \<Rightarrow> string \<Rightarrow> ParentRef list \<Rightarrow> WorldSnapshot \<Rightarrow> WorldSnapshot result" where
  "fetch_parents k namespace [] s = Inr s"
| "fetch_parents k namespace (parent_ref # refs) s =
     (let parent_ns = unwrap_or namespace (pr_namespace parent_ref);
          parent_name = pr_name parent_ref;
          parent_kind = unwrap_or ''Gateway'' (pr_kind parent_ref);
          parent_group = unwrap_or ''gateway.networking.k8s.io'' (pr_group parent_ref)
      in if parent_group \<noteq> ''gateway.networking.k8s.io'' \<or> parent_kind \<noteq> ''Gateway''
         then fetch_parents k namespace refs s
         else (case k_get_gateway k parent_ns parent_name of
             Inr gw \<Rightarrow>
               (let s = (case k_get_gateway_class k (gw_gateway_class_name gw) of
                           Inr gc \<Rightarrow> with_gateway_class gc s | Inl _ \<Rightarrow> s)
                in case fetch_managed_resources k s (data_plane_names_new parent_ns parent_name) of
                     Inl e \<Rightarrow> Inl e
                   | Inr s \<Rightarrow> fetch_parents k namespace refs (with_gateway gw s))
           | Inl e \<Rightarrow> fetch_parents k namespace refs s))"

definition snapshot_for_httproute :: "Cluster \<Rightarrow> string \<Rightarrow> string \<Rightarrow> WorldSnapshot result" where
  "snapshot_for_httproute k namespace name =
     (let s = snapshot_new (k_now k)
      in case (case k_get_httproute k namespace name of
                 Inr r \<Rightarrow> Inr (with_httproute r s, Some r)
               | Inl e \<Rightarrow> if is_not_found e then Inr (s, None) else Inl (KubernetesError e)) of
           Inl e \<Rightarrow> Inl e
         | Inr (s, r) \<Rightarrow>
             (case (case r of
                      Some r \<Rightarrow> fetch_parents k namespace (unwrap_or [] (hr_parent_refs r)) s
                    | None \<Rightarrow> Inr s) of
                Inl e \<Rightarrow> Inl e
              | Inr s \<Rightarrow> (case (case r of
                      Some r \<Rightarrow> fetch_backend_services k s r namespace
                    | None \<Rightarrow> Inr s) of
                  Inl e \<Rightarrow> Inl e
                | Inr s \<Rightarrow> fetch_reference_grants k s namespace)))"

definition snapshot_all :: "Cluster \<Rightarrow> string option \<Rightarrow> WorldSnapshot result" where
  "snapshot_all k watch_namespace =
     (let s = snapshot_new (k_now k)
      in case k_list_gateway_classes k of
           Inl e \<Rightarrow> Inl (KubernetesError e)
         | Inr gcs \<Rightarrow> (case k_list_gateways k watch_namespace of
             Inl e \<Rightarrow> Inl (KubernetesError e)
           | Inr gws \<Rightarrow> (case k_list_httproutes k watch_namespace of
               Inl e \<Rightarrow> Inl (KubernetesError e)
             | Inr routes \<Rightarrow> (case k_list_reference_grants k watch_namespace of
                 Inl e \<Rightarrow> Inl (KubernetesError e)
               | Inr grants \<Rightarrow> Inr (fold with_reference_grant grants (fold with_httproute routes
                   (fold with_gateway gws (fold with_gateway_class gcs s))))))))"

section \<open>What a fetch leaves alone\<close>

definition same_routes_and_grants :: "WorldSnapshot \<Rightarrow> WorldSnapshot \<Rightarrow> bool" where
  "same_routes_and_grants s s' \<longleftrightarrow> ws_httproutes s' = ws_httproutes s \<and> ws_secrets s' = ws_secrets s \<and>
     ws_reference_grants s' = ws_reference_grants s"

lemma same_refl [simp]: "same_routes_and_grants s s"
  by (simp add: same_routes_and_grants_def)

lemma same_trans: "same_routes_and_grants a b \<Longrightarrow> same_routes_and_grants b c \<Longrightarrow> same_routes_and_grants a c"
  by (simp add: same_routes_and_grants_def)

lemma same_with [simp]:
  "same_routes_and_grants s (with_gateway_class gc t) = same_routes_and_grants s t"
  "same_routes_and_grants s (with_gateway gw t) = same_routes_and_grants s t"
  "same_routes_and_grants s (with_service sv t) = same_routes_and_grants s t"
  "same_routes_and_grants s (with_configmap cm t) = same_routes_and_grants s t"
  "same_routes_and_grants s (with_deployment d t) = same_routes_and_grants s t"
  "same_routes_and_grants s (with_node n t) = same_routes_and_grants s t"
  by (simp_all add: same_routes_and_grants_def lens_simps)

lemma fetch_managed_same: "fetch_managed_resources k s names = Inr s' \<Longrightarrow> same_routes_and_grants s s'"
  by (auto simp: fetch_managed_resources_def Let_def split: sum.splits)

lemma fetch_backends_same: "same_routes_and_grants s t \<Longrightarrow> same_routes_and_grants s (fetch_backends k ns bs t)"
  by (induction bs arbitrary: t) (auto simp: Let_def split: sum.split)

lemma fetch_rule_backends_same: "same_routes_and_grants s t \<Longrightarrow> same_routes_and_grants s (fetch_rule_backends k ns rules t)"
  by (induction rules arbitrary: t) (simp_all add: fetch_backends_same)

lemma fetch_nodes_same: "fetch_nodes k s = Inr s' \<Longrightarrow> same_routes_and_grants s s'"
proof -
  have "same_routes_and_grants s (fold with_node ns t)" if "same_routes_and_grants s t" for ns t
    using that by (induction ns arbitrary: t) simp_all
  then show "fetch_nodes k s = Inr s' \<Longrightarrow> same_routes_and_grants s s'"
    by (auto simp: fetch_nodes_def split: sum.splits)
qed

lemma fetch_gateway_same: "fetch_gateway_with_class k s ns n = Inr s' \<Longrightarrow> same_routes_and_grants s s'"
  by (auto simp: fetch_gateway_with_class_def Let_def split: sum.splits if_splits)

lemma fetch_managed_Inr: "\<exists>s'. fetch_managed_resources k s names = Inr s' \<and> same_routes_and_grants s s'"
  using fetch_managed_same [of k s names] by (simp add: fetch_managed_resources_def Let_def)

lemma fetch_parents_same:
  "same_routes_and_grants s0 s \<Longrightarrow> \<exists>s'. fetch_parents k ns refs s = Inr s' \<and> same_routes_and_grants s0 s'"
proof (induction refs arbitrary: s)
  case (Cons p refs)
  show ?case
  proof (cases "k_get_gateway k (unwrap_or ns (pr_namespace p)) (pr_name p)")
    case (Inl e)
    then show ?thesis using Cons by (simp add: Let_def)
  next
    case (Inr gw)
    define t where "t = (case k_get_gateway_class k (gw_gateway_class_name gw) of
        Inr gc \<Rightarrow> with_gateway_class gc s | Inl _ \<Rightarrow> s)"
    have t: "same_routes_and_grants s0 t"
      using Cons.prems by (simp add: t_def split: sum.split)
    obtain s' where s': "fetch_managed_resources k t (data_plane_names_new (unwrap_or ns (pr_namespace p)) (pr_name p)) = Inr s'"
      "same_routes_and_grants t s'"
      using fetch_managed_Inr by blast
    from Cons.IH [of "with_gateway gw s'"] same_trans [OF t s'(2)] Cons.IH [OF Cons.prems] Inr s'(1)
    show ?thesis by (simp add: Let_def flip: t_def)
  qed
qed simp

lemma fetch_routes_loop_Inr:
  "\<exists>s'. fetch_routes_loop k gns gn rs s = Inr s' \<and> ws_secrets s' = ws_secrets s \<and>
     ws_reference_grants s' = ws_reference_grants s \<and>
     ws_httproutes s' = fold (\<lambda>r. bt_insert (meta_key (hr_metadata r)) r)
       (filter (references_gateway gns gn) rs) (ws_httproutes s)"
proof (induction rs arbitrary: s)
  case (Cons r rs)
  define t where "t = fetch_rule_backends k (namespace_or_default (hr_metadata r)) (unwrap_or [] (hr_rules r)) s"
  have t: "same_routes_and_grants s t"
    unfolding t_def by (rule fetch_rule_backends_same) simp
  show ?case
    using Cons.IH [of "with_httproute r t"] Cons.IH [of s] t
    by (auto simp: fetch_backend_services_def same_routes_and_grants_def lens_simps with_httproute_def
        simp flip: t_def)
qed simp

lemma fold_bt_insert_get:
  "bt_get k (fold (\<lambda>x. bt_insert (key x) x) xs m) =
     (case find (\<lambda>x. key x = k) (rev xs) of Some x \<Rightarrow> Some x | None \<Rightarrow> bt_get k m)"
proof (induction xs arbitrary: m)
  case (Cons x xs)
  have "find P (as @ [b]) = (case find P as of Some a \<Rightarrow> Some a | None \<Rightarrow> if P b then Some b else None)"
    for P as and b :: 'a by (induction as) auto
  with Cons show ?case by (simp add: bt_get_insert split: option.split)
qed simp

lemma keyed_fold: "keyed key m \<Longrightarrow> keyed key (fold (\<lambda>x. bt_insert (key x) x) xs m)"
  by (induction xs arbitrary: m) (simp_all add: keyed_insert)

lemma snapshot_for_gateway_maps:
  assumes "snapshot_for_gateway k ns n = Inr s"
  shows "\<exists>routes. k_list_httproutes k None = Inr routes \<and> ws_secrets s = [] \<and> ws_reference_grants s = [] \<and>
    ws_httproutes s = fold (\<lambda>r. bt_insert (meta_key (hr_metadata r)) r) (filter (references_gateway ns n) routes) []"
proof -
  obtain s1 s2 s3 where s1: "fetch_gateway_with_class k (snapshot_new (k_now k)) ns n = Inr s1"
    and s2: "fetch_routes_for_gateway k s1 ns n = Inr s2"
    and s3: "fetch_managed_resources k s2 (data_plane_names_new ns n) = Inr s3"
    and s: "fetch_nodes k s3 = Inr s"
    using assms by (auto simp: snapshot_for_gateway_def split: sum.splits)
  obtain routes where r: "k_list_httproutes k None = Inr routes"
    and l: "fetch_routes_loop k ns n routes s1 = Inr s2"
    using s2 by (auto simp: fetch_routes_for_gateway_def split: sum.splits)
  show ?thesis
    using fetch_gateway_same [OF s1] fetch_managed_same [OF s3] fetch_nodes_same [OF s]
      fetch_routes_loop_Inr [of k ns n routes s1] l r
    by (simp add: same_routes_and_grants_def snapshot_new_def)
qed

lemma resolve_without_secrets:
  "ws_secrets s = [] \<Longrightarrow> gl_tls l = Some spec \<Longrightarrow>
     ctl_inline_certificates (the (fst (resolve_listener_tls l ns s))) = [] \<and>
     (snd (resolve_listener_tls l ns s) \<longleftrightarrow> unwrap_or [] (glt_certificate_refs spec) = [])"
proof -
  assume "ws_secrets s = []" "gl_tls l = Some spec"
  then have none: "resolve_cert_ref l ns s c = None" for c
    by (simp add: resolve_cert_ref_def Let_def get_secret_def)
  have "List.map_filter (resolve_cert_ref l ns s) cs = []" for cs
    by (induction cs) (simp_all add: map_filter_simps none)
  then show ?thesis
    using \<open>gl_tls l = Some spec\<close>
    by (auto simp: resolve_listener_tls_def resolve_cert_refs_eq Let_def none list_all_iff)
qed

section \<open>Properties\<close>

text \<open>C31: the snapshot a Gateway is reconciled from has exactly the routes of the cluster that
  name the gateway, but no Secret and no ReferenceGrant: the fetcher never asks for them. So no
  listener gets a certificate from it, and every listener with a certificate reference is reported
  as unresolved, whatever the cluster holds.\<close>

theorem gateway_snapshot_contents:
  assumes "snapshot_for_gateway k ns n = Inr s" and "k_list_httproutes k None = Inr routes"
    and "distinct (map (\<lambda>r. meta_key (hr_metadata r)) routes)"
  shows "set (routes_for_gateway s ns n) = {r \<in> set routes. references_gateway ns n r} \<and>
    ws_secrets s = [] \<and> ws_reference_grants s = [] \<and>
    (\<forall>l spec. gl_tls l = Some spec \<longrightarrow>
       ctl_inline_certificates (the (fst (resolve_listener_tls l ns s))) = [] \<and>
       (snd (resolve_listener_tls l ns s) \<longleftrightarrow> unwrap_or [] (glt_certificate_refs spec) = []))"
proof -
  define key where "key r = meta_key (hr_metadata r)" for r :: HTTPRoute
  define mine where "mine = filter (references_gateway ns n) routes"
  have s: "ws_secrets s = []" "ws_reference_grants s = []"
    "ws_httproutes s = fold (\<lambda>r. bt_insert (key r) r) mine []"
    using snapshot_for_gateway_maps [OF assms(1)] assms(2) by (auto simp: mine_def key_def)
  have k: "keyed key (ws_httproutes s)" unfolding s(3) by (rule keyed_fold) simp
  have d: "distinct (map key mine)"
    using assms(3) unfolding mine_def key_def by (simp add: distinct_map_filter)
  have "r \<in> set (bt_values (ws_httproutes s)) \<longleftrightarrow> r \<in> set mine" for r
  proof -
    have "r \<in> set (bt_values (ws_httproutes s)) \<longleftrightarrow> bt_get (key r) (ws_httproutes s) = Some r"
      by (rule keyed_values_get [OF k])
    also have "\<dots> \<longleftrightarrow> find (\<lambda>x. key x = key r) (rev mine) = Some r"
      by (simp add: s(3) fold_bt_insert_get split: option.split)
    also have "\<dots> \<longleftrightarrow> r \<in> set mine"
      using find_rev_distinct [OF d] by (auto dest: find_Some_set)
    finally show ?thesis .
  qed
  then have "set (routes_for_gateway s ns n) = {r \<in> set routes. references_gateway ns n r}"
    by (auto simp: routes_for_gateway_def mine_def)
  with s(1,2) resolve_without_secrets [OF s(1)] show ?thesis by blast
qed

definition demo_kube :: Cluster where
  "demo_kube = \<lparr>k_now = 0, k_get_gateway_class = (\<lambda>_. Inr demo_gateway_class),
     k_get_gateway = (\<lambda>_ _. Inr demo_gateway), k_get_httproute = (\<lambda>_ n. Inr (demo_httproute n)),
     k_get_configmap = (\<lambda>_ _. Inl (KubeApi 404 [])), k_get_service = (\<lambda>_ _. Inl (KubeApi 404 [])),
     k_get_deployment = (\<lambda>_ _. Inl (KubeApi 404 [])), k_list_gateway_classes = Inr [demo_gateway_class],
     k_list_gateways = (\<lambda>_. Inr [demo_gateway]),
     k_list_httproutes = (\<lambda>_. Inr [demo_httproute ''b'', demo_httproute ''a'']),
     k_list_reference_grants = (\<lambda>_. Inr []), k_list_nodes = Inl (KubeApi 403 [])\<rparr>"

lemma demo_gateway_fetch: "\<exists>s. snapshot_for_gateway demo_kube ''ns'' ''gw'' = Inr s"
  by (simp add: snapshot_for_gateway_def fetch_gateway_with_class_def fetch_routes_for_gateway_def
      fetch_managed_resources_def fetch_nodes_def demo_kube_def references_gateway_def parent_is_def
      demo_httproute_def fetch_backend_services_def Let_def)

theorem gateway_snapshot_contents_witness:
  "\<exists>s. snapshot_for_gateway demo_kube ''ns'' ''gw'' = Inr s \<and>
     set (routes_for_gateway s ''ns'' ''gw'') = {demo_httproute ''a'', demo_httproute ''b''} \<and>
     \<not> snd (resolve_listener_tls demo_tls_listener ''ns'' s)"
proof -
  obtain s where s: "snapshot_for_gateway demo_kube ''ns'' ''gw'' = Inr s" using demo_gateway_fetch by blast
  have l: "k_list_httproutes demo_kube None = Inr [demo_httproute ''b'', demo_httproute ''a'']"
    by (simp add: demo_kube_def)
  have d: "distinct (map (\<lambda>r. meta_key (hr_metadata r)) [demo_httproute ''b'', demo_httproute ''a''])"
    by (simp add: demo_httproute_def)
  have "references_gateway ''ns'' ''gw'' (demo_httproute x)" for x
    by (simp add: references_gateway_def parent_is_def demo_httproute_def)
  moreover have "gl_tls demo_tls_listener = Some \<lparr>glt_mode = None,
      glt_certificate_refs = Some [\<lparr>sr_namespace = None, sr_name = ''cert''\<rparr>]\<rparr>"
    by (simp add: demo_tls_listener_def)
  ultimately show ?thesis
    using s gateway_snapshot_contents [OF s l d] by fastforce
qed

text \<open>C30: the snapshot a route is reconciled from holds no route but that one. Hence the
  configuration that the reconciliation of a route writes for a gateway has at most one route,
  and replaces what the gateway's other routes contributed.\<close>

theorem route_snapshot_has_one_route:
  assumes "snapshot_for_httproute k ns n = Inr s"
  shows "length (cgc_routes (fst (build_gateway_config fl gw gns s))) \<le> 1 \<and>
    (\<forall>r\<in>set (routes_for_gateway s gns gn). k_get_httproute k ns n = Inr r)"
proof -
  have fold_grants: "ws_httproutes (fold with_reference_grant gs t) = ws_httproutes t" for gs t
    by (induction gs arbitrary: t) (simp_all add: lens_simps)
  have "ws_httproutes s = [] \<or> (\<exists>r. k_get_httproute k ns n = Inr r \<and> ws_httproutes s = [(meta_key (hr_metadata r), r)])"
  proof (cases "k_get_httproute k ns n")
    case (Inr r)
    define s0 where "s0 = with_httproute r (snapshot_new (k_now k))"
    obtain s1 where s1: "fetch_parents k ns (unwrap_or [] (hr_parent_refs r)) s0 = Inr s1"
      "same_routes_and_grants s0 s1" using fetch_parents_same [OF same_refl] by blast
    define s2 where "s2 = fetch_rule_backends k ns (unwrap_or [] (hr_rules r)) s1"
    have s2: "same_routes_and_grants s0 s2"
      unfolding s2_def by (rule fetch_rule_backends_same [OF s1(2)])
    have "fetch_reference_grants k s2 ns = Inr s"
      using assms Inr s1(1)
      by (simp add: snapshot_for_httproute_def fetch_backend_services_def Let_def flip: s0_def s2_def)
    then have "ws_httproutes s = ws_httproutes s2"
      by (auto simp: fetch_reference_grants_def fold_grants split: sum.splits)
    with s2 Inr show ?thesis
      by (simp add: same_routes_and_grants_def s0_def with_httproute_def snapshot_new_def)
  next
    case (Inl e)
    then have "fetch_reference_grants k (snapshot_new (k_now k)) ns = Inr s"
      using assms by (auto simp: snapshot_for_httproute_def Let_def split: if_splits)
    then have "ws_httproutes s = []"
      by (auto simp: fetch_reference_grants_def fold_grants snapshot_new_def split: sum.splits)
    then show ?thesis ..
  qed
  then show ?thesis
    by (auto simp: build_gateway_config_fst routes_for_gateway_def bt_values_def)
qed

theorem route_snapshot_has_one_route_witness:
  "\<exists>s. snapshot_for_httproute demo_kube ''ns'' ''a'' = Inr s \<and>
     length (cgc_routes (fst (build_gateway_config demo_float_ops demo_gateway ''ns'' s))) \<le> 1"
proof -
  have "\<exists>s. snapshot_for_httproute demo_kube ''ns'' ''a'' = Inr s"
    by (simp add: snapshot_for_httproute_def fetch_managed_resources_def demo_kube_def demo_httproute_def
        fetch_reference_grants_def fetch_backend_services_def Let_def)
  then show ?thesis using route_snapshot_has_one_route [of demo_kube "''ns''" "''a''"] by blast
qed

end
