(* ===== verification/Result.thy ===== *)
theory Result
  imports CpConfig
begin

text \<open>
  Effects as data, \<open>crates/controlplane/src/core/result.rs\<close>: what a reconciliation wants done,
  its builders, queries and merge. Durations are whole seconds, the only kind the sources build.
\<close>

section \<open>Types\<close>

datatype ResourceUpsert =
    UpsertDeployment Deployment
  | UpsertService Service
  | UpsertConfigMap ConfigMap
  | UpsertServiceAccount ServiceAccount
  | UpsertRole Role
  | UpsertRoleBinding RoleBinding

record ResourceDelete =
  rdl_api_version :: string
  rdl_kind :: string
  rdl_namespace :: "string option"
  rdl_name :: string

definition resource_delete_new :: "string \<Rightarrow> string \<Rightarrow> string option \<Rightarrow> string \<Rightarrow> ResourceDelete" where
  "resource_delete_new api_version kind namespace name =
     \<lparr>rdl_api_version = api_version, rdl_kind = kind, rdl_namespace = namespace, rdl_name = name\<rparr>"

definition resource_delete_namespaced :: "string \<Rightarrow> string \<Rightarrow> string \<Rightarrow> string \<Rightarrow> ResourceDelete" where
  "resource_delete_namespaced api_version kind namespace name =
     resource_delete_new api_version kind (Some namespace) name"

datatype StatusUpdate =
    StatusGatewayClass string GatewayClassStatus
  | StatusGateway string string GatewayStatus
  | StatusHTTPRoute string string HttpRouteStatus

datatype RequeueDecision = After nat | OnError nat | Never

datatype EventSeverity = Normal | Warning

record ReconcileEvent =
  re_severity :: EventSeverity
  re_reason :: string
  re_message :: string

record ReconcileResult =
  res_upserts :: "ResourceUpsert list"
  res_deletes :: "ResourceDelete list"
  res_status_updates :: "StatusUpdate list"
  res_requeue :: "RequeueDecision option"
  res_events :: "ReconcileEvent list"

definition result_new :: ReconcileResult where
  "result_new = \<lparr>res_upserts = [], res_deletes = [], res_status_updates = [], res_requeue = None,
     res_events = []\<rparr>"

section \<open>Requeue decisions\<close>

fun requeue_min :: "RequeueDecision \<Rightarrow> RequeueDecision \<Rightarrow> RequeueDecision" where
  "requeue_min Never r = r"
| "requeue_min r Never = r"
| "requeue_min (After a) (After b) = After (min a b)"
| "requeue_min (OnError a) (OnError b) = OnError (min a b)"
| "requeue_min (After a) (OnError b) = OnError (min a b)"
| "requeue_min (OnError b) (After a) = OnError (min a b)"

fun requeue_duration :: "RequeueDecision \<Rightarrow> nat option" where
  "requeue_duration (After d) = Some d"
| "requeue_duration (OnError d) = Some d"
| "requeue_duration Never = None"

fun requeue_is_error :: "RequeueDecision \<Rightarrow> bool" where
  "requeue_is_error (OnError _) = True"
| "requeue_is_error _ = False"

section \<open>Builders\<close>

definition with_requeue :: "ReconcileResult \<Rightarrow> nat \<Rightarrow> ReconcileResult" where
  "with_requeue r after = r\<lparr>res_requeue := Some (After after)\<rparr>"

definition with_requeue_on_error :: "ReconcileResult \<Rightarrow> nat \<Rightarrow> ReconcileResult" where
  "with_requeue_on_error r after = r\<lparr>res_requeue := Some (OnError after)\<rparr>"

definition push_upsert :: "ReconcileResult \<Rightarrow> ResourceUpsert \<Rightarrow> ReconcileResult" where
  "push_upsert r u = r\<lparr>res_upserts := res_upserts r @ [u]\<rparr>"

definition upsert_deployment :: "ReconcileResult \<Rightarrow> Deployment \<Rightarrow> ReconcileResult" where
  "upsert_deployment r d = push_upsert r (UpsertDeployment d)"

definition upsert_service :: "ReconcileResult \<Rightarrow> Service \<Rightarrow> ReconcileResult" where
  "upsert_service r s = push_upsert r (UpsertService s)"

definition upsert_configmap :: "ReconcileResult \<Rightarrow> ConfigMap \<Rightarrow> ReconcileResult" where
  "upsert_configmap r c = push_upsert r (UpsertConfigMap c)"

definition upsert_serviceaccount :: "ReconcileResult \<Rightarrow> ServiceAccount \<Rightarrow> ReconcileResult" where
  "upsert_serviceaccount r sa = push_upsert r (UpsertServiceAccount sa)"

definition upsert_role :: "ReconcileResult \<Rightarrow> Role \<Rightarrow> ReconcileResult" where
  "upsert_role r x = push_upsert r (UpsertRole x)"

definition upsert_rolebinding :: "ReconcileResult \<Rightarrow> RoleBinding \<Rightarrow> ReconcileResult" where
  "upsert_rolebinding r rb = push_upsert r (UpsertRoleBinding rb)"

definition delete_resource :: "ReconcileResult \<Rightarrow> ResourceDelete \<Rightarrow> ReconcileResult" where
  "delete_resource r d = r\<lparr>res_deletes := res_deletes r @ [d]\<rparr>"

definition push_status :: "ReconcileResult \<Rightarrow> StatusUpdate \<Rightarrow> ReconcileResult" where
  "push_status r u = r\<lparr>res_status_updates := res_status_updates r @ [u]\<rparr>"

definition update_gateway_class_status ::
  "ReconcileResult \<Rightarrow> string \<Rightarrow> GatewayClassStatus \<Rightarrow> ReconcileResult" where
  "update_gateway_class_status r name status = push_status r (StatusGatewayClass name status)"

definition update_gateway_status ::
  "ReconcileResult \<Rightarrow> string \<Rightarrow> string \<Rightarrow> GatewayStatus \<Rightarrow> ReconcileResult" where
  "update_gateway_status r namespace name status = push_status r (StatusGateway namespace name status)"

definition update_httproute_status ::
  "ReconcileResult \<Rightarrow> string \<Rightarrow> string \<Rightarrow> HttpRouteStatus \<Rightarrow> ReconcileResult" where
  "update_httproute_status r namespace name status = push_status r (StatusHTTPRoute namespace name status)"

definition emit_event :: "ReconcileResult \<Rightarrow> ReconcileEvent \<Rightarrow> ReconcileResult" where
  "emit_event r e = r\<lparr>res_events := res_events r @ [e]\<rparr>"

definition emit_normal :: "ReconcileResult \<Rightarrow> string \<Rightarrow> string \<Rightarrow> ReconcileResult" where
  "emit_normal r reason message =
     emit_event r \<lparr>re_severity = Normal, re_reason = reason, re_message = message\<rparr>"

definition emit_warning :: "ReconcileResult \<Rightarrow> string \<Rightarrow> string \<Rightarrow> ReconcileResult" where
  "emit_warning r reason message =
     emit_event r \<lparr>re_severity = Warning, re_reason = reason, re_message = message\<rparr>"

definition merge :: "ReconcileResult \<Rightarrow> ReconcileResult \<Rightarrow> ReconcileResult" where
  "merge a b = \<lparr>res_upserts = res_upserts a @ res_upserts b,
     res_deletes = res_deletes a @ res_deletes b,
     res_status_updates = res_status_updates a @ res_status_updates b,
     res_requeue = (case (res_requeue a, res_requeue b) of
         (None, r) \<Rightarrow> r
       | (r, None) \<Rightarrow> r
       | (Some x, Some y) \<Rightarrow> Some (requeue_min x y)),
     res_events = res_events a @ res_events b\<rparr>"

section \<open>Queries\<close>

definition has_upserts :: "ReconcileResult \<Rightarrow> bool" where
  "has_upserts r \<longleftrightarrow> res_upserts r \<noteq> []"

definition has_deletes :: "ReconcileResult \<Rightarrow> bool" where
  "has_deletes r \<longleftrightarrow> res_deletes r \<noteq> []"

definition has_status_updates :: "ReconcileResult \<Rightarrow> bool" where
  "has_status_updates r \<longleftrightarrow> res_status_updates r \<noteq> []"

definition deployment_upserts :: "ReconcileResult \<Rightarrow> Deployment list" where
  "deployment_upserts r =
     List.map_filter (\<lambda>u. case u of UpsertDeployment d \<Rightarrow> Some d | _ \<Rightarrow> None) (res_upserts r)"

definition service_upserts :: "ReconcileResult \<Rightarrow> Service list" where
  "service_upserts r =
     List.map_filter (\<lambda>u. case u of UpsertService s \<Rightarrow> Some s | _ \<Rightarrow> None) (res_upserts r)"

definition configmap_upserts :: "ReconcileResult \<Rightarrow> ConfigMap list" where
  "configmap_upserts r =
     List.map_filter (\<lambda>u. case u of UpsertConfigMap c \<Rightarrow> Some c | _ \<Rightarrow> None) (res_upserts r)"

fun find_map :: "('a \<Rightarrow> 'b option) \<Rightarrow> 'a list \<Rightarrow> 'b option" where
  "find_map f [] = None"
| "find_map f (x # xs) = (case f x of Some y \<Rightarrow> Some y | None \<Rightarrow> find_map f xs)"

definition gateway_status_update :: "ReconcileResult \<Rightarrow> string \<Rightarrow> string \<Rightarrow> GatewayStatus option" where
  "gateway_status_update r namespace name =
     find_map (\<lambda>u. case u of
         StatusGateway ns n status \<Rightarrow> if ns = namespace \<and> n = name then Some status else None
       | _ \<Rightarrow> None) (res_status_updates r)"

definition gateway_class_status_update :: "ReconcileResult \<Rightarrow> string \<Rightarrow> GatewayClassStatus option" where
  "gateway_class_status_update r name =
     find_map (\<lambda>u. case u of
         StatusGatewayClass n status \<Rightarrow> if n = name then Some status else None
       | _ \<Rightarrow> None) (res_status_updates r)"

definition httproute_status_update :: "ReconcileResult \<Rightarrow> string \<Rightarrow> string \<Rightarrow> HttpRouteStatus option" where
  "httproute_status_update r namespace name =
     find_map (\<lambda>u. case u of
         StatusHTTPRoute ns n status \<Rightarrow> if ns = namespace \<and> n = name then Some status else None
       | _ \<Rightarrow> None) (res_status_updates r)"

lemmas result_builder_defs = with_requeue_def with_requeue_on_error_def push_upsert_def
  upsert_deployment_def upsert_service_def upsert_configmap_def upsert_serviceaccount_def
  upsert_role_def upsert_rolebinding_def delete_resource_def push_status_def
  update_gateway_class_status_def update_gateway_status_def update_httproute_status_def
  emit_event_def emit_normal_def emit_warning_def

section \<open>The requeue decisions form a semilattice\<close>

lemma requeue_min_eqs:
  "requeue_duration (requeue_min a b) =
     (case (requeue_duration a, requeue_duration b) of
        (None, d) \<Rightarrow> d | (d, None) \<Rightarrow> d | (Some x, Some y) \<Rightarrow> Some (min x y))"
  "requeue_is_error (requeue_min a b) \<longleftrightarrow> requeue_is_error a \<or> requeue_is_error b"
  by (cases a; cases b; simp add: min.commute)+

lemma requeue_eqI:
  "requeue_duration a = requeue_duration b \<Longrightarrow> requeue_is_error a = requeue_is_error b \<Longrightarrow> a = b"
  by (cases a; cases b) simp_all

interpretation requeue: semilattice_neutr requeue_min Never
proof
  fix a b c
  show "requeue_min (requeue_min a b) c = requeue_min a (requeue_min b c)"
    by (rule requeue_eqI) (auto simp: requeue_min_eqs min.assoc split: option.splits)
  show "requeue_min a b = requeue_min b a"
    by (rule requeue_eqI) (auto simp: requeue_min_eqs min.commute split: option.splits)
  show "requeue_min a a = a" and "requeue_min a Never = a"
    by (cases a; simp)+
qed

definition merge_all :: "ReconcileResult list \<Rightarrow> ReconcileResult" where
  "merge_all rs = foldl merge result_new rs"

lemma merge_assoc: "merge (merge a b) c = merge a (merge b c)"
  by (auto simp: merge_def requeue.assoc split: option.splits)

lemma merge_new [simp]: "merge result_new a = a" "merge a result_new = a"
  by (simp_all add: merge_def result_new_def split: option.split)

lemma merge_all_snoc: "merge_all (rs @ [r]) = merge (merge_all rs) r"
  by (simp add: merge_all_def)

lemma merge_all_effects:
  "res_upserts (merge_all rs) = concat (map res_upserts rs)"
  "res_deletes (merge_all rs) = concat (map res_deletes rs)"
  "res_status_updates (merge_all rs) = concat (map res_status_updates rs)"
  "res_events (merge_all rs) = concat (map res_events rs)"
  by (induction rs rule: rev_induct) (simp_all add: merge_all_snoc merge_def,
      simp_all add: merge_all_def result_new_def)

definition requeues :: "ReconcileResult list \<Rightarrow> RequeueDecision list" where
  "requeues rs = List.map_filter res_requeue rs"

lemma requeues_snoc: "requeues (rs @ [r]) = requeues rs @ (case res_requeue r of None \<Rightarrow> [] | Some q \<Rightarrow> [q])"
  by (induction rs) (auto simp: requeues_def map_filter_simps split: option.split)

lemma merge_all_requeue:
  "res_requeue (merge_all rs) =
     (case requeues rs of [] \<Rightarrow> None | q # qs \<Rightarrow> Some (foldl requeue_min q qs))"
proof (induction rs rule: rev_induct)
  case (snoc r rs)
  then show ?case
    by (cases "requeues rs") (auto simp: merge_all_snoc requeues_snoc merge_def split: option.splits)
qed (simp add: merge_all_def result_new_def requeues_def map_filter_simps)

lemma map_filter_snoc:
  "List.map_filter f (xs @ [x]) = List.map_filter f xs @ (case f x of None \<Rightarrow> [] | Some y \<Rightarrow> [y])"
  by (induction xs) (auto simp: map_filter_simps split: option.split)

definition least :: "nat list \<Rightarrow> nat option" where
  "least ds = (if ds = [] then None else Some (Min (set ds)))"

lemma least_snoc: "least (ds @ [d]) = (case least ds of None \<Rightarrow> Some d | Some m \<Rightarrow> Some (min m d))"
  by (cases "ds = []") (auto simp: least_def min.commute)

lemma requeue_duration_foldl:
  "requeue_duration (foldl requeue_min q qs) = least (List.map_filter requeue_duration (q # qs))"
proof (induction qs rule: rev_induct)
  case Nil
  then show ?case by (simp add: map_filter_simps least_def split: option.split)
next
  case (snoc x qs)
  have "List.map_filter requeue_duration (q # qs @ [x]) =
      List.map_filter requeue_duration (q # qs) @ (case requeue_duration x of None \<Rightarrow> [] | Some y \<Rightarrow> [y])"
    using map_filter_snoc [of requeue_duration "q # qs" x] by simp
  with snoc show ?case
    by (auto simp: requeue_min_eqs least_snoc least_snoc [of "_ # _", simplified append_Cons]
        split: option.splits)
qed

lemma requeue_is_error_foldl:
  "requeue_is_error (foldl requeue_min q qs) \<longleftrightarrow> (\<exists>x\<in>set (q # qs). requeue_is_error x)"
  by (induction qs rule: rev_induct) (auto simp: requeue_min_eqs)

text \<open>Merging results concatenates their effects in order, and requeues when one of them
  does: as an error if any of the decisions is one, and after the shortest of their durations.
  Merging is associative, so the grouping of the merges does not matter.\<close>

theorem merge_all_spec:
  "merge (merge a b) c = merge a (merge b c) \<and>
   res_upserts (merge_all rs) = concat (map res_upserts rs) \<and>
   res_status_updates (merge_all rs) = concat (map res_status_updates rs) \<and>
   (case res_requeue (merge_all rs) of
      None \<Rightarrow> requeues rs = []
    | Some q \<Rightarrow> requeues rs \<noteq> [] \<and> requeue_is_error q = list_ex requeue_is_error (requeues rs) \<and>
        requeue_duration q = least (List.map_filter requeue_duration (requeues rs)))"
  by (simp add: merge_assoc merge_all_effects merge_all_requeue list_ex_iff requeue_duration_foldl
      requeue_is_error_foldl split: list.split)

end
