(* ===== verification/Reconcile.thy ===== *)
theory Reconcile
  imports Resources Validate Result
begin

text \<open>
  The functional core, \<open>crates/controlplane/src/core/reconcile.rs\<close>: what a reconciliation of a
  GatewayClass, a Gateway or an HTTPRoute wants done, as a function of the snapshot.
\<close>

definition reconcile_gateway_class ::
  "WorldSnapshot \<Rightarrow> ControllerConfig \<Rightarrow> string \<Rightarrow> ReconcileResult" where
  "reconcile_gateway_class snapshot config gateway_class_name =
     (let result = result_new
      in case get_gateway_class snapshot gateway_class_name of
           None \<Rightarrow> result
         | Some gateway_class \<Rightarrow>
             if \<not> is_our_gateway_class gateway_class then with_requeue result 3600
             else (let validation = validate_gateway_class gateway_class;
                       status = build_gateway_class_status (ws_now snapshot)
                         (om_generation (gc_metadata gateway_class)) (gcv_accepted validation)
                         (gcv_reason validation) (gcv_message validation);
                       result = update_gateway_class_status result gateway_class_name status;
                       result = (if gcv_accepted validation
                         then emit_normal result ''Accepted'' ''GatewayClass accepted''
                         else emit_warning result ''NotAccepted'' (gcv_message validation))
                   in with_requeue result (cc_requeue_after_secs config)))"

definition reconcile_gateway ::
  "(CpGatewayConfig \<Rightarrow> string option) \<Rightarrow> float_ops \<Rightarrow> WorldSnapshot \<Rightarrow> ControllerConfig \<Rightarrow>
     string \<Rightarrow> string \<Rightarrow> ReconcileResult" where
  "reconcile_gateway to_json fl snapshot config gateway_ns gateway_name =
     (let result = result_new
      in case get_gateway snapshot gateway_ns gateway_name of
           None \<Rightarrow> result
         | Some gateway \<Rightarrow>
             if get_accepted_gateway_class snapshot (gw_gateway_class_name gateway) = None then
               (let status = build_gateway_status (ws_now snapshot) gateway False ''Invalid''
                      ''GatewayClass not found or not accepted by this controller'' None
                in with_requeue (emit_warning
                     (update_gateway_status result gateway_ns gateway_name status)
                     ''InvalidGatewayClass'' ''GatewayClass not accepted'') 30)
             else if \<not> lv_all_valid (validate_listeners (gw_listeners gateway)) then
               (let status = build_gateway_status (ws_now snapshot) gateway False ''ListenersNotValid''
                      ''One or more listeners have invalid configuration'' None
                in with_requeue (emit_warning
                     (update_gateway_status result gateway_ns gateway_name status)
                     ''InvalidListeners'' ''Listener validation failed'') 30)
             else
               (let names = data_plane_names_new gateway_ns gateway_name;
                    (gateway_config, listener_refs_resolved) =
                      build_gateway_config fl gateway gateway_ns snapshot;
                    result = upsert_configmap result (build_configmap to_json names gateway_config gateway);
                    result = upsert_serviceaccount result (build_serviceaccount names gateway);
                    result = upsert_role result (build_role names gateway);
                    result = upsert_rolebinding result (build_rolebinding names gateway);
                    result = upsert_service result (build_service names gateway);
                    result = upsert_deployment result (build_deployment names gateway config);
                    (addresses, address_assigned) = derive_gateway_addresses snapshot gateway names;
                    attached_routes = int (length (routes_for_gateway snapshot gateway_ns gateway_name));
                    (programmed_reason, programmed_message) =
                      (if address_assigned then (''Programmed'', ''Data plane is programmed'')
                       else (''AddressNotAssigned'', ''No address has been assigned to the Gateway''));
                    status = build_gateway_status_accepted (ws_now snapshot) gateway address_assigned
                      programmed_reason programmed_message addresses attached_routes listener_refs_resolved
                in with_requeue (emit_normal
                     (update_gateway_status result gateway_ns gateway_name status)
                     ''Reconciled'' ''Gateway reconciled successfully'') (cc_requeue_after_secs config)))"

fun parents_loop ::
  "(CpGatewayConfig \<Rightarrow> string option) \<Rightarrow> float_ops \<Rightarrow> WorldSnapshot \<Rightarrow> HTTPRoute \<Rightarrow> string \<Rightarrow>
     ParentRef list \<Rightarrow> ReconcileResult \<Rightarrow> RouteParentStatus list \<Rightarrow>
     ReconcileResult \<times> RouteParentStatus list" where
  "parents_loop to_json fl snapshot httproute route_ns [] result parent_statuses =
     (result, parent_statuses)"
| "parents_loop to_json fl snapshot httproute route_ns (parent_ref # refs) result parent_statuses =
     (let validation = validate_parent_ref snapshot httproute parent_ref route_ns;
          parent_status = build_parent_status (ws_now snapshot) (prv_parent_ref validation)
            (prv_accepted validation) (prv_reason validation) (prv_message validation)
            (om_generation (hr_metadata httproute));
          parent_statuses = parent_statuses @ [parent_status];
          result =
            (if prv_accepted validation then
               (let parent_namespace = unwrap_or route_ns (pr_namespace parent_ref);
                    parent_name = pr_name parent_ref
                in case get_gateway snapshot parent_namespace parent_name of
                     Some gateway \<Rightarrow>
                       (let names = data_plane_names_new parent_namespace parent_name;
                            gateway_config = fst (build_gateway_config fl gateway parent_namespace snapshot)
                        in upsert_configmap result (build_configmap to_json names gateway_config gateway))
                   | None \<Rightarrow> result)
             else result)
      in parents_loop to_json fl snapshot httproute route_ns refs result parent_statuses)"

definition reconcile_httproute ::
  "(CpGatewayConfig \<Rightarrow> string option) \<Rightarrow> float_ops \<Rightarrow> WorldSnapshot \<Rightarrow> ControllerConfig \<Rightarrow>
     string \<Rightarrow> string \<Rightarrow> ReconcileResult" where
  "reconcile_httproute to_json fl snapshot config route_ns route_name =
     (let result = result_new
      in case get_httproute snapshot route_ns route_name of
           None \<Rightarrow> result
         | Some httproute \<Rightarrow>
             (let parent_refs = unwrap_or [] (hr_parent_refs httproute)
              in if parent_refs = [] then with_requeue result (cc_requeue_after_secs config)
                 else (let (result, parent_statuses) =
                             parents_loop to_json fl snapshot httproute route_ns parent_refs result []
                       in with_requeue (update_httproute_status result route_ns route_name
                            \<lparr>hrs_parents = parent_statuses\<rparr>) (cc_requeue_after_secs config))))"

section \<open>Views of a result\<close>

fun upsert_kind :: "ResourceUpsert \<Rightarrow> string" where
  "upsert_kind (UpsertDeployment _) = ''Deployment''"
| "upsert_kind (UpsertService _) = ''Service''"
| "upsert_kind (UpsertConfigMap _) = ''ConfigMap''"
| "upsert_kind (UpsertServiceAccount _) = ''ServiceAccount''"
| "upsert_kind (UpsertRole _) = ''Role''"
| "upsert_kind (UpsertRoleBinding _) = ''RoleBinding''"

fun upsert_meta :: "ResourceUpsert \<Rightarrow> ObjectMeta" where
  "upsert_meta (UpsertDeployment d) = de_metadata d"
| "upsert_meta (UpsertService s) = sv_metadata s"
| "upsert_meta (UpsertConfigMap c) = cm_metadata c"
| "upsert_meta (UpsertServiceAccount a) = sa_metadata a"
| "upsert_meta (UpsertRole r) = ro_metadata r"
| "upsert_meta (UpsertRoleBinding b) = rb_metadata b"

definition programmable :: "WorldSnapshot \<Rightarrow> string \<Rightarrow> string \<Rightarrow> Gateway \<Rightarrow> bool" where
  "programmable s ns n gw \<longleftrightarrow> get_gateway s ns n = Some gw \<and>
     get_accepted_gateway_class s (gw_gateway_class_name gw) \<noteq> None \<and>
     (\<forall>l\<in>set (gw_listeners gw). listener_ok l)"

lemma reconcile_gateway_not_programmable:
  "\<nexists>gw. programmable s ns n gw \<Longrightarrow> res_upserts (reconcile_gateway to_json fl s cfg ns n) = [] \<and>
     res_deletes (reconcile_gateway to_json fl s cfg ns n) = []"
  by (auto simp: reconcile_gateway_def programmable_def Let_def validate_listeners_all_valid
      result_builder_defs result_new_def split: option.split)

definition gateway_upserts ::
  "(CpGatewayConfig \<Rightarrow> string option) \<Rightarrow> float_ops \<Rightarrow> WorldSnapshot \<Rightarrow> ControllerConfig \<Rightarrow> string \<Rightarrow> string \<Rightarrow>
     Gateway \<Rightarrow> ResourceUpsert list" where
  "gateway_upserts to_json fl s cfg ns n gw =
     (let names = data_plane_names_new ns n
      in [UpsertConfigMap (build_configmap to_json names (fst (build_gateway_config fl gw ns s)) gw),
          UpsertServiceAccount (build_serviceaccount names gw), UpsertRole (build_role names gw),
          UpsertRoleBinding (build_rolebinding names gw), UpsertService (build_service names gw),
          UpsertDeployment (build_deployment names gw cfg)])"

definition programmed_status ::
  "float_ops \<Rightarrow> WorldSnapshot \<Rightarrow> string \<Rightarrow> string \<Rightarrow> Gateway \<Rightarrow> GatewayStatus" where
  "programmed_status fl s ns n gw =
     (let (addresses, assigned) = derive_gateway_addresses s gw (data_plane_names_new ns n)
      in build_gateway_status_accepted (ws_now s) gw assigned
           (if assigned then ''Programmed'' else ''AddressNotAssigned'')
           (if assigned then ''Data plane is programmed''
            else ''No address has been assigned to the Gateway'')
           addresses (int (length (routes_for_gateway s ns n))) (snd (build_gateway_config fl gw ns s)))"

lemma reconcile_gateway_programmable:
  assumes "programmable s ns n gw"
  shows "reconcile_gateway to_json fl s cfg ns n = \<lparr>res_upserts = gateway_upserts to_json fl s cfg ns n gw,
     res_deletes = [], res_status_updates = [StatusGateway ns n (programmed_status fl s ns n gw)],
     res_requeue = Some (After (cc_requeue_after_secs cfg)),
     res_events = [\<lparr>re_severity = Normal, re_reason = ''Reconciled'',
       re_message = ''Gateway reconciled successfully''\<rparr>]\<rparr>"
  using assms
  by (cases "build_gateway_config fl gw ns s"; cases "derive_gateway_addresses s gw (data_plane_names_new ns n)")
    (auto simp: reconcile_gateway_def programmable_def gateway_upserts_def programmed_status_def Let_def
      validate_listeners_all_valid result_builder_defs result_new_def)

lemma managed_meta_simps [simp]:
  "om_name (managed_meta m names gw) = Some m"
  "om_namespace (managed_meta m names gw) = Some (dn_gateway_namespace names)"
  "om_labels (managed_meta m names gw) = Some (labels names)"
  "om_owner_references (managed_meta m names gw) = Some [owner_reference gw]"
  by (simp_all add: managed_meta_def object_meta_default_def dp_namespace_def)

text \<open>The status and the ConfigMap that one parent reference contributes.\<close>

definition parent_status_of :: "WorldSnapshot \<Rightarrow> HTTPRoute \<Rightarrow> string \<Rightarrow> ParentRef \<Rightarrow> RouteParentStatus" where
  "parent_status_of s r ns p =
     (let v = validate_parent_ref s r p ns
      in build_parent_status (ws_now s) p (prv_accepted v) (prv_reason v) (prv_message v)
           (om_generation (hr_metadata r)))"

definition parent_configmap ::
  "(CpGatewayConfig \<Rightarrow> string option) \<Rightarrow> float_ops \<Rightarrow> WorldSnapshot \<Rightarrow> HTTPRoute \<Rightarrow> string \<Rightarrow> ParentRef \<Rightarrow>
     ResourceUpsert option" where
  "parent_configmap to_json fl s r ns p =
     (if prv_accepted (validate_parent_ref s r p ns)
      then map_option (\<lambda>gw. UpsertConfigMap (build_configmap to_json
             (data_plane_names_new (unwrap_or ns (pr_namespace p)) (pr_name p))
             (fst (build_gateway_config fl gw (unwrap_or ns (pr_namespace p)) s)) gw))
           (get_gateway s (unwrap_or ns (pr_namespace p)) (pr_name p))
      else None)"

lemma validate_parent_ref_keeps: "prv_parent_ref (validate_parent_ref s r p ns) = p"
  by (auto simp: validate_parent_ref_def parent_rejected_def Let_def split: option.split)

lemma parents_loop_eq:
  "parents_loop to_json fl s r ns refs res sts =
     (res\<lparr>res_upserts := res_upserts res @ List.map_filter (parent_configmap to_json fl s r ns) refs\<rparr>,
      sts @ map (parent_status_of s r ns) refs)"
proof (induction refs arbitrary: res sts)
  case (Cons p refs)
  then show ?case
    by (auto simp: Let_def parent_configmap_def parent_status_of_def validate_parent_ref_keeps
        map_filter_simps upsert_configmap_def push_upsert_def split: option.split)
qed (simp add: map_filter_simps)

lemma reconcile_httproute_eq:
  "get_httproute s ns n = Some r \<Longrightarrow> unwrap_or [] (hr_parent_refs r) \<noteq> [] \<Longrightarrow>
     reconcile_httproute to_json fl s cfg ns n = \<lparr>
       res_upserts = List.map_filter (parent_configmap to_json fl s r ns) (unwrap_or [] (hr_parent_refs r)),
       res_deletes = [],
       res_status_updates = [StatusHTTPRoute ns n
         \<lparr>hrs_parents = map (parent_status_of s r ns) (unwrap_or [] (hr_parent_refs r))\<rparr>],
       res_requeue = Some (After (cc_requeue_after_secs cfg)), res_events = []\<rparr>"
  by (simp add: reconcile_httproute_def Let_def parents_loop_eq result_builder_defs result_new_def)

definition condition_true :: "string \<Rightarrow> Condition list option \<Rightarrow> bool" where
  "condition_true t cs \<longleftrightarrow> list_ex (\<lambda>c. co_type c = t \<and> co_status c = ''True'') (unwrap_or [] cs)"

section \<open>Properties\<close>

text \<open>C13: the configuration of a gateway whose listeners are valid. Its listeners are the
  gateway's, in order, with the same names and exactly the same port numbers (none is truncated
  to 16 bits), and a listener is HTTPS just when it has a TLS block; its routes are all the
  routes that name the gateway, each attached to every listener of it.\<close>

theorem build_gateway_config_spec:
  assumes "\<forall>l\<in>set (gw_listeners gw). listener_ok l"
  shows "let cfg = fst (build_gateway_config fl gw ns s) in
    map clc_name (cgc_listeners cfg) = map gl_name (gw_listeners gw) \<and>
    map (\<lambda>l. uint (clc_port l)) (cgc_listeners cfg) = map gl_port (gw_listeners gw) \<and>
    map (\<lambda>l. clc_protocol l = CpHttps) (cgc_listeners cfg) = map (\<lambda>l. gl_tls l \<noteq> None) (gw_listeners gw) \<and>
    map (\<lambda>l. clc_tls l \<noteq> None) (cgc_listeners cfg) = map (\<lambda>l. gl_tls l \<noteq> None) (gw_listeners gw) \<and>
    map (\<lambda>r. (crc_namespace r, crc_name r)) (cgc_routes cfg) =
      map (\<lambda>r. meta_key (hr_metadata r)) (routes_for_gateway s ns (name_any (gw_metadata gw))) \<and>
    list_all (\<lambda>r. crc_attached_listeners r = map gl_name (gw_listeners gw)) (cgc_routes cfg)"
proof -
  have l: "uint (clc_port (listener_config_of ns s l)) = gl_port l"
    "clc_protocol (listener_config_of ns s l) = CpHttps \<longleftrightarrow> gl_tls l \<noteq> None"
    "clc_tls (listener_config_of ns s l) \<noteq> None \<longleftrightarrow> gl_tls l \<noteq> None" if "l \<in> set (gw_listeners gw)" for l
  proof -
    have ok: "listener_ok l" using assms that by blast
    then show "uint (clc_port (listener_config_of ns s l)) = gl_port l"
      using u16_of_port [of "gl_port l"] by (simp add: listener_config_of_def listener_ok_def)
    show "clc_protocol (listener_config_of ns s l) = CpHttps \<longleftrightarrow> gl_tls l \<noteq> None"
      using ok by (auto simp: listener_config_of_def listener_ok_def protocol_from_str_def)
    show "clc_tls (listener_config_of ns s l) \<noteq> None \<longleftrightarrow> gl_tls l \<noteq> None"
      by (auto simp: listener_config_of_def resolve_listener_tls_def Let_def split: option.split prod.split)
  qed
  have n: "clc_name (listener_config_of ns s l) = gl_name l" for l
    by (simp add: listener_config_of_def)
  have r: "crc_attached_listeners (route_config_of fl gw r) = map gl_name (gw_listeners gw)"
    "crc_namespace (route_config_of fl gw r) = namespace_or_default (hr_metadata r)"
    "crc_name (route_config_of fl gw r) = name_any (hr_metadata r)" for r
    by (simp_all add: route_config_of_def convert_httproute_Inr)
  show ?thesis
    using l by (auto simp: build_gateway_config_fst Let_def n r meta_key_def list_all_iff)
qed

theorem build_gateway_config_spec_witness:
  "map (\<lambda>l. uint (clc_port l)) (cgc_listeners (fst (build_gateway_config demo_float_ops demo_gateway ''ns'' demo_cluster))) = [80]"
proof -
  have "\<forall>l\<in>set (gw_listeners demo_gateway). listener_ok l"
    by (simp add: demo_gateway_def listener_ok_def ascii_upper_def byte_def)
  from build_gateway_config_spec [OF this, of demo_float_ops "''ns''" demo_cluster] show ?thesis
    unfolding Let_def by (simp add: demo_gateway_def)
qed

text \<open>C8: what a Gateway reconciliation deploys. It deploys nothing unless the snapshot has the
  gateway, its class is managed and accepted and all its listeners are valid; then it applies
  exactly the six data plane objects, configuration first and Deployment last, all in the
  gateway's namespace, with its labels and owned by it. It never deletes.\<close>

theorem reconcile_gateway_deploys:
  "(res_upserts (reconcile_gateway to_json fl s cfg ns n) \<noteq> [] \<longleftrightarrow> (\<exists>gw. programmable s ns n gw)) \<and>
   res_deletes (reconcile_gateway to_json fl s cfg ns n) = [] \<and>
   (\<forall>gw. programmable s ns n gw \<longrightarrow>
      map upsert_kind (res_upserts (reconcile_gateway to_json fl s cfg ns n)) =
        [''ConfigMap'', ''ServiceAccount'', ''Role'', ''RoleBinding'', ''Service'', ''Deployment''] \<and>
      (\<forall>u\<in>set (res_upserts (reconcile_gateway to_json fl s cfg ns n)).
         om_namespace (upsert_meta u) = Some ns \<and>
         om_labels (upsert_meta u) = Some (labels (data_plane_names_new ns n)) \<and>
         om_owner_references (upsert_meta u) = Some [owner_reference gw]))"
proof (cases "\<exists>gw. programmable s ns n gw")
  case True
  then obtain gw where gw: "programmable s ns n gw" by blast
  then have uniq: "programmable s ns n gw' \<longleftrightarrow> gw' = gw" for gw'
    by (auto simp: programmable_def)
  have eq: "res_upserts (reconcile_gateway to_json fl s cfg ns n) = gateway_upserts to_json fl s cfg ns n gw"
    "res_deletes (reconcile_gateway to_json fl s cfg ns n) = []"
    by (simp_all add: reconcile_gateway_programmable [OF gw])
  have "\<forall>u\<in>set (gateway_upserts to_json fl s cfg ns n gw).
      om_namespace (upsert_meta u) = Some ns \<and>
      om_labels (upsert_meta u) = Some (labels (data_plane_names_new ns n)) \<and>
      om_owner_references (upsert_meta u) = Some [owner_reference gw]"
    by (simp add: gateway_upserts_def Let_def build_configmap_def build_serviceaccount_def build_role_def
        build_rolebinding_def build_service_def build_deployment_def data_plane_names_new_def)
  moreover have "map upsert_kind (gateway_upserts to_json fl s cfg ns n gw) =
      [''ConfigMap'', ''ServiceAccount'', ''Role'', ''RoleBinding'', ''Service'', ''Deployment'']"
    by (simp add: gateway_upserts_def Let_def)
  moreover from this have "gateway_upserts to_json fl s cfg ns n gw \<noteq> []" by auto
  ultimately show ?thesis
    unfolding uniq eq by blast
next
  case False
  with reconcile_gateway_not_programmable [OF False] show ?thesis by simp
qed

lemma demo_programmable: "programmable demo_cluster ''ns'' ''gw'' demo_gateway"
  by (simp add: programmable_def get_accepted_gateway_class_def is_gateway_class_accepted_iff
      demo_cluster_def demo_snapshot_def with_defs get_defs snapshot_new_def bt_get_def
      demo_gateway_class_def demo_gateway_def name_any_def object_meta_default_def listener_ok_def
      ascii_upper_def byte_def)

theorem reconcile_gateway_deploys_witness:
  "res_upserts (reconcile_gateway demo_json demo_float_ops demo_cluster controller_config_default ''ns'' ''gw'') \<noteq> []"
  using reconcile_gateway_deploys [of demo_json demo_float_ops demo_cluster controller_config_default "''ns''" "''gw''"] demo_programmable
  by blast

lemma gateway_status_update_programmable:
  "programmable s ns n gw \<Longrightarrow>
     gateway_status_update (reconcile_gateway to_json fl s cfg ns n) ns n = Some (programmed_status fl s ns n gw)"
  by (simp add: gateway_status_update_def reconcile_gateway_programmable)

lemma gateway_status_update_rejected:
  "get_gateway s ns n = Some gw \<Longrightarrow> \<not> programmable s ns n gw \<Longrightarrow>
     \<exists>reason message. gateway_status_update (reconcile_gateway to_json fl s cfg ns n) ns n =
       Some (build_gateway_status (ws_now s) gw False reason message None)"
  by (auto simp: gateway_status_update_def reconcile_gateway_def programmable_def Let_def
      validate_listeners_all_valid result_builder_defs result_new_def)

lemma condition_true_simps [simp]:
  "condition_true t (Some (c # cs)) \<longleftrightarrow> co_type c = t \<and> co_status c = ''True'' \<or> condition_true t (Some cs)"
  "\<not> condition_true t (Some [])"
  by (simp_all add: condition_true_def)




lemma demo_httproute_get: "get_httproute demo_cluster ''ns'' ''a'' = Some (demo_httproute ''a'')"
proof -
  have "(''ns'', ''a'') < (''ns'', ''b'')" by (simp add: less_prod_def less_list_code less_char_def)
  then show ?thesis
    by (simp add: demo_cluster_def demo_snapshot_def with_defs get_defs snapshot_new_def bt_get_def
        demo_httproute_def)
qed



definition demo_ref :: ParentRef where
  "demo_ref = \<lparr>pr_group = None, pr_kind = None, pr_name = ''gw'', pr_namespace = None,
     pr_port = None, pr_section_name = None\<rparr>"

lemma demo_ref_accepted: "prv_accepted (validate_parent_ref demo_cluster (demo_httproute ''a'') demo_ref ''ns'')"
proof -
  obtain gc where "get_accepted_gateway_class demo_cluster ''multiway'' = Some gc"
    using demo_programmable by (auto simp: programmable_def demo_gateway_def)
  moreover have "get_gateway demo_cluster ''ns'' ''gw'' = Some demo_gateway"
    using demo_programmable by (simp add: programmable_def)
  ultimately show ?thesis
    by (simp add: validate_parent_ref_def demo_ref_def demo_httproute_def demo_gateway_def Let_def
        find_matching_listeners_def get_allowed_route_namespaces_def is_namespace_allowed_def
        ascii_upper_def byte_def)
qed


end
