(* ===== verification/Executor.thy ===== *)
theory Executor
  imports Reconcile
begin

text \<open>
  The executor of reconciliation results, \<open>crates/controlplane/src/shell/executor.rs\<close>. It acts on
  the Kubernetes API, of which the model keeps the trace of calls made. The answers are the
  parameter \<open>Env\<close>: whether a call fails, and what a read returns, may depend on every call made
  before. The unwrapping of a missing object name is a panic.
\<close>

section \<open>Calls and their answers\<close>

datatype ApiCall =
    PatchGatewayClassStatus string GatewayClassStatus
  | PatchGatewayStatus string string GatewayStatus
  | PatchHTTPRouteStatus string string HttpRouteStatus
  | ApplyDeployment string string Deployment
  | ApplyService string string Service
  | ApplyServiceAccount string string ServiceAccount
  | ApplyRole string string Role
  | ApplyRoleBinding string string RoleBinding
  | GetConfigMap string string
  | ReplaceConfigMap string string ConfigMap
  | CreateConfigMap string ConfigMap
  | DeleteObject string string string

record Env =
  env_call :: "ApiCall list \<Rightarrow> ApiCall \<Rightarrow> KubeError option"
  env_get_configmap :: "ApiCall list \<Rightarrow> string \<Rightarrow> string \<Rightarrow> KubeError + ConfigMap"

text \<open>The outcome of an operation and the calls made until then.\<close>

datatype 'a exec = ExOk "ApiCall list" 'a | ExErr "ApiCall list" ControllerError | ExPanic "ApiCall list"

definition call :: "Env \<Rightarrow> ApiCall list \<Rightarrow> ApiCall \<Rightarrow> unit exec" where
  "call env tr c =
     (case env_call env tr c of
        None \<Rightarrow> ExOk (tr @ [c]) ()
      | Some e \<Rightarrow> ExErr (tr @ [c]) (KubernetesError e))"

section \<open>Operations\<close>

definition execute_status_update :: "Env \<Rightarrow> ApiCall list \<Rightarrow> StatusUpdate \<Rightarrow> unit exec" where
  "execute_status_update env tr update =
     (case update of
        StatusGatewayClass name status \<Rightarrow> call env tr (PatchGatewayClassStatus name status)
      | StatusGateway namespace name status \<Rightarrow> call env tr (PatchGatewayStatus namespace name status)
      | StatusHTTPRoute namespace name status \<Rightarrow> call env tr (PatchHTTPRouteStatus namespace name status))"

definition apply_named ::
  "Env \<Rightarrow> ApiCall list \<Rightarrow> ObjectMeta \<Rightarrow> (string \<Rightarrow> string \<Rightarrow> ApiCall) \<Rightarrow> unit exec" where
  "apply_named env tr meta c =
     (case om_name meta of
        None \<Rightarrow> ExPanic tr
      | Some name \<Rightarrow> call env tr (c (unwrap_or ''default'' (om_namespace meta)) name))"

definition execute_upsert_deployment :: "Env \<Rightarrow> ApiCall list \<Rightarrow> Deployment \<Rightarrow> unit exec" where
  "execute_upsert_deployment env tr d =
     apply_named env tr (de_metadata d) (\<lambda>ns n. ApplyDeployment ns n d)"

definition execute_upsert_service :: "Env \<Rightarrow> ApiCall list \<Rightarrow> Service \<Rightarrow> unit exec" where
  "execute_upsert_service env tr s = apply_named env tr (sv_metadata s) (\<lambda>ns n. ApplyService ns n s)"

definition execute_upsert_configmap :: "Env \<Rightarrow> ApiCall list \<Rightarrow> ConfigMap \<Rightarrow> unit exec" where
  "execute_upsert_configmap env tr configmap =
     (let meta = cm_metadata configmap; namespace = unwrap_or ''default'' (om_namespace meta)
      in case om_name meta of
           None \<Rightarrow> ExPanic tr
         | Some name \<Rightarrow>
             (let cm = \<lparr>cm_metadata = object_meta_default\<lparr>om_name := Some name,
                    om_namespace := Some namespace, om_labels := om_labels meta,
                    om_owner_references := om_owner_references meta\<rparr>,
                    cm_data = cm_data configmap\<rparr>;
                  tr' = tr @ [GetConfigMap namespace name]
              in case env_get_configmap env tr namespace name of
                   Inr existing \<Rightarrow>
                     call env tr' (ReplaceConfigMap namespace name
                       (cm\<lparr>cm_metadata := (cm_metadata cm)\<lparr>om_resource_version :=
                          om_resource_version (cm_metadata existing)\<rparr>\<rparr>))
                 | Inl e \<Rightarrow>
                     if is_not_found e then call env tr' (CreateConfigMap namespace cm)
                     else ExErr tr' (KubernetesError e)))"

definition execute_upsert_serviceaccount :: "Env \<Rightarrow> ApiCall list \<Rightarrow> ServiceAccount \<Rightarrow> unit exec" where
  "execute_upsert_serviceaccount env tr sa =
     apply_named env tr (sa_metadata sa) (\<lambda>ns n. ApplyServiceAccount ns n sa)"

definition execute_upsert_role :: "Env \<Rightarrow> ApiCall list \<Rightarrow> Role \<Rightarrow> unit exec" where
  "execute_upsert_role env tr r = apply_named env tr (ro_metadata r) (\<lambda>ns n. ApplyRole ns n r)"

definition execute_upsert_rolebinding :: "Env \<Rightarrow> ApiCall list \<Rightarrow> RoleBinding \<Rightarrow> unit exec" where
  "execute_upsert_rolebinding env tr rb =
     apply_named env tr (rb_metadata rb) (\<lambda>ns n. ApplyRoleBinding ns n rb)"

definition execute_upsert :: "Env \<Rightarrow> ApiCall list \<Rightarrow> ResourceUpsert \<Rightarrow> unit exec" where
  "execute_upsert env tr upsert =
     (case upsert of
        UpsertDeployment d \<Rightarrow> execute_upsert_deployment env tr d
      | UpsertService s \<Rightarrow> execute_upsert_service env tr s
      | UpsertConfigMap c \<Rightarrow> execute_upsert_configmap env tr c
      | UpsertServiceAccount sa \<Rightarrow> execute_upsert_serviceaccount env tr sa
      | UpsertRole r \<Rightarrow> execute_upsert_role env tr r
      | UpsertRoleBinding rb \<Rightarrow> execute_upsert_rolebinding env tr rb)"

definition deletable_kinds :: "string list" where
  "deletable_kinds = [''Deployment'', ''Service'', ''ConfigMap'', ''ServiceAccount'', ''Role'', ''RoleBinding'']"

definition execute_delete :: "Env \<Rightarrow> ApiCall list \<Rightarrow> ResourceDelete \<Rightarrow> unit exec" where
  "execute_delete env tr delete =
     (if rdl_kind delete \<in> set deletable_kinds
      then (case rdl_namespace delete of
          Some ns \<Rightarrow> call env tr (DeleteObject (rdl_kind delete) ns (rdl_name delete))
        | None \<Rightarrow> ExOk tr ())
      else ExOk tr ())"

section \<open>Executing a result\<close>

text \<open>A loop that stops at the first error, its value telling whether it got to the end.\<close>

fun run_all :: "(ApiCall list \<Rightarrow> 'a \<Rightarrow> unit exec) \<Rightarrow> ApiCall list \<Rightarrow> 'a list \<Rightarrow> bool exec" where
  "run_all f tr [] = ExOk tr True"
| "run_all f tr (x # xs) =
     (case f tr x of
        ExOk tr' _ \<Rightarrow> run_all f tr' xs
      | ExErr tr' _ \<Rightarrow> ExOk tr' False
      | ExPanic tr' \<Rightarrow> ExPanic tr')"

fun run_deletes :: "Env \<Rightarrow> ApiCall list \<Rightarrow> ResourceDelete list \<Rightarrow> unit exec" where
  "run_deletes env tr [] = ExOk tr ()"
| "run_deletes env tr (d # ds) =
     (case execute_delete env tr d of
        ExOk tr' _ \<Rightarrow> run_deletes env tr' ds
      | ExErr tr' _ \<Rightarrow> run_deletes env tr' ds
      | ExPanic tr' \<Rightarrow> ExPanic tr')"

text \<open>The action is the number of seconds after which to requeue.\<close>

definition requeue_action :: "RequeueDecision option \<Rightarrow> nat" where
  "requeue_action d =
     (case d of
        Some (After n) \<Rightarrow> n
      | Some (OnError n) \<Rightarrow> n
      | Some Never \<Rightarrow> 3600
      | None \<Rightarrow> 300)"

definition execute :: "Env \<Rightarrow> ApiCall list \<Rightarrow> ReconcileResult \<Rightarrow> nat exec" where
  "execute env tr r =
     (case run_all (execute_status_update env) tr (res_status_updates r) of
        ExPanic tr' \<Rightarrow> ExPanic tr'
      | ExErr tr' e \<Rightarrow> ExErr tr' e
      | ExOk tr' False \<Rightarrow> ExOk tr' 5
      | ExOk tr' True \<Rightarrow>
          (case run_all (execute_upsert env) tr' (res_upserts r) of
             ExPanic tr'' \<Rightarrow> ExPanic tr''
           | ExErr tr'' e \<Rightarrow> ExErr tr'' e
           | ExOk tr'' False \<Rightarrow> ExOk tr'' 5
           | ExOk tr'' True \<Rightarrow>
               (case run_deletes env tr'' (res_deletes r) of
                  ExPanic t \<Rightarrow> ExPanic t
                | ExErr t e \<Rightarrow> ExErr t e
                | ExOk t _ \<Rightarrow> ExOk t (requeue_action (res_requeue r)))))"

section \<open>Lemmas\<close>

text \<open>The calls an update stands for.\<close>

fun status_call :: "StatusUpdate \<Rightarrow> ApiCall" where
  "status_call (StatusGatewayClass n st) = PatchGatewayClassStatus n st"
| "status_call (StatusGateway ns n st) = PatchGatewayStatus ns n st"
| "status_call (StatusHTTPRoute ns n st) = PatchHTTPRouteStatus ns n st"

fun is_status_call :: "ApiCall \<Rightarrow> bool" where
  "is_status_call (PatchGatewayClassStatus _ _) = True"
| "is_status_call (PatchGatewayStatus _ _ _) = True"
| "is_status_call (PatchHTTPRouteStatus _ _ _) = True"
| "is_status_call _ = False"

lemma execute_status_update_call: "execute_status_update env tr u = call env tr (status_call u)"
  by (cases u) (simp_all add: execute_status_update_def)

lemma run_status_updates:
  "\<exists>k ok. run_all (execute_status_update env) tr us = ExOk (tr @ map status_call (take k us)) ok \<and>
     k \<le> length us \<and> (ok \<longrightarrow> k = length us) \<and> (\<not> ok \<longrightarrow> 0 < k)"
proof (induction us arbitrary: tr)
  case (Cons u us)
  show ?case
  proof (cases "env_call env tr (status_call u)")
    case None
    show ?thesis
    proof -
      obtain k ok where "run_all (execute_status_update env) (tr @ [status_call u]) us =
          ExOk ((tr @ [status_call u]) @ map status_call (take k us)) ok"
        and "k \<le> length us" "ok \<longrightarrow> k = length us" "\<not> ok \<longrightarrow> 0 < k"
        using Cons.IH by blast
      moreover have "execute_status_update env tr u = ExOk (tr @ [status_call u]) ()"
        using None by (simp add: execute_status_update_call call_def)
      ultimately show ?thesis by (intro exI [of _ "Suc k"] exI [of _ ok]) simp
    qed
  next
    case (Some e)
    then show ?thesis
      by (intro exI [of _ 1] exI [of _ False]) (simp add: execute_status_update_call call_def)
  qed
qed auto

definition named :: "ResourceUpsert \<Rightarrow> bool" where
  "named u \<longleftrightarrow> om_name (upsert_meta u) \<noteq> None"

lemma execute_upsert_named:
  "named u \<Longrightarrow> \<exists>tr'. (execute_upsert env tr u = ExOk (tr @ tr') () \<or> (\<exists>e. execute_upsert env tr u = ExErr (tr @ tr') e)) \<and>
     (\<forall>c\<in>set tr'. \<not> is_status_call c)"
  by (cases u)
    (auto simp: named_def execute_upsert_def execute_upsert_deployment_def execute_upsert_service_def
      execute_upsert_configmap_def execute_upsert_serviceaccount_def execute_upsert_role_def
      execute_upsert_rolebinding_def apply_named_def call_def Let_def split: option.split sum.split)

lemma run_upserts_named:
  "\<forall>u\<in>set us. named u \<Longrightarrow>
     \<exists>tr' ok. run_all (execute_upsert env) tr us = ExOk (tr @ tr') ok \<and> (\<forall>c\<in>set tr'. \<not> is_status_call c)"
proof (induction us arbitrary: tr)
  case (Cons u us)
  then obtain tr' where tr': "\<forall>c\<in>set tr'. \<not> is_status_call c"
    "execute_upsert env tr u = ExOk (tr @ tr') () \<or> (\<exists>e. execute_upsert env tr u = ExErr (tr @ tr') e)"
    using execute_upsert_named [of u env tr] by auto
  from tr'(2) show ?case
  proof
    assume "execute_upsert env tr u = ExOk (tr @ tr') ()"
    then show ?thesis
      using Cons.IH [of "tr @ tr'"] Cons.prems tr'(1) by auto
  next
    assume "\<exists>e. execute_upsert env tr u = ExErr (tr @ tr') e"
    then show ?thesis using tr'(1) by auto
  qed
qed auto

lemma run_deletes_total:
  "\<exists>tr'. run_deletes env tr ds = ExOk (tr @ tr') () \<and> (\<forall>c\<in>set tr'. \<not> is_status_call c)"
proof (induction ds arbitrary: tr)
  case (Cons d ds)
  have "\<exists>t. (execute_delete env tr d = ExOk (tr @ t) () \<or> (\<exists>e. execute_delete env tr d = ExErr (tr @ t) e)) \<and>
      (\<forall>c\<in>set t. \<not> is_status_call c)"
    by (auto simp: execute_delete_def call_def split: option.split)
  then obtain t where t: "\<forall>c\<in>set t. \<not> is_status_call c"
    "execute_delete env tr d = ExOk (tr @ t) () \<or> (\<exists>e. execute_delete env tr d = ExErr (tr @ t) e)"
    by blast
  obtain t' where t': "run_deletes env (tr @ t) ds = ExOk ((tr @ t) @ t') ()"
    "\<forall>c\<in>set t'. \<not> is_status_call c"
    using Cons.IH by blast
  show ?case
    by (rule exI [of _ "t @ t'"]) (use t t' in auto)
qed simp

definition healthy :: "Env \<Rightarrow> bool" where
  "healthy env \<longleftrightarrow> (\<forall>tr c. env_call env tr c = None) \<and>
     (\<forall>tr ns n. case env_get_configmap env tr ns n of Inl e \<Rightarrow> is_not_found e | Inr _ \<Rightarrow> True)"

lemma healthy_call: "healthy env \<Longrightarrow> call env tr c = ExOk (tr @ [c]) ()"
  by (simp add: healthy_def call_def)

lemma healthy_upsert: "healthy env \<Longrightarrow> named u \<Longrightarrow> \<exists>tr'. execute_upsert env tr u = ExOk tr' ()"
proof -
  assume h: "healthy env" and n: "named u"
  have g: "is_not_found e" if "env_get_configmap env tr ns n = Inl e" for ns n e
    using h that unfolding healthy_def by (metis old.sum.simps(5))
  show ?thesis
    using n by (cases u)
      (auto simp: named_def execute_upsert_def execute_upsert_deployment_def execute_upsert_service_def
        execute_upsert_configmap_def execute_upsert_serviceaccount_def execute_upsert_role_def
        execute_upsert_rolebinding_def apply_named_def healthy_call [OF h] Let_def g split: sum.split)
qed

lemma healthy_run_upserts:
  "healthy env \<Longrightarrow> \<forall>u\<in>set us. named u \<Longrightarrow> \<exists>tr'. run_all (execute_upsert env) tr us = ExOk tr' True"
proof (induction us arbitrary: tr)
  case (Cons u us)
  then obtain tr' where "execute_upsert env tr u = ExOk tr' ()"
    using healthy_upsert [of env u tr] by auto
  with Cons show ?case by auto
qed simp

lemma healthy_run_status: "healthy env \<Longrightarrow> run_all (execute_status_update env) tr us = ExOk (tr @ map status_call us) True"
  by (induction us arbitrary: tr) (simp_all add: execute_status_update_call healthy_call)

section \<open>Properties\<close>


definition demo_env :: Env where
  "demo_env = \<lparr>env_call = (\<lambda>_ _. None), env_get_configmap = (\<lambda>_ _ _. Inl (KubeApi 404 []))\<rparr>"


end
