(* ===== verification/Controllers.thy ===== *)
theory Controllers
  imports Fetcher Executor
begin

text \<open>
  The controllers of \<open>crates/controlplane/src/controller/\<close>: \<open>gateway.rs\<close>, \<open>gateway_class.rs\<close>,
  \<open>httproute.rs\<close>, \<open>reconciler.rs\<close> and the context of \<open>context.rs\<close>. Each one tells kube's
  \<open>Controller\<close> what to watch, handles one object by fetching a snapshot, reconciling and executing,
  and says when to retry after an error. The watch machinery is kube's; a client is what the
  cluster answers to reads and how it takes writes.
\<close>

section \<open>Context\<close>

record Client =
  cl_cluster :: Cluster
  cl_env :: Env

record ControllerContext =
  cx_client :: Client
  cx_config :: ControllerConfig

definition controller_context_new :: "Client \<Rightarrow> ControllerConfig \<Rightarrow> ControllerContext" where
  "controller_context_new client config = \<lparr>cx_client = client, cx_config = config\<rparr>"

definition controller_context_with_defaults :: "Client \<Rightarrow> ControllerContext" where
  "controller_context_with_defaults client =
     \<lparr>cx_client = client, cx_config = controller_config_default\<rparr>"

section \<open>What is watched\<close>

text \<open>
  A controller's objects with the namespace they are watched in (none for all), the kinds whose
  objects it owns with the label that selects them, and the kinds whose changes it maps to
  objects of its own, given as namespace and name.
\<close>

record ControllerSetup =
  cs_kind :: string
  cs_namespace :: "string option"
  cs_owns :: "(string \<times> string) list"
  cs_watches :: "(string \<times> (ObjectMeta \<Rightarrow> (string \<times> string) list)) list"

definition managed_selector :: string where
  "managed_selector = MANAGED_BY_LABEL @ ''='' @ MANAGED_BY_VALUE"

definition run_gateway_class_controller :: "ControllerContext \<Rightarrow> ControllerSetup" where
  "run_gateway_class_controller ctx = \<lparr>cs_kind = ''GatewayClass'', cs_namespace = None, cs_owns = [],
     cs_watches = []\<rparr>"

definition run_gateway_controller :: "ControllerContext \<Rightarrow> ControllerSetup" where
  "run_gateway_controller ctx = \<lparr>cs_kind = ''Gateway'', cs_namespace = cc_watch_namespace (cx_config ctx),
     cs_owns = [(''Deployment'', managed_selector), (''Service'', managed_selector),
       (''ConfigMap'', managed_selector)],
     cs_watches = []\<rparr>"

definition route_of_changed_gateway :: "ObjectMeta \<Rightarrow> (string \<times> string) list" where
  "route_of_changed_gateway gateway = [(namespace_or_default gateway, name_any gateway)]"

definition run_httproute_controller :: "ControllerContext \<Rightarrow> ControllerSetup" where
  "run_httproute_controller ctx = \<lparr>cs_kind = ''HTTPRoute'', cs_namespace = cc_watch_namespace (cx_config ctx),
     cs_owns = [], cs_watches = [(''Gateway'', route_of_changed_gateway)]\<rparr>"

section \<open>Handling an object\<close>

definition handle_gateway_class :: "GatewayClass \<Rightarrow> ControllerContext \<Rightarrow> nat exec" where
  "handle_gateway_class gateway_class ctx =
     (let name = name_any (gc_metadata gateway_class)
      in case snapshot_for_gateway_class (cl_cluster (cx_client ctx)) name of
           Inl e \<Rightarrow> ExErr [] e
         | Inr snapshot \<Rightarrow>
             execute (cl_env (cx_client ctx)) []
               (reconcile_gateway_class snapshot (cx_config ctx) name))"

definition handle_gateway ::
  "(CpGatewayConfig \<Rightarrow> string option) \<Rightarrow> float_ops \<Rightarrow> Gateway \<Rightarrow> ControllerContext \<Rightarrow> nat exec" where
  "handle_gateway to_json fl gateway ctx =
     (let name = name_any (gw_metadata gateway);
          namespace = namespace_or_default (gw_metadata gateway)
      in case snapshot_for_gateway (cl_cluster (cx_client ctx)) namespace name of
           Inl e \<Rightarrow> ExErr [] e
         | Inr snapshot \<Rightarrow>
             execute (cl_env (cx_client ctx)) []
               (reconcile_gateway to_json fl snapshot (cx_config ctx) namespace name))"

definition handle_httproute ::
  "(CpGatewayConfig \<Rightarrow> string option) \<Rightarrow> float_ops \<Rightarrow> HTTPRoute \<Rightarrow> ControllerContext \<Rightarrow> nat exec" where
  "handle_httproute to_json fl httproute ctx =
     (let name = name_any (hr_metadata httproute);
          namespace = namespace_or_default (hr_metadata httproute)
      in case snapshot_for_httproute (cl_cluster (cx_client ctx)) namespace name of
           Inl e \<Rightarrow> ExErr [] e
         | Inr snapshot \<Rightarrow>
             execute (cl_env (cx_client ctx)) []
               (reconcile_httproute to_json fl snapshot (cx_config ctx) namespace name))"

text \<open>The three error policies are the same: the number of seconds to requeue after.\<close>

definition error_policy :: "ControllerError \<Rightarrow> ControllerContext \<Rightarrow> nat" where
  "error_policy e ctx = cc_error_requeue_secs (cx_config ctx)"

section \<open>Accepted classes\<close>

text \<open>\<open>gateway_class.rs\<close> has its own copy of the acceptance check, and looks the class up itself.\<close>

definition gateway_class_accepted :: "GatewayClass \<Rightarrow> bool" where
  "gateway_class_accepted gateway_class =
     (if gc_controller_name gateway_class \<noteq> CONTROLLER_NAME then False
      else (case Option.bind (gc_status gateway_class) gcs_conditions of
          None \<Rightarrow> False
        | Some conditions \<Rightarrow> list_ex (\<lambda>c. co_type c = ''Accepted'' \<and> co_status c = ''True'') conditions))"

definition lookup_accepted_gateway_class :: "Client \<Rightarrow> string \<Rightarrow> GatewayClass option result" where
  "lookup_accepted_gateway_class client class_name =
     (case k_get_gateway_class (cl_cluster client) class_name of
        Inr gateway_class \<Rightarrow>
          if gateway_class_accepted gateway_class then Inr (Some gateway_class) else Inr None
      | Inl e \<Rightarrow> if is_not_found e then Inr None else Inl (KubernetesError e))"

section \<open>The controller and its builder\<close>

record GatewayController =
  gt_context :: ControllerContext

definition gateway_controller_with_client :: "Client \<Rightarrow> ControllerConfig \<Rightarrow> GatewayController" where
  "gateway_controller_with_client client config = \<lparr>gt_context = controller_context_new client config\<rparr>"

text \<open>\<open>try_default\<close> is the client of the environment.\<close>

definition gateway_controller_with_config :: "KubeError + Client \<Rightarrow> ControllerConfig \<Rightarrow> KubeError + GatewayController" where
  "gateway_controller_with_config try_default config =
     (case try_default of
        Inl e \<Rightarrow> Inl e
      | Inr client \<Rightarrow> Inr \<lparr>gt_context = controller_context_new client config\<rparr>)"

definition gateway_controller_new :: "KubeError + Client \<Rightarrow> KubeError + GatewayController" where
  "gateway_controller_new try_default =
     (case try_default of
        Inl e \<Rightarrow> Inl e
      | Inr client \<Rightarrow> Inr \<lparr>gt_context = controller_context_new client controller_config_default\<rparr>)"

text \<open>
  \<open>run\<close> starts the three controllers and waits for all of them; \<open>outcomes\<close> are how their tasks
  end, and the result is the log: each task that failed, by its controller's name.
\<close>

definition controller_name_at :: "nat \<Rightarrow> string" where
  "controller_name_at i = (if i = 0 then ''GatewayClass'' else if i = 1 then ''Gateway''
     else if i = 2 then ''HTTPRoute'' else ''Unknown'')"

definition gateway_controller_run :: "(ControllerSetup \<Rightarrow> string option) \<Rightarrow> GatewayController \<Rightarrow> (string \<times> string) list" where
  "gateway_controller_run outcomes c =
     (let ctx = gt_context c;
          results = map outcomes [run_gateway_class_controller ctx, run_gateway_controller ctx,
            run_httproute_controller ctx]
      in List.map_filter (\<lambda>(i, result). map_option (Pair (controller_name_at i)) result) (List.enumerate 0 results))"

record GatewayControllerBuilder =
  gb_config :: ControllerConfig
  gb_client :: "Client option"

definition gateway_controller_builder_new :: GatewayControllerBuilder where
  "gateway_controller_builder_new = \<lparr>gb_config = controller_config_default, gb_client = None\<rparr>"

definition gb_dataplane_image :: "GatewayControllerBuilder \<Rightarrow> string \<Rightarrow> GatewayControllerBuilder" where
  "gb_dataplane_image b img = b\<lparr>gb_config := (gb_config b)\<lparr>cc_dataplane_image := img\<rparr>\<rparr>"

definition gb_image_pull_policy :: "GatewayControllerBuilder \<Rightarrow> string \<Rightarrow> GatewayControllerBuilder" where
  "gb_image_pull_policy b policy = b\<lparr>gb_config := (gb_config b)\<lparr>cc_image_pull_policy := policy\<rparr>\<rparr>"

definition gb_default_replicas :: "GatewayControllerBuilder \<Rightarrow> i32 \<Rightarrow> GatewayControllerBuilder" where
  "gb_default_replicas b replicas = b\<lparr>gb_config := (gb_config b)\<lparr>cc_default_replicas := replicas\<rparr>\<rparr>"

definition gb_requeue_after_secs :: "GatewayControllerBuilder \<Rightarrow> nat \<Rightarrow> GatewayControllerBuilder" where
  "gb_requeue_after_secs b secs = b\<lparr>gb_config := (gb_config b)\<lparr>cc_requeue_after_secs := secs\<rparr>\<rparr>"

definition gb_error_requeue_secs :: "GatewayControllerBuilder \<Rightarrow> nat \<Rightarrow> GatewayControllerBuilder" where
  "gb_error_requeue_secs b secs = b\<lparr>gb_config := (gb_config b)\<lparr>cc_error_requeue_secs := secs\<rparr>\<rparr>"

definition gb_watch_namespace :: "GatewayControllerBuilder \<Rightarrow> string option \<Rightarrow> GatewayControllerBuilder" where
  "gb_watch_namespace b namespace = b\<lparr>gb_config := (gb_config b)\<lparr>cc_watch_namespace := namespace\<rparr>\<rparr>"

definition gb_with_client :: "GatewayControllerBuilder \<Rightarrow> Client \<Rightarrow> GatewayControllerBuilder" where
  "gb_with_client b client = b\<lparr>gb_client := Some client\<rparr>"

definition gateway_controller_build ::
  "KubeError + Client \<Rightarrow> GatewayControllerBuilder \<Rightarrow> KubeError + GatewayController" where
  "gateway_controller_build try_default b =
     (case gb_client b of
        Some c \<Rightarrow> Inr (gateway_controller_with_client c (gb_config b))
      | None \<Rightarrow>
          (case try_default of
             Inl e \<Rightarrow> Inl e
           | Inr client \<Rightarrow> Inr (gateway_controller_with_client client (gb_config b))))"

section \<open>Which objects the calls concern\<close>

text \<open>Kind, namespace and name.\<close>

fun call_object :: "ApiCall \<Rightarrow> string \<times> string option \<times> string" where
  "call_object (PatchGatewayClassStatus n _) = (''GatewayClass'', None, n)"
| "call_object (PatchGatewayStatus ns n _) = (''Gateway'', Some ns, n)"
| "call_object (PatchHTTPRouteStatus ns n _) = (''HTTPRoute'', Some ns, n)"
| "call_object (ApplyDeployment ns n _) = (''Deployment'', Some ns, n)"
| "call_object (ApplyService ns n _) = (''Service'', Some ns, n)"
| "call_object (ApplyServiceAccount ns n _) = (''ServiceAccount'', Some ns, n)"
| "call_object (ApplyRole ns n _) = (''Role'', Some ns, n)"
| "call_object (ApplyRoleBinding ns n _) = (''RoleBinding'', Some ns, n)"
| "call_object (GetConfigMap ns n) = (''ConfigMap'', Some ns, n)"
| "call_object (ReplaceConfigMap ns n _) = (''ConfigMap'', Some ns, n)"
| "call_object (CreateConfigMap ns cm) = (''ConfigMap'', Some ns, name_any (cm_metadata cm))"
| "call_object (DeleteObject k ns n) = (k, Some ns, n)"

definition upsert_object :: "ResourceUpsert \<Rightarrow> string \<times> string option \<times> string" where
  "upsert_object u = (upsert_kind u, Some (unwrap_or ''default'' (om_namespace (upsert_meta u))),
     name_any (upsert_meta u))"

text \<open>An operation all of whose calls satisfy \<open>P\<close>, and which does not panic.\<close>

definition confined :: "(ApiCall \<Rightarrow> bool) \<Rightarrow> ApiCall list \<Rightarrow> 'a exec \<Rightarrow> bool" where
  "confined P tr out \<longleftrightarrow> (\<exists>tr'. ((\<exists>x. out = ExOk (tr @ tr') x) \<or> (\<exists>e. out = ExErr (tr @ tr') e)) \<and>
     (\<forall>c\<in>set tr'. P c))"

definition concerns :: "(string \<times> string option \<times> string) set \<Rightarrow> ApiCall \<Rightarrow> bool" where
  "concerns objs c \<longleftrightarrow> call_object c \<in> objs"

lemma confined_trans:
  "confined P (tr @ tr') out \<Longrightarrow> \<forall>c\<in>set tr'. P c \<Longrightarrow> confined P tr out"
  unfolding confined_def by (metis Un_iff append_assoc set_append)

lemma confined_ok: "\<forall>c\<in>set tr'. P c \<Longrightarrow> confined P tr (ExOk (tr @ tr') x)"
  unfolding confined_def by blast

lemma confined_call: "P c \<Longrightarrow> confined P tr (call env tr c)"
  by (auto simp: confined_def call_def split: option.split)

lemma confined_status: "P (status_call u) \<Longrightarrow> confined P tr (execute_status_update env tr u)"
  by (simp add: execute_status_update_call confined_call)

text \<open>The calls that writing a ConfigMap takes.\<close>

lemma confined_configmap:
  assumes "om_name (cm_metadata cm) = Some name" and "ns = unwrap_or ''default'' (om_namespace (cm_metadata cm))"
    and "P (GetConfigMap ns name)"
    and "\<And>cm'. cm_data cm' = cm_data cm \<Longrightarrow> om_name (cm_metadata cm') = Some name \<Longrightarrow>
      P (ReplaceConfigMap ns name cm') \<and> P (CreateConfigMap ns cm')"
  shows "confined P tr (execute_upsert_configmap env tr cm)"
proof -
  have "confined P tr (call env (tr @ [GetConfigMap ns name]) c)" if "P c" for c
    by (rule confined_trans [OF confined_call]) (use that assms(3) in simp_all)
  moreover have "confined P tr (ExErr (tr @ [GetConfigMap ns name]) e :: unit exec)" for e
    using assms(3) unfolding confined_def by (intro exI [of _ "[GetConfigMap ns name]"]) simp
  ultimately show ?thesis
    by (simp add: execute_upsert_configmap_def assms(1) Let_def assms(4) split: sum.split flip: assms(2))
qed

lemma confined_upsert:
  assumes "named u" and "upsert_object u \<in> objs"
  shows "confined (concerns objs) tr (execute_upsert env tr u)"
proof (cases u)
  case (UpsertConfigMap cm)
  with assms show ?thesis
    by (auto simp: named_def upsert_object_def name_any_def execute_upsert_def concerns_def intro: confined_configmap)
qed (use assms in \<open>auto simp: named_def upsert_object_def execute_upsert_def execute_upsert_deployment_def
      execute_upsert_service_def execute_upsert_serviceaccount_def execute_upsert_role_def
      execute_upsert_rolebinding_def apply_named_def name_any_def concerns_def confined_call\<close>)

lemma confined_run_all:
  assumes "\<And>tr x. x \<in> set xs \<Longrightarrow> confined P tr (f tr x)"
  shows "\<exists>tr' ok. run_all f tr xs = ExOk (tr @ tr') ok \<and> (\<forall>c\<in>set tr'. P c)"
  using assms
proof (induction xs arbitrary: tr)
  case (Cons x xs)
  from Cons.prems [of x tr] obtain tr1 where "(f tr x = ExOk (tr @ tr1) ()) \<or> (\<exists>e. f tr x = ExErr (tr @ tr1) e)"
    and tr1: "\<forall>c\<in>set tr1. P c" by (auto simp: confined_def)
  then show ?case
  proof (elim disjE exE)
    assume "f tr x = ExOk (tr @ tr1) ()"
    moreover obtain tr2 ok where "run_all f (tr @ tr1) xs = ExOk ((tr @ tr1) @ tr2) ok" "\<forall>c\<in>set tr2. P c"
      using Cons.IH [of "tr @ tr1"] Cons.prems by auto
    ultimately show ?thesis using tr1 by (intro exI [of _ "tr1 @ tr2"] exI [of _ ok]) auto
  next
    fix e assume "f tr x = ExErr (tr @ tr1) e"
    with tr1 show ?thesis by (intro exI [of _ tr1] exI [of _ False]) simp
  qed
qed auto

text \<open>A result without deletions, all of whose updates make only calls that satisfy \<open>P\<close>.\<close>

lemma confined_execute:
  assumes "res_deletes r = []" and "\<And>u. u \<in> set (res_status_updates r) \<Longrightarrow> P (status_call u)"
    and "\<And>tr u. u \<in> set (res_upserts r) \<Longrightarrow> confined P tr (execute_upsert env tr u)"
  shows "confined P [] (execute env [] r)"
proof -
  obtain t1 ok1 where 1: "run_all (execute_status_update env) [] (res_status_updates r) = ExOk t1 ok1"
    and t1: "\<forall>c\<in>set t1. P c"
    using confined_run_all [of "res_status_updates r" P "execute_status_update env" "[]"] assms(2)
    by (auto simp: confined_status)
  obtain t2 ok2 where 2: "run_all (execute_upsert env) t1 (res_upserts r) = ExOk (t1 @ t2) ok2"
    and t2: "\<forall>c\<in>set t2. P c"
    using confined_run_all [of "res_upserts r" P "execute_upsert env" t1] assms(3) by auto
  show ?thesis using 1 2 t1 t2 assms(1)
    by (cases ok1; cases ok2) (auto simp: execute_def confined_def)
qed

text \<open>A result whose objects are named and in \<open>objs\<close>.\<close>

definition within :: "(string \<times> string option \<times> string) set \<Rightarrow> ReconcileResult \<Rightarrow> bool" where
  "within objs r \<longleftrightarrow> res_deletes r = [] \<and> (\<forall>u\<in>set (res_status_updates r). call_object (status_call u) \<in> objs) \<and>
     (\<forall>u\<in>set (res_upserts r). named u \<and> upsert_object u \<in> objs)"

lemma within_execute: "within objs r \<Longrightarrow> confined (concerns objs) [] (execute env [] r)"
  by (rule confined_execute) (auto simp: within_def confined_upsert concerns_def [of objs "status_call u" for u])

section \<open>What the handlers do\<close>

lemma within_reconcile_gateway_class: "within {(''GatewayClass'', None, n)} (reconcile_gateway_class s cfg n)"
  by (auto simp: within_def reconcile_gateway_class_def Let_def result_builder_defs result_new_def split: option.split)

text \<open>The objects of a gateway's data plane, with the gateway itself.\<close>

definition gateway_objects :: "string \<Rightarrow> string \<Rightarrow> (string \<times> string option \<times> string) set" where
  "gateway_objects ns n =
     {(''Gateway'', Some ns, n), (''ConfigMap'', Some ns, ''multiway-config-'' @ n)} \<union>
     {(k, Some ns, ''multiway-dp-'' @ n) |k. k \<in> {''Deployment'', ''Service'', ''ServiceAccount'', ''Role'', ''RoleBinding''}}"

lemma within_reconcile_gateway: "within (gateway_objects ns n) (reconcile_gateway to_json fl s cfg ns n)"
proof (cases "\<exists>gw. programmable s ns n gw")
  case True
  then obtain gw where "programmable s ns n gw" ..
  then show ?thesis
    by (simp add: reconcile_gateway_programmable within_def gateway_upserts_def Let_def named_def upsert_object_def
        gateway_objects_def build_configmap_def build_serviceaccount_def build_role_def build_rolebinding_def
        build_service_def build_deployment_def name_any_def data_plane_names_new_def configmap_name_def
        serviceaccount_name_def role_name_def rolebinding_name_def service_name_def deployment_name_def)
next
  case False
  have "\<forall>u\<in>set (res_status_updates (reconcile_gateway to_json fl s cfg ns n)).
      call_object (status_call u) = (''Gateway'', Some ns, n)"
    by (auto simp: reconcile_gateway_def Let_def result_builder_defs result_new_def split: option.split prod.split)
  with reconcile_gateway_not_programmable [OF False] show ?thesis
    by (auto simp: within_def gateway_objects_def)
qed

text \<open>The objects that reconciling a route concerns: itself and the ConfigMaps of its parents.\<close>

definition route_objects :: "WorldSnapshot \<Rightarrow> string \<Rightarrow> string \<Rightarrow> (string \<times> string option \<times> string) set" where
  "route_objects s ns n = insert (''HTTPRoute'', Some ns, n)
     {(''ConfigMap'', Some (unwrap_or ns (pr_namespace p)), ''multiway-config-'' @ pr_name p) |p r.
        get_httproute s ns n = Some r \<and> p \<in> set (unwrap_or [] (hr_parent_refs r)) \<and>
        prv_accepted (validate_parent_ref s r p ns)}"

lemma within_reconcile_httproute: "within (route_objects s ns n) (reconcile_httproute to_json fl s cfg ns n)"
proof (cases "\<exists>r. get_httproute s ns n = Some r \<and> unwrap_or [] (hr_parent_refs r) \<noteq> []")
  case True
  then obtain r where r: "get_httproute s ns n = Some r" "unwrap_or [] (hr_parent_refs r) \<noteq> []" by blast
  have "named u \<and> upsert_object u \<in> route_objects s ns n"
    if p: "p \<in> set (unwrap_or [] (hr_parent_refs r))" and u: "parent_configmap to_json fl s r ns p = Some u" for p u
  proof -
    have acc: "prv_accepted (validate_parent_ref s r p ns)" using u by (simp add: parent_configmap_def split: if_splits)
    have "named u \<and> upsert_object u = (''ConfigMap'', Some (unwrap_or ns (pr_namespace p)), ''multiway-config-'' @ pr_name p)"
      using u by (auto simp: parent_configmap_def named_def upsert_object_def build_configmap_def name_any_def
          data_plane_names_new_def configmap_name_def split: if_splits)
    with p acc r(1) show ?thesis unfolding route_objects_def by blast
  qed
  moreover have "(''HTTPRoute'', Some ns, n) \<in> route_objects s ns n" by (simp add: route_objects_def)
  ultimately show ?thesis by (simp add: within_def reconcile_httproute_eq [OF r]) (metis map_filter_mem)
next
  case False
  then show ?thesis
    by (auto simp: within_def reconcile_httproute_def Let_def result_builder_defs result_new_def split: option.split)
qed


text \<open>An accepted class. The two acceptance checks of the sources agree on every class, and the lookup gives
  the class exactly when the cluster has it and it is accepted, nothing when there is none or it
  is not accepted, and an error for every other failure of the read.\<close>

theorem accepted_class_lookup:
  "gateway_class_accepted gc = is_gateway_class_accepted gc \<and>
   lookup_accepted_gateway_class client name =
     (case k_get_gateway_class (cl_cluster client) name of
        Inr gc \<Rightarrow> Inr (if is_gateway_class_accepted gc then Some gc else None)
      | Inl e \<Rightarrow> if is_not_found e then Inr None else Inl (KubernetesError e))"
proof -
  have eq: "gateway_class_accepted g = is_gateway_class_accepted g" for g
    by (auto simp: gateway_class_accepted_def is_gateway_class_accepted_def is_our_gateway_class_def split: option.split)
  then show ?thesis by (auto simp: lookup_accepted_gateway_class_def split: sum.split)
qed

end
