(* ===== verification/Cli.thy ===== *)
theory Cli
  imports Controllers
begin

text \<open>
  The command line of the control plane, \<open>crates/controlplane/src/cli/\<close> and
  \<open>crates/controlplane/src/bin/main.rs\<close>, from the parsed arguments on: clap's parsing, the logging
  set-up and the rendering of errors are left to the libraries. A command's outcome is what it
  prints, the controller that it runs, or its error text.
\<close>

datatype LogFormat = LogText | LogJson

datatype EnableColors = ColorsAlways | ColorsNever | ColorsAuto

definition enable_colors_default :: EnableColors where
  "enable_colors_default = ColorsAuto"

text \<open>The derived order of an enum is that of its declaration.\<close>

fun colors_rank :: "EnableColors \<Rightarrow> nat" where
  "colors_rank ColorsAlways = 0"
| "colors_rank ColorsNever = 1"
| "colors_rank ColorsAuto = 2"

lemma colors_rank_inject: "colors_rank a = colors_rank b \<longleftrightarrow> a = b"
  by (cases a; cases b) simp_all

instantiation EnableColors :: linorder
begin

definition less_eq_EnableColors :: "EnableColors \<Rightarrow> EnableColors \<Rightarrow> bool" where
  "less_eq_EnableColors a b \<longleftrightarrow> colors_rank a \<le> colors_rank b"

definition less_EnableColors :: "EnableColors \<Rightarrow> EnableColors \<Rightarrow> bool" where
  "less_EnableColors a b \<longleftrightarrow> colors_rank a < colors_rank b"

instance
  by standard (auto simp: less_eq_EnableColors_def less_EnableColors_def colors_rank_inject [symmetric])

end

record ControllerArgs =
  ca_dataplane_image :: "string option"
  ca_replicas :: "i32 option"
  ca_namespace :: "string option"

record GatewayArgs =
  ga_config_path :: string
  ga_gateway_name :: "string option"
  ga_gateway_namespace :: "string option"

datatype CliCommand = CmdVersion | CmdGateway GatewayArgs | CmdController ControllerArgs

record Cli =
  cli_log_level :: string
  cli_log_format :: LogFormat
  cli_enable_colors :: EnableColors
  cli_cmd :: "CliCommand option"

record ControllerCommand =
  cco_dataplane_image :: "string option"
  cco_replicas :: "i32 option"
  cco_namespace :: "string option"

definition controller_command_new :: ControllerCommand where
  "controller_command_new = \<lparr>cco_dataplane_image = None, cco_replicas = None, cco_namespace = None\<rparr>"

record GatewayCommand =
  gco_config_path :: string
  gco_gateway_name :: "string option"
  gco_gateway_namespace :: "string option"

definition gateway_command_new :: GatewayCommand where
  "gateway_command_new = \<lparr>gco_config_path = ''/config/config.json'', gco_gateway_name = None,
     gco_gateway_namespace = None\<rparr>"

section \<open>Running a command\<close>

datatype outcome = Printed "string list" | RanController GatewayController | CommandFailed string

definition run_controller :: "KubeError + Client \<Rightarrow> ControllerCommand \<Rightarrow> outcome" where
  "run_controller try_default c =
     (let builder = gateway_controller_builder_new;
          builder = (case cco_dataplane_image c of Some img \<Rightarrow> gb_dataplane_image builder img | None \<Rightarrow> builder);
          builder = (case cco_replicas c of Some replicas \<Rightarrow> gb_default_replicas builder replicas | None \<Rightarrow> builder);
          builder = (case cco_namespace c of Some ns \<Rightarrow> gb_watch_namespace builder (Some ns) | None \<Rightarrow> builder)
      in case gateway_controller_build try_default builder of
           Inl e \<Rightarrow> CommandFailed (''Failed to create controller: '' @ kube_error_text e)
         | Inr controller \<Rightarrow> RanController controller)"

text \<open>\<open>rt_error\<close> is the error of creating the tokio runtime.\<close>

definition controller_dispatch ::
  "string option \<Rightarrow> KubeError + Client \<Rightarrow> ControllerCommand \<Rightarrow> outcome" where
  "controller_dispatch rt_error try_default c =
     (case rt_error of
        Some e \<Rightarrow> CommandFailed (''Failed to create runtime: '' @ e)
      | None \<Rightarrow> run_controller try_default c)"

definition gateway_dispatch :: "GatewayCommand \<Rightarrow> outcome" where
  "gateway_dispatch gw = Printed
     [''Gateway data plane starting with config: '' @ gco_config_path gw,
      ''This is a placeholder - the proxy-core data plane runs as a separate binary (multiway-dataplane)'']"

definition version_dispatch :: "string \<Rightarrow> outcome" where
  "version_dispatch cli_version = Printed [cli_version]"

definition cli_dispatch ::
  "string \<Rightarrow> string option \<Rightarrow> KubeError + Client \<Rightarrow> CliCommand \<Rightarrow> outcome" where
  "cli_dispatch cli_version rt_error try_default cmd =
     (case cmd of
        CmdVersion \<Rightarrow> version_dispatch cli_version
      | CmdGateway args \<Rightarrow>
          gateway_dispatch (gateway_command_new\<lparr>gco_config_path := ga_config_path args,
            gco_gateway_name := ga_gateway_name args, gco_gateway_namespace := ga_gateway_namespace args\<rparr>)
      | CmdController args \<Rightarrow>
          controller_dispatch rt_error try_default
            (controller_command_new\<lparr>cco_dataplane_image := ca_dataplane_image args,
               cco_replicas := ca_replicas args, cco_namespace := ca_namespace args\<rparr>))"

text \<open>Without a command the long help is printed.\<close>

definition empty_command :: "string list \<Rightarrow> outcome" where
  "empty_command long_help = Printed long_help"

definition dispatch_command ::
  "string list \<Rightarrow> string \<Rightarrow> string option \<Rightarrow> KubeError + Client \<Rightarrow> Cli \<Rightarrow> outcome" where
  "dispatch_command long_help cli_version rt_error try_default cli =
     (case cli_cmd cli of
        None \<Rightarrow> empty_command long_help
      | Some cmd \<Rightarrow> cli_dispatch cli_version rt_error try_default cmd)"

section \<open>What the controller command runs\<close>

text \<open>The configuration of the controller that the command line asks for.\<close>

definition args_config :: "ControllerArgs \<Rightarrow> ControllerConfig" where
  "args_config args = controller_config_default\<lparr>
     cc_dataplane_image := unwrap_or (cc_dataplane_image controller_config_default) (ca_dataplane_image args),
     cc_default_replicas := unwrap_or (cc_default_replicas controller_config_default) (ca_replicas args),
     cc_watch_namespace := ca_namespace args\<rparr>"

text \<open>The controller command. It runs exactly when the runtime and the client can be made,
  with that client and the default configuration in which the image, the replicas and the watched
  namespace are those given; nothing else of the configuration can be set from the command line, so
  the requeue times, the pod resources and leader election stay at their defaults. Every
  controller of it then watches that namespace, and classes are watched everywhere.\<close>

theorem controller_command_configuration:
  "(cli_dispatch v rt_error try_default (CmdController args) = RanController c \<longleftrightarrow>
      rt_error = None \<and> (\<exists>client. try_default = Inr client \<and>
        gt_context c = \<lparr>cx_client = client, cx_config = args_config args\<rparr>)) \<and>
   map cs_namespace [run_gateway_class_controller ctx, run_gateway_controller ctx, run_httproute_controller ctx] =
     [None, cc_watch_namespace (cx_config ctx), cc_watch_namespace (cx_config ctx)]"
proof -
  obtain i r n where args: "args = \<lparr>ca_dataplane_image = i, ca_replicas = r, ca_namespace = n\<rparr>"
    by (cases args)
  show ?thesis
    by (cases c; cases i; cases r; cases n)
      (auto simp: args cli_dispatch_def controller_dispatch_def run_controller_def Let_def args_config_def
        controller_command_new_def gateway_controller_builder_new_def gb_dataplane_image_def
        gb_default_replicas_def gb_watch_namespace_def gateway_controller_build_def
        gateway_controller_with_client_def controller_context_new_def controller_config_default_def
        run_gateway_class_controller_def run_gateway_controller_def run_httproute_controller_def
        split: option.splits sum.splits)
qed

end
