(* ===== verification/Upstream.thy ===== *)
theory Upstream
  imports HttpTypes
begin

text \<open>
  The innermost service of \<open>crates/proxy-core/src/pipeline.rs\<close>: responses the proxy makes itself,
  the choice of a backend by weight, the upstream request, mirroring, and forwarding over
  HTTP/1.1 or HTTP/2. The network is the parameter \<open>Net\<close>: the outcome of resolving, connecting,
  and of each step of a codec. A call returns the response, the mirrored requests and the request
  sent to the backend, with their addresses.
\<close>

section \<open>Responses of the proxy\<close>

record 'h StringResponse =
  ss_status :: u16
  ss_headers :: 'h
  ss_body :: string

definition text_response :: "('u, 'h) http \<Rightarrow> u16 \<Rightarrow> string \<Rightarrow> 'h StringResponse" where
  "text_response ht status body = \<lparr>ss_status = status,
     ss_headers = hm_append ht CONTENT_TYPE ''text/plain'' (hm_new ht), ss_body = body\<rparr>"

definition not_found_response :: "('u, 'h) http \<Rightarrow> 'h StringResponse" where
  "not_found_response ht = text_response ht 404 ''404 Not Found''"

definition bad_gateway_response :: "('u, 'h) http \<Rightarrow> 'h StringResponse" where
  "bad_gateway_response ht = text_response ht 502 ''502 Bad Gateway''"

definition service_unavailable_response :: "('u, 'h) http \<Rightarrow> 'h StringResponse" where
  "service_unavailable_response ht = text_response ht 503 ''503 Service Unavailable''"

definition gateway_timeout_response :: "('u, 'h) http \<Rightarrow> 'h StringResponse" where
  "gateway_timeout_response ht = text_response ht 504 ''504 Gateway Timeout''"

text \<open>The builder keeps the error of an invalid header value, and unwrapping it panics.\<close>

definition redirect_response :: "('u, 'h) http \<Rightarrow> u16 \<Rightarrow> string \<Rightarrow> panic + 'h StringResponse" where
  "redirect_response ht status location =
     (case value_parse ht location of
        None \<Rightarrow> Inl (ExplicitPanic ''called `Result::unwrap()` on an `Err` value'')
      | Some v \<Rightarrow> Inr \<lparr>
          ss_status = (case status_from_u16 ht status of Some s \<Rightarrow> s | None \<Rightarrow> 302),
          ss_headers = hm_append ht CONTENT_TYPE ''text/plain'' (hm_append ht LOCATION v (hm_new ht)),
          ss_body = []\<rparr>)"

definition string_response_to_monoio :: "('u, 'h) http \<Rightarrow> 'h StringResponse \<Rightarrow> 'h HttpResponse" where
  "string_response_to_monoio ht resp =
     (if ss_body resp = []
      then \<lparr>hs_status = ss_status resp, hs_headers = ss_headers resp, hs_body = PayloadNone\<rparr>
      else \<lparr>hs_status = ss_status resp,
        hs_headers = hm_insert ht CONTENT_LENGTH (show_nat (length (ss_body resp))) (ss_headers resp),
        hs_body = PayloadFixed (ss_body resp)\<rparr>)"

section \<open>Choosing a backend\<close>

text \<open>The sum of the weights wraps around at 32 bits, as it does in a release build.\<close>

definition total_weight :: "Backend list \<Rightarrow> u32" where
  "total_weight backends = sum_list (map be_weight backends)"

fun pick_backend :: "u32 \<Rightarrow> Backend list \<Rightarrow> Backend option" where
  "pick_backend pick [] = None"
| "pick_backend pick (backend # bs) =
     (if be_weight backend = 0 then pick_backend pick bs
      else if pick < be_weight backend then Some backend
      else pick_backend (pick - be_weight backend) bs)"

text \<open>\<open>random t\<close> is the outcome of \<open>rand::random_range(0..t)\<close>.\<close>

definition select_backend :: "(u32 \<Rightarrow> u32) \<Rightarrow> Backend list \<Rightarrow> Backend option" where
  "select_backend random backends =
     (let total = total_weight backends
      in if total = 0 then None
         else (case pick_backend (random total) backends of
             Some b \<Rightarrow> Some b
           | None \<Rightarrow> find (\<lambda>b. 0 < be_weight b) backends))"

section \<open>The upstream request\<close>

definition rewrite_request ::
  "('u, 'h) http \<Rightarrow> RewriteResult option \<Rightarrow> ('u, 'h) HttpRequest \<Rightarrow> ('u, 'h) HttpRequest" where
  "rewrite_request ht rewrite req =
     (case rewrite of
        None \<Rightarrow> req
      | Some rw \<Rightarrow>
          (let req = (case rw_path rw of
                 Some new_path \<Rightarrow>
                   (case uri_parse ht new_path of Some uri \<Rightarrow> req\<lparr>hq_uri := uri\<rparr> | None \<Rightarrow> req)
               | None \<Rightarrow> req)
           in case rw_hostname rw of
                Some new_host \<Rightarrow>
                  (case value_parse ht new_host of
                     Some v \<Rightarrow> req\<lparr>hq_headers := hm_insert ht HOST v (hq_headers req)\<rparr>
                   | None \<Rightarrow> req)
              | None \<Rightarrow> req))"

definition ensure_host :: "('u, 'h) http \<Rightarrow> RequestMeta \<Rightarrow> 'h \<Rightarrow> 'h" where
  "ensure_host ht meta h =
     (if hm_contains_key ht h HOST then h
      else (case rq_host meta of
          Some host \<Rightarrow> (case value_parse ht host of Some v \<Rightarrow> hm_insert ht HOST v h | None \<Rightarrow> h)
        | None \<Rightarrow> h))"

definition build_upstream_request ::
  "('u, 'h) http \<Rightarrow> ('u, 'h) HttpRequest \<Rightarrow> RequestMeta \<Rightarrow> AppliedFilter \<Rightarrow> ('u, 'h) HttpRequest" where
  "build_upstream_request ht original meta applied =
     (let req = rewrite_request ht (af_rewrite applied) original;
          h = fold (hm_remove_named ht) (af_request_header_remove applied) (hq_headers req);
          h = fold (hm_set_named ht) (af_request_header_set applied) h;
          h = fold (hm_add_named ht) (af_request_header_add applied) h
      in req\<lparr>hq_headers := ensure_host ht meta h\<rparr>)"

definition clone_request_for_mirror :: "('u, 'h) HttpRequest \<Rightarrow> ('u, 'h) HttpRequest" where
  "clone_request_for_mirror req = \<lparr>hq_method = hq_method req, hq_uri = hq_uri req,
     hq_version = ''HTTP/1.1'', hq_headers = hq_headers req, hq_body = PayloadNone\<rparr>"

definition apply_response_filters ::
  "('u, 'h) http \<Rightarrow> 'h HttpResponse \<Rightarrow> AppliedFilter \<Rightarrow> 'h HttpResponse" where
  "apply_response_filters ht resp applied =
     (let h = fold (hm_remove_named ht) (af_response_header_remove applied) (hs_headers resp);
          h = fold (hm_set_named ht) (af_response_header_set applied) h;
          h = fold (hm_add_named ht) (af_response_header_add applied) h
      in resp\<lparr>hs_headers := h\<rparr>)"

section \<open>Durations\<close>

text \<open>
  Positive floating point numbers are ordered as their bit patterns, up to infinity. Conversion to
  a \<open>Duration\<close> panics from \<open>2 ^ 64\<close> seconds on.
\<close>

definition f64_positive :: "f64 \<Rightarrow> bool" where
  "f64_positive t \<longleftrightarrow> 0 < t \<and> t \<le> 0x7FF0000000000000"

definition duration_overflows :: "f64 \<Rightarrow> bool" where
  "duration_overflows t \<longleftrightarrow> 0x43F0000000000000 \<le> t"

definition positive_duration :: "f64 option \<Rightarrow> panic + f64 option" where
  "positive_duration t =
     (case t of
        Some t \<Rightarrow>
          (if \<not> f64_positive t then Inr None
           else if duration_overflows t
           then Inl (ExplicitPanic ''cannot convert float seconds to Duration'')
           else Inr (Some t))
      | None \<Rightarrow> Inr None)"

section \<open>The network\<close>

record ('u, 'h) Net =
  nt_random :: "nat \<Rightarrow> u32 \<Rightarrow> u32"
  nt_resolve :: "string \<Rightarrow> u16 \<Rightarrow> io_error + string list"
  nt_connect :: "string \<Rightarrow> bool"
  nt_send :: "string \<Rightarrow> ('u, 'h) HttpRequest \<Rightarrow> f64 option \<Rightarrow> string option"
  nt_flush :: "string \<Rightarrow> ('u, 'h) HttpRequest \<Rightarrow> f64 option \<Rightarrow> string option"
  nt_next :: "string \<Rightarrow> ('u, 'h) HttpRequest \<Rightarrow> f64 option \<Rightarrow> (string + 'h HttpResponse) option"
  nt_h2_elapsed :: "string \<Rightarrow> ('u, 'h) HttpRequest \<Rightarrow> f64 \<Rightarrow> bool"
  nt_h2_connect :: "string \<Rightarrow> bool"
  nt_h2_handshake :: "string \<Rightarrow> string option"
  nt_h2_ready :: "string \<Rightarrow> string option"
  nt_h2_send :: "string \<Rightarrow> ('u, 'h) HttpRequest \<Rightarrow> bool \<Rightarrow> string option"
  nt_h2_data :: "string \<Rightarrow> ('u, 'h) HttpRequest \<Rightarrow> string \<Rightarrow> string option"
  nt_h2_response :: "string \<Rightarrow> ('u, 'h) HttpRequest \<Rightarrow> string + 'h HttpResponse"

definition forward_via_codec ::
  "('u, 'h) Net \<Rightarrow> string \<Rightarrow> ('u, 'h) HttpRequest \<Rightarrow> f64 option \<Rightarrow> io_error + 'h HttpResponse" where
  "forward_via_codec net conn request backend_timeout =
     (if nt_send net conn request backend_timeout \<noteq> None then Inl BrokenPipe
      else if nt_flush net conn request backend_timeout \<noteq> None then Inl BrokenPipe
      else (case nt_next net conn request backend_timeout of
          None \<Rightarrow> Inl UnexpectedEof
        | Some (Inl msg) \<Rightarrow> Inl (if sublist ''timeout'' msg then TimedOut else BrokenPipe)
        | Some (Inr resp) \<Rightarrow> Inr (resp\<lparr>hs_body := collected (payload_bytes (hs_body resp))\<rparr>)))"

text \<open>
  The request sent over HTTP/2. Building the URI fails where its parts do not fit; the original
  URI is kept then.
\<close>

definition h2_request :: "('u, 'h) http \<Rightarrow> ('u, 'h) HttpRequest \<Rightarrow> ('u, 'h) HttpRequest" where
  "h2_request ht request =
     \<lparr>hq_method = hq_method request,
      hq_uri = (case hm_get ht (hq_headers request) HOST of
          Some host \<Rightarrow>
            (case uri_with_authority ht
                (case value_to_str ht host of Some s \<Rightarrow> s | None \<Rightarrow> []) (hq_uri request) of
               Some uri \<Rightarrow> uri | None \<Rightarrow> hq_uri request)
        | None \<Rightarrow> hq_uri request),
      hq_version = ''HTTP/2.0'',
      hq_headers = hm_remove ht HOST (hm_remove ht CONNECTION
        (hm_remove ht TRANSFER_ENCODING (hq_headers request))),
      hq_body = PayloadNone\<rparr>"

definition forward_via_h2_inner ::
  "('u, 'h) http \<Rightarrow> ('u, 'h) Net \<Rightarrow> string \<Rightarrow> ('u, 'h) HttpRequest \<Rightarrow> io_error + 'h HttpResponse" where
  "forward_via_h2_inner ht net addr request =
     (if \<not> nt_h2_connect net addr then Inl ConnectionRefused
      else (case nt_h2_handshake net addr of Some e \<Rightarrow> Inl (OtherIo e) | None \<Rightarrow>
        (case nt_h2_ready net addr of Some e \<Rightarrow> Inl (OtherIo e) | None \<Rightarrow>
          (let body_bytes = payload_bytes (hq_body request);
               has_body = body_bytes \<noteq> [];
               req = h2_request ht request
           in case nt_h2_send net addr req (\<not> has_body) of Some e \<Rightarrow> Inl (OtherIo e) | None \<Rightarrow>
             (case (if has_body then nt_h2_data net addr req body_bytes else None) of
                Some e \<Rightarrow> Inl (OtherIo e)
              | None \<Rightarrow>
                 (case nt_h2_response net addr req of
                    Inl e \<Rightarrow> Inl (OtherIo e)
                  | Inr resp \<Rightarrow> Inr (resp\<lparr>hs_body := collected (payload_bytes (hs_body resp))\<rparr>)))))))"

definition forward_via_h2 ::
  "('u, 'h) http \<Rightarrow> ('u, 'h) Net \<Rightarrow> string \<Rightarrow> ('u, 'h) HttpRequest \<Rightarrow> f64 option \<Rightarrow>
     io_error + 'h HttpResponse" where
  "forward_via_h2 ht net addr request backend_timeout =
     (case backend_timeout of
        Some dur \<Rightarrow>
          (if nt_h2_elapsed net addr request dur then Inl TimedOut
           else forward_via_h2_inner ht net addr request)
      | None \<Rightarrow> forward_via_h2_inner ht net addr request)"

section \<open>The service\<close>

record ('u, 'h) ForwardRequest =
  fr_request :: "('u, 'h) HttpRequest"
  fr_meta :: RequestMeta
  fr_backends :: "Backend list"
  fr_applied_filter :: AppliedFilter

text \<open>The mirrored requests; \<open>i\<close> counts the random numbers drawn.\<close>

fun mirror_loop ::
  "('u, 'h) Net \<Rightarrow> ('u, 'h) HttpRequest \<Rightarrow> nat \<Rightarrow> MirrorTarget list \<Rightarrow>
     (string \<times> ('u, 'h) HttpRequest) list" where
  "mirror_loop net upstream_req i [] = []"
| "mirror_loop net upstream_req i (mirror # ms) =
     (if mt_percent mirror < 100 \<and> nt_random net i 100 \<ge> mt_percent mirror
      then mirror_loop net upstream_req (Suc i) ms
      else (let i = (if mt_percent mirror < 100 then Suc i else i)
        in case nt_resolve net (be_name (mt_backend mirror)) (be_port (mt_backend mirror)) of
             Inr (addr # _) \<Rightarrow>
               (addr, clone_request_for_mirror upstream_req) # mirror_loop net upstream_req i ms
           | _ \<Rightarrow> mirror_loop net upstream_req i ms))"

type_synonym ('u, 'h) upstream_result =
  "'h HttpResponse \<times> (string \<times> ('u, 'h) HttpRequest) list \<times> (string \<times> ('u, 'h) HttpRequest) option"

definition forward_primary ::
  "('u, 'h) http \<Rightarrow> ('u, 'h) Net \<Rightarrow> BackendProtocol \<Rightarrow> string \<Rightarrow> ('u, 'h) HttpRequest \<Rightarrow> f64 option \<Rightarrow>
     io_error + 'h HttpResponse" where
  "forward_primary ht net protocol addr req backend_timeout =
     (case protocol of
        H2c \<Rightarrow> forward_via_h2 ht net addr req backend_timeout
      | Http1 \<Rightarrow> forward_via_codec net addr req backend_timeout)"

definition upstream_call ::
  "('u, 'h) http \<Rightarrow> ('u, 'h) Net \<Rightarrow> ('u, 'h) ForwardRequest \<Rightarrow> panic + ('u, 'h) upstream_result" where
  "upstream_call ht net req =
     (let applied = fr_applied_filter req; reply = (\<lambda>r. string_response_to_monoio ht r)
      in case select_backend (nt_random net 0) (fr_backends req) of
           None \<Rightarrow> Inr (reply (service_unavailable_response ht), [], None)
         | Some backend \<Rightarrow>
             (case nt_resolve net (be_name backend) (be_port backend) of
                Inr (addr # _) \<Rightarrow>
                  (let upstream_req = build_upstream_request ht (fr_request req) (fr_meta req) applied
                   in case positive_duration (Option.bind (af_timeout applied) to_backend_request) of
                        Inl p \<Rightarrow> Inl p
                      | Inr backend_timeout \<Rightarrow>
                          (let mirrors = mirror_loop net upstream_req 1 (af_mirrors applied)
                           in if be_protocol backend = Http1 \<and> \<not> nt_connect net addr
                              then Inr (reply (bad_gateway_response ht), mirrors, None)
                              else (case forward_primary ht net (be_protocol backend) addr upstream_req
                                       backend_timeout of
                                  Inr resp \<Rightarrow> Inr (apply_response_filters ht resp applied, mirrors,
                                    Some (addr, upstream_req))
                                | Inl TimedOut \<Rightarrow> Inr (reply (gateway_timeout_response ht), mirrors,
                                    Some (addr, upstream_req))
                                | Inl _ \<Rightarrow> Inr (reply (bad_gateway_response ht), mirrors,
                                    Some (addr, upstream_req)))))
              | _ \<Rightarrow> Inr (reply (bad_gateway_response ht), [], None)))"

section \<open>Choice by weight\<close>

definition weight_sum :: "Backend list \<Rightarrow> nat" where
  "weight_sum bs = sum_list (map (\<lambda>b. unat (be_weight b)) bs)"

lemma weight_sum_simps [simp]:
  "weight_sum [] = 0" "weight_sum (b # bs) = unat (be_weight b) + weight_sum bs"
  by (simp_all add: weight_sum_def)

lemma total_weight_unat: "unat (total_weight bs) = weight_sum bs mod 2 ^ 32"
  by (induction bs) (simp_all add: total_weight_def unat_word_ariths mod_add_right_eq)

lemma pick_backend_interval:
  "unat pick < weight_sum bs \<Longrightarrow>
     \<exists>i<length bs. pick_backend pick bs = Some (bs ! i) \<and>
       weight_sum (take i bs) \<le> unat pick \<and> unat pick < weight_sum (take (Suc i) bs)"
proof (induction bs arbitrary: pick)
  case (Cons b bs)
  show ?case
  proof (cases "pick < be_weight b")
    case True
    then have "be_weight b \<noteq> 0" by auto
    with True show ?thesis
      by (intro exI [of _ 0]) (simp add: word_less_nat_alt)
  next
    case False
    then have d: "unat (pick - be_weight b) = unat pick - unat (be_weight b)"
      by (simp add: unat_sub not_less)
    have le: "unat (be_weight b) \<le> unat pick" using False by (simp add: word_le_nat_alt not_less)
    with Cons.prems d have "unat (pick - be_weight b) < weight_sum bs" by simp
    from Cons.IH [OF this] obtain i where i: "i < length bs"
      "pick_backend (pick - be_weight b) bs = Some (bs ! i)"
      "weight_sum (take i bs) \<le> unat (pick - be_weight b)"
      "unat (pick - be_weight b) < weight_sum (take (Suc i) bs)" by blast
    have "pick_backend pick (b # bs) = Some ((b # bs) ! Suc i)"
      using i(2) False by (cases "be_weight b = 0") simp_all
    with i le d show ?thesis by (intro exI [of _ "Suc i"]) auto
  qed
qed simp

lemma select_backend_interval:
  assumes random: "\<And>t. 0 < t \<Longrightarrow> random t < t" and total: "total_weight bs \<noteq> 0"
  shows "\<exists>i<length bs. select_backend random bs = Some (bs ! i) \<and>
    weight_sum (take i bs) \<le> unat (random (total_weight bs)) \<and>
    unat (random (total_weight bs)) < weight_sum (take (Suc i) bs)"
proof -
  have "random (total_weight bs) < total_weight bs"
    using total by (intro random) (simp add: word_neq_0_conv)
  then have "unat (random (total_weight bs)) < weight_sum bs"
    using total_weight_unat [of bs] by (metis mod_less_eq_dividend order_less_le_trans word_less_nat_alt)
  from pick_backend_interval [OF this] show ?thesis
    using total by (auto simp: select_backend_def Let_def)
qed

lemma pick_backend_mem: "pick_backend p bs = Some b \<Longrightarrow> b \<in> set bs \<and> be_weight b \<noteq> 0"
  by (induction p bs rule: pick_backend.induct) (auto split: if_splits)

lemma select_backend_mem: "select_backend random bs = Some b \<Longrightarrow> b \<in> set bs \<and> be_weight b \<noteq> 0"
  by (auto simp: select_backend_def Let_def word_neq_0_conv dest: pick_backend_mem find_Some_set
      split: if_splits option.splits)

section \<open>Headers of the upstream request\<close>

text \<open>
  The values under a name after modification: a base, then the added values in order. The base is
  the last value set, else nothing if the name was removed, else the old values. Filters whose
  name or value is not a valid header have no effect.
\<close>

definition modified_values ::
  "('u, 'h) http \<Rightarrow> string list \<Rightarrow> HeaderValue list \<Rightarrow> HeaderValue list \<Rightarrow> string \<Rightarrow> string list \<Rightarrow> string list \<Rightarrow>
     bool" where
  "modified_values ht removes sets adds m old new \<longleftrightarrow>
     (let about = (\<lambda>hv. hv_ok ht hv \<and> eq_ignore_ascii_case (hv_name hv) m)
      in \<exists>base. new = base @ map hv_value (filter about adds) \<and>
        (if filter about sets \<noteq> [] then set base = {hv_value (last (filter about sets))}
         else base = (if \<exists>n\<in>set removes. name_parse ht n \<noteq> None \<and> eq_ignore_ascii_case n m
                      then [] else old)))"

lemma modify_values:
  assumes "header_laws ht"
  shows "modified_values ht removes sets adds m (hm_vals ht h m)
    (hm_vals ht (fold (hm_add_named ht) adds (fold (hm_set_named ht) sets
       (fold (hm_remove_named ht) removes h))) m)"
proof -
  note store = header_map_store [OF assms]
  show ?thesis
    using header_store.vals_modify [OF store, of h removes sets adds m]
    unfolding header_store.modify_def [OF store] header_store.concerns_def [OF store]
      modified_values_def Let_def .
qed

lemma rewrite_request_other:
  assumes "header_laws ht" and "\<not> eq_ignore_ascii_case m HOST"
  shows "hm_vals ht (hq_headers (rewrite_request ht rw req)) m = hm_vals ht (hq_headers req) m"
  using assms(2)
  by (auto simp: rewrite_request_def Let_def hm_vals_def header_lawsD [OF assms(1)] eq_ignore_ascii_case_def
      HOST_def to_ascii_lowercase_def ascii_lower_def byte_def split: option.split)

lemma ensure_host_other:
  assumes "header_laws ht" and "\<not> eq_ignore_ascii_case m HOST"
  shows "hm_vals ht (ensure_host ht meta h) m = hm_vals ht h m"
  using assms(2)
  by (auto simp: ensure_host_def hm_vals_def header_lawsD [OF assms(1)] eq_ignore_ascii_case_def
      HOST_def to_ascii_lowercase_def ascii_lower_def byte_def split: option.split)

lemma ensure_host_present:
  assumes "header_laws ht" and "rq_host meta = Some host" and "value_parse ht host \<noteq> None"
  shows "hm_contains_key ht (ensure_host ht meta h) HOST"
  using assms(2,3) by (auto simp: ensure_host_def hm_contains_key_def header_lawsD [OF assms(1)])

lemma rewrite_request_rest:
  "hq_method (rewrite_request ht rw req) = hq_method req" "hq_body (rewrite_request ht rw req) = hq_body req"
  "hq_version (rewrite_request ht rw req) = hq_version req"
  by (simp_all add: rewrite_request_def Let_def split: option.split)

section \<open>The requests of a call\<close>

lemma mirror_loop_mem:
  "(a, r) \<in> set (mirror_loop net req i ms) \<Longrightarrow>
     r = clone_request_for_mirror req \<and>
     (\<exists>m\<in>set ms. mt_percent m \<noteq> 0 \<and>
        (\<exists>as. nt_resolve net (be_name (mt_backend m)) (be_port (mt_backend m)) = Inr (a # as)))"
proof (induction ms arbitrary: i)
  case (Cons m ms)
  then show ?case
    by (cases "mt_percent m = 0")
      (auto simp: Let_def split: if_splits sum.splits list.splits)
qed simp

lemma mirror_loop_certain:
  "m \<in> set ms \<Longrightarrow> 100 \<le> mt_percent m \<Longrightarrow>
     nt_resolve net (be_name (mt_backend m)) (be_port (mt_backend m)) = Inr (a # as) \<Longrightarrow>
     (a, clone_request_for_mirror req) \<in> set (mirror_loop net req i ms)"
proof (induction ms arbitrary: i)
  case (Cons m' ms)
  show ?case
  proof (cases "m = m'")
    case True
    with Cons.prems have "\<not> mt_percent m' < 100" by (simp add: not_less)
    with True Cons.prems show ?thesis by (simp add: Let_def)
  next
    case False
    with Cons.prems(1) have "m \<in> set ms" by simp
    from Cons.IH [OF this Cons.prems(2,3)] show ?thesis
      by (auto simp: Let_def split: sum.split list.split)
  qed
qed simp

lemma upstream_call_cases:
  obtains (panic) t b where "Option.bind (af_timeout (fr_applied_filter req)) to_backend_request = Some t"
      "f64_positive t" "duration_overflows t" "select_backend (nt_random net 0) (fr_backends req) = Some b"
      "upstream_call ht net req = Inl (ExplicitPanic ''cannot convert float seconds to Duration'')"
  | (none) resp where "upstream_call ht net req = Inr (resp, [], None)" "hs_status resp = 503"
      "select_backend (nt_random net 0) (fr_backends req) = None"
  | (unresolved) resp b where "upstream_call ht net req = Inr (resp, [], None)" "hs_status resp = 502"
      "select_backend (nt_random net 0) (fr_backends req) = Some b"
      "\<nexists>a as. nt_resolve net (be_name b) (be_port b) = Inr (a # as)"
  | (unconnected) resp b addr as where
      "upstream_call ht net req = Inr (resp, mirror_loop net (build_upstream_request ht (fr_request req)
         (fr_meta req) (fr_applied_filter req)) 1 (af_mirrors (fr_applied_filter req)), None)"
      "hs_status resp = 502" "select_backend (nt_random net 0) (fr_backends req) = Some b"
      "nt_resolve net (be_name b) (be_port b) = Inr (addr # as)" "be_protocol b = Http1" "\<not> nt_connect net addr"
  | (sent) resp b addr as where
      "upstream_call ht net req = Inr (resp, mirror_loop net (build_upstream_request ht (fr_request req)
         (fr_meta req) (fr_applied_filter req)) 1 (af_mirrors (fr_applied_filter req)),
         Some (addr, build_upstream_request ht (fr_request req) (fr_meta req) (fr_applied_filter req)))"
      "select_backend (nt_random net 0) (fr_backends req) = Some b"
      "nt_resolve net (be_name b) (be_port b) = Inr (addr # as)"
proof -
  define up where "up = build_upstream_request ht (fr_request req) (fr_meta req) (fr_applied_filter req)"
  define timeout where "timeout = Option.bind (af_timeout (fr_applied_filter req)) to_backend_request"
  note call = upstream_call_def [of ht net req, unfolded Let_def, folded up_def timeout_def]
  have status: "hs_status (string_response_to_monoio ht r) = ss_status r" for r
    by (simp add: string_response_to_monoio_def)
  show thesis
  proof (cases "select_backend (nt_random net 0) (fr_backends req)")
    case None
    show thesis by (rule none [of "string_response_to_monoio ht (service_unavailable_response ht)", OF _ _ None])
       (simp_all add: call None status service_unavailable_response_def text_response_def)
  next
    case (Some b)
    show thesis
    proof (cases "\<exists>a as. nt_resolve net (be_name b) (be_port b) = Inr (a # as)")
      case False
      show thesis
        by (rule unresolved [of "string_response_to_monoio ht (bad_gateway_response ht)", OF _ _ Some False])
          (use False in \<open>auto simp: call Some status bad_gateway_response_def text_response_def split: sum.split list.split\<close>)
    next
      case True
      then obtain a as where a: "nt_resolve net (be_name b) (be_port b) = Inr (a # as)" by blast
      show thesis
      proof (cases "positive_duration timeout")
        case (Inl p)
        then obtain t where "timeout = Some t" "f64_positive t" "duration_overflows t"
          "p = ExplicitPanic ''cannot convert float seconds to Duration''"
          by (auto simp: positive_duration_def split: option.splits if_splits)
        then show thesis using Inl by (intro panic [of t b]) (simp_all add: call Some a timeout_def)
      next
        case (Inr d)
        show thesis
        proof (cases "be_protocol b = Http1 \<and> \<not> nt_connect net a")
          case True
          then show thesis
            using Inr by (intro unconnected [of "string_response_to_monoio ht (bad_gateway_response ht)", OF _ _ Some a])
              (simp_all add: call Some a status bad_gateway_response_def text_response_def up_def)
        next
          case False
          then have "\<exists>resp. upstream_call ht net req = Inr (resp, mirror_loop net up 1
              (af_mirrors (fr_applied_filter req)), Some (a, up))"
            using Inr by (auto simp: call Some a split: sum.split io_error.split)
          then show thesis using sent [OF _ Some a] by (auto simp: up_def)
        qed
      qed
    qed
  qed
qed

section \<open>Properties\<close>



text \<open>C26: the header filters of a request and of a response. Under every name but \<open>Host\<close> the upstream
  request has the values of the client's request, modified by the request filters in the order
  remove, set, add, and the response those of the upstream, modified by the response filters.
  Method, body and status are kept. The upstream request has a \<open>Host\<close> header whenever the client
  sent a valid one, even if a filter removes it.\<close>

theorem header_filters_effect:
  assumes "header_laws ht"
  shows "hq_method (build_upstream_request ht r meta applied) = hq_method r \<and>
    hq_body (build_upstream_request ht r meta applied) = hq_body r \<and>
    hs_status (apply_response_filters ht resp applied) = hs_status resp \<and>
    hs_body (apply_response_filters ht resp applied) = hs_body resp \<and>
    (rq_host meta = Some host \<and> value_parse ht host \<noteq> None \<longrightarrow>
       hm_contains_key ht (hq_headers (build_upstream_request ht r meta applied)) HOST) \<and>
    (\<not> eq_ignore_ascii_case m HOST \<longrightarrow>
       modified_values ht (af_request_header_remove applied) (af_request_header_set applied)
         (af_request_header_add applied) m (hm_vals ht (hq_headers r) m)
         (hm_vals ht (hq_headers (build_upstream_request ht r meta applied)) m)) \<and>
    modified_values ht (af_response_header_remove applied) (af_response_header_set applied)
      (af_response_header_add applied) m (hm_vals ht (hs_headers resp) m)
      (hm_vals ht (hs_headers (apply_response_filters ht resp applied)) m)"
  using modify_values [OF assms, of "af_request_header_remove applied" "af_request_header_set applied"
      "af_request_header_add applied" m "hq_headers (rewrite_request ht (af_rewrite applied) r)"]
    modify_values [OF assms, of "af_response_header_remove applied" "af_response_header_set applied"
      "af_response_header_add applied" m "hs_headers resp"]
    ensure_host_present [OF assms, of meta host]
  by (auto simp: build_upstream_request_def apply_response_filters_def Let_def rewrite_request_rest
      ensure_host_other [OF assms] rewrite_request_other [OF assms])

theorem header_filters_effect_witness:
  "\<exists>host. host = ''a'' \<and> hm_contains_key demo_http (hq_headers (build_upstream_request demo_http
     \<lparr>hq_method = ''GET'', hq_uri = (''/'', None), hq_version = ''HTTP/1.1'', hq_headers = [], hq_body = PayloadNone\<rparr>
     (demo_request\<lparr>rq_host := Some host\<rparr>) (applied_filter_default\<lparr>af_request_header_remove := [''Host'']\<rparr>))) HOST"
  using header_filters_effect [OF demo_http_laws, of "\<lparr>hq_method = ''GET'', hq_uri = (''/'', None),
      hq_version = ''HTTP/1.1'', hq_headers = [], hq_body = PayloadNone\<rparr>" "demo_request\<lparr>rq_host := Some ''a''\<rparr>"
      "applied_filter_default\<lparr>af_request_header_remove := [''Host'']\<rparr>" _ "''a''"]
  by (simp add: demo_http_def)

text \<open>Where a request was sent, and what a client gets that it was not sent for.\<close>

lemma upstream_call_sent:
  assumes "upstream_call ht net req = Inr (resp, mirrors, sent)"
  shows "case sent of
      Some (addr, up) \<Rightarrow> \<exists>b\<in>set (fr_backends req). be_weight b \<noteq> 0 \<and>
        (\<exists>as. nt_resolve net (be_name b) (be_port b) = Inr (addr # as))
    | None \<Rightarrow> hs_status resp = 502 \<or> hs_status resp = 503"
proof (cases rule: upstream_call_cases [of req net ht])
  case (sent resp' b addr as)
  then show ?thesis using assms select_backend_mem [OF sent(2)] by auto
qed (use assms in auto)

text \<open>C21: what the forwarder does with a request. Unless the backend timeout is \<open>2 ^ 64\<close> seconds or
  more, it answers. It sends the upstream request to at most one address, the first that the
  name of a chosen backend of positive weight resolves to; when it sends nothing there the answer
  is 502 or 503. Mirrored requests are the upstream request without its body, sent to the address
  of a mirror whose share is not 0; if the chosen backend resolves, every mirror of share 100 that
  resolves gets one.\<close>

theorem upstream_call_spec:
  assumes "\<nexists>t. Option.bind (af_timeout (fr_applied_filter req)) to_backend_request = Some t \<and>
    f64_positive t \<and> duration_overflows t"
  shows "\<exists>resp mirrors primary up.
    upstream_call ht net req = Inr (resp, mirrors, primary) \<and>
    up = build_upstream_request ht (fr_request req) (fr_meta req) (fr_applied_filter req) \<and>
    (primary = None \<longrightarrow> hs_status resp = 502 \<or> hs_status resp = 503) \<and>
    (\<forall>a r. primary = Some (a, r) \<longrightarrow> r = up \<and>
       (\<exists>b\<in>set (fr_backends req). be_weight b \<noteq> 0 \<and>
          (\<exists>as. nt_resolve net (be_name b) (be_port b) = Inr (a # as)))) \<and>
    (\<forall>a r. (a, r) \<in> set mirrors \<longrightarrow> r = clone_request_for_mirror up \<and>
       (\<exists>m\<in>set (af_mirrors (fr_applied_filter req)). mt_percent m \<noteq> 0 \<and>
          (\<exists>as. nt_resolve net (be_name (mt_backend m)) (be_port (mt_backend m)) = Inr (a # as)))) \<and>
    (primary \<noteq> None \<longrightarrow> (\<forall>m a as. m \<in> set (af_mirrors (fr_applied_filter req)) \<and> 100 \<le> mt_percent m \<and>
       nt_resolve net (be_name (mt_backend m)) (be_port (mt_backend m)) = Inr (a # as) \<longrightarrow>
         (a, clone_request_for_mirror up) \<in> set mirrors))"
proof (cases rule: upstream_call_cases [of req net ht])
  case (unconnected resp b addr as)
  then show ?thesis by (auto dest: mirror_loop_mem)
next
  case (sent resp b addr as)
  then show ?thesis using select_backend_mem by (auto dest: mirror_loop_mem intro: mirror_loop_certain)
qed (use assms in auto)

definition demo_net :: "(string \<times> string option, (string \<times> string) list) Net" where
  "demo_net = \<lparr>nt_random = \<lambda>_ _. 0, nt_resolve = \<lambda>host port. Inr [host], nt_connect = \<lambda>_. True,
     nt_send = \<lambda>_ _ _. None, nt_flush = \<lambda>_ _ _. None,
     nt_next = \<lambda>_ _ _. Some (Inr \<lparr>hs_status = 200, hs_headers = [], hs_body = PayloadStream [Inr ''hi'']\<rparr>),
     nt_h2_elapsed = \<lambda>_ _ _. False, nt_h2_connect = \<lambda>_. True, nt_h2_handshake = \<lambda>_. None,
     nt_h2_ready = \<lambda>_. None, nt_h2_send = \<lambda>_ _ _. None, nt_h2_data = \<lambda>_ _ _. None,
     nt_h2_response = \<lambda>_ _. Inr \<lparr>hs_status = 200, hs_headers = [], hs_body = PayloadNone\<rparr>\<rparr>"

definition demo_http_request :: "(string \<times> string option, (string \<times> string) list) HttpRequest" where
  "demo_http_request = \<lparr>hq_method = ''GET'', hq_uri = (''/a/b'', None), hq_version = ''HTTP/1.1'',
     hq_headers = [(''host'', ''example.com'')], hq_body = PayloadNone\<rparr>"

definition demo_forward :: "(string \<times> string option, (string \<times> string) list) ForwardRequest" where
  "demo_forward = \<lparr>fr_request = demo_http_request, fr_meta = demo_request,
     fr_backends = [backend_new ''ns'' ''a'' 80],
     fr_applied_filter = applied_filter_default\<lparr>af_mirrors :=
       [\<lparr>mt_backend = backend_new ''ns'' ''m'' 80, mt_percent = 100\<rparr>]\<rparr>\<rparr>"

theorem upstream_call_spec_witness:
  "\<exists>resp mirrors primary. upstream_call demo_http demo_net demo_forward = Inr (resp, mirrors, primary) \<and>
     (\<forall>a r. (a, r) \<in> set mirrors \<longrightarrow> a = ''m'')"
proof -
  have "\<nexists>t. Option.bind (af_timeout (fr_applied_filter demo_forward)) to_backend_request = Some t \<and>
      f64_positive t \<and> duration_overflows t"
    by (simp add: demo_forward_def applied_filter_default_def)
  from upstream_call_spec [OF this, of demo_http demo_net] obtain resp mirrors primary where
    c: "upstream_call demo_http demo_net demo_forward = Inr (resp, mirrors, primary)" and
    m: "\<And>a r. (a, r) \<in> set mirrors \<Longrightarrow> \<exists>m\<in>set (af_mirrors (fr_applied_filter demo_forward)).
      \<exists>as. nt_resolve demo_net (be_name (mt_backend m)) (be_port (mt_backend m)) = Inr (a # as)"
    by metis
  have "a = ''m''" if "(a, r) \<in> set mirrors" for a r
    using m [OF that] by (simp add: demo_forward_def demo_net_def backend_new_def)
  with c show ?thesis by blast
qed

end
