(* ===== verification/Pipeline.thy ===== *)
theory Pipeline
  imports Upstream
begin

text \<open>
  The two outer services of \<open>crates/proxy-core/src/pipeline.rs\<close>: metadata of a request, routing
  and filtering with the request timeout, the WebSocket relay, the session loop, and the pipeline
  they form.
\<close>

section \<open>Request metadata\<close>

definition host_without_port :: "string \<Rightarrow> string" where
  "host_without_port h =
     (case rsplit_once (CHR '':'') h of
        Some (host_part, port_part) \<Rightarrow> (if list_all is_ascii_digit port_part then host_part else h)
      | None \<Rightarrow> h)"

text \<open>The two parts of \<open>splitn(2, '=')\<close>.\<close>

definition query_pair :: "string \<Rightarrow> string \<times> string" where
  "query_pair pair = (case split_once (CHR ''='') pair of Some kv \<Rightarrow> kv | None \<Rightarrow> (pair, []))"

definition query_params_of :: "string option \<Rightarrow> (string \<times> string) list" where
  "query_params_of query =
     (case query of Some q \<Rightarrow> map query_pair (split_on (CHR ''&'') q) | None \<Rightarrow> [])"

definition extract_request_meta :: "('u, 'h) http \<Rightarrow> ('u, 'h) HttpRequest \<Rightarrow> RequestMeta" where
  "extract_request_meta ht req = \<lparr>
     rq_host = map_option host_without_port
       (Option.bind (hm_get ht (hq_headers req) HOST) (value_to_str ht)),
     rq_path = uri_path ht (hq_uri req),
     rq_method = hq_method req,
     rq_headers = map (\<lambda>(name, v). (name, case value_to_str ht v of Some s \<Rightarrow> s | None \<Rightarrow> []))
       (hm_iter ht (hq_headers req)),
     rq_query_params = query_params_of (uri_query ht (hq_uri req))\<rparr>"

section \<open>Routing and filtering\<close>

record ('u, 'h) PipelineRequest =
  pq_request :: "('u, 'h) HttpRequest"
  pq_meta :: RequestMeta
  pq_listener_name :: string

fun recompute_rewrite :: "Filter list \<Rightarrow> RequestMeta \<Rightarrow> AppliedFilter \<Rightarrow> panic + AppliedFilter" where
  "recompute_rewrite [] meta applied = Inr applied"
| "recompute_rewrite (URLRewrite hostname path # fs) meta applied =
     (case compute_rewrite (URLRewrite hostname path) (rq_path meta) None of
        Inl p \<Rightarrow> Inl p
      | Inr rw \<Rightarrow> recompute_rewrite fs meta (applied\<lparr>af_rewrite := Some rw\<rparr>))"
| "recompute_rewrite (f # fs) meta applied = recompute_rewrite fs meta applied"

text \<open>
  The inner service is the parameter \<open>inner\<close>; \<open>elapsed t req\<close> says whether \<open>t\<close> seconds pass before
  it answers.
\<close>

definition route_and_filter_call ::
  "('u, 'h) http \<Rightarrow> regex \<Rightarrow> ProxyConfig \<Rightarrow> (f64 \<Rightarrow> ('u, 'h) ForwardRequest \<Rightarrow> bool) \<Rightarrow>
     (('u, 'h) ForwardRequest \<Rightarrow> panic + 'h HttpResponse) \<Rightarrow> ('u, 'h) PipelineRequest \<Rightarrow>
     panic + 'h HttpResponse" where
  "route_and_filter_call ht re config elapsed inner req =
     (case route re config (pq_listener_name req) (pq_meta req) of
        NotFound \<Rightarrow> Inr (string_response_to_monoio ht (not_found_response ht))
      | Redirect redir \<Rightarrow>
          (case redirect_response ht (rd_status_code redir) (rd_location redir) of
             Inl p \<Rightarrow> Inl p
           | Inr resp \<Rightarrow> Inr (string_response_to_monoio ht resp))
      | Forward backends filters timeout \<Rightarrow>
          (case collect_filters filters of
             Inl p \<Rightarrow> Inl p
           | Inr applied \<Rightarrow>
               (case recompute_rewrite filters (pq_meta req) applied of
                  Inl p \<Rightarrow> Inl p
                | Inr applied \<Rightarrow>
                    (let applied = applied\<lparr>af_timeout := timeout\<rparr>;
                         forward_req = \<lparr>fr_request = pq_request req, fr_meta = pq_meta req,
                           fr_backends = backends, fr_applied_filter = applied\<rparr>
                     in case positive_duration (Option.bind timeout to_request) of
                          Inl p \<Rightarrow> Inl p
                        | Inr None \<Rightarrow> inner forward_req
                        | Inr (Some t) \<Rightarrow>
                            (if elapsed t forward_req
                             then Inr (string_response_to_monoio ht (gateway_timeout_response ht))
                             else inner forward_req)))))"

section \<open>The WebSocket relay\<close>

text \<open>
  How the relay ends: with \<open>Ok\<close> after a tunnel or without one, with an error, or not at all, in a
  tunnel that stays open.
\<close>

datatype ws_end = Tunnel string | TunnelOpen string | Closed | Failed io_error

text \<open>What the client and the backend were sent, in the order they got it, and the end.\<close>

record ws_outcome =
  wo_client :: "string list"
  wo_backend :: "string list"
  wo_end :: ws_end

text \<open>
  What one direction of the tunnel copies: the bytes that \<open>monoio::io::copy\<close> passes on, and its
  result, \<open>None\<close> if the source neither ends nor fails.
\<close>

record ws_copy =
  wc_bytes :: "string list"
  wc_result :: "(io_error + nat) option"

record Relay =
  rl_random :: "u32 \<Rightarrow> u32"
  rl_resolve :: "string \<Rightarrow> u16 \<Rightarrow> io_error + string list"
  rl_connect :: "string \<Rightarrow> bool"
  rl_client_write :: "string \<Rightarrow> io_error option"
  rl_backend_write :: "string \<Rightarrow> io_error option"
  rl_backend_read :: "nat \<Rightarrow> io_error + string"
  rl_client_to_backend :: ws_copy
  rl_backend_to_client :: ws_copy

definition write_client :: "Relay \<Rightarrow> string \<Rightarrow> string list \<Rightarrow> ws_end \<Rightarrow> ws_outcome" where
  "write_client rl bytes backend e = \<lparr>wo_client = [bytes], wo_backend = backend,
     wo_end = (case rl_client_write rl bytes of Some err \<Rightarrow> Failed err | None \<Rightarrow> e)\<rparr>"

definition crlf :: string where
  "crlf = [CHR 13, CHR 10]"

definition ws_bad_gateway :: string where
  "ws_bad_gateway = ''HTTP/1.1 502 Bad Gateway'' @ crlf @ ''content-length: 15'' @ crlf @ crlf @ ''502 Bad Gateway''"

definition ws_unavailable :: string where
  "ws_unavailable = ''HTTP/1.1 503 Service Unavailable'' @ crlf @ ''content-length: 23'' @ crlf @ crlf @
     ''503 Service Unavailable''"

fun ws_meta_lines :: "string list \<Rightarrow> string option \<Rightarrow> (string \<times> string) list \<Rightarrow>
    string option \<times> (string \<times> string) list" where
  "ws_meta_lines [] host headers = (host, headers)"
| "ws_meta_lines (line # ls) host headers =
     (if line = [] \<or> line = [CHR 13] then (host, headers)
      else (case split_once (CHR '':'') line of
          Some (name, v) \<Rightarrow>
            (let name = to_lowercase (trim name); v = trim v
             in ws_meta_lines ls (if name = ''host'' then Some (host_without_port v) else host)
                  (headers @ [(name, v)]))
        | None \<Rightarrow> ws_meta_lines ls host headers))"

definition ws_request_meta :: "('u, 'h) http \<Rightarrow> string \<Rightarrow> io_error + RequestMeta" where
  "ws_request_meta ht raw_request =
     (case from_utf8 raw_request of
        None \<Rightarrow> Inl InvalidData
      | Some text \<Rightarrow>
          (let first_line = (case lines text of [] \<Rightarrow> [] | l # _ \<Rightarrow> l);
               parts = split_whitespace first_line;
               meth = (case parts of m # _ \<Rightarrow> m | [] \<Rightarrow> ''GET'');
               uri_str = (case parts of _ # u # _ \<Rightarrow> u | _ \<Rightarrow> ''/'')
           in case uri_parse ht uri_str of
                None \<Rightarrow> Inl InvalidData
              | Some uri \<Rightarrow>
                  (let (host, headers) = ws_meta_lines (drop 1 (lines text)) None []
                   in Inr \<lparr>rq_host = host, rq_path = uri_path ht uri, rq_method = meth,
                        rq_headers = headers, rq_query_params = query_params_of (uri_query ht uri)\<rparr>)))"

text \<open>
  The two copies run together, and the function returns when both have a result. An error of
  either is logged and dropped.
\<close>

definition ws_tunnel :: "Relay \<Rightarrow> string \<Rightarrow> ws_outcome \<Rightarrow> ws_outcome" where
  "ws_tunnel rl addr out =
     \<lparr>wo_client = wo_client out @ wc_bytes (rl_backend_to_client rl),
      wo_backend = wo_backend out @ wc_bytes (rl_client_to_backend rl),
      wo_end = (case (wc_result (rl_client_to_backend rl), wc_result (rl_backend_to_client rl)) of
          (Some c2b_result, Some b2c_result) \<Rightarrow> Tunnel addr
        | _ \<Rightarrow> TunnelOpen addr)\<rparr>"

text \<open>The handshake with a backend that accepted the connection.\<close>

definition ws_handshake :: "Relay \<Rightarrow> string \<Rightarrow> string \<Rightarrow> ws_outcome" where
  "ws_handshake rl addr raw_request =
     (case rl_backend_write rl raw_request of
        Some e \<Rightarrow> \<lparr>wo_client = [], wo_backend = [raw_request], wo_end = Failed e\<rparr>
      | None \<Rightarrow>
          (case fst (read_http_request_head (rl_backend_read rl) 0 []) of
             Inl e \<Rightarrow> \<lparr>wo_client = [], wo_backend = [raw_request], wo_end = Failed e\<rparr>
           | Inr backend_response \<Rightarrow>
               (let resp_text = (case from_utf8 backend_response of Some t \<Rightarrow> t | None \<Rightarrow> []);
                    first_resp_line = (case lines resp_text of [] \<Rightarrow> [] | l # _ \<Rightarrow> l)
                in if \<not> sublist ''101'' first_resp_line
                   then write_client rl backend_response [raw_request] Closed
                   else if rl_client_write rl backend_response \<noteq> None
                   then write_client rl backend_response [raw_request] Closed
                   else ws_tunnel rl addr (write_client rl backend_response [raw_request] Closed))))"

definition handle_websocket_upgrade ::
  "('u, 'h) http \<Rightarrow> regex \<Rightarrow> Relay \<Rightarrow> ProxyConfig \<Rightarrow> string \<Rightarrow> string \<Rightarrow> ws_outcome" where
  "handle_websocket_upgrade ht re rl config listener_name raw_request =
     (case ws_request_meta ht raw_request of
        Inl e \<Rightarrow> \<lparr>wo_client = [], wo_backend = [], wo_end = Failed e\<rparr>
      | Inr meta \<Rightarrow>
          (case route re config listener_name meta of
             Forward backends _ _ \<Rightarrow>
               (case select_backend (rl_random rl) backends of
                  None \<Rightarrow> write_client rl ws_unavailable [] Closed
                | Some backend \<Rightarrow>
                    (case rl_resolve rl (be_name backend) (be_port backend) of
                       Inr (addr # _) \<Rightarrow>
                         (if rl_connect rl addr then ws_handshake rl addr raw_request
                          else write_client rl ws_bad_gateway [] Closed)
                     | _ \<Rightarrow> write_client rl ws_bad_gateway [] Closed))
           | _ \<Rightarrow> write_client rl ws_bad_gateway [] Closed))"

section \<open>The session\<close>

datatype session_end = SessionOk | SessionErr io_error | SessionPanic panic

text \<open>
  The keep-alive loop. \<open>items\<close> are the outcomes of reading requests from the codec until the client
  closes the connection, \<open>send\<close> and \<open>flush\<close> those of answering. The result has the responses
  that were sent, in order.
\<close>

fun serve_loop ::
  "('u, 'h) http \<Rightarrow> string \<Rightarrow> (('u, 'h) PipelineRequest \<Rightarrow> panic + 'h HttpResponse) \<Rightarrow>
     (nat \<Rightarrow> 'h HttpResponse \<Rightarrow> bool) \<Rightarrow> (nat \<Rightarrow> 'h HttpResponse \<Rightarrow> bool) \<Rightarrow> nat \<Rightarrow>
     (string + ('u, 'h) HttpRequest) list \<Rightarrow> 'h HttpResponse list \<times> session_end" where
  "serve_loop ht listener_name inner send flush i [] = ([], SessionOk)"
| "serve_loop ht listener_name inner send flush i (Inl e # items) = ([], SessionErr InvalidData)"
| "serve_loop ht listener_name inner send flush i (Inr req # items) =
     (case inner \<lparr>pq_request = req, pq_meta = extract_request_meta ht req,
          pq_listener_name = listener_name\<rparr> of
        Inl p \<Rightarrow> ([], SessionPanic p)
      | Inr resp \<Rightarrow>
          if \<not> send i resp then ([], SessionErr BrokenPipe)
          else if \<not> flush i resp then ([resp], SessionErr BrokenPipe)
          else (let (rs, e) = serve_loop ht listener_name inner send flush (Suc i) items
                in (resp # rs, e)))"

datatype 'h served = Session "'h HttpResponse list \<times> session_end" | Upgraded ws_outcome

text \<open>
  A connection: \<open>reads\<close> are the outcomes of reading from the stream, \<open>codec\<close> gives the requests the
  codec finds in a stream that starts with the bytes already read.
\<close>

record ('u, 'h) Conn =
  cn_reads :: "nat \<Rightarrow> io_error + string"
  cn_codec :: "unit PrefixedStream \<Rightarrow> (string + ('u, 'h) HttpRequest) list"
  cn_send :: "nat \<Rightarrow> 'h HttpResponse \<Rightarrow> bool"
  cn_flush :: "nat \<Rightarrow> 'h HttpResponse \<Rightarrow> bool"

definition http_core_call ::
  "('u, 'h) http \<Rightarrow> regex \<Rightarrow> Relay \<Rightarrow> ProxyConfig \<Rightarrow> string \<Rightarrow>
     (('u, 'h) PipelineRequest \<Rightarrow> panic + 'h HttpResponse) \<Rightarrow> ('u, 'h) Conn \<Rightarrow> 'h served" where
  "http_core_call ht re rl config listener_name inner conn =
     (case fst (read_http_request_head (cn_reads conn) 0 []) of
        Inl e \<Rightarrow> Session ([], SessionErr e)
      | Inr raw_head \<Rightarrow>
          (if is_raw_websocket_upgrade raw_head
           then Upgraded (handle_websocket_upgrade ht re rl config listener_name raw_head)
           else Session (serve_loop ht listener_name inner (cn_send conn) (cn_flush conn) 0
                  (cn_codec conn (prefixed_new () raw_head)))))"

text \<open>The complete pipeline of a listener.\<close>

definition pipeline_call ::
  "('u, 'h) http \<Rightarrow> regex \<Rightarrow> ('u, 'h) Net \<Rightarrow> ProxyConfig \<Rightarrow>
     (f64 \<Rightarrow> ('u, 'h) ForwardRequest \<Rightarrow> bool) \<Rightarrow> ('u, 'h) PipelineRequest \<Rightarrow> panic + 'h HttpResponse" where
  "pipeline_call ht re net config elapsed =
     route_and_filter_call ht re config elapsed (\<lambda>fr. map_sum id fst (upstream_call ht net fr))"

definition build_pipeline ::
  "('u, 'h) http \<Rightarrow> regex \<Rightarrow> ('u, 'h) Net \<Rightarrow> Relay \<Rightarrow> ProxyConfig \<Rightarrow> string \<Rightarrow>
     (f64 \<Rightarrow> ('u, 'h) ForwardRequest \<Rightarrow> bool) \<Rightarrow> ('u, 'h) Conn \<Rightarrow> 'h served" where
  "build_pipeline ht re net rl config listener_name elapsed =
     http_core_call ht re rl config listener_name (pipeline_call ht re net config elapsed)"

section \<open>What routing and filtering hand on\<close>

lemma recompute_rewrite_eq:
  "\<not> list_ex is_prefix_rewrite fs \<Longrightarrow> recompute_rewrite fs meta a =
     Inr (a\<lparr>af_rewrite := (case rev (List.map_filter rewrite_of fs) of [] \<Rightarrow> af_rewrite a | r # _ \<Rightarrow> Some r)\<rparr>)"
proof (induction fs arbitrary: a)
  case (Cons f fs)
  show ?case
  proof (cases "\<exists>h p. f = URLRewrite h p")
    case True
    then obtain h p where f: "f = URLRewrite h p" by blast
    with Cons.prems obtain rw where "compute_rewrite f (rq_path meta) None = Inr rw" "rewrite_of f = Some rw"
      by (cases f rule: rewrite_of.cases) auto
    with f Cons show ?thesis by (auto simp: map_filter_simps split: list.split)
  next
    case False
    then have "rewrite_of f = None" "recompute_rewrite (f # fs) meta a = recompute_rewrite fs meta a"
      by (cases f; simp)+
    with Cons show ?thesis by (simp add: map_filter_simps)
  qed
qed (simp add: map_filter_simps)

lemma recompute_gathered:
  "\<not> list_ex is_prefix_rewrite fs \<Longrightarrow>
     recompute_rewrite fs meta (gathered fs applied_filter_default) = Inr (gathered fs applied_filter_default)"
  by (simp add: recompute_rewrite_eq gathered_def split: list.split)

text \<open>The request that a forwarding decision makes of the inner service.\<close>

definition forward_of ::
  "('u, 'h) PipelineRequest \<Rightarrow> Backend list \<Rightarrow> Filter list \<Rightarrow> TimeoutConfig option \<Rightarrow> ('u, 'h) ForwardRequest" where
  "forward_of req backends filters timeout = \<lparr>fr_request = pq_request req, fr_meta = pq_meta req,
     fr_backends = backends,
     fr_applied_filter = (gathered filters applied_filter_default)\<lparr>af_timeout := timeout\<rparr>\<rparr>"

lemma is_prefix_rewrite_mem:
  "list_ex is_prefix_rewrite fs \<longleftrightarrow> (\<exists>h v. URLRewrite h (Some (ReplacePrefixMatch v)) \<in> set fs)"
proof -
  have "is_prefix_rewrite f \<longleftrightarrow> (\<exists>h v. f = URLRewrite h (Some (ReplacePrefixMatch v)))" for f
    by (cases f rule: is_prefix_rewrite.cases) auto
  then show ?thesis by (auto simp: list_ex_iff)
qed

section \<open>Sessions\<close>

lemma serve_loop_prefix:
  "\<exists>k reqs. fst (serve_loop ht l inner send flush i items) = map (\<lambda>r. projr (inner r)) reqs \<and>
     k = length reqs \<and> k \<le> length items \<and>
     list_all2 (\<lambda>item r. item = Inr (pq_request r) \<and> pq_meta r = extract_request_meta ht (pq_request r) \<and>
       pq_listener_name r = l \<and> (\<exists>resp. inner r = Inr resp)) (take k items) reqs \<and>
     (snd (serve_loop ht l inner send flush i items) = SessionOk \<longrightarrow> k = length items)"
proof (induction items arbitrary: i)
  case (Cons item items)
  show ?case
  proof (cases item)
    case (Inl e)
    then show ?thesis by (intro exI [of _ 0] exI [of _ "[]"]) simp
  next
    case (Inr req)
    define r where "r = \<lparr>pq_request = req, pq_meta = extract_request_meta ht req, pq_listener_name = l\<rparr>"
    show ?thesis
    proof (cases "\<exists>resp. inner r = Inr resp \<and> send i resp")
      case False
      then show ?thesis
        using Inr by (intro exI [of _ 0] exI [of _ "[]"]) (auto simp flip: r_def split: sum.split)
    next
      case True
      then obtain resp where resp: "inner r = Inr resp" "send i resp" by blast
      show ?thesis
      proof (cases "flush i resp")
        case False
        then show ?thesis
          using resp Inr
          by (intro exI [of _ "1"] exI [of _ "[r]"]) (simp add: r_def)
      next
        case True
        obtain reqs where IH: "fst (serve_loop ht l inner send flush (Suc i) items) = map (\<lambda>r. projr (inner r)) reqs"
          "length reqs \<le> length items"
          "list_all2 (\<lambda>item r. item = Inr (pq_request r) \<and> pq_meta r = extract_request_meta ht (pq_request r) \<and>
             pq_listener_name r = l \<and> (\<exists>resp. inner r = Inr resp)) (take (length reqs) items) reqs"
          "snd (serve_loop ht l inner send flush (Suc i) items) = SessionOk \<longrightarrow> length reqs = length items"
          using Cons.IH [of "Suc i"] by blast
        with True resp Inr show ?thesis
          by (intro exI [of _ "Suc (length reqs)"] exI [of _ "r # reqs"])
            (auto simp: r_def split_beta)
      qed
    qed
  qed
qed simp

section \<open>Properties\<close>

text \<open>C20: routing and filtering. A request that no rule matches gets 404; a redirect whose location
  is not a valid header value panics. For a forwarding decision the inner service gets the
  client's request, the backends of the decision, everything its filters collect and its
  timeouts, and its answer is the answer, unless the request timeout elapses, which gives 504. It
  panics if one of the filters rewrites a matched prefix or the timeout is \<open>2 ^ 64\<close> seconds or more.\<close>

theorem route_and_filter_outcome:
  "(case route re config (pq_listener_name req) (pq_meta req) of
      NotFound \<Rightarrow> \<exists>resp. route_and_filter_call ht re config elapsed inner req = Inr resp \<and> hs_status resp = 404
    | Redirect rd \<Rightarrow>
        (if value_parse ht (rd_location rd) = None
         then \<exists>p. route_and_filter_call ht re config elapsed inner req = Inl p
         else \<exists>resp. route_and_filter_call ht re config elapsed inner req = Inr resp \<and> hs_body resp = PayloadNone \<and>
           hs_status resp = (case status_from_u16 ht (rd_status_code rd) of Some s \<Rightarrow> s | None \<Rightarrow> 302))
    | Forward backends filters timeout \<Rightarrow>
        (if (\<exists>h v. URLRewrite h (Some (ReplacePrefixMatch v)) \<in> set filters) \<or>
            (\<exists>t. Option.bind timeout to_request = Some t \<and> f64_positive t \<and> duration_overflows t)
         then \<exists>p. route_and_filter_call ht re config elapsed inner req = Inl p
         else if \<exists>t. Option.bind timeout to_request = Some t \<and> f64_positive t \<and>
            elapsed t (forward_of req backends filters timeout)
         then \<exists>resp. route_and_filter_call ht re config elapsed inner req = Inr resp \<and> hs_status resp = 504
         else route_and_filter_call ht re config elapsed inner req = inner (forward_of req backends filters timeout)))"
proof (cases "route re config (pq_listener_name req) (pq_meta req)")
  case (Forward backends filters timeout)
  have gather: "collect_filters filters = Inr (gathered filters applied_filter_default)"
    "recompute_rewrite filters (pq_meta req) (gathered filters applied_filter_default) =
       Inr (gathered filters applied_filter_default)"
    if "\<not> list_ex is_prefix_rewrite filters"
    using that by (simp_all add: collect_filters_def collect_loop_gathered recompute_gathered)
  have panic: "collect_filters filters = Inl SliceOutOfBounds" if "list_ex is_prefix_rewrite filters"
    using that by (simp add: collect_filters_def collect_loop_gathered)
  have fwd: "\<lparr>fr_request = pq_request req, fr_meta = pq_meta req, fr_backends = backends,
      fr_applied_filter = (gathered filters applied_filter_default)\<lparr>af_timeout := timeout\<rparr>\<rparr> =
      forward_of req backends filters timeout"
    by (simp add: forward_of_def)
  show ?thesis
  proof (cases "list_ex is_prefix_rewrite filters")
    case True
    with Forward show ?thesis
      by (simp add: route_and_filter_call_def panic flip: is_prefix_rewrite_mem)
  next
    case False
    then show ?thesis
      unfolding is_prefix_rewrite_mem [symmetric]
      by (cases "Option.bind timeout to_request")
        (simp_all add: Forward route_and_filter_call_def gather Let_def fwd positive_duration_def
          string_response_to_monoio_def gateway_timeout_response_def text_response_def)
  qed
qed (simp_all add: route_and_filter_call_def redirect_response_def string_response_to_monoio_def
      not_found_response_def text_response_def split: option.split)

text \<open>C32: a session. The responses that a connection gets are the answers of the inner service to
  the requests that the codec delivers, in their order and one for each, each request with the
  metadata of its own headers and the name of the listener; when the session ends without error
  every request was answered.\<close>

theorem session_answers_in_order:
  assumes "http_core_call ht re rl config l inner conn = Session (rs, e)"
    and "fst (read_http_request_head (cn_reads conn) 0 []) = Inr raw"
  shows "\<exists>k reqs. rs = map (\<lambda>r. projr (inner r)) reqs \<and> k = length reqs \<and>
    k \<le> length (cn_codec conn (prefixed_new () raw)) \<and>
    list_all2 (\<lambda>item r. item = Inr (pq_request r) \<and> pq_meta r = extract_request_meta ht (pq_request r) \<and>
      pq_listener_name r = l \<and> (\<exists>resp. inner r = Inr resp)) (take k (cn_codec conn (prefixed_new () raw))) reqs \<and>
    (e = SessionOk \<longrightarrow> k = length (cn_codec conn (prefixed_new () raw)))"
proof -
  have "serve_loop ht l inner (cn_send conn) (cn_flush conn) 0 (cn_codec conn (prefixed_new () raw)) = (rs, e)"
    using assms by (simp add: http_core_call_def split: if_splits)
  from serve_loop_prefix [of ht l inner "cn_send conn" "cn_flush conn" 0 "cn_codec conn (prefixed_new () raw)",
      unfolded this fst_conv snd_conv]
  show ?thesis .
qed

definition demo_head :: string where
  "demo_head = ''GET / HTTP/1.1'' @ crlf @ ''Host: example.com'' @ crlf @ crlf"

definition demo_relay :: Relay where
  "demo_relay = \<lparr>rl_random = \<lambda>_. 0, rl_resolve = \<lambda>host _. Inr [host], rl_connect = \<lambda>_. True,
     rl_client_write = \<lambda>_. None, rl_backend_write = \<lambda>_. None,
     rl_backend_read = \<lambda>_. Inr (''HTTP/1.1 101 Switching Protocols'' @ crlf @ crlf),
     rl_client_to_backend = \<lparr>wc_bytes = [], wc_result = Some (Inr 0)\<rparr>,
     rl_backend_to_client = \<lparr>wc_bytes = [], wc_result = Some (Inr 0)\<rparr>\<rparr>"

definition demo_conn :: "(string \<times> string option, (string \<times> string) list) Conn" where
  "demo_conn = \<lparr>cn_reads = \<lambda>_. Inr demo_head, cn_codec = \<lambda>_. [Inr demo_http_request],
     cn_send = \<lambda>_ _. True, cn_flush = \<lambda>_ _. True\<rparr>"

lemma demo_head_read: "fst (read_http_request_head (cn_reads demo_conn) 0 []) = Inr demo_head"
proof -
  have "has_terminator demo_head" by code_simp
  then show ?thesis by (subst read_http_request_head.simps) (simp add: demo_conn_def demo_head_def)
qed

lemma demo_head_plain: "\<not> is_raw_websocket_upgrade demo_head"
  by code_simp

theorem session_answers_in_order_witness:
  "\<exists>rs. http_core_call demo_http (\<lambda>_. None) demo_relay demo_config ''http''
     (\<lambda>_. Inr \<lparr>hs_status = 200, hs_headers = [], hs_body = PayloadNone\<rparr>) demo_conn = Session (rs, SessionOk) \<and>
     rs = [\<lparr>hs_status = 200, hs_headers = [], hs_body = PayloadNone\<rparr>]"
proof -
  let ?inner = "\<lambda>_ :: (string \<times> string option, (string \<times> string) list) PipelineRequest.
    Inr \<lparr>hs_status = 200 :: u16, hs_headers = [] :: (string \<times> string) list, hs_body = PayloadNone\<rparr> :: panic + _"
  obtain rs where rs: "http_core_call demo_http (\<lambda>_. None) demo_relay demo_config ''http'' ?inner demo_conn =
      Session (rs, SessionOk)"
    by (simp add: http_core_call_def demo_head_read demo_head_plain) (simp add: demo_conn_def)
  from session_answers_in_order [OF rs demo_head_read] show ?thesis
    using rs by (auto simp: demo_conn_def length_Suc_conv)
qed

text \<open>The bytes are a complete response head whose first line contains 101.\<close>

definition upgrade_reply :: "Relay \<Rightarrow> string \<Rightarrow> bool" where
  "upgrade_reply rl resp \<longleftrightarrow> fst (read_http_request_head (rl_backend_read rl) 0 []) = Inr resp \<and>
     (\<exists>text line ls. from_utf8 resp = Some text \<and> lines text = line # ls \<and> sublist ''101'' line)"

fun opened :: "ws_end \<Rightarrow> bool" where
  "opened (Tunnel _) = True"
| "opened (TunnelOpen _) = True"
| "opened _ = False"

text \<open>Without a tunnel, or through one: what the two sides were sent.\<close>

definition relayed :: "Relay \<Rightarrow> string \<Rightarrow> string \<Rightarrow> ws_outcome \<Rightarrow> bool" where
  "relayed rl addr raw out \<longleftrightarrow>
     (case wo_end out of
        Tunnel a \<Rightarrow> a = addr \<and> wc_result (rl_client_to_backend rl) \<noteq> None \<and>
          wc_result (rl_backend_to_client rl) \<noteq> None
      | TunnelOpen a \<Rightarrow> a = addr \<and> (wc_result (rl_client_to_backend rl) = None \<or>
          wc_result (rl_backend_to_client rl) = None)
      | _ \<Rightarrow> wo_backend out = [raw] \<and> length (wo_client out) \<le> 1) \<and>
     (opened (wo_end out) \<longrightarrow> wo_backend out = raw # wc_bytes (rl_client_to_backend rl) \<and>
        (\<exists>resp. upgrade_reply rl resp \<and> wo_client out = resp # wc_bytes (rl_backend_to_client rl)))"

lemma ws_handshake_outcome: "relayed rl addr raw (ws_handshake rl addr raw)"
  by (auto simp: relayed_def ws_handshake_def ws_tunnel_def write_client_def upgrade_reply_def Let_def
      split: option.splits list.splits if_splits sum.splits)

lemma handle_websocket_cases:
  "(wo_backend (handle_websocket_upgrade ht re rl config l raw) = [] \<and>
      length (wo_client (handle_websocket_upgrade ht re rl config l raw)) \<le> 1 \<and>
      \<not> opened (wo_end (handle_websocket_upgrade ht re rl config l raw))) \<or>
   (\<exists>meta backends filters timeout b addr as. ws_request_meta ht raw = Inr meta \<and>
      route re config l meta = Forward backends filters timeout \<and>
      select_backend (rl_random rl) backends = Some b \<and>
      rl_resolve rl (be_name b) (be_port b) = Inr (addr # as) \<and> rl_connect rl addr \<and>
      handle_websocket_upgrade ht re rl config l raw = ws_handshake rl addr raw)"
  by (auto simp: handle_websocket_upgrade_def write_client_def
      split: sum.split RoutingDecision.split option.split list.split)

text \<open>C33: the WebSocket relay. Either the backend is sent nothing, the client at most one answer,
  and no tunnel opens; or the backend, at the address of one of positive weight of the rule the
  router forwards to, is sent the bytes of the client's request as they came, with no filter
  applied. A tunnel to that address then opens only once the client was sent the backend's
  response head as it came, whose first line contains 101; after it each side gets what the other
  one sends, and the relay ends, with \<open>Ok\<close> even if a copy failed, when both directions have ended
  and not before.\<close>

theorem websocket_relay_verbatim:
  "\<exists>out. handle_websocket_upgrade ht re rl config l raw = out \<and>
    (wo_backend out = [] \<and> length (wo_client out) \<le> 1 \<and> \<not> opened (wo_end out) \<or>
     (\<exists>meta backends filters timeout b addr as. ws_request_meta ht raw = Inr meta \<and>
        route re config l meta = Forward backends filters timeout \<and> b \<in> set backends \<and>
        be_weight b \<noteq> 0 \<and> rl_resolve rl (be_name b) (be_port b) = Inr (addr # as) \<and> rl_connect rl addr \<and>
        (case wo_end out of
           Tunnel a \<Rightarrow> a = addr \<and> wc_result (rl_client_to_backend rl) \<noteq> None \<and>
             wc_result (rl_backend_to_client rl) \<noteq> None
         | TunnelOpen a \<Rightarrow> a = addr \<and> (wc_result (rl_client_to_backend rl) = None \<or>
             wc_result (rl_backend_to_client rl) = None)
         | _ \<Rightarrow> wo_backend out = [raw] \<and> length (wo_client out) \<le> 1) \<and>
        (opened (wo_end out) \<longrightarrow> wo_backend out = raw # wc_bytes (rl_client_to_backend rl) \<and>
           (\<exists>resp. upgrade_reply rl resp \<and> wo_client out = resp # wc_bytes (rl_backend_to_client rl)))))"
proof (cases rule: disjE [OF handle_websocket_cases [of ht re rl config l raw]])
  case 2
  then obtain meta backends filters timeout b addr as where w: "ws_request_meta ht raw = Inr meta"
    "route re config l meta = Forward backends filters timeout" "select_backend (rl_random rl) backends = Some b"
    "rl_resolve rl (be_name b) (be_port b) = Inr (addr # as)" "rl_connect rl addr"
    "handle_websocket_upgrade ht re rl config l raw = ws_handshake rl addr raw" by blast
  note out = ws_handshake_outcome [of rl addr raw, unfolded relayed_def]
  show ?thesis
    unfolding w(6)
    by (intro exI [of _ "ws_handshake rl addr raw"] conjI refl disjI2 exI [of _ meta] exI [of _ backends]
        exI [of _ filters] exI [of _ timeout] exI [of _ b] exI [of _ addr] exI [of _ as] w
        select_backend_mem [OF w(3)] conjunct1 [OF out])
      (use select_backend_mem [OF w(3)] out in auto)
qed auto

text \<open>An upgrade through the demonstration configuration, with one frame each way.\<close>

definition demo_upgrade :: string where
  "demo_upgrade = ''GET / HTTP/1.1'' @ crlf @ ''Host: example.com'' @ crlf @ ''Connection: Upgrade'' @ crlf @ crlf"

definition demo_tunnel :: Relay where
  "demo_tunnel = demo_relay\<lparr>rl_client_to_backend := \<lparr>wc_bytes = [''ping''], wc_result = Some (Inr 4)\<rparr>,
     rl_backend_to_client := \<lparr>wc_bytes = [''pong''], wc_result = Some (Inl BrokenPipe)\<rparr>\<rparr>"

lemma demo_upgraded:
  "wo_end (handle_websocket_upgrade demo_http (\<lambda>_. None) demo_tunnel demo_config ''http'' demo_upgrade) = Tunnel ''root''"
  by code_simp

theorem websocket_relay_verbatim_witness:
  "wo_backend (handle_websocket_upgrade demo_http (\<lambda>_. None) demo_tunnel demo_config ''http'' demo_upgrade) =
     [demo_upgrade, ''ping'']"
  using websocket_relay_verbatim [of demo_http "\<lambda>_. None" demo_tunnel demo_config "''http''" demo_upgrade]
  by (auto simp: demo_upgraded) (simp_all add: demo_tunnel_def)

end
