(* ===== verification/Transport.thy ===== *)
theory Transport
  imports RequestHead
begin

text \<open>
  Listening sockets, name resolution and the pooled connections,
  \<open>crates/proxy-core/src/transport.rs\<close> and \<open>crates/proxy-core/src/pool.rs\<close>. The sockets themselves
  belong to monoio: a socket is its file descriptor, an address its rendering, and what the
  operating system answers is a parameter.
\<close>

section \<open>Accepting connections\<close>

record ListenerOpts =
  lo_reuse_port :: bool
  lo_reuse_addr :: bool
  lo_backlog :: i32
  lo_tcp_nodelay :: bool
  lo_recv_buf_size :: "nat option"
  lo_send_buf_size :: "nat option"

definition listener_opts_default :: ListenerOpts where
  "listener_opts_default = \<lparr>lo_reuse_port = True, lo_reuse_addr = True, lo_backlog = 1024,
     lo_tcp_nodelay = True, lo_recv_buf_size = None, lo_send_buf_size = None\<rparr>"

text \<open>What the binding call of monoio is given.\<close>

record MonoioOpts =
  mo_reuse_port :: bool
  mo_reuse_addr :: bool
  mo_backlog :: i32
  mo_send_buf_size :: "nat option"
  mo_recv_buf_size :: "nat option"

record TcpAcceptor =
  ta_listener :: nat
  ta_tcp_nodelay :: bool

definition monoio_opts :: "MonoioOpts \<Rightarrow> ListenerOpts \<Rightarrow> MonoioOpts" where
  "monoio_opts fresh opts =
     (let m = fresh\<lparr>mo_reuse_port := lo_reuse_port opts, mo_reuse_addr := lo_reuse_addr opts,
            mo_backlog := lo_backlog opts\<rparr>;
          m = (case lo_send_buf_size opts of Some sz \<Rightarrow> m\<lparr>mo_send_buf_size := Some sz\<rparr> | None \<Rightarrow> m)
      in case lo_recv_buf_size opts of Some sz \<Rightarrow> m\<lparr>mo_recv_buf_size := Some sz\<rparr> | None \<Rightarrow> m)"

text \<open>\<open>fresh\<close> are monoio's default options and \<open>bind\<close> is its \<open>bind_with_config\<close>.\<close>

definition tcp_bind ::
  "MonoioOpts \<Rightarrow> (string \<Rightarrow> MonoioOpts \<Rightarrow> io_error + nat) \<Rightarrow> string \<Rightarrow> ListenerOpts \<Rightarrow> io_error + TcpAcceptor" where
  "tcp_bind fresh bind addr opts =
     (case bind addr (monoio_opts fresh opts) of
        Inl e \<Rightarrow> Inl e
      | Inr listener \<Rightarrow> Inr \<lparr>ta_listener = listener, ta_tcp_nodelay = lo_tcp_nodelay opts\<rparr>)"

definition tcp_local_addr :: "(nat \<Rightarrow> io_error + string) \<Rightarrow> TcpAcceptor \<Rightarrow> io_error + string" where
  "tcp_local_addr local_addr a = local_addr (ta_listener a)"

record TcpStream =
  st_fd :: nat
  st_nodelay :: bool

text \<open>
  \<open>answer\<close> is what the listener's \<open>accept\<close> gives; \<open>nodelay_ok\<close> whether the option can be set, a
  failure being ignored.
\<close>

definition tcp_accept ::
  "(nat \<Rightarrow> io_error + TcpStream \<times> string) \<Rightarrow> (TcpStream \<Rightarrow> bool) \<Rightarrow> TcpAcceptor \<Rightarrow>
     io_error + TcpStream \<times> string" where
  "tcp_accept answer nodelay_ok a =
     (case answer (ta_listener a) of
        Inl e \<Rightarrow> Inl e
      | Inr (stream, addr) \<Rightarrow>
          Inr (if ta_tcp_nodelay a \<and> nodelay_ok stream then stream\<lparr>st_nodelay := True\<rparr> else stream, addr))"

section \<open>Resolving names\<close>

datatype StdResolver = StdResolver

text \<open>\<open>to_socket_addrs\<close> of the standard library is the parameter.\<close>

definition std_resolve ::
  "(string \<Rightarrow> u16 \<Rightarrow> io_error + string list) \<Rightarrow> StdResolver \<Rightarrow> string \<Rightarrow> u16 \<Rightarrow> io_error + string list" where
  "std_resolve to_socket_addrs r host port = to_socket_addrs host port"

record MockResolver =
  mr_addrs :: "string list"

definition mock_resolver_new :: "string list \<Rightarrow> MockResolver" where
  "mock_resolver_new addrs = \<lparr>mr_addrs = addrs\<rparr>"

definition mock_resolve :: "MockResolver \<Rightarrow> string \<Rightarrow> u16 \<Rightarrow> io_error + string list" where
  "mock_resolve r host port =
     (if mr_addrs r = [] then Inl (OtherIo ''mock resolver has no addresses'') else Inr (mr_addrs r))"

section \<open>Pooled connections\<close>

definition DEFAULT_MAX_IDLE_PER_ADDR :: nat where
  "DEFAULT_MAX_IDLE_PER_ADDR = 16"

record PoolableConnection =
  pn_stream :: TcpStream

definition poolable_new :: "TcpStream \<Rightarrow> PoolableConnection" where
  "poolable_new stream = \<lparr>pn_stream = stream\<rparr>"

definition poolable_inner :: "PoolableConnection \<Rightarrow> TcpStream" where
  "poolable_inner c = pn_stream c"

definition poolable_is_open :: "(TcpStream \<Rightarrow> io_error + string) \<Rightarrow> PoolableConnection \<Rightarrow> bool" where
  "poolable_is_open peer_addr c = (case peer_addr (pn_stream c) of Inr _ \<Rightarrow> True | Inl _ \<Rightarrow> False)"

text \<open>Each read and write is that of the wrapped stream.\<close>

definition poolable_io :: "(TcpStream \<Rightarrow> 'r \<times> TcpStream) \<Rightarrow> PoolableConnection \<Rightarrow> 'r \<times> PoolableConnection" where
  "poolable_io op c = (let (r, s) = op (pn_stream c) in (r, c\<lparr>pn_stream := s\<rparr>))"

definition poolable_connect ::
  "(string \<Rightarrow> io_error + TcpStream) \<Rightarrow> string \<Rightarrow> io_error + PoolableConnection" where
  "poolable_connect connect key =
     (case connect key of Inl e \<Rightarrow> Inl e | Inr stream \<Rightarrow> Inr (poolable_new stream))"

text \<open>A pool is monoio-transports' \<open>PooledConnector\<close>; what the sources fix of it is the limit.\<close>

record TcpConnectionPool =
  tp_max_idle :: "nat option"

definition new_tcp_pool :: TcpConnectionPool where
  "new_tcp_pool = \<lparr>tp_max_idle = Some DEFAULT_MAX_IDLE_PER_ADDR\<rparr>"

definition new_tcp_pool_with_max_idle :: "nat \<Rightarrow> TcpConnectionPool" where
  "new_tcp_pool_with_max_idle max_idle = \<lparr>tp_max_idle = Some max_idle\<rparr>"

section \<open>Lemmas\<close>

lemma tcp_bind_nodelay: "tcp_bind fresh bind addr opts = Inr a \<Longrightarrow> ta_tcp_nodelay a = lo_tcp_nodelay opts"
  by (auto simp: tcp_bind_def split: sum.splits)

text \<open>Under the default options every listener shares its port with the other workers.\<close>

lemma monoio_opts_default:
  "mo_reuse_port (monoio_opts fresh listener_opts_default)"
  "mo_reuse_addr (monoio_opts fresh listener_opts_default)"
  "mo_backlog (monoio_opts fresh listener_opts_default) = 1024"
  "mo_send_buf_size (monoio_opts fresh listener_opts_default) = mo_send_buf_size fresh"
  "mo_recv_buf_size (monoio_opts fresh listener_opts_default) = mo_recv_buf_size fresh"
  by (simp_all add: monoio_opts_def listener_opts_default_def Let_def)

end
