(* ===== verification/Factory.thy ===== *)
theory Factory
  imports Pipeline Transport
begin

text \<open>
  How the services of \<open>crates/proxy-core/src/pipeline.rs\<close> are put together: the service structs,
  the factories with their \<open>make_via_ref\<close> and \<open>layer\<close>, the direct \<open>build_pipeline\<close>, and the
  remaining operations of the prefixed stream.
\<close>

section \<open>Services and their configuration\<close>

record 'r PipelineConfig =
  pg_proxy_config :: ProxyConfig
  pg_listener_name :: string
  pg_pool :: TcpConnectionPool
  pg_resolver :: 'r

record 'r UpstreamForwarder =
  uf_pool :: TcpConnectionPool
  uf_resolver :: 'r

record 't RouteAndFilter =
  raf_config :: ProxyConfig
  raf_inner :: 't

record ('t, 'r) HttpCoreService =
  hc_listener_name :: string
  hc_proxy_config :: ProxyConfig
  hc_resolver :: 'r
  hc_inner :: 't

type_synonym 'r pipeline = "('r UpstreamForwarder RouteAndFilter, 'r) HttpCoreService"

definition build_pipeline_service :: "'r PipelineConfig \<Rightarrow> 'r pipeline" where
  "build_pipeline_service config = \<lparr>
     hc_listener_name = pg_listener_name config,
     hc_proxy_config = pg_proxy_config config,
     hc_resolver = pg_resolver config,
     hc_inner = \<lparr>raf_config = pg_proxy_config config,
       raf_inner = \<lparr>uf_pool = pg_pool config, uf_resolver = pg_resolver config\<rparr>\<rparr>\<rparr>"

section \<open>Factories\<close>

text \<open>
  \<open>make_via_ref\<close> is given the service that it replaces. A factory around another one is given the
  inner \<open>make\<close>; its error is that of the inner one, and the innermost has none.
\<close>

type_synonym ('f, 's, 'e) make = "'f \<Rightarrow> 's option \<Rightarrow> 'e + 's"

record 'r UpstreamForwarderFactory =
  uff_pool :: TcpConnectionPool
  uff_resolver :: 'r

definition upstream_forwarder_make ::
  "('r UpstreamForwarderFactory, 'r UpstreamForwarder, 'e) make" where
  "upstream_forwarder_make f old = Inr \<lparr>uf_pool = uff_pool f, uf_resolver = uff_resolver f\<rparr>"

definition upstream_forwarder_layer :: "'r PipelineConfig \<Rightarrow> unit \<Rightarrow> 'r UpstreamForwarderFactory" where
  "upstream_forwarder_layer cfg inner = \<lparr>uff_pool = pg_pool cfg, uff_resolver = pg_resolver cfg\<rparr>"

record 'f RouteAndFilterFactory =
  raff_config :: ProxyConfig
  raff_inner :: 'f

definition route_and_filter_make ::
  "('f, 's, 'e) make \<Rightarrow> ('f RouteAndFilterFactory, 's RouteAndFilter, 'e) make" where
  "route_and_filter_make mk f old =
     (case mk (raff_inner f) (map_option raf_inner old) of
        Inl e \<Rightarrow> Inl e
      | Inr inner \<Rightarrow> Inr \<lparr>raf_config = raff_config f, raf_inner = inner\<rparr>)"

definition route_and_filter_layer :: "'r PipelineConfig \<Rightarrow> 'f \<Rightarrow> 'f RouteAndFilterFactory" where
  "route_and_filter_layer cfg inner = \<lparr>raff_config = pg_proxy_config cfg, raff_inner = inner\<rparr>"

record ('f, 'r) HttpCoreServiceFactory =
  hcf_listener_name :: string
  hcf_proxy_config :: ProxyConfig
  hcf_resolver :: 'r
  hcf_inner :: 'f

definition http_core_make ::
  "('f, 's, 'e) make \<Rightarrow> (('f, 'r) HttpCoreServiceFactory, ('s, 'r) HttpCoreService, 'e) make" where
  "http_core_make mk f old =
     (case mk (hcf_inner f) (map_option hc_inner old) of
        Inl e \<Rightarrow> Inl e
      | Inr inner \<Rightarrow> Inr \<lparr>hc_listener_name = hcf_listener_name f, hc_proxy_config = hcf_proxy_config f,
          hc_resolver = hcf_resolver f, hc_inner = inner\<rparr>)"

definition http_core_layer :: "'r PipelineConfig \<Rightarrow> 'f \<Rightarrow> ('f, 'r) HttpCoreServiceFactory" where
  "http_core_layer cfg inner = \<lparr>hcf_listener_name = pg_listener_name cfg,
     hcf_proxy_config = pg_proxy_config cfg, hcf_resolver = pg_resolver cfg, hcf_inner = inner\<rparr>"

text \<open>The stack of the three layers over one configuration.\<close>

definition factory_stack ::
  "'r PipelineConfig \<Rightarrow>
     ('r UpstreamForwarderFactory RouteAndFilterFactory, 'r) HttpCoreServiceFactory" where
  "factory_stack cfg =
     http_core_layer cfg (route_and_filter_layer cfg (upstream_forwarder_layer cfg ()))"

section \<open>What a built service does\<close>

text \<open>
  A connection handed to the outermost service. The resolver names the addresses that the
  network \<open>net\<close> and the relay \<open>rl\<close> resolve with, so those take it as an argument.
\<close>

definition service_call ::
  "('u, 'h) http \<Rightarrow> regex \<Rightarrow> (TcpConnectionPool \<Rightarrow> 'r \<Rightarrow> ('u, 'h) Net) \<Rightarrow> ('r \<Rightarrow> Relay) \<Rightarrow> 'r pipeline \<Rightarrow>
     (f64 \<Rightarrow> ('u, 'h) ForwardRequest \<Rightarrow> bool) \<Rightarrow> ('u, 'h) Conn \<Rightarrow> 'h served" where
  "service_call ht re net rl s elapsed =
     http_core_call ht re (rl (hc_resolver s)) (hc_proxy_config s) (hc_listener_name s)
       (pipeline_call ht re (net (uf_pool (raf_inner (hc_inner s))) (uf_resolver (raf_inner (hc_inner s))))
          (raf_config (hc_inner s)) elapsed)"

text \<open>The factories build the direct pipeline. For every configuration, the stack of the
  three layers makes, without an error and whatever service it replaces, the service that
  \<open>build_pipeline\<close> builds; every part of it routes with the same configuration, and a
  connection is served as the composed pipeline of that configuration and listener.\<close>

theorem factory_stack_builds_pipeline:
  "http_core_make (route_and_filter_make upstream_forwarder_make) (factory_stack cfg) old =
     Inr (build_pipeline_service cfg) \<and>
   service_call ht re net rl (build_pipeline_service cfg) elapsed =
     build_pipeline ht re (net (pg_pool cfg) (pg_resolver cfg)) (rl (pg_resolver cfg))
       (pg_proxy_config cfg) (pg_listener_name cfg) elapsed"
  by (simp add: factory_stack_def http_core_layer_def route_and_filter_layer_def
      upstream_forwarder_layer_def http_core_make_def route_and_filter_make_def
      upstream_forwarder_make_def build_pipeline_service_def service_call_def build_pipeline_def)

section \<open>The prefixed stream\<close>

text \<open>
  A vectored read into segments of the capacities \<open>caps\<close>. \<open>wrap\<close> is monoio's adapter, which writes
  into the first segment: the capacity of that segment, or nothing when there is none.
\<close>

definition prefixed_readv ::
  "(nat list \<Rightarrow> nat option) \<Rightarrow> (nat \<Rightarrow> 's \<Rightarrow> (io_error + string) \<times> 's) \<Rightarrow>
     (nat list \<Rightarrow> 's \<Rightarrow> (io_error + string) \<times> 's) \<Rightarrow> nat list \<Rightarrow> 's PrefixedStream \<Rightarrow>
     (io_error + string) \<times> 's PrefixedStream" where
  "prefixed_readv wrap inner_read inner_readv caps s =
     (if prefix_remaining s > 0 then
        (case wrap caps of
           None \<Rightarrow> (Inr [], s)
         | Some cap \<Rightarrow> prefixed_read inner_read cap s)
      else (let (r, inner) = inner_readv caps (ps_inner s) in (r, s\<lparr>ps_inner := inner\<rparr>)))"

text \<open>\<open>write\<close>, \<open>writev\<close>, \<open>flush\<close> and \<open>shutdown\<close> are those of the wrapped stream.\<close>

definition prefixed_delegate :: "('s \<Rightarrow> 'o \<times> 's) \<Rightarrow> 's PrefixedStream \<Rightarrow> 'o \<times> 's PrefixedStream" where
  "prefixed_delegate op s = (let (r, inner) = op (ps_inner s) in (r, s\<lparr>ps_inner := inner\<rparr>))"

text \<open>Writing leaves what is still to be read alone.\<close>

lemma prefixed_delegate_prefix:
  "ps_prefix (snd (prefixed_delegate op s)) = ps_prefix s"
  "ps_prefix_offset (snd (prefixed_delegate op s)) = ps_prefix_offset s"
  by (simp_all add: prefixed_delegate_def split_beta)

text \<open>A vectored read of a pending prefix is a read into the first segment.\<close>

lemma prefixed_readv_first_segment:
  "prefix_remaining s > 0 \<Longrightarrow> wrap caps = Some cap \<Longrightarrow>
   prefixed_readv wrap rd rdv caps s = prefixed_read rd cap s"
  by (simp add: prefixed_readv_def)

end
