(* ===== verification/Tls.thy ===== *)
theory Tls
  imports RequestHead Config CpError
begin

text \<open>
  TLS termination, \<open>crates/proxy-core/src/tls.rs\<close>: reading the inline certificates and building
  the configuration of the acceptor. PEM parsing and rustls are the parameter \<open>tls_ops\<close>; a
  configuration is what rustls was given to build it.
\<close>

datatype TlsSetupError =
    NoCertificates
  | CertParse string
  | KeyParse string
  | Rustls string
  | SniAdd string

fun tls_setup_error_text :: "TlsSetupError \<Rightarrow> string" where
  "tls_setup_error_text NoCertificates = ''no inline certificates provided''"
| "tls_setup_error_text (CertParse msg) = ''certificate parse error: '' @ msg"
| "tls_setup_error_text (KeyParse msg) = ''private key parse error: '' @ msg"
| "tls_setup_error_text (Rustls e) = ''rustls error: '' @ e"
| "tls_setup_error_text (SniAdd msg) = ''SNI resolver error: '' @ msg"

definition tls_error_to_io :: "TlsSetupError \<Rightarrow> io_error" where
  "tls_error_to_io e = InvalidInput"

text \<open>
  \<open>rustls_pemfile\<close> on a PEM text; the protocol versions, \<open>with_single_cert\<close>,
  \<open>CertifiedKey::from_der\<close> of rustls with their errors; and \<open>ResolvesServerCertUsingSni::add\<close>, whose
  answer may depend on the names already added. DER data is a \<open>string\<close>, a certified key a \<open>'k\<close>.
\<close>

record 'k tls_ops =
  tl_certs :: "string \<Rightarrow> (string + string) list"
  tl_private_key :: "string \<Rightarrow> string + string option"
  tl_versions :: "string option"
  tl_single_cert :: "string list \<Rightarrow> string \<Rightarrow> string option"
  tl_from_der :: "string list \<Rightarrow> string \<Rightarrow> string + 'k"
  tl_sni_add :: "(string \<times> 'k) list \<Rightarrow> string \<Rightarrow> 'k \<Rightarrow> string option"

datatype 'k ServerConfig =
    SingleCert "string list" string
  | SniResolver "(string \<times> 'k) list"

section \<open>Reading PEM\<close>

definition parse_pem_certs :: "'k tls_ops \<Rightarrow> string \<Rightarrow> TlsSetupError + string list" where
  "parse_pem_certs ops pem =
     (case collect_results (\<lambda>c. c) (tl_certs ops pem) of
        Inl e \<Rightarrow> Inl (CertParse e)
      | Inr certs \<Rightarrow>
          if certs = [] then Inl (CertParse ''no certificates found in PEM data'') else Inr certs)"

definition parse_pem_private_key :: "'k tls_ops \<Rightarrow> string \<Rightarrow> TlsSetupError + string" where
  "parse_pem_private_key ops pem =
     (case tl_private_key ops pem of
        Inl e \<Rightarrow> Inl (KeyParse e)
      | Inr None \<Rightarrow> Inl (KeyParse ''no private key found in PEM data'')
      | Inr (Some key) \<Rightarrow> Inr key)"

section \<open>Building the server configuration\<close>

definition single_cert_config :: "'k tls_ops \<Rightarrow> InlineCertificate \<Rightarrow> TlsSetupError + 'k ServerConfig" where
  "single_cert_config ops cert =
     (case parse_pem_certs ops (ic_cert_pem cert) of
        Inl e \<Rightarrow> Inl e
      | Inr cert_chain \<Rightarrow>
          (case parse_pem_private_key ops (ic_key_pem cert) of
             Inl e \<Rightarrow> Inl e
           | Inr key \<Rightarrow>
               (case tl_versions ops of
                  Some e \<Rightarrow> Inl (Rustls e)
                | None \<Rightarrow>
                    (case tl_single_cert ops cert_chain key of
                       Some e \<Rightarrow> Inl (Rustls e)
                     | None \<Rightarrow> Inr (SingleCert cert_chain key)))))"

definition certified_key :: "'k tls_ops \<Rightarrow> InlineCertificate \<Rightarrow> TlsSetupError + 'k" where
  "certified_key ops cert =
     (case parse_pem_certs ops (ic_cert_pem cert) of
        Inl e \<Rightarrow> Inl e
      | Inr cert_chain \<Rightarrow>
          (case parse_pem_private_key ops (ic_key_pem cert) of
             Inl e \<Rightarrow> Inl e
           | Inr key \<Rightarrow>
               (case tl_from_der ops cert_chain key of Inl e \<Rightarrow> Inl (Rustls e) | Inr ck \<Rightarrow> Inr ck)))"

fun add_hostnames ::
  "'k tls_ops \<Rightarrow> 'k \<Rightarrow> (string \<times> 'k) list \<Rightarrow> string list \<Rightarrow> TlsSetupError + (string \<times> 'k) list" where
  "add_hostnames ops ck resolver [] = Inr resolver"
| "add_hostnames ops ck resolver (hostname # hs) =
     (case tl_sni_add ops resolver hostname ck of
        Some e \<Rightarrow> Inl (SniAdd (hostname @ '': '' @ e))
      | None \<Rightarrow> add_hostnames ops ck (resolver @ [(hostname, ck)]) hs)"

fun sni_loop ::
  "'k tls_ops \<Rightarrow> (string \<times> 'k) list \<Rightarrow> InlineCertificate list \<Rightarrow> TlsSetupError + (string \<times> 'k) list" where
  "sni_loop ops resolver [] = Inr resolver"
| "sni_loop ops resolver (cert # cs) =
     (case certified_key ops cert of
        Inl e \<Rightarrow> Inl e
      | Inr ck \<Rightarrow>
          (case add_hostnames ops ck resolver (ic_hostnames cert) of
             Inl e \<Rightarrow> Inl e
           | Inr resolver' \<Rightarrow> sni_loop ops resolver' cs))"

definition build_server_config ::
  "'k tls_ops \<Rightarrow> InlineCertificate list \<Rightarrow> TlsSetupError + 'k ServerConfig" where
  "build_server_config ops inline_certs =
     (if length inline_certs = 1 then single_cert_config ops (hd inline_certs)
      else (case sni_loop ops [] inline_certs of
          Inl e \<Rightarrow> Inl e
        | Inr resolver \<Rightarrow>
            (case tl_versions ops of Some e \<Rightarrow> Inl (Rustls e) | None \<Rightarrow> Inr (SniResolver resolver))))"

definition build_tls_acceptor :: "'k tls_ops \<Rightarrow> TlsConfig \<Rightarrow> TlsSetupError + 'k ServerConfig option" where
  "build_tls_acceptor ops tls_config =
     (if tls_mode tls_config = Passthrough then Inr None
      else if tls_inline_certificates tls_config = [] then Inl NoCertificates
      else (case build_server_config ops (tls_inline_certificates tls_config) of
          Inl e \<Rightarrow> Inl e
        | Inr server_config \<Rightarrow> Inr (Some server_config)))"

section \<open>What the resolver is given\<close>

text \<open>The names of one certificate, and of all of them in order.\<close>

definition cert_names :: "'k tls_ops \<Rightarrow> InlineCertificate \<Rightarrow> (string \<times> 'k) list" where
  "cert_names ops cert =
     (case certified_key ops cert of Inr ck \<Rightarrow> map (\<lambda>h. (h, ck)) (ic_hostnames cert) | Inl _ \<Rightarrow> [])"

lemma add_hostnames_Inr:
  "add_hostnames ops ck r hs = Inr r' \<Longrightarrow> r' = r @ map (\<lambda>h. (h, ck)) hs"
proof (induction hs arbitrary: r)
  case (Cons h hs)
  then have "add_hostnames ops ck (r @ [(h, ck)]) hs = Inr r'" by (simp split: option.splits)
  from Cons.IH [OF this] show ?case by simp
qed simp

lemma sni_loop_Inr:
  "sni_loop ops r cs = Inr r' \<Longrightarrow>
     r' = r @ concat (map (cert_names ops) cs) \<and> (\<forall>c\<in>set cs. \<exists>ck. certified_key ops c = Inr ck)"
proof (induction cs arbitrary: r)
  case (Cons c cs)
  then obtain ck r2 where "certified_key ops c = Inr ck" "add_hostnames ops ck r (ic_hostnames c) = Inr r2"
    and "sni_loop ops r2 cs = Inr r'"
    by (auto split: sum.splits)
  with Cons.IH [of r2] show ?case by (auto simp: cert_names_def dest: add_hostnames_Inr)
qed simp

lemma single_cert_config_Inr:
  "single_cert_config ops c = Inr sc \<longleftrightarrow>
     (\<exists>chain key. sc = SingleCert chain key \<and> parse_pem_certs ops (ic_cert_pem c) = Inr chain \<and>
        parse_pem_private_key ops (ic_key_pem c) = Inr key \<and> tl_versions ops = None \<and>
        tl_single_cert ops chain key = None)"
  by (auto simp: single_cert_config_def split: sum.splits option.splits)

lemma length_1_iff: "length xs = 1 \<longleftrightarrow> (\<exists>x. xs = [x])"
  by (cases xs) auto

text \<open>C15: the certificates that TLS termination is set up with. A passthrough listener gets no
  acceptor, a terminating one without inline certificates is an error, and any acceptor comes from
  one of two cases. With a single certificate it holds that certificate's parsed chain and key and
  serves every client. With several it holds one entry for each hostname of each certificate, in
  order, and all of them parsed: a certificate without hostnames is in no entry, so it is presented
  to no client and is the fallback of none.\<close>

theorem build_tls_acceptor_spec:
  "(tls_mode t = Passthrough \<longrightarrow> build_tls_acceptor ops t = Inr None) \<and>
   (tls_mode t = Terminate \<and> tls_inline_certificates t = [] \<longrightarrow>
      build_tls_acceptor ops t = Inl NoCertificates) \<and>
   (build_tls_acceptor ops t = Inr (Some sc) \<longrightarrow> tls_mode t = Terminate \<and> tl_versions ops = None \<and>
      (case sc of
         SingleCert chain key \<Rightarrow> \<exists>c. tls_inline_certificates t = [c] \<and>
           parse_pem_certs ops (ic_cert_pem c) = Inr chain \<and>
           parse_pem_private_key ops (ic_key_pem c) = Inr key \<and> tl_single_cert ops chain key = None
       | SniResolver entries \<Rightarrow> length (tls_inline_certificates t) > 1 \<and>
           entries = concat (map (cert_names ops) (tls_inline_certificates t)) \<and>
           list_all (\<lambda>c. \<exists>ck. certified_key ops c = Inr ck) (tls_inline_certificates t)))"
proof (intro conjI impI)
  assume "tls_mode t = Passthrough"
  then show "build_tls_acceptor ops t = Inr None" by (simp add: build_tls_acceptor_def)
next
  assume "tls_mode t = Terminate \<and> tls_inline_certificates t = []"
  then show "build_tls_acceptor ops t = Inl NoCertificates" by (simp add: build_tls_acceptor_def)
next
  assume a: "build_tls_acceptor ops t = Inr (Some sc)"
  then have mode: "tls_mode t = Terminate" and ne: "tls_inline_certificates t \<noteq> []"
    and sc: "build_server_config ops (tls_inline_certificates t) = Inr sc"
    by (cases "tls_mode t"; auto simp: build_tls_acceptor_def split: if_splits sum.splits)+
  show "tls_mode t = Terminate" by (rule mode)
  show "tl_versions ops = None"
    using sc by (auto simp: build_server_config_def single_cert_config_Inr split: if_splits sum.splits option.splits)
  show "case sc of
      SingleCert chain key \<Rightarrow> \<exists>c. tls_inline_certificates t = [c] \<and>
        parse_pem_certs ops (ic_cert_pem c) = Inr chain \<and>
        parse_pem_private_key ops (ic_key_pem c) = Inr key \<and> tl_single_cert ops chain key = None
    | SniResolver entries \<Rightarrow> length (tls_inline_certificates t) > 1 \<and>
        entries = concat (map (cert_names ops) (tls_inline_certificates t)) \<and>
        list_all (\<lambda>c. \<exists>ck. certified_key ops c = Inr ck) (tls_inline_certificates t)"
  proof (cases "length (tls_inline_certificates t) = 1")
    case True
    then obtain c where "tls_inline_certificates t = [c]" unfolding length_1_iff ..
    with sc show ?thesis by (auto simp: build_server_config_def single_cert_config_Inr)
  next
    case False
    with sc obtain entries where "sc = SniResolver entries"
      "sni_loop ops [] (tls_inline_certificates t) = Inr entries"
      by (auto simp: build_server_config_def split: sum.splits option.splits)
    moreover have "length (tls_inline_certificates t) > 1"
      using False ne by (metis One_nat_def Suc_lessI length_greater_0_conv)
    ultimately show ?thesis using sni_loop_Inr [of ops "[]" "tls_inline_certificates t" entries]
      by (simp add: list_all_iff)
  qed
qed

text \<open>An SNI listener with two certificates, the second of which names no host.\<close>

definition demo_sni_ops :: "nat tls_ops" where
  "demo_sni_ops = \<lparr>tl_certs = \<lambda>pem. [Inr pem], tl_private_key = \<lambda>pem. Inr (Some pem), tl_versions = None,
     tl_single_cert = \<lambda>chain key. None, tl_from_der = \<lambda>chain key. Inr (length key),
     tl_sni_add = \<lambda>entries h ck. None\<rparr>"

definition demo_sni_tls :: TlsConfig where
  "demo_sni_tls = \<lparr>tls_mode = Terminate, tls_certificates = [],
     tls_inline_certificates =
       [\<lparr>ic_cert_pem = ''c1'', ic_key_pem = ''key'', ic_hostnames = [''a.io'', ''b.io'']\<rparr>,
        \<lparr>ic_cert_pem = ''c2'', ic_key_pem = ''k'', ic_hostnames = []\<rparr>]\<rparr>"

theorem build_tls_acceptor_spec_witness:
  "build_tls_acceptor demo_sni_ops demo_sni_tls = Inr (Some (SniResolver [(''a.io'', 3), (''b.io'', 3)])) \<and>
   [(''a.io'', 3), (''b.io'', 3)] =
     concat (map (cert_names demo_sni_ops) (tls_inline_certificates demo_sni_tls))"
proof
  show acc: "build_tls_acceptor demo_sni_ops demo_sni_tls =
      Inr (Some (SniResolver [(''a.io'', 3), (''b.io'', 3)]))"
    by (simp add: build_tls_acceptor_def demo_sni_tls_def demo_sni_ops_def build_server_config_def
        certified_key_def parse_pem_certs_def parse_pem_private_key_def)
  show "[(''a.io'', 3), (''b.io'', 3)] =
      concat (map (cert_names demo_sni_ops) (tls_inline_certificates demo_sni_tls))"
    using mp [OF conjunct2 [OF conjunct2 [OF build_tls_acceptor_spec]] acc] by simp
qed

end
