(* ===== verification/Server.thy ===== *)
theory Server
  imports Factory Tls
begin

text \<open>
  The server of \<open>crates/proxy-core/src/server.rs\<close>: its builder, the workers and their accept loop,
  the binding of listeners and the pipelines, and the joining of the workers. What happens around a
  worker is the parameter \<open>worker_env\<close>; rounds of the loop are numbered, and a value read in a round
  is indexed by it. A worker keeps its configuration's address to notice a new one, as the code does.
\<close>

section \<open>Builder\<close>

text \<open>A shared configuration is the \<open>'c\<close> that workers load from.\<close>

record 'c ProxyServer =
  px_config :: 'c
  px_worker_threads :: nat

record 'c ProxyServerBuilder =
  pb_config :: "'c option"
  pb_worker_threads :: "nat option"

definition proxy_server_builder :: "'c ProxyServerBuilder" where
  "proxy_server_builder = \<lparr>pb_config = None, pb_worker_threads = None\<rparr>"

definition psb_config :: "'c ProxyServerBuilder \<Rightarrow> 'c \<Rightarrow> 'c ProxyServerBuilder" where
  "psb_config b c = b\<lparr>pb_config := Some c\<rparr>"

definition psb_worker_threads :: "'c ProxyServerBuilder \<Rightarrow> nat \<Rightarrow> 'c ProxyServerBuilder" where
  "psb_worker_threads b n = b\<lparr>pb_worker_threads := Some n\<rparr>"

text \<open>\<open>parallelism\<close> is \<open>available_parallelism\<close>, which may fail.\<close>

definition proxy_server_build :: "nat option \<Rightarrow> 'c ProxyServerBuilder \<Rightarrow> io_error + 'c ProxyServer" where
  "proxy_server_build parallelism b =
     (case pb_config b of
        None \<Rightarrow> Inl InvalidInput
      | Some config \<Rightarrow>
          (let worker_threads = (case pb_worker_threads b of
                 Some n \<Rightarrow> n
               | None \<Rightarrow> (case parallelism of Some n \<Rightarrow> n | None \<Rightarrow> 1))
           in if worker_threads = 0 then Inl InvalidInput
              else Inr \<lparr>px_config = config, px_worker_threads = worker_threads\<rparr>))"

section \<open>Listeners\<close>

record 'k ListenerState =
  ls_name :: string
  ls_tcp_acceptor :: TcpAcceptor
  ls_tls_acceptor :: "'k ServerConfig option"

text \<open>A handshake ends with a stream, with an error, or not at all.\<close>

datatype handshake = HsDone | HsFailed string | HsPending

text \<open>A call of a pipeline returns, with a result that the worker ignores, panics, or never ends.\<close>

datatype call_end = CallReturns | CallPanics | CallPending

text \<open>
  \<open>we_config n\<close> is the \<open>n\<close>-th \<open>load_full\<close>, as address and content: the first before the loop, then
  one per round. \<open>we_shutdown k j\<close> is the flag as round \<open>k\<close> reads it at its head (\<open>j = 0\<close>) and
  before accepting on listener \<open>j - 1\<close>. \<open>we_accept k i\<close> is what the listener gives while round \<open>k\<close>
  waits on its \<open>i\<close>-th listener, nothing when the timer is first; \<open>we_served k i p\<close> how serving
  that connection with the pipeline \<open>p\<close> ends. Binding answers per load and listener.
\<close>

record 'k worker_env =
  we_config :: "nat \<Rightarrow> nat \<times> ProxyConfig"
  we_shutdown :: "nat \<Rightarrow> nat \<Rightarrow> bool"
  we_tls :: "'k tls_ops"
  we_monoio :: MonoioOpts
  we_bind :: "nat \<Rightarrow> nat \<Rightarrow> string \<Rightarrow> MonoioOpts \<Rightarrow> io_error + nat"
  we_local_addr :: "nat \<Rightarrow> io_error + string"
  we_info_enabled :: bool
  we_port_addr :: "u16 \<Rightarrow> string"
  we_accept :: "nat \<Rightarrow> nat \<Rightarrow> (nat \<Rightarrow> io_error + TcpStream \<times> string) option"
  we_nodelay_ok :: "TcpStream \<Rightarrow> bool"
  we_handshake :: "'k ServerConfig \<Rightarrow> TcpStream \<Rightarrow> handshake"
  we_served :: "nat \<Rightarrow> nat \<Rightarrow> StdResolver pipeline \<Rightarrow> call_end"

definition tls_acceptor_for :: "'k tls_ops \<Rightarrow> ListenerConfig \<Rightarrow> 'k ServerConfig option" where
  "tls_acceptor_for ops listener =
     (if lc_protocol listener = Https then
        (case lc_tls listener of
           Some tls_config \<Rightarrow>
             (case build_tls_acceptor ops tls_config of
                Inr acceptor \<Rightarrow> acceptor
              | Inl e \<Rightarrow> None)
         | None \<Rightarrow> None)
      else None)"

text \<open>
  One listener of the loop. \<open>we_port_addr\<close> renders \<open>0.0.0.0:port\<close>; the local address is asked for
  only when the log line that shows it is enabled, and its error ends the binding then.
\<close>

definition bind_listener ::
  "'k worker_env \<Rightarrow> nat \<Rightarrow> nat \<Rightarrow> ListenerOpts \<Rightarrow> ListenerConfig \<Rightarrow> io_error + 'k ListenerState" where
  "bind_listener env n i opts listener =
     (case tcp_bind (we_monoio env) (we_bind env n i) (we_port_addr env (lc_port listener)) opts of
        Inl e \<Rightarrow> Inl e
      | Inr tcp_acceptor \<Rightarrow>
          (case (if we_info_enabled env
                 then map_sum id (\<lambda>_. ()) (tcp_local_addr (we_local_addr env) tcp_acceptor) else Inr ()) of
             Inl e \<Rightarrow> Inl e
           | Inr _ \<Rightarrow> Inr \<lparr>ls_name = lc_name listener, ls_tcp_acceptor = tcp_acceptor,
               ls_tls_acceptor = tls_acceptor_for (we_tls env) listener\<rparr>))"

fun bind_loop ::
  "'k worker_env \<Rightarrow> nat \<Rightarrow> nat \<Rightarrow> ListenerOpts \<Rightarrow> ListenerConfig list \<Rightarrow> io_error + 'k ListenerState list" where
  "bind_loop env n i opts [] = Inr []"
| "bind_loop env n i opts (listener # ls) =
     (case bind_listener env n i opts listener of
        Inl e \<Rightarrow> Inl e
      | Inr st \<Rightarrow>
          (case bind_loop env n (Suc i) opts ls of
             Inl e \<Rightarrow> Inl e
           | Inr states \<Rightarrow> Inr (st # states)))"

definition bind_listeners ::
  "'k worker_env \<Rightarrow> nat \<Rightarrow> ListenerOpts \<Rightarrow> ProxyConfig \<Rightarrow> io_error + 'k ListenerState list" where
  "bind_listeners env n opts config = bind_loop env n 0 opts (pc_listeners config)"

definition listeners_differ_arcs :: "nat \<Rightarrow> ProxyConfig \<Rightarrow> bool" where
  "listeners_differ_arcs old_ptr new = True"

definition build_pipelines ::
  "ProxyConfig \<Rightarrow> TcpConnectionPool \<Rightarrow> StdResolver \<Rightarrow> StdResolver pipeline list" where
  "build_pipelines config pool resolver =
     map (\<lambda>listener. build_pipeline_service \<lparr>pg_proxy_config = config,
            pg_listener_name = lc_name listener, pg_pool = pool, pg_resolver = resolver\<rparr>)
       (pc_listeners config)"

section \<open>The worker\<close>

definition accept_with_timeout ::
  "(nat \<Rightarrow> io_error + TcpStream \<times> string) option \<Rightarrow> (TcpStream \<Rightarrow> bool) \<Rightarrow> TcpAcceptor \<Rightarrow>
     (TcpStream \<times> string) option" where
  "accept_with_timeout race nodelay_ok acceptor =
     (case race of
        None \<Rightarrow> None
      | Some answer \<Rightarrow>
          (case tcp_accept answer nodelay_ok acceptor of
             Inr conn \<Rightarrow> Some conn
           | Inl e \<Rightarrow> None))"

text \<open>What became of an accepted connection, with the round and the listener's position and name.\<close>

datatype connection_event =
    ServedTls nat nat string "StdResolver pipeline" TcpStream
  | ServedPlain nat nat string "StdResolver pipeline" TcpStream
  | HandshakeFailed nat nat string TcpStream
  | Dropped nat nat string TcpStream

record 'k worker =
  wk_listener_states :: "'k ListenerState list"
  wk_pipelines :: "StdResolver pipeline list"
  wk_config_ptr :: nat
  wk_in_flight :: nat
  wk_trace :: "connection_event list"

text \<open>
  The accept loop awaits each connection before it goes on. It ends with the updated worker, is
  stuck in a connection that never ends, or is unwound by one that panics.
\<close>

datatype 'k progress = Going "'k worker" | Left "'k worker" | Stuck "'k worker" | Crashed "'k worker"

text \<open>The connection on one listener, given its pipeline.\<close>

datatype serving = Served connection_event | ServePanics connection_event | ServePending

definition end_call :: "call_end \<Rightarrow> connection_event \<Rightarrow> serving" where
  "end_call e ev = (case e of CallReturns \<Rightarrow> Served ev | CallPanics \<Rightarrow> ServePanics ev | CallPending \<Rightarrow> ServePending)"

definition serve_connection ::
  "'k worker_env \<Rightarrow> nat \<Rightarrow> nat \<Rightarrow> 'k ListenerState \<Rightarrow> StdResolver pipeline \<Rightarrow> TcpStream \<Rightarrow>
     serving" where
  "serve_connection env k i st pipeline stream =
     (case ls_tls_acceptor st of
        Some tls_acceptor \<Rightarrow>
          (case we_handshake env tls_acceptor stream of
             HsDone \<Rightarrow> end_call (we_served env k i pipeline) (ServedTls k i (ls_name st) pipeline stream)
           | HsFailed e \<Rightarrow> Served (HandshakeFailed k i (ls_name st) stream)
           | HsPending \<Rightarrow> ServePending)
      | None \<Rightarrow> end_call (we_served env k i pipeline) (ServedPlain k i (ls_name st) pipeline stream))"

fun accept_loop ::
  "'k worker_env \<Rightarrow> nat \<Rightarrow> nat \<Rightarrow> 'k ListenerState list \<Rightarrow> 'k worker \<Rightarrow> 'k progress" where
  "accept_loop env k i [] wk = Going wk"
| "accept_loop env k i (st # sts) wk =
     (if we_shutdown env k (Suc i) then Going wk
      else (case accept_with_timeout (we_accept env k i) (we_nodelay_ok env) (ls_tcp_acceptor st) of
          None \<Rightarrow> accept_loop env k (Suc i) sts wk
        | Some (stream, addr) \<Rightarrow>
            if i < length (wk_pipelines wk) then
              (let entered = wk\<lparr>wk_in_flight := wk_in_flight wk + 1\<rparr>
               in case serve_connection env k i st (wk_pipelines wk ! i) stream of
                    ServePending \<Rightarrow> Stuck entered
                  | ServePanics ev \<Rightarrow> Crashed (entered\<lparr>wk_trace := wk_trace entered @ [ev]\<rparr>)
                  | Served ev \<Rightarrow> accept_loop env k (Suc i) sts
                      (entered\<lparr>wk_trace := wk_trace entered @ [ev],
                               wk_in_flight := wk_in_flight entered - 1\<rparr>))
            else accept_loop env k (Suc i) sts
                   (wk\<lparr>wk_trace := wk_trace wk @ [Dropped k i (ls_name st) stream]\<rparr>)))"

definition reload ::
  "'k worker_env \<Rightarrow> nat \<Rightarrow> ListenerOpts \<Rightarrow> TcpConnectionPool \<Rightarrow> StdResolver \<Rightarrow> 'k worker \<Rightarrow> 'k worker" where
  "reload env n opts pool resolver wk =
     (let (new_ptr, new_config) = we_config env n;
          states = (if listeners_differ_arcs (wk_config_ptr wk) new_config
            then (case bind_listeners env n opts new_config of
                    Inr new_states \<Rightarrow> new_states
                  | Inl e \<Rightarrow> wk_listener_states wk)
            else wk_listener_states wk)
      in wk\<lparr>wk_listener_states := states, wk_pipelines := build_pipelines new_config pool resolver,
            wk_config_ptr := new_ptr\<rparr>)"

definition worker_round ::
  "'k worker_env \<Rightarrow> ListenerOpts \<Rightarrow> TcpConnectionPool \<Rightarrow> StdResolver \<Rightarrow> nat \<Rightarrow> 'k worker \<Rightarrow> 'k progress" where
  "worker_round env opts pool resolver k wk =
     (if we_shutdown env k 0 then Left wk
      else if fst (we_config env (Suc k)) \<noteq> wk_config_ptr wk then
        (let wk' = reload env (Suc k) opts pool resolver wk
         in if wk_listener_states wk' = [] then Left wk'
            else accept_loop env k 0 (wk_listener_states wk') wk')
      else accept_loop env k 0 (wk_listener_states wk) wk)"

text \<open>
  How a worker ends: its result, stuck, or with a panic of its thread; after the loop it waits for
  \<open>in_flight\<close> to be zero.
\<close>

datatype 'k worker_end =
    WorkerOk "'k worker" | WorkerErr io_error | WorkerStuck "'k worker" | WorkerPanic "'k worker"

definition drain :: "'k worker \<Rightarrow> 'k worker_end" where
  "drain wk = (if wk_in_flight wk > 0 then WorkerStuck wk else WorkerOk wk)"

text \<open>At most \<open>fuel\<close> rounds; nothing when the worker is still running after them.\<close>

fun worker_rounds ::
  "'k worker_env \<Rightarrow> ListenerOpts \<Rightarrow> TcpConnectionPool \<Rightarrow> StdResolver \<Rightarrow> nat \<Rightarrow> nat \<Rightarrow> 'k worker \<Rightarrow>
     'k worker_end option" where
  "worker_rounds env opts pool resolver 0 k wk = None"
| "worker_rounds env opts pool resolver (Suc fuel) k wk =
     (case worker_round env opts pool resolver k wk of
        Going wk' \<Rightarrow> worker_rounds env opts pool resolver fuel (Suc k) wk'
      | Left wk' \<Rightarrow> Some (drain wk')
      | Stuck wk' \<Rightarrow> Some (WorkerStuck wk')
      | Crashed wk' \<Rightarrow> Some (WorkerPanic wk'))"

definition worker_start :: "'k worker_env \<Rightarrow> 'k ListenerState list \<Rightarrow> 'k worker" where
  "worker_start env states = \<lparr>wk_listener_states = states,
     wk_pipelines = build_pipelines (snd (we_config env 0)) new_tcp_pool StdResolver,
     wk_config_ptr = fst (we_config env 0), wk_in_flight = 0, wk_trace = []\<rparr>"

definition worker_loop :: "'k worker_env \<Rightarrow> nat \<Rightarrow> 'k worker_end option" where
  "worker_loop env fuel =
     (case bind_listeners env 0 listener_opts_default (snd (we_config env 0)) of
        Inl e \<Rightarrow> Some (WorkerErr e)
      | Inr states \<Rightarrow>
          if states = [] then Some (WorkerOk (worker_start env []))
          else worker_rounds env listener_opts_default new_tcp_pool StdResolver fuel 0 (worker_start env states))"

definition run_worker :: "io_error option \<Rightarrow> 'k worker_env \<Rightarrow> nat \<Rightarrow> 'k worker_end option" where
  "run_worker runtime_error env fuel =
     (case runtime_error of Some e \<Rightarrow> Some (WorkerErr e) | None \<Rightarrow> worker_loop env fuel)"

section \<open>Running the server\<close>

text \<open>How joining a worker thread ends.\<close>

datatype joined = JoinedOk | JoinedErr io_error | JoinedPanic

definition join_worker :: "'k worker_end option \<Rightarrow> joined option" where
  "join_worker e =
     (case e of
        Some (WorkerOk wk) \<Rightarrow> Some JoinedOk
      | Some (WorkerErr err) \<Rightarrow> Some (JoinedErr err)
      | Some (WorkerPanic wk) \<Rightarrow> Some JoinedPanic
      | Some (WorkerStuck wk) \<Rightarrow> None
      | None \<Rightarrow> None)"

fun join_all :: "io_error option \<Rightarrow> joined list \<Rightarrow> io_error option" where
  "join_all first_error [] = first_error"
| "join_all first_error (JoinedOk # hs) = join_all first_error hs"
| "join_all first_error (JoinedErr e # hs) =
     join_all (if first_error = None then Some e else first_error) hs"
| "join_all first_error (JoinedPanic # hs) =
     join_all (if first_error = None then Some (OtherIo ''worker thread panicked'') else first_error) hs"

fun spawn_workers :: "(nat \<Rightarrow> io_error option) \<Rightarrow> nat list \<Rightarrow> io_error + nat list" where
  "spawn_workers spawn [] = Inr []"
| "spawn_workers spawn (worker_id # ws) =
     (case spawn worker_id of
        Some e \<Rightarrow> Inl e
      | None \<Rightarrow> (case spawn_workers spawn ws of Inl e \<Rightarrow> Inl e | Inr hs \<Rightarrow> Inr (worker_id # hs)))"

text \<open>The flag polled every 50 ms, at most \<open>fuel\<close> times.\<close>

fun wait_for_shutdown :: "(nat \<Rightarrow> bool) \<Rightarrow> nat \<Rightarrow> nat \<Rightarrow> bool" where
  "wait_for_shutdown flag 0 k = False"
| "wait_for_shutdown flag (Suc fuel) k = (if flag k then True else wait_for_shutdown flag fuel (Suc k))"

text \<open>
  \<open>spawn\<close> is the error of spawning a thread, \<open>join\<close> how joining it ends, nothing if it never
  does; the result is nothing when \<open>run\<close> has not returned.
\<close>

definition server_run ::
  "(nat \<Rightarrow> io_error option) \<Rightarrow> (nat \<Rightarrow> bool) \<Rightarrow> nat \<Rightarrow> (nat \<Rightarrow> joined option) \<Rightarrow> 'c ProxyServer \<Rightarrow>
     (io_error + unit) option" where
  "server_run spawn flag fuel join server =
     (case spawn_workers spawn [0..<px_worker_threads server] of
        Inl e \<Rightarrow> Some (Inl e)
      | Inr handles \<Rightarrow>
          if \<not> wait_for_shutdown flag fuel 0 then None
          else if list_ex (\<lambda>h. join h = None) handles then None
          else (case join_all None (map (\<lambda>h. the (join h)) handles) of
              Some e \<Rightarrow> Some (Inl e)
            | None \<Rightarrow> Some (Inr ())))"

end
