(* ===== verification/ServerFacts.thy ===== *)
theory ServerFacts
  imports Server
begin

text \<open>
  What the workers of the server do: the invariant of the accept loop, which configuration and
  which listener a connection is served under, when a worker and the server end.
\<close>

section \<open>Binding\<close>

lemma bind_loop_Inr:
  "bind_loop env n i opts ls = Inr states \<Longrightarrow>
     length states = length ls \<and>
     (\<forall>j<length ls. ls_name (states ! j) = lc_name (ls ! j) \<and>
        ls_tls_acceptor (states ! j) = tls_acceptor_for (we_tls env) (ls ! j))"
proof (induction ls arbitrary: i states)
  case (Cons l ls)
  then obtain st rest where st: "bind_listener env n i opts l = Inr st"
    and rest: "bind_loop env n (Suc i) opts ls = Inr rest" and states: "states = st # rest"
    by (auto split: sum.splits)
  have "ls_name st = lc_name l \<and> ls_tls_acceptor st = tls_acceptor_for (we_tls env) l"
    using st by (auto simp: bind_listener_def split: sum.splits)
  then show ?case using Cons.IH [OF rest] states
    by (auto simp: nth_Cons split: nat.split)
qed simp

lemma bind_listeners_Inr:
  assumes "bind_listeners env n opts c = Inr states" and "i < length (pc_listeners c)"
  shows "length states = length (pc_listeners c)"
    and "ls_name (states ! i) = lc_name (pc_listeners c ! i)"
    and "ls_tls_acceptor (states ! i) = tls_acceptor_for (we_tls env) (pc_listeners c ! i)"
  using bind_loop_Inr [of env n 0 opts "pc_listeners c" states] assms
  by (auto simp: bind_listeners_def)

lemma bind_listeners_length:
  "bind_listeners env n opts c = Inr states \<Longrightarrow> length states = length (pc_listeners c)"
  using bind_loop_Inr [of env n 0 opts "pc_listeners c" states] by (simp add: bind_listeners_def)

lemma build_pipelines_nth:
  "i < length (pc_listeners c) \<Longrightarrow>
     hc_listener_name (build_pipelines c pool r ! i) = lc_name (pc_listeners c ! i) \<and>
     hc_proxy_config (build_pipelines c pool r ! i) = c"
  by (simp add: build_pipelines_def build_pipeline_service_def)

lemma length_build_pipelines [simp]: "length (build_pipelines c pool r) = length (pc_listeners c)"
  by (simp add: build_pipelines_def)

section \<open>One pass over the listeners\<close>

primrec worker_of :: "'k progress \<Rightarrow> 'k worker" where
  "worker_of (Going wk) = wk"
| "worker_of (Left wk) = wk"
| "worker_of (Stuck wk) = wk"
| "worker_of (Crashed wk) = wk"

text \<open>The events that round \<open>k\<close> can add with the sockets \<open>S\<close> and the pipelines \<open>P\<close>.\<close>

fun event_from ::
  "nat \<Rightarrow> 'k ListenerState list \<Rightarrow> StdResolver pipeline list \<Rightarrow> connection_event \<Rightarrow> bool" where
  "event_from k S P (ServedTls k' i name p s) \<longleftrightarrow> k' = k \<and> i < length S \<and> i < length P \<and>
     name = ls_name (S ! i) \<and> p = P ! i \<and> ls_tls_acceptor (S ! i) \<noteq> None"
| "event_from k S P (ServedPlain k' i name p s) \<longleftrightarrow> k' = k \<and> i < length S \<and> i < length P \<and>
     name = ls_name (S ! i) \<and> p = P ! i \<and> ls_tls_acceptor (S ! i) = None"
| "event_from k S P (HandshakeFailed k' i name s) \<longleftrightarrow> k' = k \<and> i < length S \<and> i < length P \<and>
     name = ls_name (S ! i) \<and> ls_tls_acceptor (S ! i) \<noteq> None"
| "event_from k S P (Dropped k' i name s) \<longleftrightarrow> k' = k \<and> i < length S \<and> length P \<le> i \<and>
     name = ls_name (S ! i)"

lemma end_call_iff:
  "end_call e ev = Served ev' \<longleftrightarrow> e = CallReturns \<and> ev' = ev"
  "end_call e ev = ServePanics ev' \<longleftrightarrow> e = CallPanics \<and> ev' = ev"
  "end_call e ev = ServePending \<longleftrightarrow> e = CallPending"
  by (cases e; auto simp: end_call_def)+

lemma serve_connection_event:
  assumes "serve_connection env k i (S ! i) (P ! i) stream \<in> {Served ev, ServePanics ev}"
    and "i < length S" and "i < length P"
  shows "event_from k S P ev"
  using assms by (auto simp: serve_connection_def end_call_iff split: option.splits handshake.splits)

text \<open>One listener: the pass ends, is stuck, panics, or goes on with what the connection added.\<close>

lemma accept_loop_cases:
  assumes "i < length S"
  obtains "accept_loop env k i (S ! i # sts) wk = Going wk"
  | "accept_loop env k i (S ! i # sts) wk = Stuck (wk\<lparr>wk_in_flight := wk_in_flight wk + 1\<rparr>)"
  | ev where "accept_loop env k i (S ! i # sts) wk =
        Crashed (wk\<lparr>wk_trace := wk_trace wk @ [ev], wk_in_flight := wk_in_flight wk + 1\<rparr>)"
      "event_from k S (wk_pipelines wk) ev"
  | evs where "accept_loop env k i (S ! i # sts) wk =
        accept_loop env k (Suc i) sts (wk\<lparr>wk_trace := wk_trace wk @ evs\<rparr>)"
      "\<forall>ev\<in>set evs. event_from k S (wk_pipelines wk) ev"
proof (cases "we_shutdown env k (Suc i)")
  case True
  then show ?thesis using that(1) by simp
next
  case run: False
  show ?thesis
  proof (cases "accept_with_timeout (we_accept env k i) (we_nodelay_ok env) (ls_tcp_acceptor (S ! i))")
    case None
    with run show ?thesis using that(4) [of "[]"] by simp
  next
    case (Some conn)
    obtain stream addr where conn: "conn = (stream, addr)" by (cases conn)
    note acc = Some [unfolded conn]
    let ?serve = "serve_connection env k i (S ! i) (wk_pipelines wk ! i) stream"
    consider "\<not> i < length (wk_pipelines wk)"
      | "i < length (wk_pipelines wk)" "?serve = ServePending"
      | ev where "i < length (wk_pipelines wk)" "?serve = ServePanics ev"
      | ev where "i < length (wk_pipelines wk)" "?serve = Served ev"
      by (cases ?serve) auto
    then show ?thesis
    proof cases
      case 1
      with run acc assms show ?thesis using that(4) [of "[Dropped k i (ls_name (S ! i)) stream]"] by simp
    next
      case 2
      with run acc show ?thesis using that(2) by (simp add: Let_def)
    next
      case (3 ev)
      then have "event_from k S (wk_pipelines wk) ev" using serve_connection_event assms by blast
      with 3 run acc show ?thesis using that(3) [of ev] by (simp add: Let_def)
    next
      case (4 ev)
      then have "event_from k S (wk_pipelines wk) ev" using serve_connection_event assms by blast
      with 4 run acc show ?thesis using that(4) [of "[ev]"] by (simp add: Let_def)
    qed
  qed
qed

text \<open>What a pass that began with \<open>wk\<close> leaves.\<close>

definition passed :: "nat \<Rightarrow> 'k ListenerState list \<Rightarrow> 'k worker \<Rightarrow> 'k progress \<Rightarrow> bool" where
  "passed k S wk p \<longleftrightarrow>
     (\<exists>evs d. worker_of p = wk\<lparr>wk_trace := wk_trace wk @ evs, wk_in_flight := wk_in_flight wk + d\<rparr> \<and>
        (\<forall>ev\<in>set evs. event_from k S (wk_pipelines wk) ev) \<and>
        (\<forall>wk'. p = Going wk' \<longrightarrow> d = 0) \<and> (\<forall>wk'. p \<noteq> Left wk'))"

lemma passed_Going: "passed k S wk (Going wk)"
  unfolding passed_def by (intro exI [of _ "[]"] exI [of _ 0]) simp

lemma passed_Stuck: "passed k S wk (Stuck (wk\<lparr>wk_in_flight := wk_in_flight wk + 1\<rparr>))"
  unfolding passed_def by (intro exI [of _ "[]"] exI [of _ 1]) simp

lemma passed_Crashed:
  "event_from k S (wk_pipelines wk) ev \<Longrightarrow>
     passed k S wk (Crashed (wk\<lparr>wk_trace := wk_trace wk @ [ev], wk_in_flight := wk_in_flight wk + 1\<rparr>))"
  unfolding passed_def by (intro exI [of _ "[ev]"] exI [of _ 1]) simp

lemma passed_more:
  assumes "passed k S (wk\<lparr>wk_trace := wk_trace wk @ evs\<rparr>) p"
    and "\<forall>ev\<in>set evs. event_from k S (wk_pipelines wk) ev"
  shows "passed k S wk p"
proof -
  from assms(1) obtain evs' d where
    "worker_of p = wk\<lparr>wk_trace := (wk_trace wk @ evs) @ evs', wk_in_flight := wk_in_flight wk + d\<rparr>"
    and rest: "\<forall>ev\<in>set evs'. event_from k S (wk_pipelines wk) ev"
      "\<forall>wk'. p = Going wk' \<longrightarrow> d = 0" "\<forall>wk'. p \<noteq> Left wk'"
    by (auto simp: passed_def)
  then show ?thesis using assms(2) unfolding passed_def
    by (intro exI [of _ "evs @ evs'"] exI [of _ d]) auto
qed

lemma accept_loop_passed: "passed k S wk (accept_loop env k i (drop i S) wk)"
proof (induction "length S - i" arbitrary: i wk)
  case 0
  then show ?case by (simp add: passed_Going)
next
  case (Suc n)
  then have i: "i < length S" by simp
  then have drop_i: "drop i S = S ! i # drop (Suc i) S" by (simp add: Cons_nth_drop_Suc)
  from i show ?case unfolding drop_i
  proof (rule accept_loop_cases [of i S env k "drop (Suc i) S" wk])
    fix evs
    assume step: "accept_loop env k i (S ! i # drop (Suc i) S) wk =
        accept_loop env k (Suc i) (drop (Suc i) S) (wk\<lparr>wk_trace := wk_trace wk @ evs\<rparr>)"
      and evs: "\<forall>ev\<in>set evs. event_from k S (wk_pipelines wk) ev"
    have "passed k S (wk\<lparr>wk_trace := wk_trace wk @ evs\<rparr>)
        (accept_loop env k (Suc i) (drop (Suc i) S) (wk\<lparr>wk_trace := wk_trace wk @ evs\<rparr>))"
      using Suc by simp
    then show "passed k S wk (accept_loop env k i (S ! i # drop (Suc i) S) wk)"
      unfolding step using evs by (rule passed_more)
  qed (simp_all only: passed_Going passed_Stuck passed_Crashed)
qed

section \<open>The invariant of the loop\<close>

abbreviation config_at :: "'k worker_env \<Rightarrow> nat \<Rightarrow> ProxyConfig" where
  "config_at env n \<equiv> snd (we_config env n)"

abbreviation pipelines_for :: "ProxyConfig \<Rightarrow> StdResolver pipeline list" where
  "pipelines_for c \<equiv> build_pipelines c new_tcp_pool StdResolver"

abbreviation bind_at :: "'k worker_env \<Rightarrow> nat \<Rightarrow> io_error + 'k ListenerState list" where
  "bind_at env n \<equiv> bind_listeners env n listener_opts_default (config_at env n)"

text \<open>No address is ever given to two configurations; every binding succeeds.\<close>

definition ptr_stable :: "'k worker_env \<Rightarrow> bool" where
  "ptr_stable env \<longleftrightarrow> (\<forall>m n. fst (we_config env m) = fst (we_config env n) \<longrightarrow> config_at env m = config_at env n)"

lemma ptr_stableD:
  "ptr_stable env \<Longrightarrow> fst (we_config env m) = fst (we_config env n) \<Longrightarrow> config_at env m = config_at env n"
  unfolding ptr_stable_def by blast

definition binds_ok :: "'k worker_env \<Rightarrow> bool" where
  "binds_ok env \<longleftrightarrow> (\<forall>n. \<exists>S. bind_at env n = Inr S)"

text \<open>
  The sockets in use at load \<open>n\<close> are those of some earlier load, one with the address of load
  \<open>n\<close> if binding always succeeds; the pipelines are those of a load with that address.
\<close>

definition sockets_of :: "'k worker_env \<Rightarrow> nat \<Rightarrow> 'k ListenerState list \<Rightarrow> bool" where
  "sockets_of env n S \<longleftrightarrow> (\<exists>m\<le>n. bind_at env m = Inr S \<and>
     (binds_ok env \<longrightarrow> fst (we_config env m) = fst (we_config env n)))"

definition pipelines_of :: "'k worker_env \<Rightarrow> nat \<Rightarrow> StdResolver pipeline list \<Rightarrow> bool" where
  "pipelines_of env n P \<longleftrightarrow>
     (\<exists>m\<le>n. fst (we_config env m) = fst (we_config env n) \<and> P = pipelines_for (config_at env m))"

definition event_ok :: "'k worker_env \<Rightarrow> connection_event \<Rightarrow> bool" where
  "event_ok env ev \<longleftrightarrow>
     (\<exists>k S P. event_from k S P ev \<and> sockets_of env (Suc k) S \<and> pipelines_of env (Suc k) P)"

definition worker_inv :: "'k worker_env \<Rightarrow> nat \<Rightarrow> 'k worker \<Rightarrow> bool" where
  "worker_inv env n wk \<longleftrightarrow> wk_in_flight wk = 0 \<and> wk_config_ptr wk = fst (we_config env n) \<and>
     sockets_of env n (wk_listener_states wk) \<and> pipelines_of env n (wk_pipelines wk) \<and>
     (\<forall>ev\<in>set (wk_trace wk). event_ok env ev)"

lemma worker_inv_start:
  assumes "bind_at env 0 = Inr S"
  shows "worker_inv env 0 (worker_start env S)"
  using assms by (auto simp: worker_inv_def worker_start_def sockets_of_def pipelines_of_def)

lemma sockets_of_same: "sockets_of env n S \<Longrightarrow> fst (we_config env (Suc n)) = fst (we_config env n) \<Longrightarrow> sockets_of env (Suc n) S"
  unfolding sockets_of_def by (metis le_Suc_eq)

lemma pipelines_of_same: "pipelines_of env n P \<Longrightarrow> fst (we_config env (Suc n)) = fst (we_config env n) \<Longrightarrow> pipelines_of env (Suc n) P"
  unfolding pipelines_of_def by (metis le_Suc_eq)

lemma worker_inv_same:
  "worker_inv env n wk \<Longrightarrow> fst (we_config env (Suc n)) = wk_config_ptr wk \<Longrightarrow> worker_inv env (Suc n) wk"
  by (auto simp: worker_inv_def sockets_of_same pipelines_of_same)

lemma worker_inv_reload:
  assumes "worker_inv env n wk"
  shows "worker_inv env (Suc n) (reload env (Suc n) listener_opts_default new_tcp_pool StdResolver wk)"
proof -
  obtain ptr c where pc: "we_config env (Suc n) = (ptr, c)" by (cases "we_config env (Suc n)")
  have "sockets_of env (Suc n) (wk_listener_states
      (reload env (Suc n) listener_opts_default new_tcp_pool StdResolver wk))"
  proof (cases "bind_at env (Suc n)")
    case (Inr S)
    then show ?thesis using pc by (auto simp: reload_def listeners_differ_arcs_def sockets_of_def)
  next
    case (Inl e)
    then have "\<not> binds_ok env" unfolding binds_ok_def by (metis sum.distinct(1))
    moreover obtain m where "m \<le> n" "bind_at env m = Inr (wk_listener_states wk)"
      using assms by (auto simp: worker_inv_def sockets_of_def)
    ultimately show ?thesis using Inl pc
      by (auto simp: reload_def listeners_differ_arcs_def sockets_of_def intro: exI [of _ m])
  qed
  then show ?thesis using assms pc
    by (auto simp: worker_inv_def reload_def pipelines_of_def)
qed

text \<open>A pass over the listeners from a state that satisfies the invariant.\<close>

lemma accept_pass_inv:
  assumes inv: "worker_inv env (Suc k) wk" and p: "p = accept_loop env k 0 (wk_listener_states wk) wk"
  shows "\<forall>ev\<in>set (wk_trace (worker_of p)). event_ok env ev"
    and "p = Going wk' \<Longrightarrow> worker_inv env (Suc k) wk'" and "p \<noteq> Left wk'"
proof -
  have "passed k (wk_listener_states wk) wk p"
    using accept_loop_passed [of k "wk_listener_states wk" wk env 0] p by simp
  then obtain evs d where w: "worker_of p = wk\<lparr>wk_trace := wk_trace wk @ evs, wk_in_flight := wk_in_flight wk + d\<rparr>"
    and evs: "\<forall>ev\<in>set evs. event_from k (wk_listener_states wk) (wk_pipelines wk) ev"
    and d: "\<forall>wk'. p = Going wk' \<longrightarrow> d = 0" and l: "\<forall>wk'. p \<noteq> Left wk'"
    by (auto simp: passed_def)
  have new: "event_ok env ev" if "ev \<in> set evs" for ev
    using evs inv that unfolding event_ok_def worker_inv_def by blast
  then show tr: "\<forall>ev\<in>set (wk_trace (worker_of p)). event_ok env ev"
    using w inv by (auto simp: worker_inv_def)
  show "worker_inv env (Suc k) wk'" if "p = Going wk'"
    using that d w new inv by (auto simp: worker_inv_def)
  show "p \<noteq> Left wk'" using l by simp
qed

lemma worker_round_inv:
  assumes inv: "worker_inv env k wk"
    and p: "p = worker_round env listener_opts_default new_tcp_pool StdResolver k wk"
  shows "\<forall>ev\<in>set (wk_trace (worker_of p)). event_ok env ev"
    and "p = Going wk' \<Longrightarrow> worker_inv env (Suc k) wk'"
    and "p = Left wk' \<Longrightarrow> wk_in_flight wk' = 0"
proof -
  let ?r = "reload env (Suc k) listener_opts_default new_tcp_pool StdResolver wk"
  consider "p = Left wk" | "p = Left ?r"
    | w where "worker_inv env (Suc k) w" "p = accept_loop env k 0 (wk_listener_states w) w"
    using p worker_inv_same [OF inv] worker_inv_reload [OF inv]
    by (simp add: worker_round_def Let_def split: if_splits)
  then have "(\<forall>ev\<in>set (wk_trace (worker_of p)). event_ok env ev) \<and>
      (\<forall>wk'. p = Going wk' \<longrightarrow> worker_inv env (Suc k) wk') \<and> (\<forall>wk'. p = Left wk' \<longrightarrow> wk_in_flight wk' = 0)"
  proof cases
    case 1
    with inv show ?thesis by (simp add: worker_inv_def)
  next
    case 2
    with worker_inv_reload [OF inv] show ?thesis by (simp add: worker_inv_def)
  next
    case (3 w)
    from accept_pass_inv [OF 3] show ?thesis by blast
  qed
  then show "\<forall>ev\<in>set (wk_trace (worker_of p)). event_ok env ev"
    and "p = Going wk' \<Longrightarrow> worker_inv env (Suc k) wk'"
    and "p = Left wk' \<Longrightarrow> wk_in_flight wk' = 0" by blast+
qed

primrec end_trace :: "'k worker_end \<Rightarrow> connection_event list" where
  "end_trace (WorkerOk wk) = wk_trace wk"
| "end_trace (WorkerErr e) = []"
| "end_trace (WorkerStuck wk) = wk_trace wk"
| "end_trace (WorkerPanic wk) = wk_trace wk"

lemma worker_rounds_events:
  assumes "worker_inv env k wk"
    and "worker_rounds env listener_opts_default new_tcp_pool StdResolver fuel k wk = Some e"
  shows "\<forall>ev\<in>set (end_trace e). event_ok env ev"
  using assms
proof (induction fuel arbitrary: k wk)
  case (Suc fuel)
  let ?p = "worker_round env listener_opts_default new_tcp_pool StdResolver k wk"
  note inv = worker_round_inv [OF Suc.prems(1) refl]
  show ?case
  proof (cases ?p)
    case (Going wk')
    with Suc inv(2) show ?thesis by simp
  qed (use Suc.prems(2) inv(1) in \<open>auto simp: drain_def split: if_splits\<close>)
qed simp

lemma worker_loop_events:
  assumes "worker_loop env fuel = Some e"
  shows "\<forall>ev\<in>set (end_trace e). event_ok env ev"
proof (cases "bind_at env 0")
  case (Inl err)
  with assms show ?thesis by (auto simp: worker_loop_def)
next
  case (Inr S)
  show ?thesis
  proof (cases "S = []")
    case True
    with Inr assms show ?thesis by (auto simp: worker_loop_def worker_start_def)
  next
    case False
    with Inr assms show ?thesis
      using worker_rounds_events [OF worker_inv_start [OF Inr]] by (simp add: worker_loop_def)
  qed
qed

section \<open>Ending\<close>

text \<open>Every connection that is accepted ends at some time, well or with a panic.\<close>

definition connections_end :: "'k worker_env \<Rightarrow> bool" where
  "connections_end env \<longleftrightarrow> (\<forall>k i p. we_served env k i p \<noteq> CallPending) \<and> (\<forall>a s. we_handshake env a s \<noteq> HsPending)"

lemma serve_connection_ends: "connections_end env \<Longrightarrow> serve_connection env k i st p s \<noteq> ServePending"
  by (auto simp: connections_end_def serve_connection_def end_call_iff split: option.split handshake.split)

lemma accept_loop_ends: "connections_end env \<Longrightarrow> accept_loop env k i sts wk \<noteq> Stuck wk'"
proof (induction sts arbitrary: i wk)
  case (Cons st sts)
  have "(case serve_connection env k i st (wk_pipelines wk ! i) s of ServePending \<Rightarrow> Stuck w
      | ServePanics ev \<Rightarrow> Crashed (g ev) | Served ev \<Rightarrow> accept_loop env k (Suc i) sts (f ev)) \<noteq> Stuck wk'" for s w f g
    using serve_connection_ends [OF Cons.prems, of k i st "wk_pipelines wk ! i" s] Cons
    by (simp split: serving.split)
  with Cons show ?case by (auto simp: Let_def split: option.split)
qed simp

lemma worker_round_ends:
  "connections_end env \<Longrightarrow> worker_round env opts pool r k wk \<noteq> Stuck wk'"
  by (simp add: worker_round_def Let_def accept_loop_ends)

lemma worker_rounds_end:
  assumes "connections_end env" and "we_shutdown env n 0" and "worker_inv env k wk" and "k \<le> n" and "n < k + fuel"
  shows "\<exists>wk'. worker_rounds env listener_opts_default new_tcp_pool StdResolver fuel k wk \<in>
    {Some (WorkerOk wk'), Some (WorkerPanic wk')}"
  using assms(3-5)
proof (induction fuel arbitrary: k wk)
  case (Suc fuel)
  let ?p = "worker_round env listener_opts_default new_tcp_pool StdResolver k wk"
  note inv = worker_round_inv [OF Suc.prems(1) refl]
  show ?case
  proof (cases ?p)
    case (Going wk')
    with assms(2) Suc.prems have "k \<noteq> n" by (auto simp: worker_round_def)
    with Going Suc inv(2) show ?thesis by simp
  next
    case (Left wk')
    with inv(3) show ?thesis by (simp add: drain_def)
  next
    case (Stuck wk')
    with worker_round_ends [OF assms(1)] show ?thesis by blast
  qed simp
qed simp

text \<open>What an event says of a connection that reached a pipeline: round, position of the listener,
  name of the socket's listener, pipeline, and whether TLS was terminated.\<close>

fun served_as :: "connection_event \<Rightarrow> (nat \<times> nat \<times> string \<times> StdResolver pipeline \<times> bool) option" where
  "served_as (ServedTls k i name p s) = Some (k, i, name, p, True)"
| "served_as (ServedPlain k i name p s) = Some (k, i, name, p, False)"
| "served_as _ = None"

text \<open>A worker that panics does so in the last connection of its trace.\<close>

definition panicked :: "'k worker_env \<Rightarrow> connection_event list \<Rightarrow> bool" where
  "panicked env tr \<longleftrightarrow> (\<exists>evs ev k i name p tls. tr = evs @ [ev] \<and> served_as ev = Some (k, i, name, p, tls) \<and>
     we_served env k i p = CallPanics)"

lemma serve_connection_panics:
  "serve_connection env k i st p s = ServePanics ev \<Longrightarrow> panicked env (evs @ [ev])"
  by (auto simp: serve_connection_def panicked_def end_call_iff split: option.splits handshake.splits)

lemma accept_loop_Crashed:
  "accept_loop env k i sts wk = Crashed wk' \<Longrightarrow> panicked env (wk_trace wk')"
proof (induction sts arbitrary: i wk)
  case (Cons st sts)
  then show ?case
    by (auto simp: Let_def split: if_splits option.splits serving.splits) (erule serve_connection_panics)
qed simp

lemma worker_rounds_panic:
  "worker_rounds env opts pool r fuel k wk = Some (WorkerPanic wk') \<Longrightarrow> panicked env (wk_trace wk')"
proof (induction fuel arbitrary: k wk)
  case (Suc fuel)
  then show ?case
    by (auto simp: worker_round_def Let_def drain_def dest: accept_loop_Crashed split: progress.splits if_splits)
qed simp

lemma worker_loop_panic:
  "worker_loop env fuel = Some (WorkerPanic wk) \<Longrightarrow> panicked env (wk_trace wk)"
  by (auto simp: worker_loop_def dest: worker_rounds_panic split: sum.splits if_splits)

section \<open>Properties\<close>

lemma served_event_from:
  "event_from k S P ev \<Longrightarrow> served_as ev = Some (k', i, name, p, tls) \<Longrightarrow>
   k' = k \<and> i < length S \<and> i < length P \<and> name = ls_name (S ! i) \<and> p = P ! i \<and>
   (tls \<longleftrightarrow> ls_tls_acceptor (S ! i) \<noteq> None)"
  by (cases ev) auto

lemma event_served:
  assumes "ptr_stable env" and "event_ok env ev" and "served_as ev = Some (k, i, name, p, tls)"
  shows "i < length (pc_listeners (config_at env (Suc k))) \<and>
    p = pipelines_for (config_at env (Suc k)) ! i \<and>
    hc_proxy_config p = config_at env (Suc k) \<and>
    hc_listener_name p = lc_name (pc_listeners (config_at env (Suc k)) ! i) \<and>
    (binds_ok env \<longrightarrow> name = hc_listener_name p \<and>
       (tls \<longleftrightarrow> tls_acceptor_for (we_tls env) (pc_listeners (config_at env (Suc k)) ! i) \<noteq> None))"
proof -
  let ?c = "config_at env (Suc k)"
  from assms(2) obtain k' S P where orig: "event_from k' S P ev"
    and S: "sockets_of env (Suc k') S" and P: "pipelines_of env (Suc k') P"
    by (auto simp: event_ok_def)
  note ev = served_event_from [OF orig assms(3)]
  from ev have k: "k = k'" and iS: "i < length S" "i < length P" "p = P ! i" "name = ls_name (S ! i)"
    "tls \<longleftrightarrow> ls_tls_acceptor (S ! i) \<noteq> None" by auto
  from P obtain m where m: "fst (we_config env m) = fst (we_config env (Suc k))"
    "P = pipelines_for (config_at env m)" by (auto simp: pipelines_of_def k)
  have P_eq: "P = pipelines_for ?c" using ptr_stableD [OF assms(1) m(1)] m(2) by simp
  with iS have i: "i < length (pc_listeners ?c)" and p: "p = pipelines_for ?c ! i" by simp_all
  have "name = lc_name (pc_listeners ?c ! i) \<and> (tls \<longleftrightarrow> tls_acceptor_for (we_tls env) (pc_listeners ?c ! i) \<noteq> None)"
    if "binds_ok env"
  proof -
    from S that obtain m where m: "bind_at env m = Inr S" "fst (we_config env m) = fst (we_config env (Suc k))"
      by (auto simp: sockets_of_def k)
    have "bind_listeners env m listener_opts_default ?c = Inr S"
      using m(1) ptr_stableD [OF assms(1) m(2)] by simp
    from bind_listeners_Inr [OF this i] iS show ?thesis by simp
  qed
  with i p build_pipelines_nth [OF i] show ?thesis by simp
qed

text \<open>C6: a worker serves with the configuration that is current. If no configuration is ever
  given the address of an earlier one, then every connection that a worker serves in a round, however the
  worker ends, is served by the pipeline of a listener of the configuration loaded in that very
  round, which routes with that configuration. If binding never fails either, then it was accepted on the
  socket bound for that same listener, and TLS was terminated exactly when an acceptor could be
  built for that listener.\<close>

theorem connections_served_by_current_config:
  assumes "ptr_stable env" and "worker_loop env fuel = Some e"
    and "ev \<in> set (end_trace e)" and "served_as ev = Some (k, i, name, p, tls)"
  shows "i < length (pc_listeners (config_at env (Suc k))) \<and>
    p = pipelines_for (config_at env (Suc k)) ! i \<and>
    hc_proxy_config p = config_at env (Suc k) \<and>
    hc_listener_name p = lc_name (pc_listeners (config_at env (Suc k)) ! i) \<and>
    (binds_ok env \<longrightarrow> name = hc_listener_name p \<and>
       (tls \<longleftrightarrow> tls_acceptor_for (we_tls env) (pc_listeners (config_at env (Suc k)) ! i) \<noteq> None))"
  using event_served [OF assms(1) _ assms(4)] worker_loop_events [OF assms(2)] assms(3) by blast

text \<open>
  A worker stops when it is told to: if every accepted connection ends, a worker that finds the flag
  set at the head of some round has ended by then.
\<close>

definition ended_well :: "'k worker_env \<Rightarrow> 'k worker_end \<Rightarrow> bool" where
  "ended_well env e \<longleftrightarrow>
     (case e of
        WorkerOk wk \<Rightarrow> wk_in_flight wk = 0
      | WorkerErr err \<Rightarrow> bind_at env 0 = Inl err
      | WorkerPanic wk \<Rightarrow> panicked env (wk_trace wk)
      | WorkerStuck wk \<Rightarrow> False)"

lemma worker_rounds_ok:
  "worker_rounds env opts pool r f k w = Some (WorkerOk wk') \<Longrightarrow> wk_in_flight wk' = 0"
  by (induction f arbitrary: k w) (auto simp: drain_def split: progress.splits if_splits)

lemma worker_loop_stops:
  assumes "connections_end env" and "we_shutdown env n 0"
  shows "\<exists>e. worker_loop env (Suc n) = Some e \<and> ended_well env e"
proof (cases "bind_at env 0")
  case (Inl err)
  then show ?thesis by (simp add: worker_loop_def ended_well_def)
next
  case (Inr S)
  show ?thesis
  proof (cases "S = []")
    case True
    with Inr show ?thesis by (simp add: worker_loop_def worker_start_def ended_well_def)
  next
    case False
    from worker_rounds_end [OF assms worker_inv_start [OF Inr], of "Suc n"] obtain wk' where
      "worker_rounds env listener_opts_default new_tcp_pool StdResolver (Suc n) 0 (worker_start env S) \<in>
        {Some (WorkerOk wk'), Some (WorkerPanic wk')}" by auto
    with False Inr show ?thesis
      by (auto simp: worker_loop_def ended_well_def simp del: worker_rounds.simps
          dest: worker_rounds_ok worker_rounds_panic)
  qed
qed

section \<open>Concrete workers\<close>

text \<open>One HTTP listener, one connection in the first round, shutdown at the second.\<close>

definition demo_tls_ops :: "nat tls_ops" where
  "demo_tls_ops = \<lparr>tl_certs = \<lambda>pem. [Inr pem], tl_private_key = \<lambda>pem. Inr (Some pem), tl_versions = None,
     tl_single_cert = \<lambda>chain key. None, tl_from_der = \<lambda>chain key. Inr (length chain),
     tl_sni_add = \<lambda>entries h ck. None\<rparr>"

definition demo_worker_env :: "(nat \<Rightarrow> nat \<times> ProxyConfig) \<Rightarrow> (nat \<Rightarrow> io_error + nat) \<Rightarrow> nat worker_env" where
  "demo_worker_env configs binds = \<lparr>we_config = configs, we_shutdown = \<lambda>k j. k \<ge> 1, we_tls = demo_tls_ops,
     we_monoio = \<lparr>mo_reuse_port = True, mo_reuse_addr = True, mo_backlog = 1024, mo_send_buf_size = None,
       mo_recv_buf_size = None\<rparr>,
     we_bind = \<lambda>n i addr opts. binds n, we_local_addr = \<lambda>l. Inr [], we_info_enabled = False,
     we_port_addr = \<lambda>port. [], we_accept = \<lambda>k i. Some (\<lambda>l. Inr (\<lparr>st_fd = 7, st_nodelay = False\<rparr>, [])),
     we_nodelay_ok = \<lambda>s. True, we_handshake = \<lambda>a s. HsDone, we_served = \<lambda>k i p. CallReturns\<rparr>"

definition demo_listener_config :: "string \<Rightarrow> ProxyConfig" where
  "demo_listener_config name = with_http_listener proxy_config_default name 80 None"

lemmas demo_worker_simps = demo_worker_env_def demo_listener_config_def with_http_listener_def
  proxy_config_default_def listener_http_def worker_loop_def bind_listeners_def bind_listener_def tcp_bind_def
  tls_acceptor_for_def worker_round_def worker_start_def accept_with_timeout_def tcp_accept_def
  serve_connection_def end_call_def drain_def build_pipelines_def build_pipeline_service_def

lemma demo_worker_run:
  "\<exists>wk p. worker_loop (demo_worker_env (\<lambda>n. (0, demo_listener_config ''a'')) (\<lambda>n. Inr n)) 2 = Some (WorkerOk wk) \<and>
     wk_trace wk = [ServedPlain 0 0 ''a'' p \<lparr>st_fd = 7, st_nodelay = True\<rparr>]"
  by (simp add: demo_worker_simps numeral_2_eq_2 listener_opts_default_def)

lemma demo_worker_stable: "ptr_stable (demo_worker_env (\<lambda>n. (0, c)) b)"
  by (simp add: ptr_stable_def demo_worker_env_def)

theorem connections_served_by_current_config_witness:
  "\<exists>p :: StdResolver pipeline. hc_proxy_config p = demo_listener_config ''a'' \<and> hc_listener_name p = ''a''"
proof -
  let ?env = "demo_worker_env (\<lambda>n. (0, demo_listener_config ''a'')) (\<lambda>n. Inr n)"
  obtain wk p where run: "worker_loop ?env 2 = Some (WorkerOk wk)"
    and tr: "wk_trace wk = [ServedPlain 0 0 ''a'' p \<lparr>st_fd = 7, st_nodelay = True\<rparr>]"
    using demo_worker_run by blast
  have mem: "ServedPlain 0 0 ''a'' p \<lparr>st_fd = 7, st_nodelay = True\<rparr> \<in> set (end_trace (WorkerOk wk))"
    using tr by simp
  have cfg: "config_at ?env (Suc 0) = demo_listener_config ''a''" by (simp add: demo_worker_env_def)
  have name: "lc_name (pc_listeners (demo_listener_config ''a'') ! 0) = ''a''"
    by (simp add: demo_listener_config_def with_http_listener_def listener_http_def proxy_config_default_def)
  from connections_served_by_current_config [OF demo_worker_stable run mem served_as.simps(2)]
  have "hc_proxy_config p = demo_listener_config ''a'' \<and> hc_listener_name p = ''a''"
    unfolding cfg name by blast
  then show ?thesis by blast
qed

lemma demo_switch_stable:
  "ptr_stable (demo_worker_env (\<lambda>n. if n = 0 then (0, c) else (1, d)) b)"
  unfolding ptr_stable_def
proof (intro allI impI)
  fix m n
  let ?f = "we_config (demo_worker_env (\<lambda>n. if n = 0 then (0, c) else (1, d)) b)"
  have f: "?f k = (if k = 0 then (0, c) else (1, d))" for k by (simp add: demo_worker_env_def)
  assume "fst (?f m) = fst (?f n)"
  then show "snd (?f m) = snd (?f n)" unfolding f by (cases "m = 0"; cases "n = 0") simp_all
qed


section \<open>Plain HTTP, and the server's result\<close>

text \<open>C16: what an HTTPS port falls back to. A listener has no TLS acceptor exactly when it is not an HTTPS
  listener, has no TLS configuration, passes TLS through, or its acceptor cannot be built; and
  then the pipeline serves each connection in plain HTTP on the bound port.\<close>

theorem no_acceptor_serves_plain_http:
  "(tls_acceptor_for (we_tls env) l = None \<longleftrightarrow>
      lc_protocol l = Http \<or> lc_tls l = None \<or>
      (\<exists>t. lc_tls l = Some t \<and> (tls_mode t = Passthrough \<or> (\<exists>e. build_tls_acceptor (we_tls env) t = Inl e)))) \<and>
   (bind_listener env n i opts l = Inr st \<and> tls_acceptor_for (we_tls env) l = None \<and> we_served env k i p = CallReturns \<longrightarrow>
      serve_connection env k i st p s = Served (ServedPlain k i (lc_name l) p s))"
proof -
  have pass: "build_tls_acceptor (we_tls env) t = Inr None \<longleftrightarrow> tls_mode t = Passthrough" for t
    by (simp add: build_tls_acceptor_def split: sum.split)
  have acceptor: "tls_acceptor_for (we_tls env) l = None \<longleftrightarrow>
      lc_protocol l = Http \<or> lc_tls l = None \<or>
      (\<exists>t. lc_tls l = Some t \<and> (tls_mode t = Passthrough \<or> (\<exists>e. build_tls_acceptor (we_tls env) t = Inl e)))"
    by (cases "lc_protocol l"; cases "lc_tls l"; cases "build_tls_acceptor (we_tls env) (the (lc_tls l))")
      (auto simp: tls_acceptor_for_def simp flip: pass)
  show ?thesis
    by (rule conjI [OF acceptor]) (auto simp: bind_listener_def serve_connection_def end_call_def split: sum.splits)
qed

theorem no_acceptor_serves_plain_http_witness:
  "\<exists>st. bind_listener (demo_worker_env (\<lambda>n. (0, demo_listener_config ''a'')) (\<lambda>n. Inr n)) 0 0 listener_opts_default
     (listener_https ''s'' 443 None \<lparr>tls_mode = Terminate, tls_certificates = [], tls_inline_certificates = []\<rparr>) = Inr st \<and>
   serve_connection (demo_worker_env (\<lambda>n. (0, demo_listener_config ''a'')) (\<lambda>n. Inr n)) 0 0 st
     (pipelines_for (demo_listener_config ''a'') ! 0) \<lparr>st_fd = 1, st_nodelay = True\<rparr> =
     Served (ServedPlain 0 0 ''s'' (pipelines_for (demo_listener_config ''a'') ! 0) \<lparr>st_fd = 1, st_nodelay = True\<rparr>)"
proof -
  let ?env = "demo_worker_env (\<lambda>n. (0, demo_listener_config ''a'')) (\<lambda>n. Inr n)"
  let ?l = "listener_https ''s'' 443 None \<lparr>tls_mode = Terminate, tls_certificates = [], tls_inline_certificates = []\<rparr>"
  obtain st where st: "bind_listener ?env 0 0 listener_opts_default ?l = Inr st"
    by (simp add: demo_worker_env_def bind_listener_def tcp_bind_def)
  moreover have "tls_acceptor_for (we_tls ?env) ?l = None" "we_served ?env 0 0 (pipelines_for (demo_listener_config ''a'') ! 0) = CallReturns" "lc_name ?l = ''s''"
    by (simp_all add: tls_acceptor_for_def listener_https_def build_tls_acceptor_def demo_worker_env_def)
  ultimately show ?thesis
    using no_acceptor_serves_plain_http [of ?env ?l 0 0 listener_opts_default st 0
      "pipelines_for (demo_listener_config ''a'') ! 0" "\<lparr>st_fd = 1, st_nodelay = True\<rparr>"] by auto
qed

fun join_error :: "joined \<Rightarrow> io_error option" where
  "join_error JoinedOk = None"
| "join_error (JoinedErr e) = Some e"
| "join_error JoinedPanic = Some (OtherIo ''worker thread panicked'')"

lemma join_all_first:
  "join_all first hs = (case first of Some e \<Rightarrow> Some e
     | None \<Rightarrow> (case List.map_filter join_error hs of [] \<Rightarrow> None | e # _ \<Rightarrow> Some e))"
proof (induction hs arbitrary: first)
  case (Cons h hs)
  then show ?case by (cases h; cases first) (simp_all add: map_filter_simps)
qed (simp add: map_filter_simps split: option.split)

lemma spawn_workers_find:
  "spawn_workers spawn ws =
     (case find (\<lambda>w. spawn w \<noteq> None) ws of Some w \<Rightarrow> Inl (the (spawn w)) | None \<Rightarrow> Inr ws)"
  by (induction ws) (auto split: option.splits)

lemma wait_for_shutdown_iff: "wait_for_shutdown flag fuel k \<longleftrightarrow> list_ex flag [k..<k + fuel]"
proof (induction fuel arbitrary: k)
  case (Suc fuel)
  have "[k..<k + Suc fuel] = k # [Suc k..<Suc k + fuel]" by (simp add: upt_conv_Cons)
  with Suc show ?case by simp
qed simp

text \<open>C23: what running the server returns. The first thread that cannot be spawned is the error, at once.
  Otherwise nothing is returned before the flag is seen and every worker has ended, and then the
  error of the first worker, in the order of their numbers, that failed or panicked, or success when
  all of them ended well.\<close>

theorem server_run_spec:
  "server_run spawn flag fuel join server =
     (case find (\<lambda>w. spawn w \<noteq> None) [0..<px_worker_threads server] of
        Some w \<Rightarrow> Some (Inl (the (spawn w)))
      | None \<Rightarrow>
          if list_ex flag [0..<fuel] \<and> list_all (\<lambda>w. join w \<noteq> None) [0..<px_worker_threads server]
          then Some (case List.map_filter join_error (map (\<lambda>w. the (join w)) [0..<px_worker_threads server]) of
              [] \<Rightarrow> Inr ()
            | e # _ \<Rightarrow> Inl e)
          else None)"
  by (simp add: server_run_def spawn_workers_find wait_for_shutdown_iff join_all_first list_ex_iff list_all_iff
      split: option.split list.split)

text \<open>C9: the server stops when it is told to. When the shutdown flag is seen by the main thread and,
  in some round, by every worker, and every accepted connection ends, then \<open>run\<close> returns: with
  success, or with the error of a worker whose runtime could not be built, whose first binding
  failed, or in which a connection panicked. No worker is left waiting for connections in flight.\<close>

theorem server_stops_on_shutdown:
  assumes "\<forall>w < px_worker_threads server. spawn w = None \<and> connections_end (env w) \<and> we_shutdown (env w) (round w) 0"
    and "t < fuel" and "flag t"
  shows "\<exists>r. server_run spawn flag fuel (\<lambda>w. join_worker (run_worker (rt w) (env w) (Suc (round w)))) server = Some r \<and>
    (case r of
       Inr _ \<Rightarrow> True
     | Inl err \<Rightarrow> \<exists>w < px_worker_threads server. rt w = Some err \<or> bind_at (env w) 0 = Inl err \<or>
         (err = OtherIo ''worker thread panicked'' \<and> (\<exists>k i p. we_served (env w) k i p = CallPanics)))"
proof -
  let ?n = "px_worker_threads server"
  let ?join = "\<lambda>w. join_worker (run_worker (rt w) (env w) (Suc (round w)))"
  have joined: "\<exists>j. ?join w = Some j \<and> (case join_error j of None \<Rightarrow> True
      | Some err \<Rightarrow> rt w = Some err \<or> bind_at (env w) 0 = Inl err \<or>
          (err = OtherIo ''worker thread panicked'' \<and> (\<exists>k i p. we_served (env w) k i p = CallPanics)))"
    if "w < ?n" for w
  proof (cases "rt w")
    case (Some err)
    then show ?thesis by (simp add: run_worker_def join_worker_def)
  next
    case None
    from that assms(1) obtain e where e: "worker_loop (env w) (Suc (round w)) = Some e" "ended_well (env w) e"
      using worker_loop_stops by blast
    from e(2) show ?thesis using None e(1)
      by (cases e) (auto simp: run_worker_def join_worker_def ended_well_def panicked_def)
  qed
  define js where "js = map (\<lambda>w. the (?join w)) [0..<?n]"
  have spawned: "spawn_workers spawn [0..<?n] = Inr [0..<?n]"
    using assms(1) by (auto simp: spawn_workers_find find_None_iff split: option.split)
  have "list_ex flag [0..<0 + fuel]" using assms(2,3) by (auto simp: list_ex_iff)
  moreover have "\<not> list_ex (\<lambda>h. ?join h = None) [0..<?n]" using joined by (fastforce simp: list_ex_iff)
  ultimately have run: "server_run spawn flag fuel ?join server =
      Some (case join_all None js of Some e \<Rightarrow> Inl e | None \<Rightarrow> Inr ())"
    by (simp add: server_run_def spawned wait_for_shutdown_iff js_def del: upt_Suc split: option.split)
  have origin: "\<exists>w < ?n. rt w = Some err \<or> bind_at (env w) 0 = Inl err \<or>
      (err = OtherIo ''worker thread panicked'' \<and> (\<exists>k i p. we_served (env w) k i p = CallPanics))"
    if "join_all None js = Some err" for err
  proof -
    from that have "err \<in> set (List.map_filter join_error js)"
      by (simp add: join_all_first split: list.splits)
    then obtain w where w: "w < ?n" "join_error (the (?join w)) = Some err"
      by (auto simp: js_def map_filter_def)
    with joined [OF w(1)] show ?thesis by (intro exI [of _ w]) auto
  qed
  show ?thesis
  proof (cases "join_all None js")
    case None
    with run show ?thesis by (intro exI [of _ "Inr ()"] conjI) simp_all
  next
    case (Some err)
    with run origin [OF Some] show ?thesis by (intro exI [of _ "Inl err"] conjI) simp_all
  qed
qed

theorem server_stops_on_shutdown_witness:
  "\<exists>r. server_run (\<lambda>w. None) (\<lambda>k. k = 2) 3
     (\<lambda>w. join_worker (run_worker None (demo_worker_env (\<lambda>n. (0, demo_listener_config ''a'')) (\<lambda>n. Inr n)) 2))
     \<lparr>px_config = (), px_worker_threads = 2\<rparr> = Some r"
proof -
  let ?env = "demo_worker_env (\<lambda>n. (0, demo_listener_config ''a'')) (\<lambda>n. Inr n)"
  have "connections_end ?env \<and> we_shutdown ?env 1 0" by (simp add: connections_end_def demo_worker_env_def)
  then show ?thesis
    using server_stops_on_shutdown [of "\<lparr>px_config = (), px_worker_threads = 2\<rparr>" "\<lambda>w. None" "\<lambda>w. ?env" "\<lambda>w. 1" 2 3
        "\<lambda>k. k = 2" "\<lambda>w. None"] by (auto simp: numeral_2_eq_2)
qed

text \<open>The builder refuses only a missing configuration and a count of zero.\<close>

lemma proxy_server_build_Inr:
  "proxy_server_build parallelism b = Inr s \<longleftrightarrow>
     pb_config b = Some (px_config s) \<and> px_worker_threads s \<noteq> 0 \<and> px_worker_threads s =
       (case pb_worker_threads b of Some n \<Rightarrow> n | None \<Rightarrow> (case parallelism of Some n \<Rightarrow> n | None \<Rightarrow> 1))"
  by (cases s) (auto simp: proxy_server_build_def Let_def split: option.splits)

end
