(* ===== verification/Serving.thy ===== *)
theory Serving
  imports ServerFacts Pipeline
begin

text \<open>
  The worker of \<open>server.rs\<close> and the pipeline of \<open>pipeline.rs\<close> together: what a connection that the
  worker hands to its pipeline makes of the worker's thread. The result of the call is ignored, so
  only its end matters; nothing in the worker catches a panic.
\<close>

text \<open>The end of a call, from what serving the connection came to.\<close>

definition call_of :: "'h served \<Rightarrow> call_end" where
  "call_of r =
     (case r of
        Session (rs, SessionPanic p) \<Rightarrow> CallPanics
      | Session (rs, e) \<Rightarrow> CallReturns
      | Upgraded out \<Rightarrow> (case wo_end out of TunnelOpen a \<Rightarrow> CallPending | _ \<Rightarrow> CallReturns))"

text \<open>
  The connections \<open>conn k i\<close> of a worker are served by its pipelines, with whatever network, relay
  and timers each meets; a client may also keep its connection open for ever.
\<close>

definition serves ::
  "('u, 'h) http \<Rightarrow> regex \<Rightarrow> (nat \<Rightarrow> nat \<Rightarrow> TcpConnectionPool \<Rightarrow> StdResolver \<Rightarrow> ('u, 'h) Net) \<Rightarrow>
     (nat \<Rightarrow> nat \<Rightarrow> StdResolver \<Rightarrow> Relay) \<Rightarrow> (nat \<Rightarrow> nat \<Rightarrow> f64 \<Rightarrow> ('u, 'h) ForwardRequest \<Rightarrow> bool) \<Rightarrow>
     (nat \<Rightarrow> nat \<Rightarrow> ('u, 'h) Conn) \<Rightarrow> 'k worker_env \<Rightarrow> bool" where
  "serves ht re net rl elapsed conn env \<longleftrightarrow>
     (\<forall>k i p. we_served env k i p \<in>
        {CallPending, call_of (service_call ht re (net k i) (rl k i) p (elapsed k i) (conn k i))})"

section \<open>What makes a pipeline panic\<close>

text \<open>The rules of a configuration that can panic: the filters and timeouts that do.\<close>

definition overflowing :: "f64 option \<Rightarrow> bool" where
  "overflowing t \<longleftrightarrow> (\<exists>f. t = Some f \<and> f64_positive f \<and> duration_overflows f)"

definition can_panic :: "('u, 'h) http \<Rightarrow> RouteRule \<Rightarrow> bool" where
  "can_panic ht rule \<longleftrightarrow>
     (\<exists>h v. URLRewrite h (Some (ReplacePrefixMatch v)) \<in> set (rr_filters rule)) \<or>
     overflowing (Option.bind (rr_timeout rule) to_request) \<or>
     overflowing (Option.bind (rr_timeout rule) to_backend_request) \<or>
     (\<exists>s h p pa c request. RequestRedirect s h p pa c \<in> set (rr_filters rule) \<and>
        value_parse ht (build_redirect_location s h p pa request) = None)"

lemma positive_duration_panic: "positive_duration t = Inl p \<Longrightarrow> overflowing t"
  by (auto simp: positive_duration_def overflowing_def split: option.splits if_splits)

lemma upstream_call_panic:
  "upstream_call ht net req = Inl p \<Longrightarrow> overflowing (Option.bind (af_timeout (fr_applied_filter req)) to_backend_request)"
  by (rule upstream_call_cases [of req net ht]) (auto simp: overflowing_def)

lemma recompute_rewrite_panic:
  "recompute_rewrite fs meta a = Inl p \<Longrightarrow> list_ex is_prefix_rewrite fs"
  using recompute_rewrite_eq [of fs meta a] by auto

text \<open>The body of a forwarding decision without a prefix rewrite.\<close>

lemma route_and_filter_forward:
  assumes "route re config (pq_listener_name req) (pq_meta req) = Forward bs fs t" and "\<not> list_ex is_prefix_rewrite fs"
  shows "route_and_filter_call ht re config elapsed inner req =
    (case positive_duration (Option.bind t to_request) of
       Inl p \<Rightarrow> Inl p
     | Inr None \<Rightarrow> inner (forward_of req bs fs t)
     | Inr (Some d) \<Rightarrow> if elapsed d (forward_of req bs fs t)
         then Inr (string_response_to_monoio ht (gateway_timeout_response ht))
         else inner (forward_of req bs fs t))"
  using assms(2) by (simp add: route_and_filter_call_def assms(1) collect_filters_def collect_loop_gathered
      recompute_gathered Let_def forward_of_def split: sum.split option.split)

lemma map_sum_Inl: "map_sum id f x = Inl p \<longleftrightarrow> x = Inl p"
  by (cases x) auto

lemma pipeline_call_panic:
  assumes "pipeline_call ht re net config elapsed req = Inl p"
  shows "\<exists>r\<in>set (pc_routes config). \<exists>rule\<in>set (rc_rules r).
    pq_listener_name req \<in> set (rc_attached_listeners r) \<and> can_panic ht rule"
proof (cases "route re config (pq_listener_name req) (pq_meta req)")
  case (Forward bs fs t)
  from route_Forward [OF Forward] obtain r rule where r: "r \<in> set (pc_routes config)" "rule \<in> set (rc_rules r)"
    "pq_listener_name req \<in> set (rc_attached_listeners r)" and rule: "fs = rr_filters rule" "t = rr_timeout rule"
    by blast
  have "can_panic ht rule"
  proof (cases "list_ex is_prefix_rewrite fs")
    case True
    then show ?thesis by (simp add: can_panic_def is_prefix_rewrite_mem rule)
  next
    case False
    note call = assms [unfolded pipeline_call_def route_and_filter_forward [OF Forward False]]
    have "overflowing (Option.bind t to_request) \<or> overflowing (Option.bind t to_backend_request)"
    proof (cases "positive_duration (Option.bind t to_request)")
      case (Inl q)
      then show ?thesis by (simp add: positive_duration_panic)
    next
      case (Inr d)
      with call have "upstream_call ht net (forward_of req bs fs t) = Inl p"
        by (auto split: option.splits if_splits sum.splits simp: map_sum_Inl)
      from upstream_call_panic [OF this] show ?thesis by (simp add: forward_of_def)
    qed
    then show ?thesis by (auto simp: can_panic_def rule)
  qed
  with r show ?thesis by blast
next
  case (Redirect rd)
  with assms have "value_parse ht (rd_location rd) = None"
    by (auto simp: pipeline_call_def route_and_filter_call_def redirect_response_def split: sum.splits option.splits)
  with route_Redirect [OF Redirect] show ?thesis unfolding can_panic_def by metis
next
  case NotFound
  with assms show ?thesis by (simp add: pipeline_call_def route_and_filter_call_def)
qed

lemma serve_loop_panic:
  "snd (serve_loop ht l inner send flush i items) = SessionPanic p \<Longrightarrow>
     \<exists>req. pq_listener_name req = l \<and> inner req = Inl p"
proof (induction items arbitrary: i)
  case (Cons item items)
  show ?case
  proof (cases item)
    case (Inl e)
    with Cons.prems show ?thesis by simp
  next
    case (Inr req)
    let ?r = "\<lparr>pq_request = req, pq_meta = extract_request_meta ht req, pq_listener_name = l\<rparr>"
    show ?thesis
    proof (cases "inner ?r")
      case (Inl q)
      with Cons.prems Inr show ?thesis by (intro exI [of _ ?r]) simp
    next
      case resp: (Inr resp)
      with Cons Inr show ?thesis by (auto simp: split_beta split: if_splits)
    qed
  qed
qed simp

lemma service_call_panic:
  assumes "call_of (service_call ht re net rl p elapsed conn) = CallPanics"
    and "raf_config (hc_inner p) = hc_proxy_config p"
  shows "\<exists>r\<in>set (pc_routes (hc_proxy_config p)). \<exists>rule\<in>set (rc_rules r).
    hc_listener_name p \<in> set (rc_attached_listeners r) \<and> can_panic ht rule"
proof -
  let ?inner = "pipeline_call ht re (net (uf_pool (raf_inner (hc_inner p))) (uf_resolver (raf_inner (hc_inner p))))
    (hc_proxy_config p) elapsed"
  obtain rs pn where "service_call ht re net rl p elapsed conn = Session (rs, SessionPanic pn)"
    using assms(1) by (auto simp: call_of_def split: served.splits session_end.splits ws_end.splits)
  then obtain items where "snd (serve_loop ht (hc_listener_name p) ?inner (cn_send conn) (cn_flush conn) 0 items) =
      SessionPanic pn"
    unfolding service_call_def http_core_call_def assms(2)
    by (cases "fst (read_http_request_head (cn_reads conn) 0 [])") (auto split: if_splits, metis snd_conv)
  from serve_loop_panic [OF this] show ?thesis using pipeline_call_panic by metis
qed

section \<open>Properties\<close>


text \<open>One request for a rule that rewrites a matched prefix ends the worker.\<close>

definition demo_rewriting :: ProxyConfig where
  "demo_rewriting = with_route (with_http_listener (proxy_config_builder_new ''ns'' ''gw'') ''http'' 80 None)
     (with_rule (attached_to (route_config_new ''ns'' ''r'') ''http'')
        (with_filter (with_path_prefix route_rule_builder_new ''/'')
           (URLRewrite None (Some (ReplacePrefixMatch ''/v2'')))))"

definition demo_serving_env :: "nat worker_env" where
  "demo_serving_env = (demo_worker_env (\<lambda>n. (0, demo_rewriting)) (\<lambda>n. Inr n))
     \<lparr>we_served := \<lambda>k i p. call_of (service_call demo_http (\<lambda>_. None) (\<lambda>_ _. demo_net) (\<lambda>_. demo_relay) p
        (\<lambda>_ _. False) demo_conn)\<rparr>"

lemma demo_rewriting_panics:
  "route_and_filter_call demo_http (\<lambda>_. None) demo_rewriting elapsed inner \<lparr>pq_request = demo_http_request,
     pq_meta = extract_request_meta demo_http demo_http_request, pq_listener_name = ''http''\<rparr> = Inl SliceOutOfBounds"
proof -
  have "route (\<lambda>_. None) demo_rewriting ''http'' (extract_request_meta demo_http demo_http_request) =
      Forward [] [URLRewrite None (Some (ReplacePrefixMatch ''/v2''))] None" by code_simp
  then show ?thesis by (simp add: route_and_filter_call_def collect_filters_def collect_loop_gathered)
qed

lemma demo_call_panics:
  "call_of (service_call demo_http (\<lambda>_. None) (\<lambda>_ _. demo_net) (\<lambda>_. demo_relay) (pipelines_for demo_rewriting ! 0)
     (\<lambda>_ _. False) demo_conn) = CallPanics"
proof -
  have "pc_listeners demo_rewriting = [listener_http ''http'' 80 None]" by code_simp
  then have "pipelines_for demo_rewriting ! 0 = build_pipeline_service \<lparr>pg_proxy_config = demo_rewriting,
      pg_listener_name = ''http'', pg_pool = new_tcp_pool, pg_resolver = StdResolver\<rparr>"
    by (simp add: build_pipelines_def listener_http_def)
  moreover have "cn_codec demo_conn x = [Inr demo_http_request]" for x by (simp add: demo_conn_def)
  ultimately show ?thesis
    by (simp add: service_call_def build_pipeline_service_def http_core_call_def demo_head_read demo_head_plain
        pipeline_call_def demo_rewriting_panics call_of_def)
qed


end
