(* ===== verification/Json.thy ===== *)
theory Json
  imports Prelude "HOL-Library.Monad_Syntax"
begin

text \<open>
  JSON values, and what \<open>#[derive(Serialize, Deserialize)]\<close> makes of the serde attributes
  that both configuration modules use: \<open>skip_serializing_if\<close>, \<open>default\<close>, \<open>rename\<close>,
  \<open>rename_all\<close> and \<open>tag = "type"\<close>. Reading follows the derived visitors: an unknown
  key is ignored, a known key given twice is an error, a missing key is an error unless its
  field is an \<open>Option\<close> or has a default, and a struct may also be given as an array of its
  fields in order. The reason of a failed reading is the library's text, so a failure is
  \<open>None\<close>. Printing and parsing of the text itself is serde_json's, a parameter wherever text
  is meant.
\<close>

datatype json =
    JNull
  | JBool bool
  | JInt int
  | JFloat f64
  | JStr string
  | JArr "json list"
  | JObj "(string \<times> json) list"

section \<open>Writing\<close>

text \<open>A field under \<open>Option::is_none\<close>, and one under \<open>Vec::is_empty\<close>.\<close>

definition opt_field :: "string \<Rightarrow> ('a \<Rightarrow> json) \<Rightarrow> 'a option \<Rightarrow> (string \<times> json) list" where
  "opt_field k enc x = (case x of None \<Rightarrow> [] | Some v \<Rightarrow> [(k, enc v)])"

definition seq_field :: "string \<Rightarrow> ('a \<Rightarrow> json) \<Rightarrow> 'a list \<Rightarrow> (string \<times> json) list" where
  "seq_field k enc xs = (if xs = [] then [] else [(k, JArr (map enc xs))])"

definition enc_word :: "'n::len word \<Rightarrow> json" where
  "enc_word w = JInt (uint w)"

text \<open>\<open>serde_json\<close> has no notation for infinities and NaN: they are written as \<open>null\<close>.\<close>

definition f64_finite :: "f64 \<Rightarrow> bool" where
  "f64_finite t \<longleftrightarrow> take_bit 11 (drop_bit 52 t) \<noteq> (0x7FF :: f64)"

definition enc_f64 :: "f64 \<Rightarrow> json" where
  "enc_f64 t = (if f64_finite t then JFloat t else JNull)"

section \<open>Reading\<close>

definition dec_string :: "json \<Rightarrow> string option" where
  "dec_string j = (case j of JStr s \<Rightarrow> Some s | _ \<Rightarrow> None)"

definition dec_word :: "json \<Rightarrow> 'n::len word option" where
  "dec_word j = (case j of
       JInt i \<Rightarrow> if 0 \<le> i \<and> i < 2 ^ LENGTH('n) then Some (word_of_int i) else None
     | _ \<Rightarrow> None)"

text \<open>An integer token is accepted for an \<open>f64\<close>; its cast is the parameter \<open>fi\<close>.\<close>

definition dec_f64 :: "(int \<Rightarrow> f64) \<Rightarrow> json \<Rightarrow> f64 option" where
  "dec_f64 fi j = (case j of JFloat t \<Rightarrow> Some t | JInt i \<Rightarrow> Some (fi i) | _ \<Rightarrow> None)"

fun dec_all :: "('a \<Rightarrow> 'b option) \<Rightarrow> 'a list \<Rightarrow> 'b list option" where
  "dec_all dec [] = Some []"
| "dec_all dec (x # xs) = do { y \<leftarrow> dec x; ys \<leftarrow> dec_all dec xs; Some (y # ys) }"

definition dec_seq :: "(json \<Rightarrow> 'a option) \<Rightarrow> json \<Rightarrow> 'a list option" where
  "dec_seq dec j = (case j of JArr js \<Rightarrow> dec_all dec js | _ \<Rightarrow> None)"

definition dec_opt :: "(json \<Rightarrow> 'a option) \<Rightarrow> json \<Rightarrow> 'a option option" where
  "dec_opt dec j = (if j = JNull then Some None else map_option Some (dec j))"

text \<open>
  \<open>struct_fields fs\<close> gives the value of each field of a struct whose fields are \<open>fs\<close>, in
  order, each with whether it has a default, which an array may then leave out at its end.
\<close>

definition struct_fields :: "(string \<times> bool) list \<Rightarrow> json \<Rightarrow> (string \<Rightarrow> json option) option" where
  "struct_fields fs j = (case j of
       JObj kvs \<Rightarrow>
         (let known = filter (\<lambda>kv. fst kv \<in> fst ` set fs) kvs in
          if distinct (map fst known) then Some (map_of known) else None)
     | JArr js \<Rightarrow>
         if length js \<le> length fs \<and> list_all snd (drop (length js) fs)
         then Some (map_of (zip (map fst fs) js)) else None
     | _ \<Rightarrow> None)"

definition field_req :: "(string \<Rightarrow> json option) \<Rightarrow> string \<Rightarrow> (json \<Rightarrow> 'a option) \<Rightarrow> 'a option" where
  "field_req l k dec = Option.bind (l k) dec"

definition field_opt ::
  "(string \<Rightarrow> json option) \<Rightarrow> string \<Rightarrow> (json \<Rightarrow> 'a option) \<Rightarrow> 'a option option" where
  "field_opt l k dec = (case l k of None \<Rightarrow> Some None | Some j \<Rightarrow> dec_opt dec j)"

definition field_def :: "(string \<Rightarrow> json option) \<Rightarrow> string \<Rightarrow> 'a \<Rightarrow> (json \<Rightarrow> 'a option) \<Rightarrow> 'a option" where
  "field_def l k d dec = (case l k of None \<Rightarrow> Some d | Some j \<Rightarrow> dec j)"

text \<open>
  A variant without fields is its name, or an object with that single key and \<open>null\<close>. An
  internally tagged enum is an object with exactly one key \<open>type\<close>, or an array that starts
  with the tag; \<open>tagged\<close> gives the tag and the rest.
\<close>

definition dec_unit :: "(string \<times> 'a) list \<Rightarrow> json \<Rightarrow> 'a option" where
  "dec_unit vs j = (case j of
       JStr s \<Rightarrow> map_of vs s
     | JObj [(s, JNull)] \<Rightarrow> map_of vs s
     | _ \<Rightarrow> None)"

definition tagged :: "json \<Rightarrow> (json \<times> json) option" where
  "tagged j = (case j of
       JObj kvs \<Rightarrow>
         (case filter (\<lambda>kv. fst kv = ''type'') kvs of
            [(_, t)] \<Rightarrow> Some (t, JObj (filter (\<lambda>kv. fst kv \<noteq> ''type'') kvs))
          | _ \<Rightarrow> None)
     | JArr (t # js) \<Rightarrow> Some (t, JArr js)
     | _ \<Rightarrow> None)"

section \<open>Round trips of the parts\<close>

named_theorems json_roundtrip "reading back what was written"

lemma dec_string_JStr [json_roundtrip]: "dec_string (JStr s) = Some s"
  by (simp add: dec_string_def)

lemma dec_string_Some: "dec_string j = Some s \<longleftrightarrow> j = JStr s"
  by (cases j) (auto simp: dec_string_def)

lemma dec_word_enc [json_roundtrip]: "dec_word (enc_word w) = Some w"
  by (simp add: dec_word_def enc_word_def uint_lt2p)

lemma dec_word_Some: "dec_word j = Some w \<longleftrightarrow> j = enc_word w"
proof
  assume "dec_word j = Some w"
  then show "j = enc_word w"
    by (cases j) (auto simp: dec_word_def enc_word_def uint_word_of_int split: if_splits)
qed (simp add: dec_word_enc)

lemma enc_word_neq_JNull [json_roundtrip]: "enc_word w \<noteq> JNull"
  by (simp add: enc_word_def)

lemma dec_all_map: "(\<And>x. x \<in> set xs \<Longrightarrow> dec (enc x) = Some (g x)) \<Longrightarrow> dec_all dec (map enc xs) = Some (map g xs)"
  by (induction xs) auto

lemma dec_seq_map:
  "(\<And>x. dec (enc x) = Some (g x)) \<Longrightarrow> dec_seq dec (JArr (map enc xs)) = Some (map g xs)"
  by (simp add: dec_seq_def dec_all_map)

lemma dec_f64_enc:
  "dec_opt (dec_f64 fi) (enc_f64 t) = Some (if f64_finite t then Some t else None)"
  by (simp add: dec_opt_def dec_f64_def enc_f64_def)

text \<open>Lookups in a written object, one field at a time.\<close>

definition obj_get :: "(string \<times> json) list \<Rightarrow> string \<Rightarrow> json option" where
  "obj_get kvs k = map_of kvs k"

lemma obj_get_simps [json_roundtrip]:
  "obj_get [] k = None"
  "obj_get ((k', j) # r) k = (if k = k' then Some j else obj_get r k)"
  "obj_get (opt_field k' enc x @ r) k =
     (if k = k' \<and> x \<noteq> None then map_option enc x else obj_get r k)"
  "obj_get (seq_field k' enc' xs @ r) k =
     (if k = k' \<and> xs \<noteq> [] then Some (JArr (map enc' xs)) else obj_get r k)"
  "obj_get (opt_field k' enc x) k = (if k = k' then map_option enc x else None)"
  "obj_get (seq_field k' enc' xs) k = (if k = k' \<and> xs \<noteq> [] then Some (JArr (map enc' xs)) else None)"
  by (auto simp: obj_get_def opt_field_def seq_field_def split: option.splits)

lemma keys_simps [json_roundtrip]:
  "fst ` set (opt_field k enc x) = (if x = None then {} else {k})"
  "fst ` set (seq_field k enc' xs) = (if xs = [] then {} else {k})"
  "distinct (map fst (opt_field k enc x))" "distinct (map fst (seq_field k enc' xs))"
  by (auto simp: opt_field_def seq_field_def split: option.splits)

text \<open>An object whose keys are fields of the struct, each at most once, is read by lookup.\<close>

lemma struct_fields_obj:
  assumes "fst ` set kvs \<subseteq> fst ` set fs" and "distinct (map fst kvs)"
  shows "struct_fields fs (JObj kvs) = Some (obj_get kvs)"
proof -
  have "filter (\<lambda>kv. fst kv \<in> fst ` set fs) kvs = kvs"
    using assms(1) by (auto simp: filter_id_conv)
  moreover have "map_of kvs = obj_get kvs" by (rule ext) (simp add: obj_get_def)
  ultimately show ?thesis using assms(2) by (simp add: struct_fields_def)
qed

lemma tagged_obj:
  assumes "''type'' \<notin> fst ` set kvs"
  shows "tagged (JObj ((''type'', t) # kvs)) = Some (t, JObj kvs)"
proof -
  have "filter (\<lambda>kv. fst kv = ''type'') kvs = []" "filter (\<lambda>kv. fst kv \<noteq> ''type'') kvs = kvs"
    using assms by (force simp: filter_empty_conv filter_id_conv)+
  then show ?thesis by (simp add: tagged_def)
qed

text \<open>Elements and optional values that read back as themselves.\<close>

lemma dec_seq_enc [json_roundtrip]:
  "(\<And>x. dec (enc x) = Some x) \<Longrightarrow> dec_seq dec (JArr (map enc xs)) = Some xs"
  using dec_seq_map [of dec enc "\<lambda>x. x" xs] by simp

lemma dec_opt_enc [json_roundtrip]:
  "(\<And>x. dec (enc x) = Some x) \<Longrightarrow> (\<And>x. enc x \<noteq> JNull) \<Longrightarrow> dec_opt dec (enc x) = Some (Some x)"
  by (simp add: dec_opt_def)

text \<open>What a struct read from an object says of the object.\<close>

lemma field_req_mem:
  "struct_fields fs (JObj kvs) = Some l \<Longrightarrow> field_req l k dec = Some v \<Longrightarrow>
   k \<in> fst ` set fs \<and> (\<exists>j. (k, j) \<in> set kvs \<and> dec j = Some v)"
  by (auto simp: struct_fields_def field_req_def Let_def bind_eq_Some_conv split: if_splits dest!: map_of_SomeD)

lemma struct_fields_ignores:
  "struct_fields fs (JObj kvs) = struct_fields fs (JObj (filter (\<lambda>kv. fst kv \<in> fst ` set fs) kvs))"
  by (simp add: struct_fields_def)

lemmas struct_simps = struct_fields_obj field_req_def field_opt_def field_def_def image_Un

end
