(* ===== verification/Wire.thy ===== *)
theory Wire
  imports Json Config CpConfig
begin

text \<open>
  The wire format of the configuration: what the derived serializers of the control plane's
  \<open>GatewayConfig\<close> (\<open>crates/controlplane/src/controller/config.rs\<close>) and of the data plane's
  \<open>ProxyConfig\<close> (\<open>crates/proxy-core/src/config.rs\<close>) write, and what the derived
  deserializer of \<open>ProxyConfig\<close> reads, type by type from the serde attributes. \<open>wire_*\<close>
  sends each control-plane type to the data-plane type of the same shape; the theorems show that both
  sides write the same JSON and that the data plane reads back what was written.
\<close>

section \<open>What the data plane's types are written as\<close>

definition enc_gateway_ref :: "GatewayRef \<Rightarrow> json" where
  "enc_gateway_ref g = JObj [(''namespace'', JStr (gr_namespace g)), (''name'', JStr (gr_name g))]"

fun enc_protocol :: "Protocol \<Rightarrow> json" where
  "enc_protocol Http = JStr ''HTTP''"
| "enc_protocol Https = JStr ''HTTPS''"

fun enc_tls_mode :: "TlsMode \<Rightarrow> json" where
  "enc_tls_mode Terminate = JStr ''terminate''"
| "enc_tls_mode Passthrough = JStr ''passthrough''"

definition enc_certificate_ref :: "CertificateRef \<Rightarrow> json" where
  "enc_certificate_ref c = JObj [(''namespace'', JStr (cr_namespace c)), (''name'', JStr (cr_name c))]"

definition enc_inline_certificate :: "InlineCertificate \<Rightarrow> json" where
  "enc_inline_certificate c = JObj
     ((''cert_pem'', JStr (ic_cert_pem c)) # (''key_pem'', JStr (ic_key_pem c)) #
      seq_field ''hostnames'' JStr (ic_hostnames c))"

definition enc_tls_config :: "TlsConfig \<Rightarrow> json" where
  "enc_tls_config t = JObj
     ((''mode'', enc_tls_mode (tls_mode t)) #
      (''certificates'', JArr (map enc_certificate_ref (tls_certificates t))) #
      seq_field ''inline_certificates'' enc_inline_certificate (tls_inline_certificates t))"

definition enc_listener_config :: "ListenerConfig \<Rightarrow> json" where
  "enc_listener_config l = JObj
     ((''name'', JStr (lc_name l)) # (''port'', enc_word (lc_port l)) #
      (''protocol'', enc_protocol (lc_protocol l)) #
      opt_field ''hostname'' JStr (lc_hostname l) @ opt_field ''tls'' enc_tls_config (lc_tls l))"

fun enc_path_match_type :: "PathMatchType \<Rightarrow> json" where
  "enc_path_match_type PathExact = JStr ''Exact''"
| "enc_path_match_type PathPrefix = JStr ''PathPrefix''"
| "enc_path_match_type PathRegularExpression = JStr ''RegularExpression''"

definition enc_path_match :: "PathMatch \<Rightarrow> json" where
  "enc_path_match m = JObj
     [(''type'', enc_path_match_type (pm_match_type m)), (''value'', JStr (pm_value m))]"

fun enc_header_match_type :: "HeaderMatchType \<Rightarrow> json" where
  "enc_header_match_type HeaderExact = JStr ''Exact''"
| "enc_header_match_type HeaderRegularExpression = JStr ''RegularExpression''"

definition enc_header_match :: "HeaderMatch \<Rightarrow> json" where
  "enc_header_match m = JObj [(''name'', JStr (hm_name m)),
     (''type'', enc_header_match_type (hm_match_type m)), (''value'', JStr (hm_value m))]"

fun enc_query_param_match_type :: "QueryParamMatchType \<Rightarrow> json" where
  "enc_query_param_match_type QueryExact = JStr ''Exact''"
| "enc_query_param_match_type QueryRegularExpression = JStr ''RegularExpression''"

definition enc_query_param_match :: "QueryParamMatch \<Rightarrow> json" where
  "enc_query_param_match m = JObj [(''name'', JStr (qm_name m)),
     (''type'', enc_query_param_match_type (qm_match_type m)), (''value'', JStr (qm_value m))]"

definition enc_route_match :: "RouteMatch \<Rightarrow> json" where
  "enc_route_match m = JObj
     (opt_field ''path'' enc_path_match (rm_path m) @
      seq_field ''headers'' enc_header_match (rm_headers m) @
      seq_field ''query_params'' enc_query_param_match (rm_query_params m) @
      opt_field ''method'' JStr (rm_method m))"

fun enc_backend_protocol :: "BackendProtocol \<Rightarrow> json" where
  "enc_backend_protocol Http1 = JStr ''http1''"
| "enc_backend_protocol H2c = JStr ''h2c''"

definition enc_backend :: "Backend \<Rightarrow> json" where
  "enc_backend b = JObj
     [(''namespace'', JStr (be_namespace b)), (''name'', JStr (be_name b)),
      (''port'', enc_word (be_port b)), (''weight'', enc_word (be_weight b)),
      (''protocol'', enc_backend_protocol (be_protocol b))]"

definition enc_header_value :: "HeaderValue \<Rightarrow> json" where
  "enc_header_value h = JObj [(''name'', JStr (hv_name h)), (''value'', JStr (hv_value h))]"

fun enc_path_modifier :: "PathModifier \<Rightarrow> json" where
  "enc_path_modifier (ReplaceFullPath v) = JObj [(''type'', JStr ''ReplaceFullPath''), (''value'', JStr v)]"
| "enc_path_modifier (ReplacePrefixMatch v) = JObj [(''type'', JStr ''ReplacePrefixMatch''), (''value'', JStr v)]"

definition enc_modifier_fields :: "HeaderValue list \<Rightarrow> HeaderValue list \<Rightarrow> string list \<Rightarrow> (string \<times> json) list" where
  "enc_modifier_fields a s r =
     [(''add'', JArr (map enc_header_value a)), (''set'', JArr (map enc_header_value s)),
      (''remove'', JArr (map JStr r))]"

fun enc_filter :: "Filter \<Rightarrow> json" where
  "enc_filter (RequestHeaderModifier a s r) =
     JObj ((''type'', JStr ''RequestHeaderModifier'') # enc_modifier_fields a s r)"
| "enc_filter (ResponseHeaderModifier a s r) =
     JObj ((''type'', JStr ''ResponseHeaderModifier'') # enc_modifier_fields a s r)"
| "enc_filter (RequestRedirect scheme hostname port path status) =
     JObj ((''type'', JStr ''RequestRedirect'') # opt_field ''scheme'' JStr scheme @
           opt_field ''hostname'' JStr hostname @ opt_field ''port'' enc_word port @
           opt_field ''path'' enc_path_modifier path @ opt_field ''status_code'' enc_word status)"
| "enc_filter (URLRewrite hostname path) =
     JObj ((''type'', JStr ''URLRewrite'') # opt_field ''hostname'' JStr hostname @
           opt_field ''path'' enc_path_modifier path)"
| "enc_filter (RequestMirror backend percent) =
     JObj ((''type'', JStr ''RequestMirror'') # (''backend'', enc_backend backend) #
           opt_field ''percent'' enc_word percent)"

definition enc_timeout :: "TimeoutConfig \<Rightarrow> json" where
  "enc_timeout t = JObj
     (opt_field ''request'' enc_f64 (to_request t) @
      opt_field ''backend_request'' enc_f64 (to_backend_request t))"

definition enc_route_rule :: "RouteRule \<Rightarrow> json" where
  "enc_route_rule r = JObj
     (opt_field ''name'' JStr (rr_name r) @
      (''matches'', JArr (map enc_route_match (rr_matches r))) #
      (''filters'', JArr (map enc_filter (rr_filters r))) #
      (''backends'', JArr (map enc_backend (rr_backends r))) #
      opt_field ''timeout'' enc_timeout (rr_timeout r))"

definition enc_route_config :: "RouteConfig \<Rightarrow> json" where
  "enc_route_config r = JObj
     [(''name'', JStr (rc_name r)), (''namespace'', JStr (rc_namespace r)),
      (''hostnames'', JArr (map JStr (rc_hostnames r))),
      (''attached_listeners'', JArr (map JStr (rc_attached_listeners r))),
      (''rules'', JArr (map enc_route_rule (rc_rules r)))]"

definition enc_proxy_config :: "ProxyConfig \<Rightarrow> json" where
  "enc_proxy_config p = JObj
     [(''version'', JStr (pc_version p)), (''gateway'', enc_gateway_ref (pc_gateway p)),
      (''listeners'', JArr (map enc_listener_config (pc_listeners p))),
      (''routes'', JArr (map enc_route_config (pc_routes p)))]"

section \<open>How the data plane's types are read\<close>

definition dec_gateway_ref :: "json \<Rightarrow> GatewayRef option" where
  "dec_gateway_ref j = do {
     l \<leftarrow> struct_fields [(''namespace'', False), (''name'', False)] j;
     ns \<leftarrow> field_req l ''namespace'' dec_string;
     name \<leftarrow> field_req l ''name'' dec_string;
     Some \<lparr>gr_namespace = ns, gr_name = name\<rparr> }"

definition dec_protocol :: "json \<Rightarrow> Protocol option" where
  "dec_protocol = dec_unit [(''HTTP'', Http), (''HTTPS'', Https)]"

definition dec_tls_mode :: "json \<Rightarrow> TlsMode option" where
  "dec_tls_mode = dec_unit [(''terminate'', Terminate), (''passthrough'', Passthrough)]"

definition dec_certificate_ref :: "json \<Rightarrow> CertificateRef option" where
  "dec_certificate_ref j = do {
     l \<leftarrow> struct_fields [(''namespace'', False), (''name'', False)] j;
     ns \<leftarrow> field_req l ''namespace'' dec_string;
     name \<leftarrow> field_req l ''name'' dec_string;
     Some \<lparr>cr_namespace = ns, cr_name = name\<rparr> }"

definition dec_inline_certificate :: "json \<Rightarrow> InlineCertificate option" where
  "dec_inline_certificate j = do {
     l \<leftarrow> struct_fields [(''cert_pem'', False), (''key_pem'', False), (''hostnames'', True)] j;
     c \<leftarrow> field_req l ''cert_pem'' dec_string;
     k \<leftarrow> field_req l ''key_pem'' dec_string;
     hs \<leftarrow> field_def l ''hostnames'' [] (dec_seq dec_string);
     Some \<lparr>ic_cert_pem = c, ic_key_pem = k, ic_hostnames = hs\<rparr> }"

definition dec_tls_config :: "json \<Rightarrow> TlsConfig option" where
  "dec_tls_config j = do {
     l \<leftarrow> struct_fields [(''mode'', False), (''certificates'', False), (''inline_certificates'', True)] j;
     m \<leftarrow> field_req l ''mode'' dec_tls_mode;
     cs \<leftarrow> field_req l ''certificates'' (dec_seq dec_certificate_ref);
     ics \<leftarrow> field_def l ''inline_certificates'' [] (dec_seq dec_inline_certificate);
     Some \<lparr>tls_mode = m, tls_certificates = cs, tls_inline_certificates = ics\<rparr> }"

definition dec_listener_config :: "json \<Rightarrow> ListenerConfig option" where
  "dec_listener_config j = do {
     l \<leftarrow> struct_fields [(''name'', False), (''port'', False), (''protocol'', False),
            (''hostname'', False), (''tls'', False)] j;
     name \<leftarrow> field_req l ''name'' dec_string;
     port \<leftarrow> field_req l ''port'' dec_word;
     protocol \<leftarrow> field_req l ''protocol'' dec_protocol;
     hostname \<leftarrow> field_opt l ''hostname'' dec_string;
     tls \<leftarrow> field_opt l ''tls'' dec_tls_config;
     Some \<lparr>lc_name = name, lc_port = port, lc_protocol = protocol, lc_hostname = hostname, lc_tls = tls\<rparr> }"

definition dec_path_match_type :: "json \<Rightarrow> PathMatchType option" where
  "dec_path_match_type = dec_unit
     [(''Exact'', PathExact), (''PathPrefix'', PathPrefix), (''RegularExpression'', PathRegularExpression)]"

definition dec_path_match :: "json \<Rightarrow> PathMatch option" where
  "dec_path_match j = do {
     l \<leftarrow> struct_fields [(''type'', False), (''value'', False)] j;
     t \<leftarrow> field_req l ''type'' dec_path_match_type;
     v \<leftarrow> field_req l ''value'' dec_string;
     Some \<lparr>pm_match_type = t, pm_value = v\<rparr> }"

definition dec_header_match_type :: "json \<Rightarrow> HeaderMatchType option" where
  "dec_header_match_type = dec_unit [(''Exact'', HeaderExact), (''RegularExpression'', HeaderRegularExpression)]"

definition dec_header_match :: "json \<Rightarrow> HeaderMatch option" where
  "dec_header_match j = do {
     l \<leftarrow> struct_fields [(''name'', False), (''type'', False), (''value'', False)] j;
     n \<leftarrow> field_req l ''name'' dec_string;
     t \<leftarrow> field_req l ''type'' dec_header_match_type;
     v \<leftarrow> field_req l ''value'' dec_string;
     Some \<lparr>hm_name = n, hm_match_type = t, hm_value = v\<rparr> }"

definition dec_query_param_match_type :: "json \<Rightarrow> QueryParamMatchType option" where
  "dec_query_param_match_type = dec_unit
     [(''Exact'', QueryExact), (''RegularExpression'', QueryRegularExpression)]"

definition dec_query_param_match :: "json \<Rightarrow> QueryParamMatch option" where
  "dec_query_param_match j = do {
     l \<leftarrow> struct_fields [(''name'', False), (''type'', False), (''value'', False)] j;
     n \<leftarrow> field_req l ''name'' dec_string;
     t \<leftarrow> field_req l ''type'' dec_query_param_match_type;
     v \<leftarrow> field_req l ''value'' dec_string;
     Some \<lparr>qm_name = n, qm_match_type = t, qm_value = v\<rparr> }"

definition dec_route_match :: "json \<Rightarrow> RouteMatch option" where
  "dec_route_match j = do {
     l \<leftarrow> struct_fields [(''path'', False), (''headers'', True), (''query_params'', True), (''method'', False)] j;
     p \<leftarrow> field_opt l ''path'' dec_path_match;
     hs \<leftarrow> field_def l ''headers'' [] (dec_seq dec_header_match);
     qs \<leftarrow> field_def l ''query_params'' [] (dec_seq dec_query_param_match);
     m \<leftarrow> field_opt l ''method'' dec_string;
     Some \<lparr>rm_path = p, rm_headers = hs, rm_query_params = qs, rm_method = m\<rparr> }"

definition dec_backend_protocol :: "json \<Rightarrow> BackendProtocol option" where
  "dec_backend_protocol = dec_unit [(''http1'', Http1), (''h2c'', H2c)]"

definition dec_backend :: "json \<Rightarrow> Backend option" where
  "dec_backend j = do {
     l \<leftarrow> struct_fields [(''namespace'', False), (''name'', False), (''port'', False),
            (''weight'', True), (''protocol'', True)] j;
     ns \<leftarrow> field_req l ''namespace'' dec_string;
     name \<leftarrow> field_req l ''name'' dec_string;
     port \<leftarrow> field_req l ''port'' dec_word;
     weight \<leftarrow> field_def l ''weight'' default_weight dec_word;
     protocol \<leftarrow> field_def l ''protocol'' Http1 dec_backend_protocol;
     Some \<lparr>be_namespace = ns, be_name = name, be_port = port, be_weight = weight, be_protocol = protocol\<rparr> }"

definition dec_header_value :: "json \<Rightarrow> HeaderValue option" where
  "dec_header_value j = do {
     l \<leftarrow> struct_fields [(''name'', False), (''value'', False)] j;
     n \<leftarrow> field_req l ''name'' dec_string;
     v \<leftarrow> field_req l ''value'' dec_string;
     Some \<lparr>hv_name = n, hv_value = v\<rparr> }"

text \<open>
  A path modifier is only ever read inside a filter, out of serde's buffered content, which
  also accepts the index of the variant as the tag.
\<close>

definition dec_path_modifier :: "json \<Rightarrow> PathModifier option" where
  "dec_path_modifier j = do {
     (t, body) \<leftarrow> tagged j;
     l \<leftarrow> struct_fields [(''value'', False)] body;
     v \<leftarrow> field_req l ''value'' dec_string;
     (if t = JStr ''ReplaceFullPath'' \<or> t = JInt 0 then Some (ReplaceFullPath v)
      else if t = JStr ''ReplacePrefixMatch'' \<or> t = JInt 1 then Some (ReplacePrefixMatch v)
      else None) }"

definition dec_modifier ::
  "(HeaderValue list \<Rightarrow> HeaderValue list \<Rightarrow> string list \<Rightarrow> Filter) \<Rightarrow> json \<Rightarrow> Filter option" where
  "dec_modifier con body = do {
     l \<leftarrow> struct_fields [(''add'', True), (''set'', True), (''remove'', True)] body;
     a \<leftarrow> field_def l ''add'' [] (dec_seq dec_header_value);
     s \<leftarrow> field_def l ''set'' [] (dec_seq dec_header_value);
     r \<leftarrow> field_def l ''remove'' [] (dec_seq dec_string);
     Some (con a s r) }"

definition dec_redirect :: "json \<Rightarrow> Filter option" where
  "dec_redirect body = do {
     l \<leftarrow> struct_fields [(''scheme'', False), (''hostname'', False), (''port'', False),
            (''path'', False), (''status_code'', False)] body;
     scheme \<leftarrow> field_opt l ''scheme'' dec_string;
     hostname \<leftarrow> field_opt l ''hostname'' dec_string;
     port \<leftarrow> field_opt l ''port'' dec_word;
     path \<leftarrow> field_opt l ''path'' dec_path_modifier;
     status \<leftarrow> field_opt l ''status_code'' dec_word;
     Some (RequestRedirect scheme hostname port path status) }"

definition dec_rewrite :: "json \<Rightarrow> Filter option" where
  "dec_rewrite body = do {
     l \<leftarrow> struct_fields [(''hostname'', False), (''path'', False)] body;
     hostname \<leftarrow> field_opt l ''hostname'' dec_string;
     path \<leftarrow> field_opt l ''path'' dec_path_modifier;
     Some (URLRewrite hostname path) }"

definition dec_mirror :: "json \<Rightarrow> Filter option" where
  "dec_mirror body = do {
     l \<leftarrow> struct_fields [(''backend'', False), (''percent'', False)] body;
     backend \<leftarrow> field_req l ''backend'' dec_backend;
     percent \<leftarrow> field_opt l ''percent'' dec_word;
     Some (RequestMirror backend percent) }"

definition dec_filter :: "json \<Rightarrow> Filter option" where
  "dec_filter j = do {
     (t, body) \<leftarrow> tagged j;
     (if t = JStr ''RequestHeaderModifier'' then dec_modifier RequestHeaderModifier body
      else if t = JStr ''ResponseHeaderModifier'' then dec_modifier ResponseHeaderModifier body
      else if t = JStr ''RequestRedirect'' then dec_redirect body
      else if t = JStr ''URLRewrite'' then dec_rewrite body
      else if t = JStr ''RequestMirror'' then dec_mirror body
      else None) }"

definition dec_timeout :: "(int \<Rightarrow> f64) \<Rightarrow> json \<Rightarrow> TimeoutConfig option" where
  "dec_timeout fi j = do {
     l \<leftarrow> struct_fields [(''request'', False), (''backend_request'', False)] j;
     r \<leftarrow> field_opt l ''request'' (dec_f64 fi);
     b \<leftarrow> field_opt l ''backend_request'' (dec_f64 fi);
     Some \<lparr>to_request = r, to_backend_request = b\<rparr> }"

definition dec_route_rule :: "(int \<Rightarrow> f64) \<Rightarrow> json \<Rightarrow> RouteRule option" where
  "dec_route_rule fi j = do {
     l \<leftarrow> struct_fields [(''name'', False), (''matches'', True), (''filters'', True),
            (''backends'', True), (''timeout'', False)] j;
     name \<leftarrow> field_opt l ''name'' dec_string;
     ms \<leftarrow> field_def l ''matches'' [] (dec_seq dec_route_match);
     fs \<leftarrow> field_def l ''filters'' [] (dec_seq dec_filter);
     bs \<leftarrow> field_def l ''backends'' [] (dec_seq dec_backend);
     t \<leftarrow> field_opt l ''timeout'' (dec_timeout fi);
     Some \<lparr>rr_name = name, rr_matches = ms, rr_filters = fs, rr_backends = bs, rr_timeout = t\<rparr> }"

definition dec_route_config :: "(int \<Rightarrow> f64) \<Rightarrow> json \<Rightarrow> RouteConfig option" where
  "dec_route_config fi j = do {
     l \<leftarrow> struct_fields [(''name'', False), (''namespace'', False), (''hostnames'', True),
            (''attached_listeners'', True), (''rules'', False)] j;
     name \<leftarrow> field_req l ''name'' dec_string;
     ns \<leftarrow> field_req l ''namespace'' dec_string;
     hs \<leftarrow> field_def l ''hostnames'' [] (dec_seq dec_string);
     ls \<leftarrow> field_def l ''attached_listeners'' [] (dec_seq dec_string);
     rs \<leftarrow> field_req l ''rules'' (dec_seq (dec_route_rule fi));
     Some \<lparr>rc_name = name, rc_namespace = ns, rc_hostnames = hs, rc_attached_listeners = ls, rc_rules = rs\<rparr> }"

definition dec_proxy_config :: "(int \<Rightarrow> f64) \<Rightarrow> json \<Rightarrow> ProxyConfig option" where
  "dec_proxy_config fi j = do {
     l \<leftarrow> struct_fields [(''version'', False), (''gateway'', False), (''listeners'', False), (''routes'', False)] j;
     v \<leftarrow> field_req l ''version'' dec_string;
     g \<leftarrow> field_req l ''gateway'' dec_gateway_ref;
     ls \<leftarrow> field_req l ''listeners'' (dec_seq dec_listener_config);
     rs \<leftarrow> field_req l ''routes'' (dec_seq (dec_route_config fi));
     Some \<lparr>pc_version = v, pc_gateway = g, pc_listeners = ls, pc_routes = rs\<rparr> }"

section \<open>What the control plane's types are written as\<close>

definition cp_enc_gateway_ref :: "CpGatewayRef \<Rightarrow> json" where
  "cp_enc_gateway_ref g = JObj [(''namespace'', JStr (cgr_namespace g)), (''name'', JStr (cgr_name g))]"

fun cp_enc_protocol :: "CpProtocol \<Rightarrow> json" where
  "cp_enc_protocol CpHttp = JStr ''HTTP''"
| "cp_enc_protocol CpHttps = JStr ''HTTPS''"

fun cp_enc_tls_mode :: "CpTlsMode \<Rightarrow> json" where
  "cp_enc_tls_mode CpTerminate = JStr ''terminate''"
| "cp_enc_tls_mode CpPassthrough = JStr ''passthrough''"

definition cp_enc_certificate_ref :: "CpCertificateRef \<Rightarrow> json" where
  "cp_enc_certificate_ref c = JObj [(''namespace'', JStr (ccr_namespace c)), (''name'', JStr (ccr_name c))]"

definition cp_enc_inline_certificate :: "CpInlineCertificate \<Rightarrow> json" where
  "cp_enc_inline_certificate c = JObj
     ((''cert_pem'', JStr (cic_cert_pem c)) # (''key_pem'', JStr (cic_key_pem c)) #
      seq_field ''hostnames'' JStr (cic_hostnames c))"

definition cp_enc_tls_config :: "CpTlsConfig \<Rightarrow> json" where
  "cp_enc_tls_config t = JObj
     ((''mode'', cp_enc_tls_mode (ctl_mode t)) #
      (''certificates'', JArr (map cp_enc_certificate_ref (ctl_certificates t))) #
      seq_field ''inline_certificates'' cp_enc_inline_certificate (ctl_inline_certificates t))"

definition cp_enc_listener_config :: "CpListenerConfig \<Rightarrow> json" where
  "cp_enc_listener_config l = JObj
     ((''name'', JStr (clc_name l)) # (''port'', enc_word (clc_port l)) #
      (''protocol'', cp_enc_protocol (clc_protocol l)) #
      opt_field ''hostname'' JStr (clc_hostname l) @ opt_field ''tls'' cp_enc_tls_config (clc_tls l))"

fun cp_enc_path_match_type :: "CpPathMatchType \<Rightarrow> json" where
  "cp_enc_path_match_type CpPathExact = JStr ''Exact''"
| "cp_enc_path_match_type CpPathPrefix = JStr ''PathPrefix''"
| "cp_enc_path_match_type CpPathRegularExpression = JStr ''RegularExpression''"

definition cp_enc_path_match :: "CpPathMatch \<Rightarrow> json" where
  "cp_enc_path_match m = JObj
     [(''type'', cp_enc_path_match_type (cpm_match_type m)), (''value'', JStr (cpm_value m))]"

fun cp_enc_header_match_type :: "CpHeaderMatchType \<Rightarrow> json" where
  "cp_enc_header_match_type CpHeaderExact = JStr ''Exact''"
| "cp_enc_header_match_type CpHeaderRegularExpression = JStr ''RegularExpression''"

definition cp_enc_header_match :: "CpHeaderMatch \<Rightarrow> json" where
  "cp_enc_header_match m = JObj [(''name'', JStr (chm_name m)),
     (''type'', cp_enc_header_match_type (chm_match_type m)), (''value'', JStr (chm_value m))]"

fun cp_enc_query_param_match_type :: "CpQueryParamMatchType \<Rightarrow> json" where
  "cp_enc_query_param_match_type CpQueryExact = JStr ''Exact''"
| "cp_enc_query_param_match_type CpQueryRegularExpression = JStr ''RegularExpression''"

definition cp_enc_query_param_match :: "CpQueryParamMatch \<Rightarrow> json" where
  "cp_enc_query_param_match m = JObj [(''name'', JStr (cqm_name m)),
     (''type'', cp_enc_query_param_match_type (cqm_match_type m)), (''value'', JStr (cqm_value m))]"

definition cp_enc_route_match :: "CpRouteMatch \<Rightarrow> json" where
  "cp_enc_route_match m = JObj
     (opt_field ''path'' cp_enc_path_match (crm_path m) @
      seq_field ''headers'' cp_enc_header_match (crm_headers m) @
      seq_field ''query_params'' cp_enc_query_param_match (crm_query_params m) @
      opt_field ''method'' JStr (crm_method m))"

fun cp_enc_backend_protocol :: "CpBackendProtocol \<Rightarrow> json" where
  "cp_enc_backend_protocol CpHttp1 = JStr ''http1''"
| "cp_enc_backend_protocol CpH2c = JStr ''h2c''"

definition cp_enc_backend :: "CpBackendRef \<Rightarrow> json" where
  "cp_enc_backend b = JObj
     [(''namespace'', JStr (cbe_namespace b)), (''name'', JStr (cbe_name b)),
      (''port'', enc_word (cbe_port b)), (''weight'', enc_word (cbe_weight b)),
      (''protocol'', cp_enc_backend_protocol (cbe_protocol b))]"

definition cp_enc_header_value :: "CpHeaderValue \<Rightarrow> json" where
  "cp_enc_header_value h = JObj [(''name'', JStr (chv_name h)), (''value'', JStr (chv_value h))]"

fun cp_enc_path_modifier :: "CpPathModifier \<Rightarrow> json" where
  "cp_enc_path_modifier (CpReplaceFullPath v) = JObj [(''type'', JStr ''ReplaceFullPath''), (''value'', JStr v)]"
| "cp_enc_path_modifier (CpReplacePrefixMatch v) = JObj [(''type'', JStr ''ReplacePrefixMatch''), (''value'', JStr v)]"

definition cp_enc_modifier_fields :: "CpHeaderValue list \<Rightarrow> CpHeaderValue list \<Rightarrow> string list \<Rightarrow> (string \<times> json) list" where
  "cp_enc_modifier_fields a s r =
     [(''add'', JArr (map cp_enc_header_value a)), (''set'', JArr (map cp_enc_header_value s)),
      (''remove'', JArr (map JStr r))]"

fun cp_enc_filter :: "CpRouteFilter \<Rightarrow> json" where
  "cp_enc_filter (CpRequestHeaderModifier a s r) =
     JObj ((''type'', JStr ''RequestHeaderModifier'') # cp_enc_modifier_fields a s r)"
| "cp_enc_filter (CpResponseHeaderModifier a s r) =
     JObj ((''type'', JStr ''ResponseHeaderModifier'') # cp_enc_modifier_fields a s r)"
| "cp_enc_filter (CpRequestRedirect scheme hostname port path status) =
     JObj ((''type'', JStr ''RequestRedirect'') # opt_field ''scheme'' JStr scheme @
           opt_field ''hostname'' JStr hostname @ opt_field ''port'' enc_word port @
           opt_field ''path'' cp_enc_path_modifier path @ opt_field ''status_code'' enc_word status)"
| "cp_enc_filter (CpURLRewrite hostname path) =
     JObj ((''type'', JStr ''URLRewrite'') # opt_field ''hostname'' JStr hostname @
           opt_field ''path'' cp_enc_path_modifier path)"
| "cp_enc_filter (CpRequestMirror backend percent) =
     JObj ((''type'', JStr ''RequestMirror'') # (''backend'', cp_enc_backend backend) #
           opt_field ''percent'' enc_word percent)"

definition cp_enc_timeout :: "CpTimeoutConfig \<Rightarrow> json" where
  "cp_enc_timeout t = JObj
     (opt_field ''request'' enc_f64 (cto_request t) @
      opt_field ''backend_request'' enc_f64 (cto_backend_request t))"

definition cp_enc_route_rule :: "CpRouteRule \<Rightarrow> json" where
  "cp_enc_route_rule r = JObj
     (opt_field ''name'' JStr (crr_name r) @
      (''matches'', JArr (map cp_enc_route_match (crr_matches r))) #
      (''filters'', JArr (map cp_enc_filter (crr_filters r))) #
      (''backends'', JArr (map cp_enc_backend (crr_backends r))) #
      opt_field ''timeout'' cp_enc_timeout (crr_timeout r))"

definition cp_enc_route_config :: "CpRouteConfig \<Rightarrow> json" where
  "cp_enc_route_config r = JObj
     [(''name'', JStr (crc_name r)), (''namespace'', JStr (crc_namespace r)),
      (''hostnames'', JArr (map JStr (crc_hostnames r))),
      (''attached_listeners'', JArr (map JStr (crc_attached_listeners r))),
      (''rules'', JArr (map cp_enc_route_rule (crc_rules r)))]"

definition cp_enc_gateway_config :: "CpGatewayConfig \<Rightarrow> json" where
  "cp_enc_gateway_config p = JObj
     [(''version'', JStr (cgc_version p)), (''gateway'', cp_enc_gateway_ref (cgc_gateway p)),
      (''listeners'', JArr (map cp_enc_listener_config (cgc_listeners p))),
      (''routes'', JArr (map cp_enc_route_config (cgc_routes p)))]"

end
