(* ===== verification/WireRoundtrip.thy ===== *)
theory WireRoundtrip
  imports Wire
begin

text \<open>
  The wire format keeps the configuration: each written value is read back, and the control
  plane's types are written exactly as the data-plane types that \<open>wire_config\<close> sends them to.
  What is not kept is a timeout that is infinite or not a number: it is written as \<open>null\<close> and
  read as absent, which \<open>finite_config\<close> says.
\<close>

section \<open>Reading back\<close>

lemma dec_gateway_ref_enc [json_roundtrip]: "dec_gateway_ref (enc_gateway_ref g) = Some g"
  by (simp add: dec_gateway_ref_def enc_gateway_ref_def struct_simps json_roundtrip)

lemma dec_protocol_enc [json_roundtrip]: "dec_protocol (enc_protocol p) = Some p"
  by (cases p) (simp_all add: dec_protocol_def dec_unit_def)

lemma dec_tls_mode_enc [json_roundtrip]: "dec_tls_mode (enc_tls_mode m) = Some m"
  by (cases m) (simp_all add: dec_tls_mode_def dec_unit_def)

lemma dec_certificate_ref_enc [json_roundtrip]: "dec_certificate_ref (enc_certificate_ref c) = Some c"
  by (simp add: dec_certificate_ref_def enc_certificate_ref_def struct_simps json_roundtrip)

lemma dec_inline_certificate_enc [json_roundtrip]:
  "dec_inline_certificate (enc_inline_certificate c) = Some c"
  by (simp add: dec_inline_certificate_def enc_inline_certificate_def struct_simps json_roundtrip)

lemma dec_tls_config_enc [json_roundtrip]: "dec_tls_config (enc_tls_config t) = Some t"
  by (simp add: dec_tls_config_def enc_tls_config_def struct_simps json_roundtrip)

lemma enc_tls_config_neq_JNull [json_roundtrip]: "enc_tls_config t \<noteq> JNull"
  by (simp add: enc_tls_config_def)

lemma dec_listener_config_enc [json_roundtrip]: "dec_listener_config (enc_listener_config l) = Some l"
  by (simp add: dec_listener_config_def enc_listener_config_def struct_simps json_roundtrip split: option.splits)

lemma dec_path_match_type_enc [json_roundtrip]: "dec_path_match_type (enc_path_match_type t) = Some t"
  by (cases t) (simp_all add: dec_path_match_type_def dec_unit_def)

lemma dec_path_match_enc [json_roundtrip]: "dec_path_match (enc_path_match m) = Some m"
  by (simp add: dec_path_match_def enc_path_match_def struct_simps json_roundtrip)

lemma enc_path_match_neq_JNull [json_roundtrip]: "enc_path_match m \<noteq> JNull"
  by (simp add: enc_path_match_def)

lemma dec_header_match_type_enc [json_roundtrip]: "dec_header_match_type (enc_header_match_type t) = Some t"
  by (cases t) (simp_all add: dec_header_match_type_def dec_unit_def)

lemma dec_header_match_enc [json_roundtrip]: "dec_header_match (enc_header_match m) = Some m"
  by (simp add: dec_header_match_def enc_header_match_def struct_simps json_roundtrip)

lemma dec_query_param_match_type_enc [json_roundtrip]:
  "dec_query_param_match_type (enc_query_param_match_type t) = Some t"
  by (cases t) (simp_all add: dec_query_param_match_type_def dec_unit_def)

lemma dec_query_param_match_enc [json_roundtrip]: "dec_query_param_match (enc_query_param_match m) = Some m"
  by (simp add: dec_query_param_match_def enc_query_param_match_def struct_simps json_roundtrip)

lemma dec_route_match_enc [json_roundtrip]: "dec_route_match (enc_route_match m) = Some m"
  by (simp add: dec_route_match_def enc_route_match_def struct_simps json_roundtrip split: option.splits)

lemma dec_backend_protocol_enc [json_roundtrip]: "dec_backend_protocol (enc_backend_protocol p) = Some p"
  by (cases p) (simp_all add: dec_backend_protocol_def dec_unit_def)

lemma dec_backend_enc [json_roundtrip]: "dec_backend (enc_backend b) = Some b"
  by (simp add: dec_backend_def enc_backend_def struct_simps json_roundtrip)

lemma dec_header_value_enc [json_roundtrip]: "dec_header_value (enc_header_value h) = Some h"
  by (simp add: dec_header_value_def enc_header_value_def struct_simps json_roundtrip)

lemma dec_path_modifier_enc [json_roundtrip]: "dec_path_modifier (enc_path_modifier m) = Some m"
  by (cases m) (simp_all add: dec_path_modifier_def tagged_obj struct_simps json_roundtrip)

lemma enc_path_modifier_neq_JNull [json_roundtrip]: "enc_path_modifier m \<noteq> JNull"
  by (cases m) simp_all

lemma dec_modifier_enc [json_roundtrip]:
  "dec_modifier con (JObj (enc_modifier_fields a s r)) = Some (con a s r)"
  by (simp add: dec_modifier_def enc_modifier_fields_def struct_simps json_roundtrip)

lemma type_notin_modifier_fields: "''type'' \<notin> fst ` set (enc_modifier_fields a s r)"
  by (simp add: enc_modifier_fields_def)

lemma dec_filter_enc [json_roundtrip]: "dec_filter (enc_filter f) = Some f"
proof (cases f)
  case (RequestRedirect scheme hostname port path status)
  then show ?thesis
    by (simp add: dec_filter_def dec_redirect_def tagged_obj struct_simps json_roundtrip split: option.splits)
next
  case (URLRewrite hostname path)
  then show ?thesis
    by (simp add: dec_filter_def dec_rewrite_def tagged_obj struct_simps json_roundtrip split: option.splits)
next
  case (RequestMirror backend percent)
  then show ?thesis
    by (simp add: dec_filter_def dec_mirror_def tagged_obj struct_simps json_roundtrip split: option.splits)
qed (simp_all add: dec_filter_def tagged_obj type_notin_modifier_fields json_roundtrip)

text \<open>Timeouts that are not finite are lost.\<close>

definition finite_timeout :: "f64 option \<Rightarrow> f64 option" where
  "finite_timeout t = Option.bind t (\<lambda>t. if f64_finite t then Some t else None)"

definition finite_timeouts :: "TimeoutConfig \<Rightarrow> TimeoutConfig" where
  "finite_timeouts t = \<lparr>to_request = finite_timeout (to_request t),
     to_backend_request = finite_timeout (to_backend_request t)\<rparr>"

definition finite_rule :: "RouteRule \<Rightarrow> RouteRule" where
  "finite_rule r = r\<lparr>rr_timeout := map_option finite_timeouts (rr_timeout r)\<rparr>"

definition finite_route :: "RouteConfig \<Rightarrow> RouteConfig" where
  "finite_route r = r\<lparr>rc_rules := map finite_rule (rc_rules r)\<rparr>"

definition finite_config :: "ProxyConfig \<Rightarrow> ProxyConfig" where
  "finite_config p = p\<lparr>pc_routes := map finite_route (pc_routes p)\<rparr>"

lemma dec_timeout_enc [json_roundtrip]: "dec_timeout fi (enc_timeout t) = Some (finite_timeouts t)"
  by (simp add: dec_timeout_def enc_timeout_def finite_timeouts_def finite_timeout_def dec_f64_enc
      struct_simps json_roundtrip split: option.splits)

lemma enc_timeout_neq_JNull [json_roundtrip]: "enc_timeout t \<noteq> JNull"
  by (simp add: enc_timeout_def)

lemma dec_route_rule_enc [json_roundtrip]: "dec_route_rule fi (enc_route_rule r) = Some (finite_rule r)"
  by (simp add: dec_route_rule_def enc_route_rule_def finite_rule_def dec_opt_def [of "dec_timeout fi"]
      struct_simps json_roundtrip split: option.splits)

lemma dec_route_config_enc [json_roundtrip]: "dec_route_config fi (enc_route_config r) = Some (finite_route r)"
  by (simp add: dec_route_config_def enc_route_config_def finite_route_def struct_simps
      dec_seq_map [of "dec_route_rule fi" enc_route_rule finite_rule] json_roundtrip)

lemma dec_proxy_config_enc: "dec_proxy_config fi (enc_proxy_config p) = Some (finite_config p)"
  by (simp add: dec_proxy_config_def enc_proxy_config_def finite_config_def struct_simps
      dec_seq_map [of "dec_route_config fi" enc_route_config finite_route] json_roundtrip)

section \<open>The same shape on both sides\<close>

definition wire_gateway_ref :: "CpGatewayRef \<Rightarrow> GatewayRef" where
  "wire_gateway_ref g = \<lparr>gr_namespace = cgr_namespace g, gr_name = cgr_name g\<rparr>"

fun wire_protocol :: "CpProtocol \<Rightarrow> Protocol" where
  "wire_protocol CpHttp = Http"
| "wire_protocol CpHttps = Https"

fun wire_tls_mode :: "CpTlsMode \<Rightarrow> TlsMode" where
  "wire_tls_mode CpTerminate = Terminate"
| "wire_tls_mode CpPassthrough = Passthrough"

definition wire_certificate_ref :: "CpCertificateRef \<Rightarrow> CertificateRef" where
  "wire_certificate_ref c = \<lparr>cr_namespace = ccr_namespace c, cr_name = ccr_name c\<rparr>"

definition wire_inline_certificate :: "CpInlineCertificate \<Rightarrow> InlineCertificate" where
  "wire_inline_certificate c = \<lparr>ic_cert_pem = cic_cert_pem c, ic_key_pem = cic_key_pem c,
     ic_hostnames = cic_hostnames c\<rparr>"

definition wire_tls_config :: "CpTlsConfig \<Rightarrow> TlsConfig" where
  "wire_tls_config t = \<lparr>tls_mode = wire_tls_mode (ctl_mode t),
     tls_certificates = map wire_certificate_ref (ctl_certificates t),
     tls_inline_certificates = map wire_inline_certificate (ctl_inline_certificates t)\<rparr>"

definition wire_listener :: "CpListenerConfig \<Rightarrow> ListenerConfig" where
  "wire_listener l = \<lparr>lc_name = clc_name l, lc_port = clc_port l,
     lc_protocol = wire_protocol (clc_protocol l), lc_hostname = clc_hostname l,
     lc_tls = map_option wire_tls_config (clc_tls l)\<rparr>"

fun wire_path_match_type :: "CpPathMatchType \<Rightarrow> PathMatchType" where
  "wire_path_match_type CpPathExact = PathExact"
| "wire_path_match_type CpPathPrefix = PathPrefix"
| "wire_path_match_type CpPathRegularExpression = PathRegularExpression"

definition wire_path_match :: "CpPathMatch \<Rightarrow> PathMatch" where
  "wire_path_match m = \<lparr>pm_match_type = wire_path_match_type (cpm_match_type m), pm_value = cpm_value m\<rparr>"

fun wire_header_match_type :: "CpHeaderMatchType \<Rightarrow> HeaderMatchType" where
  "wire_header_match_type CpHeaderExact = HeaderExact"
| "wire_header_match_type CpHeaderRegularExpression = HeaderRegularExpression"

definition wire_header_match :: "CpHeaderMatch \<Rightarrow> HeaderMatch" where
  "wire_header_match m = \<lparr>hm_name = chm_name m,
     hm_match_type = wire_header_match_type (chm_match_type m), hm_value = chm_value m\<rparr>"

fun wire_query_param_match_type :: "CpQueryParamMatchType \<Rightarrow> QueryParamMatchType" where
  "wire_query_param_match_type CpQueryExact = QueryExact"
| "wire_query_param_match_type CpQueryRegularExpression = QueryRegularExpression"

definition wire_query_param_match :: "CpQueryParamMatch \<Rightarrow> QueryParamMatch" where
  "wire_query_param_match m = \<lparr>qm_name = cqm_name m,
     qm_match_type = wire_query_param_match_type (cqm_match_type m), qm_value = cqm_value m\<rparr>"

definition wire_route_match :: "CpRouteMatch \<Rightarrow> RouteMatch" where
  "wire_route_match m = \<lparr>rm_path = map_option wire_path_match (crm_path m),
     rm_headers = map wire_header_match (crm_headers m),
     rm_query_params = map wire_query_param_match (crm_query_params m), rm_method = crm_method m\<rparr>"

fun wire_backend_protocol :: "CpBackendProtocol \<Rightarrow> BackendProtocol" where
  "wire_backend_protocol CpHttp1 = Http1"
| "wire_backend_protocol CpH2c = H2c"

definition wire_backend :: "CpBackendRef \<Rightarrow> Backend" where
  "wire_backend b = \<lparr>be_namespace = cbe_namespace b, be_name = cbe_name b, be_port = cbe_port b,
     be_weight = cbe_weight b, be_protocol = wire_backend_protocol (cbe_protocol b)\<rparr>"

definition wire_header_value :: "CpHeaderValue \<Rightarrow> HeaderValue" where
  "wire_header_value h = \<lparr>hv_name = chv_name h, hv_value = chv_value h\<rparr>"

fun wire_path_modifier :: "CpPathModifier \<Rightarrow> PathModifier" where
  "wire_path_modifier (CpReplaceFullPath v) = ReplaceFullPath v"
| "wire_path_modifier (CpReplacePrefixMatch v) = ReplacePrefixMatch v"

fun wire_filter :: "CpRouteFilter \<Rightarrow> Filter" where
  "wire_filter (CpRequestHeaderModifier a s r) =
     RequestHeaderModifier (map wire_header_value a) (map wire_header_value s) r"
| "wire_filter (CpResponseHeaderModifier a s r) =
     ResponseHeaderModifier (map wire_header_value a) (map wire_header_value s) r"
| "wire_filter (CpRequestRedirect scheme hostname port path status) =
     RequestRedirect scheme hostname port (map_option wire_path_modifier path) status"
| "wire_filter (CpURLRewrite hostname path) = URLRewrite hostname (map_option wire_path_modifier path)"
| "wire_filter (CpRequestMirror backend percent) = RequestMirror (wire_backend backend) percent"

definition wire_timeout :: "CpTimeoutConfig \<Rightarrow> TimeoutConfig" where
  "wire_timeout t = \<lparr>to_request = cto_request t, to_backend_request = cto_backend_request t\<rparr>"

definition wire_rule :: "CpRouteRule \<Rightarrow> RouteRule" where
  "wire_rule r = \<lparr>rr_name = crr_name r, rr_matches = map wire_route_match (crr_matches r),
     rr_filters = map wire_filter (crr_filters r), rr_backends = map wire_backend (crr_backends r),
     rr_timeout = map_option wire_timeout (crr_timeout r)\<rparr>"

definition wire_route :: "CpRouteConfig \<Rightarrow> RouteConfig" where
  "wire_route r = \<lparr>rc_name = crc_name r, rc_namespace = crc_namespace r, rc_hostnames = crc_hostnames r,
     rc_attached_listeners = crc_attached_listeners r, rc_rules = map wire_rule (crc_rules r)\<rparr>"

definition wire_config :: "CpGatewayConfig \<Rightarrow> ProxyConfig" where
  "wire_config c = \<lparr>pc_version = cgc_version c, pc_gateway = wire_gateway_ref (cgc_gateway c),
     pc_listeners = map wire_listener (cgc_listeners c), pc_routes = map wire_route (cgc_routes c)\<rparr>"

named_theorems wire_enc "the control plane writes what the data plane's type would write"

lemma opt_field_map [wire_enc]: "opt_field k enc (map_option f x) = opt_field k (\<lambda>v. enc (f v)) x"
  by (simp add: opt_field_def split: option.splits)

lemma seq_field_map [wire_enc]: "seq_field k enc (map f xs) = seq_field k (\<lambda>v. enc (f v)) xs"
  by (simp add: seq_field_def)

lemma enc_unit_wire [wire_enc]:
  "enc_protocol (wire_protocol p) = cp_enc_protocol p"
  "enc_tls_mode (wire_tls_mode m) = cp_enc_tls_mode m"
  "enc_path_match_type (wire_path_match_type t) = cp_enc_path_match_type t"
  "enc_header_match_type (wire_header_match_type ht) = cp_enc_header_match_type ht"
  "enc_query_param_match_type (wire_query_param_match_type qt) = cp_enc_query_param_match_type qt"
  "enc_backend_protocol (wire_backend_protocol b) = cp_enc_backend_protocol b"
  subgoal by (cases p) simp_all
  subgoal by (cases m) simp_all
  subgoal by (cases t) simp_all
  subgoal by (cases ht) simp_all
  subgoal by (cases qt) simp_all
  subgoal by (cases b) simp_all
  done

lemma enc_leaf_wire [wire_enc]:
  "enc_gateway_ref (wire_gateway_ref g) = cp_enc_gateway_ref g"
  "enc_certificate_ref (wire_certificate_ref c) = cp_enc_certificate_ref c"
  "enc_inline_certificate (wire_inline_certificate i) = cp_enc_inline_certificate i"
  "enc_header_value (wire_header_value h) = cp_enc_header_value h"
  "enc_timeout (wire_timeout t) = cp_enc_timeout t"
  by (simp_all add: enc_gateway_ref_def wire_gateway_ref_def cp_enc_gateway_ref_def
      enc_certificate_ref_def wire_certificate_ref_def cp_enc_certificate_ref_def
      enc_inline_certificate_def wire_inline_certificate_def cp_enc_inline_certificate_def
      enc_header_value_def wire_header_value_def cp_enc_header_value_def
      enc_timeout_def wire_timeout_def cp_enc_timeout_def)

lemma enc_match_wire [wire_enc]:
  "enc_path_match (wire_path_match p) = cp_enc_path_match p"
  "enc_header_match (wire_header_match h) = cp_enc_header_match h"
  "enc_query_param_match (wire_query_param_match q) = cp_enc_query_param_match q"
  "enc_backend (wire_backend b) = cp_enc_backend b"
  by (simp_all add: enc_path_match_def wire_path_match_def cp_enc_path_match_def
      enc_header_match_def wire_header_match_def cp_enc_header_match_def
      enc_query_param_match_def wire_query_param_match_def cp_enc_query_param_match_def
      enc_backend_def wire_backend_def cp_enc_backend_def wire_enc)

lemma enc_tls_wire [wire_enc]: "enc_tls_config (wire_tls_config t) = cp_enc_tls_config t"
  by (simp add: enc_tls_config_def wire_tls_config_def cp_enc_tls_config_def wire_enc comp_def)

lemma enc_listener_wire [wire_enc]: "enc_listener_config (wire_listener l) = cp_enc_listener_config l"
  by (simp add: enc_listener_config_def wire_listener_def cp_enc_listener_config_def wire_enc)

lemma enc_path_modifier_wire [wire_enc]: "enc_path_modifier (wire_path_modifier m) = cp_enc_path_modifier m"
  by (cases m) simp_all

lemma enc_filter_wire [wire_enc]: "enc_filter (wire_filter f) = cp_enc_filter f"
  by (cases f) (simp_all add: enc_modifier_fields_def cp_enc_modifier_fields_def wire_enc comp_def)

lemma enc_rule_wire [wire_enc]: "enc_route_rule (wire_rule r) = cp_enc_route_rule r"
  by (simp add: enc_route_rule_def wire_rule_def cp_enc_route_rule_def enc_route_match_def
      wire_route_match_def cp_enc_route_match_def wire_enc comp_def)

lemma enc_route_wire [wire_enc]: "enc_route_config (wire_route r) = cp_enc_route_config r"
  by (simp add: enc_route_config_def wire_route_def cp_enc_route_config_def wire_enc comp_def)

lemma enc_config_wire: "enc_proxy_config (wire_config c) = cp_enc_gateway_config c"
  by (simp add: enc_proxy_config_def wire_config_def cp_enc_gateway_config_def wire_enc comp_def)

section \<open>The text\<close>

text \<open>
  serde_json as a parameter: \<open>to_string_pretty\<close> of a value, the parsing behind \<open>from_str\<close>
  with the text of its error, and the cast of an integer token to \<open>f64\<close>.
\<close>

record json_text =
  jt_print :: "json \<Rightarrow> string option"
  jt_parse :: "string \<Rightarrow> json option"
  jt_error :: "string \<Rightarrow> string"
  jt_f64 :: "int \<Rightarrow> f64"

definition gateway_config_to_json :: "json_text \<Rightarrow> CpGatewayConfig \<Rightarrow> string option" where
  "gateway_config_to_json jt c = jt_print jt (cp_enc_gateway_config c)"

definition proxy_config_to_json :: "json_text \<Rightarrow> ProxyConfig \<Rightarrow> string option" where
  "proxy_config_to_json jt p = jt_print jt (enc_proxy_config p)"

definition proxy_config_from_json :: "json_text \<Rightarrow> string \<Rightarrow> ProxyConfig option" where
  "proxy_config_from_json jt s = Option.bind (jt_parse jt s) (dec_proxy_config (jt_f64 jt))"

text \<open>C11: The data plane reads the configuration that the control plane wrote: both sides write
  the same JSON for the same configuration, and reading it back gives that configuration with
  every field in place, except that a timeout that is infinite or NaN comes back as absent.\<close>

theorem config_crosses_wire:
  "cp_enc_gateway_config c = enc_proxy_config (wire_config c) \<and>
   dec_proxy_config fi (cp_enc_gateway_config c) = Some (finite_config (wire_config c))"
  using dec_proxy_config_enc [of fi "wire_config c"] by (simp add: enc_config_wire)

lemma dec_protocol_Some:
  "dec_protocol j = Some p \<longleftrightarrow>
     j = enc_protocol p \<or> (\<exists>s. j = JObj [(s, JNull)] \<and> enc_protocol p = JStr s)"
proof (cases j)
  case (JStr s)
  then show ?thesis by (cases p) (auto simp: dec_protocol_def dec_unit_def)
next
  case (JObj kvs)
  then show ?thesis
    by (cases p; cases kvs; cases "tl kvs"; cases "snd (hd kvs)")
      (auto simp: dec_protocol_def dec_unit_def split: json.splits if_splits)
qed (cases p; simp add: dec_protocol_def dec_unit_def)+

text \<open>C24: what the data plane accepts as a listener. A JSON object is read as a listener only if
  its \<open>name\<close> is a string, its \<open>port\<close> an integer from 0 to 65535, and its \<open>protocol\<close> one of
  \<open>HTTP\<close> and \<open>HTTPS\<close>, which become the listener's; keys other than the five of a listener make
  no difference.\<close>

theorem listener_json_well_typed:
  "(dec_listener_config (JObj kvs) = Some l \<longrightarrow>
      (''name'', JStr (lc_name l)) \<in> set kvs \<and>
      (\<exists>p. (''port'', JInt p) \<in> set kvs \<and> 0 \<le> p \<and> p \<le> 65535 \<and> uint (lc_port l) = p) \<and>
      (\<exists>j. (''protocol'', j) \<in> set kvs \<and>
         (j = enc_protocol (lc_protocol l) \<or> (\<exists>s. j = JObj [(s, JNull)] \<and> enc_protocol (lc_protocol l) = JStr s)))) \<and>
   dec_listener_config (JObj kvs) = dec_listener_config (JObj (filter (\<lambda>kv. fst kv \<in>
      {''name'', ''port'', ''protocol'', ''hostname'', ''tls''}) kvs))"
proof (intro conjI impI)
  assume "dec_listener_config (JObj kvs) = Some l"
  then obtain lk where lk: "struct_fields [(''name'', False), (''port'', False), (''protocol'', False),
        (''hostname'', False), (''tls'', False)] (JObj kvs) = Some lk"
    and f: "field_req lk ''name'' dec_string = Some (lc_name l)" "field_req lk ''port'' dec_word = Some (lc_port l)"
      "field_req lk ''protocol'' dec_protocol = Some (lc_protocol l)"
    by (auto simp: dec_listener_config_def bind_eq_Some_conv)
  show "(''name'', JStr (lc_name l)) \<in> set kvs"
    using field_req_mem [OF lk f(1)] by (simp add: dec_string_Some)
  show "\<exists>p. (''port'', JInt p) \<in> set kvs \<and> 0 \<le> p \<and> p \<le> 65535 \<and> uint (lc_port l) = p"
    using field_req_mem [OF lk f(2)] uint_lt2p [of "lc_port l"] by (simp add: dec_word_Some enc_word_def)
  show "\<exists>j. (''protocol'', j) \<in> set kvs \<and>
         (j = enc_protocol (lc_protocol l) \<or> (\<exists>s. j = JObj [(s, JNull)] \<and> enc_protocol (lc_protocol l) = JStr s))"
    using field_req_mem [OF lk f(3)]
    by (simp add: dec_protocol_Some)
next
  show "dec_listener_config (JObj kvs) = dec_listener_config (JObj (filter (\<lambda>kv. fst kv \<in>
      {''name'', ''port'', ''protocol'', ''hostname'', ''tls''}) kvs))"
    unfolding dec_listener_config_def by (subst struct_fields_ignores) simp
qed

theorem listener_json_well_typed_witness:
  "(''name'', JStr ''a'') \<in> set [(''name'', JStr ''a''), (''port'', JInt 80), (''protocol'', JStr ''HTTP'')] \<and>
   uint (80 :: u16) = 80"
proof -
  have "dec_listener_config (JObj [(''name'', JStr ''a''), (''port'', JInt 80), (''protocol'', JStr ''HTTP'')]) =
      Some (listener_http ''a'' 80 None)"
    using dec_listener_config_enc [of "listener_http ''a'' 80 None"]
    by (simp add: enc_listener_config_def listener_http_def enc_word_def opt_field_def uint_numeral take_bit_eq_mod)
  from mp [OF conjunct1 [OF listener_json_well_typed] this] show ?thesis
    by (simp add: listener_http_def)
qed

end
