(* ===== verification/DataPlane.thy ===== *)
theory DataPlane
  imports Server WireRoundtrip
begin

text \<open>
  The data plane's program, \<open>crates/dataplane/src/main.rs\<close>: it reads the configuration from the
  gateway's ConfigMap, keeps it up to date from a watch on that ConfigMap, and runs the server on
  it. The Kubernetes client, its watch stream and the JSON library are parameters; log lines are
  left out.
\<close>

definition DP_CONFIG_KEY :: string where
  "DP_CONFIG_KEY = ''config.json''"

record Args =
  ag_gateway_name :: string
  ag_gateway_namespace :: string
  ag_log_level :: string
  ag_log_json :: bool

text \<open>One item of the watch stream, and the client.\<close>

datatype watch_event = EvApply ConfigMap | EvInitApply ConfigMap | EvDelete ConfigMap | EvInit | EvInitDone

record kube_api =
  ka_client_error :: "string option"
  ka_get_configmap :: "string \<Rightarrow> string \<Rightarrow> KubeError + ConfigMap"
  ka_watch_configmaps :: "string \<Rightarrow> string \<Rightarrow> (string + watch_event) list"

section \<open>Reading the configuration\<close>

definition parse_config_from_configmap :: "json_text \<Rightarrow> ConfigMap \<Rightarrow> string + ProxyConfig" where
  "parse_config_from_configmap jt cm =
     (case cm_data cm of
        None \<Rightarrow> Inl ''ConfigMap has no data''
      | Some data \<Rightarrow>
          (case bt_get DP_CONFIG_KEY data of
             None \<Rightarrow> Inl (''ConfigMap missing '' @ quoted DP_CONFIG_KEY @ '' key'')
           | Some content \<Rightarrow>
               (case proxy_config_from_json jt content of
                  None \<Rightarrow> Inl (''Failed to parse config JSON from ConfigMap: '' @ jt_error jt content)
                | Some config \<Rightarrow> Inr config)))"

definition load_config_from_k8s ::
  "json_text \<Rightarrow> kube_api \<Rightarrow> string \<Rightarrow> string \<Rightarrow> string + ProxyConfig" where
  "load_config_from_k8s jt api namespace cm_name =
     (case ka_client_error api of
        Some e \<Rightarrow> Inl (''Failed to create Kubernetes client: '' @ e)
      | None \<Rightarrow>
          (case ka_get_configmap api namespace cm_name of
             Inl e \<Rightarrow> Inl (''Failed to get ConfigMap '' @ namespace @ ''/'' @ cm_name @ '': '' @
               kube_error_text e)
           | Inr cm \<Rightarrow> parse_config_from_configmap jt cm))"

section \<open>Following the ConfigMap\<close>

text \<open>The body of the loop: what an item makes of the shared configuration.\<close>

definition watch_item :: "json_text \<Rightarrow> ProxyConfig \<Rightarrow> string + watch_event \<Rightarrow> ProxyConfig" where
  "watch_item jt state item =
     (case item of
        Inr (EvApply cm) \<Rightarrow>
          (case parse_config_from_configmap jt cm of Inr config \<Rightarrow> config | Inl e \<Rightarrow> state)
      | Inr (EvInitApply cm) \<Rightarrow>
          (case parse_config_from_configmap jt cm of Inr config \<Rightarrow> config | Inl e \<Rightarrow> state)
      | Inr (EvDelete _) \<Rightarrow> state
      | Inr EvInit \<Rightarrow> state
      | Inr EvInitDone \<Rightarrow> state
      | Inl e \<Rightarrow> state)"

text \<open>The watcher's result, and the configuration it leaves when the stream has given its items.\<close>

definition watch_configmap ::
  "json_text \<Rightarrow> kube_api \<Rightarrow> string \<Rightarrow> string \<Rightarrow> ProxyConfig \<Rightarrow> (string + unit) \<times> ProxyConfig" where
  "watch_configmap jt api namespace cm_name state =
     (case ka_client_error api of
        Some e \<Rightarrow> (Inl (''Failed to create Kubernetes client for watcher: '' @ e), state)
      | None \<Rightarrow>
          (Inr (), foldl (watch_item jt) state
             (ka_watch_configmaps api namespace (''metadata.name='' @ cm_name))))"

section \<open>The program\<close>

text \<open>
  Up to \<open>server.run\<close>: the initial configuration and the server on the shared cell \<open>cell\<close> that
  holds it. \<open>rt_error\<close> is the error of building the tokio runtime, \<open>io_text\<close> the rendering of an
  \<open>io::Error\<close>.
\<close>

definition dataplane_start ::
  "json_text \<Rightarrow> kube_api \<Rightarrow> string option \<Rightarrow> (io_error \<Rightarrow> string) \<Rightarrow> nat option \<Rightarrow> 'c \<Rightarrow> Args \<Rightarrow>
     string + ProxyConfig \<times> 'c ProxyServer" where
  "dataplane_start jt api rt_error io_text parallelism cell args =
     (let cm_name = ''multiway-config-'' @ ag_gateway_name args
      in case rt_error of
           Some e \<Rightarrow> Inl e
         | None \<Rightarrow>
             (case load_config_from_k8s jt api (ag_gateway_namespace args) cm_name of
                Inl e \<Rightarrow> Inl e
              | Inr config \<Rightarrow>
                  (case proxy_server_build parallelism (psb_config proxy_server_builder cell) of
                     Inl e \<Rightarrow> Inl (io_text e)
                   | Inr server \<Rightarrow> Inr (config, server))))"

section \<open>Lemmas\<close>

text \<open>The configuration that an item delivers, if it does.\<close>

definition item_config :: "json_text \<Rightarrow> string + watch_event \<Rightarrow> ProxyConfig option" where
  "item_config jt item =
     (let parsed = (\<lambda>cm. case parse_config_from_configmap jt cm of Inr c \<Rightarrow> Some c | Inl _ \<Rightarrow> None)
      in case item of
           Inr (EvApply cm) \<Rightarrow> parsed cm
         | Inr (EvInitApply cm) \<Rightarrow> parsed cm
         | _ \<Rightarrow> None)"

lemma watch_item_eq: "watch_item jt state item = (case item_config jt item of Some c \<Rightarrow> c | None \<Rightarrow> state)"
  by (simp add: watch_item_def item_config_def Let_def split: sum.split watch_event.split)

lemma foldl_watch_item:
  "foldl (watch_item jt) state items = last (state # List.map_filter (item_config jt) items)"
proof (induction items arbitrary: state)
  case (Cons item items)
  then show ?case by (cases "item_config jt item") (simp_all add: watch_item_eq map_filter_simps)
qed (simp add: map_filter_simps)

lemma bt_get_single [simp]: "bt_get k (bt_insert k v []) = Some v"
  by (simp add: bt_get_def)

text \<open>C22: the data plane keeps the last valid configuration. When its client can be made, the watcher
  never fails, and at any time the configuration in use is that of the last applied ConfigMap
  that could be parsed, or the initial one before any such: a ConfigMap that is deleted, lacks the
  key or holds no valid JSON, and an error of the watch leave it in place.\<close>

theorem watch_keeps_last_valid_config:
  "ka_client_error api = None \<longrightarrow> watch_configmap jt api ns name state =
     (Inr (), last (state # List.map_filter (item_config jt)
        (ka_watch_configmaps api ns (''metadata.name='' @ name))))"
  by (simp add: watch_configmap_def foldl_watch_item)

definition demo_kube_api :: "(string + watch_event) list \<Rightarrow> kube_api" where
  "demo_kube_api items = \<lparr>ka_client_error = None, ka_get_configmap = \<lambda>ns n. Inl (KubeApi 404 ''not found''),
     ka_watch_configmaps = \<lambda>ns selector. items\<rparr>"

definition demo_json_text :: "json \<Rightarrow> json_text" where
  "demo_json_text j = \<lparr>jt_print = \<lambda>_. Some ''x'', jt_parse = \<lambda>s. if s = ''x'' then Some j else None,
     jt_error = \<lambda>s. ''error'', jt_f64 = \<lambda>i. 0\<rparr>"

definition demo_watched :: ProxyConfig where
  "demo_watched = proxy_config_default\<lparr>pc_version := ''v2''\<rparr>"

definition demo_config_map :: "string \<Rightarrow> ConfigMap" where
  "demo_config_map content = \<lparr>cm_metadata = object_meta_default, cm_data = Some (bt_insert DP_CONFIG_KEY content [])\<rparr>"

theorem watch_keeps_last_valid_config_witness:
  "watch_configmap (demo_json_text (enc_proxy_config demo_watched))
     (demo_kube_api [Inr EvInit, Inr (EvInitApply (demo_config_map ''x'')), Inl ''gone'',
        Inr (EvApply (demo_config_map ''{''))]) ''ns'' ''c'' proxy_config_default =
     (Inr (), demo_watched)"
proof -
  let ?jt = "demo_json_text (enc_proxy_config demo_watched)"
  let ?items = "[Inr EvInit, Inr (EvInitApply (demo_config_map ''x'')), Inl ''gone'',
        Inr (EvApply (demo_config_map ''{''))]"
  have content: "parse_config_from_configmap jt (demo_config_map s) =
      (case proxy_config_from_json jt s of
         None \<Rightarrow> Inl (''Failed to parse config JSON from ConfigMap: '' @ jt_error jt s) | Some c \<Rightarrow> Inr c)" for jt s
    unfolding parse_config_from_configmap_def demo_config_map_def ConfigMap.simps option.case bt_get_single ..
  have "proxy_config_from_json ?jt ''x'' = Some demo_watched"
    using dec_proxy_config_enc [of "\<lambda>i. 0" demo_watched]
    by (simp add: demo_json_text_def proxy_config_from_json_def demo_watched_def finite_config_def
        proxy_config_default_def)
  moreover have "proxy_config_from_json ?jt ''{'' = None"
    by (simp add: demo_json_text_def proxy_config_from_json_def)
  ultimately show ?thesis
    using watch_keeps_last_valid_config [of "demo_kube_api ?items" ?jt "''ns''" "''c''" proxy_config_default]
    by (simp add: demo_kube_api_def item_config_def map_filter_simps content)
qed

end
