(* ===== verification/System.thy ===== *)
theory System
  imports Controllers DataPlane
begin

text \<open>
  The two halves over time. The control plane's handlers run again and again, on a cluster that
  changes under them and with calls that may fail at any point; a data plane follows its gateway's
  ConfigMap. Nothing orders their steps, so the system is a step relation, and what every request
  meets is an invariant of its reachable states.
\<close>

section \<open>Where a snapshot comes from\<close>

text \<open>Every gateway and route of a snapshot is one that the cluster answered with.\<close>

definition gateway_of :: "Cluster \<Rightarrow> Gateway \<Rightarrow> bool" where
  "gateway_of k gw \<longleftrightarrow> (\<exists>ns n. k_get_gateway k ns n = Inr gw)"

definition httproute_of :: "Cluster \<Rightarrow> HTTPRoute \<Rightarrow> bool" where
  "httproute_of k r \<longleftrightarrow> (\<exists>ns n. k_get_httproute k ns n = Inr r) \<or>
     (\<exists>rs. k_list_httproutes k None = Inr rs \<and> r \<in> set rs)"

definition drawn :: "Cluster \<Rightarrow> WorldSnapshot \<Rightarrow> bool" where
  "drawn k s \<longleftrightarrow> snapshot_wf s \<and> (\<forall>(_, gw)\<in>set (ws_gateways s). gateway_of k gw) \<and>
     (\<forall>(_, r)\<in>set (ws_httproutes s). httproute_of k r)"

lemma drawn_new [simp]: "drawn k (snapshot_new now)"
  by (simp add: drawn_def) (simp add: snapshot_new_def)

lemma with_gateways [simp]:
  "ws_gateways (with_gateway_class gc s) = ws_gateways s" "ws_gateways (with_service sv s) = ws_gateways s"
  "ws_gateways (with_configmap cm s) = ws_gateways s" "ws_gateways (with_deployment d s) = ws_gateways s"
  "ws_gateways (with_node no s) = ws_gateways s" "ws_gateways (with_reference_grant g s) = ws_gateways s"
  "ws_gateways (with_httproute r s) = ws_gateways s"
  by (simp_all add: with_defs)

lemma drawn_other [simp]:
  assumes "drawn k s"
  shows "drawn k (with_gateway_class gc s)" "drawn k (with_service sv s)" "drawn k (with_configmap cm s)"
    "drawn k (with_deployment d s)" "drawn k (with_node no s)" "drawn k (with_reference_grant g s)"
  using assms by (simp_all add: drawn_def lens_simps)

lemma bt_insert_set: "set (bt_insert k v m) \<subseteq> insert (k, v) (set m)"
  by (induction k v m rule: bt_insert.induct) auto

lemma drawn_gateway [simp]: "drawn k s \<Longrightarrow> gateway_of k gw \<Longrightarrow> drawn k (with_gateway gw s)"
  using bt_insert_set [of "meta_key (gw_metadata gw)" gw "ws_gateways s"]
  by (simp add: drawn_def lens_simps) (auto simp: with_gateway_def)

lemma drawn_httproute [simp]: "drawn k s \<Longrightarrow> httproute_of k r \<Longrightarrow> drawn k (with_httproute r s)"
  using bt_insert_set [of "meta_key (hr_metadata r)" r "ws_httproutes s"]
  by (simp add: drawn_def) (auto simp: with_httproute_def)

lemma drawn_fold: "(\<And>x t. drawn k t \<Longrightarrow> drawn k (f x t)) \<Longrightarrow> drawn k s \<Longrightarrow> drawn k (fold f xs s)"
  by (induction xs arbitrary: s) simp_all

lemma drawn_managed: "drawn k s \<Longrightarrow> fetch_managed_resources k s names = Inr s' \<Longrightarrow> drawn k s'"
  by (auto simp: fetch_managed_resources_def Let_def split: sum.splits)

lemma drawn_backends: "drawn k s \<Longrightarrow> drawn k (fetch_backends k ns bs s)"
  by (induction bs arbitrary: s) (auto simp: Let_def split: sum.split)

lemma drawn_rule_backends: "drawn k s \<Longrightarrow> drawn k (fetch_rule_backends k ns rules s)"
  by (induction rules arbitrary: s) (simp_all add: drawn_backends)

lemma drawn_routes_loop:
  "drawn k s \<Longrightarrow> \<forall>r\<in>set rs. httproute_of k r \<Longrightarrow> fetch_routes_loop k gns gn rs s = Inr s' \<Longrightarrow> drawn k s'"
proof (induction rs arbitrary: s)
  case (Cons r rs)
  then have "drawn k (with_httproute r (fetch_rule_backends k (namespace_or_default (hr_metadata r))
      (unwrap_or [] (hr_rules r)) s))" by (simp add: drawn_rule_backends)
  with Cons show ?case by (simp add: fetch_backend_services_def split: if_splits)
qed simp

lemma drawn_nodes: "drawn k s \<Longrightarrow> fetch_nodes k s = Inr s' \<Longrightarrow> drawn k s'"
  by (auto simp: fetch_nodes_def intro: drawn_fold split: sum.splits)

lemma drawn_gateway_snapshot:
  assumes "snapshot_for_gateway k ns n = Inr s"
  shows "drawn k s"
proof -
  obtain s1 s2 s3 where s1: "fetch_gateway_with_class k (snapshot_new (k_now k)) ns n = Inr s1"
    and s2: "fetch_routes_for_gateway k s1 ns n = Inr s2"
    and s3: "fetch_managed_resources k s2 (data_plane_names_new ns n) = Inr s3"
    and s: "fetch_nodes k s3 = Inr s"
    using assms by (auto simp: snapshot_for_gateway_def split: sum.splits)
  have "gateway_of k gw" if "k_get_gateway k ns n = Inr gw" for gw using that by (auto simp: gateway_of_def)
  then have "drawn k s1"
    using s1 by (auto simp: fetch_gateway_with_class_def Let_def split: sum.splits if_splits)
  with s2 have "drawn k s2"
    by (auto simp: fetch_routes_for_gateway_def httproute_of_def intro: drawn_routes_loop split: sum.splits)
  with s s3 show ?thesis by (blast intro: drawn_managed drawn_nodes)
qed

lemma drawn_parents: "drawn k s \<Longrightarrow> fetch_parents k ns refs s = Inr s' \<Longrightarrow> drawn k s'"
proof (induction refs arbitrary: s)
  case (Cons p refs)
  show ?case
  proof (cases "k_get_gateway k (unwrap_or ns (pr_namespace p)) (pr_name p)")
    case (Inl e)
    with Cons show ?thesis by (auto simp: Let_def split: if_splits)
  next
    case (Inr gw)
    then have gw: "gateway_of k gw" by (auto simp: gateway_of_def)
    define t where "t = (case k_get_gateway_class k (gw_gateway_class_name gw) of
        Inr gc \<Rightarrow> with_gateway_class gc s | Inl _ \<Rightarrow> s)"
    have t: "drawn k t" using Cons.prems(1) by (simp add: t_def split: sum.split)
    obtain u where u: "fetch_managed_resources k t (data_plane_names_new (unwrap_or ns (pr_namespace p)) (pr_name p)) = Inr u"
      using fetch_managed_Inr by blast
    have "drawn k (with_gateway gw u)" by (rule drawn_gateway [OF drawn_managed [OF t u] gw])
    with Cons Inr u show ?thesis by (auto simp: Let_def simp flip: t_def split: if_splits)
  qed
qed simp

lemma drawn_route_snapshot:
  assumes "snapshot_for_httproute k ns n = Inr s"
  shows "drawn k s"
proof -
  have grants: "drawn k s" if "drawn k t" "fetch_reference_grants k t ns = Inr s" for t
    using that by (auto simp: fetch_reference_grants_def intro: drawn_fold split: sum.splits)
  show ?thesis
  proof (cases "k_get_httproute k ns n")
    case (Inr r)
    define s0 where "s0 = with_httproute r (snapshot_new (k_now k))"
    obtain s1 where s1: "fetch_parents k ns (unwrap_or [] (hr_parent_refs r)) s0 = Inr s1"
      using fetch_parents_same [OF same_refl] by blast
    have "fetch_reference_grants k (fetch_rule_backends k ns (unwrap_or [] (hr_rules r)) s1) ns = Inr s"
      using assms Inr s1
      by (simp add: snapshot_for_httproute_def fetch_backend_services_def Let_def flip: s0_def)
    moreover have "httproute_of k r" using Inr by (auto simp: httproute_of_def)
    moreover from this have "drawn k s0" by (simp add: s0_def)
    ultimately show ?thesis using s1 by (blast intro: grants drawn_rule_backends drawn_parents)
  next
    case (Inl e)
    then have "fetch_reference_grants k (snapshot_new (k_now k)) ns = Inr s"
      using assms by (simp add: snapshot_for_httproute_def Let_def split: if_splits)
    then show ?thesis using grants [OF drawn_new] by blast
  qed
qed

definition fetched :: "Cluster \<Rightarrow> WorldSnapshot \<Rightarrow> bool" where
  "fetched k s \<longleftrightarrow> (\<exists>ns n. snapshot_for_gateway k ns n = Inr s \<or> snapshot_for_httproute k ns n = Inr s)"

lemma fetched_drawn: "fetched k s \<Longrightarrow> drawn k s"
  by (auto simp: fetched_def drawn_gateway_snapshot drawn_route_snapshot)

text \<open>What the queries of the core give, then.\<close>

lemma drawn_get_gateway: "drawn k s \<Longrightarrow> get_gateway s ns n = Some gw \<Longrightarrow> gateway_of k gw \<and> meta_key (gw_metadata gw) = (ns, n)"
  using keyed_get [of "\<lambda>v. meta_key (gw_metadata v)" "ws_gateways s" "(ns, n)" gw]
  by (force simp: drawn_def snapshot_wf_def get_gateway_def keyed_def bt_get_mem)

lemma drawn_routes: "drawn k s \<Longrightarrow> r \<in> set (routes_for_gateway s ns n) \<Longrightarrow> httproute_of k r \<and> references_gateway ns n r"
  by (auto simp: drawn_def routes_for_gateway_def bt_values_def)

section \<open>What the handlers write\<close>

datatype handled =
    GatewayClassChanged GatewayClass
  | GatewayChanged Gateway
  | HTTPRouteChanged HTTPRoute

definition handle ::
  "(CpGatewayConfig \<Rightarrow> string option) \<Rightarrow> float_ops \<Rightarrow> handled \<Rightarrow> ControllerContext \<Rightarrow> nat exec" where
  "handle to_json fl h ctx =
     (case h of
        GatewayClassChanged gc \<Rightarrow> handle_gateway_class gc ctx
      | GatewayChanged gw \<Rightarrow> handle_gateway to_json fl gw ctx
      | HTTPRouteChanged r \<Rightarrow> handle_httproute to_json fl r ctx)"

fun exec_trace :: "'a exec \<Rightarrow> ApiCall list" where
  "exec_trace (ExOk tr x) = tr"
| "exec_trace (ExErr tr e) = tr"
| "exec_trace (ExPanic tr) = tr"

text \<open>The ConfigMap that a call stores, with its place.\<close>

fun configmap_write :: "ApiCall \<Rightarrow> (string \<times> string \<times> ConfigMap) option" where
  "configmap_write (ReplaceConfigMap ns n cm) = Some (ns, n, cm)"
| "configmap_write (CreateConfigMap ns cm) = Some (ns, name_any (cm_metadata cm), cm)"
| "configmap_write _ = None"

abbreviation gateway_configuration :: "float_ops \<Rightarrow> WorldSnapshot \<Rightarrow> string \<Rightarrow> Gateway \<Rightarrow> CpGatewayConfig" where
  "gateway_configuration fl s ns gw \<equiv> fst (build_gateway_config fl gw ns s)"

text \<open>A ConfigMap with the configuration that a snapshot gives for the gateway \<open>ns\<close>/\<open>n\<close>.\<close>

definition configures ::
  "(CpGatewayConfig \<Rightarrow> string option) \<Rightarrow> float_ops \<Rightarrow> WorldSnapshot \<Rightarrow> string \<Rightarrow> string \<Rightarrow> ConfigMap \<Rightarrow> bool" where
  "configures to_json fl s ns n cm \<longleftrightarrow> (\<exists>gw. get_gateway s ns n = Some gw \<and>
     cm_data cm = Some [(CONFIG_KEY, unwrap_or [] (to_json (gateway_configuration fl s ns gw)))])"

text \<open>A call that stores nothing but such a ConfigMap, under the gateway's name for it.\<close>

definition honest_call :: "(CpGatewayConfig \<Rightarrow> string option) \<Rightarrow> float_ops \<Rightarrow> WorldSnapshot \<Rightarrow> ApiCall \<Rightarrow> bool" where
  "honest_call to_json fl s c \<longleftrightarrow>
     (\<forall>ns name cm. configmap_write c = Some (ns, name, cm) \<longrightarrow>
        (\<exists>n. name = ''multiway-config-'' @ n \<and> configures to_json fl s ns n cm))"

lemma honest_no_write [simp]: "configmap_write c = None \<Longrightarrow> honest_call to_json fl s c"
  by (simp add: honest_call_def)

lemma no_write_status [simp]: "configmap_write (status_call u) = None"
  by (cases u) simp_all

lemma honest_upsert_configmap:
  assumes "get_gateway s ns n = Some gw"
  shows "confined (honest_call to_json fl s) tr (execute_upsert env tr (UpsertConfigMap
    (build_configmap to_json (data_plane_names_new ns n) (gateway_configuration fl s ns gw) gw)))"
  unfolding execute_upsert_def ResourceUpsert.case
  by (rule confined_configmap [where name = "''multiway-config-'' @ n" and ns = ns])
    (use assms in \<open>simp_all add: build_configmap_def configmap_name_def data_plane_names_new_def
      honest_call_def configures_def name_any_def\<close>)

lemma honest_upsert_other:
  "upsert_kind u \<noteq> ''ConfigMap'' \<Longrightarrow> named u \<Longrightarrow> confined (honest_call to_json fl s) tr (execute_upsert env tr u)"
  by (cases u) (auto simp: named_def execute_upsert_def execute_upsert_deployment_def execute_upsert_service_def
      execute_upsert_serviceaccount_def execute_upsert_role_def execute_upsert_rolebinding_def apply_named_def
      intro!: confined_call)

lemma honest_gateway:
  "confined (honest_call to_json fl s) [] (execute env [] (reconcile_gateway to_json fl s cfg ns n))"
proof (cases "\<exists>gw. programmable s ns n gw")
  case True
  then obtain gw where gw: "programmable s ns n gw" ..
  then have "get_gateway s ns n = Some gw" by (simp add: programmable_def)
  note cm = honest_upsert_configmap [OF this]
  show ?thesis
    unfolding reconcile_gateway_programmable [OF gw] gateway_upserts_def Let_def
    by (rule confined_execute)
      (auto simp: cm named_def build_serviceaccount_def build_role_def build_rolebinding_def build_service_def
        build_deployment_def simp flip: status_call.simps intro: honest_upsert_other)
next
  case False
  note none = reconcile_gateway_not_programmable [OF False, of to_json fl cfg]
  show ?thesis by (rule confined_execute) (simp_all add: none)
qed

lemma honest_httproute:
  "confined (honest_call to_json fl s) [] (execute env [] (reconcile_httproute to_json fl s cfg ns n))"
proof (cases "\<exists>r. get_httproute s ns n = Some r \<and> unwrap_or [] (hr_parent_refs r) \<noteq> []")
  case True
  then obtain r where r: "get_httproute s ns n = Some r" "unwrap_or [] (hr_parent_refs r) \<noteq> []" by blast
  have "confined (honest_call to_json fl s) tr (execute_upsert env tr u)"
    if "parent_configmap to_json fl s r ns p = Some u" for p u tr
    using that honest_upsert_configmap [of s "unwrap_or ns (pr_namespace p)" "pr_name p"]
    by (auto simp: parent_configmap_def split: if_splits)
  then show ?thesis
    unfolding reconcile_httproute_eq [OF r] by (intro confined_execute) (auto simp: map_filter_mem)
next
  case False
  have "res_upserts (reconcile_httproute to_json fl s cfg ns n) = []"
    "res_deletes (reconcile_httproute to_json fl s cfg ns n) = []"
    using False by (auto simp: reconcile_httproute_def Let_def result_builder_defs result_new_def split: option.split)
  then show ?thesis by (intro confined_execute) simp_all
qed

lemma configmap_write_object: "configmap_write c = Some (ns, n, cm) \<Longrightarrow> call_object c = (''ConfigMap'', Some ns, n)"
  by (cases c) auto

text \<open>Every ConfigMap that a handler stores has a configuration computed from what it fetched.\<close>

lemma handle_writes:
  assumes "c \<in> set (exec_trace (handle to_json fl h ctx))" and "configmap_write c = Some (ns, name, cm)"
  shows "\<exists>s n. fetched (cl_cluster (cx_client ctx)) s \<and> name = ''multiway-config-'' @ n \<and>
    configures to_json fl s ns n cm"
proof -
  have pick: ?thesis if "fetched (cl_cluster (cx_client ctx)) s" "confined (honest_call to_json fl s) [] out"
    "c \<in> set (exec_trace out)" for s and out :: "nat exec"
    using that assms(2) by (auto simp: confined_def honest_call_def)
  show ?thesis
  proof (cases h)
    case (GatewayClassChanged gc)
    have "\<not> confined (concerns {(''GatewayClass'', None, m)}) [] out" if "c \<in> set (exec_trace out)" for m and out :: "nat exec"
      using that configmap_write_object [OF assms(2)] by (auto simp: confined_def concerns_def)
    with within_execute [OF within_reconcile_gateway_class] GatewayClassChanged assms(1) show ?thesis
      by (fastforce simp: handle_def handle_gateway_class_def Let_def split: sum.splits)
  next
    case (GatewayChanged gw)
    with assms(1) obtain s where "snapshot_for_gateway (cl_cluster (cx_client ctx)) (namespace_or_default (gw_metadata gw))
        (name_any (gw_metadata gw)) = Inr s"
      and "c \<in> set (exec_trace (execute (cl_env (cx_client ctx)) [] (reconcile_gateway to_json fl s (cx_config ctx)
        (namespace_or_default (gw_metadata gw)) (name_any (gw_metadata gw)))))"
      by (auto simp: handle_def handle_gateway_def Let_def split: sum.splits)
    with pick [OF _ honest_gateway] show ?thesis unfolding fetched_def by blast
  next
    case (HTTPRouteChanged r)
    with assms(1) obtain s where "snapshot_for_httproute (cl_cluster (cx_client ctx)) (namespace_or_default (hr_metadata r))
        (name_any (hr_metadata r)) = Inr s"
      and "c \<in> set (exec_trace (execute (cl_env (cx_client ctx)) [] (reconcile_httproute to_json fl s (cx_config ctx)
        (namespace_or_default (hr_metadata r)) (name_any (hr_metadata r)))))"
      by (auto simp: handle_def handle_httproute_def Let_def split: sum.splits)
    with pick [OF _ honest_httproute] show ?thesis unfolding fetched_def by blast
  qed
qed

section \<open>Reading it back\<close>

text \<open>
  The JSON library reads back what it printed, and the empty text, which stands for a configuration
  that could not be printed, is no JSON.
\<close>

definition json_reads_back :: "json_text \<Rightarrow> bool" where
  "json_reads_back jt \<longleftrightarrow> (\<forall>j t. jt_print jt j = Some t \<longrightarrow> jt_parse jt t = Some j) \<and> jt_parse jt [] = None"

definition served_for :: "float_ops \<Rightarrow> WorldSnapshot \<Rightarrow> string \<Rightarrow> Gateway \<Rightarrow> ProxyConfig" where
  "served_for fl s ns gw = finite_config (wire_config (gateway_configuration fl s ns gw))"

lemma configures_printed:
  assumes "json_reads_back jt" and "configures (gateway_config_to_json jt) fl s ns n cm"
    and "get_gateway s ns n = Some gw"
    and "jt_print jt (cp_enc_gateway_config (gateway_configuration fl s ns gw)) = Some t"
  shows "parse_config_from_configmap jt cm = Inr (served_for fl s ns gw)"
proof -
  have "jt_parse jt t = Some (cp_enc_gateway_config (gateway_configuration fl s ns gw))"
    using assms(1,4) by (auto simp: json_reads_back_def)
  with assms(2-4) show ?thesis
    using dec_proxy_config_enc [of "jt_f64 jt" "wire_config (gateway_configuration fl s ns gw)"]
    by (simp add: configures_def parse_config_from_configmap_def gateway_config_to_json_def bt_get_def
        DP_CONFIG_KEY_def CONFIG_KEY_def proxy_config_from_json_def enc_config_wire served_for_def)
qed

lemma configures_parse:
  assumes "json_reads_back jt" and "configures (gateway_config_to_json jt) fl s ns n cm"
    and "parse_config_from_configmap jt cm = Inr c"
  shows "\<exists>gw. get_gateway s ns n = Some gw \<and> c = served_for fl s ns gw"
proof -
  obtain gw where gw: "get_gateway s ns n = Some gw"
    and data: "cm_data cm = Some [(CONFIG_KEY, unwrap_or [] (gateway_config_to_json jt (gateway_configuration fl s ns gw)))]"
    using assms(2) by (auto simp: configures_def)
  show ?thesis
  proof (cases "jt_print jt (cp_enc_gateway_config (gateway_configuration fl s ns gw))")
    case None
    with assms data show ?thesis
      by (simp add: parse_config_from_configmap_def gateway_config_to_json_def bt_get_def DP_CONFIG_KEY_def
          CONFIG_KEY_def proxy_config_from_json_def json_reads_back_def)
  next
    case (Some t)
    with configures_printed [OF assms(1,2) gw] assms(3) gw show ?thesis by simp
  qed
qed

text \<open>
  Where a request is forwarded under the configuration of a gateway: to the backends of one rule of
  a route that names the gateway, each as its reference says.
\<close>

definition backend_of :: "HTTPRoute \<Rightarrow> Backend \<Rightarrow> HttpRouteBackendRef \<Rightarrow> bool" where
  "backend_of r b ref \<longleftrightarrow> be_name b = hrb_name ref \<and>
     be_namespace b = unwrap_or (namespace_or_default (hr_metadata r)) (hrb_namespace ref) \<and>
     be_port b = word_of_int (unwrap_or 80 (hrb_port ref)) \<and>
     be_weight b = word_of_int (unwrap_or 1 (hrb_weight ref))"

lemma served_forward:
  assumes "route re (served_for fl s ns gw) l request = Forward backends filters timeout"
  shows "\<exists>r rule. r \<in> set (routes_for_gateway s ns (name_any (gw_metadata gw))) \<and>
    rule \<in> set (unwrap_or [] (hr_rules r)) \<and> l \<in> gl_name ` set (gw_listeners gw) \<and>
    list_all2 (backend_of r) backends (unwrap_or [] (hrl_backend_refs rule))"
proof -
  obtain rc rl where rc: "rc \<in> set (pc_routes (served_for fl s ns gw))"
    and l: "l \<in> set (rc_attached_listeners rc)" and rl: "rl \<in> set (rc_rules rc)" and b: "backends = rr_backends rl"
    using route_Forward [OF assms] by blast
  obtain r where r: "r \<in> set (routes_for_gateway s ns (name_any (gw_metadata gw)))"
    and rc_eq: "rc = finite_route (wire_route (route_config_of fl gw r))"
    using rc by (auto simp: served_for_def finite_config_def wire_config_def build_gateway_config_fst)
  obtain rule where rule: "rule \<in> set (unwrap_or [] (hr_rules r))"
    and rl_eq: "rl = finite_rule (wire_rule (rule_of fl (namespace_or_default (hr_metadata r)) rule))"
    using rl by (auto simp: rc_eq finite_route_def wire_route_def route_config_of_def convert_httproute_Inr)
  have "l \<in> gl_name ` set (gw_listeners gw)"
    using l by (simp add: rc_eq finite_route_def wire_route_def route_config_of_def convert_httproute_Inr)
  moreover have "list_all2 (backend_of r) backends (unwrap_or [] (hrl_backend_refs rule))"
    by (simp add: b rl_eq finite_rule_def wire_rule_def rule_of_def wire_backend_def convert_backend_def Let_def
        backend_ref_new_def backend_ref_with_weight_def list_all2_conv_all_nth backend_of_def)
  ultimately show ?thesis using r rule by blast
qed

section \<open>The system\<close>

text \<open>
  The state as one gateway's data plane meets it: the states the cluster has had, the versions of
  the gateway's ConfigMap that the handlers have stored, and the configuration in the data plane's
  cell once it has started.
\<close>

record system =
  sy_seen :: "Cluster list"
  sy_versions :: "ConfigMap list"
  sy_config :: "ProxyConfig option"

definition system_start :: system where
  "system_start = \<lparr>sy_seen = [], sy_versions = [], sy_config = None\<rparr>"

text \<open>
  The steps. The cluster changes in any way. A handler that fetched from some state of the cluster,
  now or long ago, makes one of its calls that store the gateway's ConfigMap; runs of handlers
  interleave freely, and any call may be their last. A data plane of the gateway starts, with what is
  stored at the time. And its watch gives an item; a ConfigMap it gives is a version that was
  stored, in whatever order they come.
\<close>

inductive system_step :: "json_text \<Rightarrow> float_ops \<Rightarrow> string \<Rightarrow> string \<Rightarrow> system \<Rightarrow> system \<Rightarrow> bool"
  for jt fl ns n where
  changed: "system_step jt fl ns n s (s\<lparr>sy_seen := sy_seen s @ [k]\<rparr>)"
| stored: "cl_cluster (cx_client ctx) \<in> set (sy_seen s) \<Longrightarrow>
     c \<in> set (exec_trace (handle (gateway_config_to_json jt) fl h ctx)) \<Longrightarrow>
     configmap_write c = Some (ns, ''multiway-config-'' @ n, cm) \<Longrightarrow>
     system_step jt fl ns n s (s\<lparr>sy_versions := sy_versions s @ [cm]\<rparr>)"
| started: "sy_versions s \<noteq> [] \<Longrightarrow>
     ka_get_configmap api ns (''multiway-config-'' @ n) = Inr (last (sy_versions s)) \<Longrightarrow>
     ag_gateway_name args = n \<Longrightarrow> ag_gateway_namespace args = ns \<Longrightarrow>
     dataplane_start jt api rt_error io_text parallelism () args = Inr (config, server) \<Longrightarrow>
     system_step jt fl ns n s (s\<lparr>sy_config := Some config\<rparr>)"
| watched: "sy_config s = Some config \<Longrightarrow>
     (\<And>cm. item = Inr (EvApply cm) \<or> item = Inr (EvInitApply cm) \<Longrightarrow> cm \<in> set (sy_versions s)) \<Longrightarrow>
     system_step jt fl ns n s (s\<lparr>sy_config := Some (watch_item jt config item)\<rparr>)"

inductive reachable :: "json_text \<Rightarrow> float_ops \<Rightarrow> string \<Rightarrow> string \<Rightarrow> system \<Rightarrow> bool" for jt fl ns n where
  start: "reachable jt fl ns n system_start"
| step: "reachable jt fl ns n s \<Longrightarrow> system_step jt fl ns n s t \<Longrightarrow> reachable jt fl ns n t"

text \<open>The invariant: what is stored and what is served was computed from what the cluster has been.\<close>

definition system_inv :: "json_text \<Rightarrow> float_ops \<Rightarrow> string \<Rightarrow> string \<Rightarrow> system \<Rightarrow> bool" where
  "system_inv jt fl ns n s \<longleftrightarrow>
     (\<forall>cm\<in>set (sy_versions s). \<exists>k\<in>set (sy_seen s). \<exists>w. fetched k w \<and>
        configures (gateway_config_to_json jt) fl w ns n cm) \<and>
     (\<forall>c. sy_config s = Some c \<longrightarrow> (\<exists>k\<in>set (sy_seen s). \<exists>w gw. fetched k w \<and>
        get_gateway w ns n = Some gw \<and> c = served_for fl w ns gw))"

lemma dataplane_start_parses:
  "dataplane_start jt api rt_error io_text parallelism cell args = Inr (config, server) \<Longrightarrow>
     ka_get_configmap api (ag_gateway_namespace args) (''multiway-config-'' @ ag_gateway_name args) = Inr cm \<Longrightarrow>
     parse_config_from_configmap jt cm = Inr config"
  by (auto simp: dataplane_start_def load_config_from_k8s_def Let_def split: option.splits sum.splits)

lemma watch_item_cases:
  "watch_item jt config item = config \<or>
     (\<exists>cm. (item = Inr (EvApply cm) \<or> item = Inr (EvInitApply cm)) \<and>
        parse_config_from_configmap jt cm = Inr (watch_item jt config item))"
  by (auto simp: watch_item_def split: sum.split watch_event.split)

lemma system_step_inv:
  assumes "json_reads_back jt" and "system_step jt fl ns n s t" and "system_inv jt fl ns n s"
  shows "system_inv jt fl ns n t"
proof -
  have parsed: "\<exists>k\<in>set (sy_seen s). \<exists>w gw. fetched k w \<and> get_gateway w ns n = Some gw \<and> c = served_for fl w ns gw"
    if "cm \<in> set (sy_versions s)" "parse_config_from_configmap jt cm = Inr c" for cm c
    using assms(3) that configures_parse [OF assms(1)] unfolding system_inv_def by metis
  from assms(2) show ?thesis
  proof cases
    case (changed k)
    with assms(3) show ?thesis unfolding system_inv_def by fastforce
  next
    case (stored ctx c h cm)
    then have "\<exists>k\<in>set (sy_seen s). \<exists>w. fetched k w \<and> configures (gateway_config_to_json jt) fl w ns n cm"
      using handle_writes by (metis same_append_eq)
    with assms(3) stored(1) show ?thesis unfolding system_inv_def by auto
  next
    case (started api args rt_error io_text parallelism config server)
    then have "parse_config_from_configmap jt (last (sy_versions s)) = Inr config"
      using dataplane_start_parses by metis
    then show ?thesis using assms(3) started(1,2) parsed [of "last (sy_versions s)"]
      unfolding system_inv_def by simp
  next
    case (watched config item)
    show ?thesis
      using watch_item_cases [of jt config item]
    proof
      assume "watch_item jt config item = config"
      with assms(3) watched(1,2) show ?thesis unfolding system_inv_def by simp
    next
      assume "\<exists>cm. (item = Inr (EvApply cm) \<or> item = Inr (EvInitApply cm)) \<and>
        parse_config_from_configmap jt cm = Inr (watch_item jt config item)"
      then show ?thesis using assms(3) watched(1,3) parsed unfolding system_inv_def by auto
    qed
  qed
qed

lemma reachable_inv:
  assumes "reachable jt fl ns n s" and "json_reads_back jt"
  shows "system_inv jt fl ns n s"
  using assms(1)
proof (induction rule: reachable.induct)
  case start
  show ?case by (simp add: system_inv_def system_start_def)
next
  case (step s t)
  then show ?case by (blast intro: system_step_inv [OF assms(2)])
qed

section \<open>A handling that succeeds\<close>

lemma healthy_configmap:
  assumes "healthy env" and "om_name (cm_metadata cm) = Some name"
    and "ns = unwrap_or ''default'' (om_namespace (cm_metadata cm))"
  shows "\<exists>c cm'. execute_upsert_configmap env tr cm = ExOk (tr @ [GetConfigMap ns name, c]) () \<and>
    configmap_write c = Some (ns, name, cm') \<and> cm_data cm' = cm_data cm"
proof (cases "env_get_configmap env tr ns name")
  case (Inl e)
  with assms(1) have "is_not_found e" unfolding healthy_def by (metis sum.case(1))
  with Inl show ?thesis
    by (simp add: execute_upsert_configmap_def assms(2) healthy_call [OF assms(1)] Let_def name_any_def flip: assms(3))
next
  case (Inr existing)
  then show ?thesis
    by (simp add: execute_upsert_configmap_def assms(2) healthy_call [OF assms(1)] Let_def flip: assms(3))
qed

lemma healthy_first_configmap:
  assumes "healthy env" and "om_name (cm_metadata cm) = Some name"
    and "om_namespace (cm_metadata cm) = Some ns" and "\<forall>u\<in>set us. named u"
  shows "\<exists>tr' c cm'. run_all (execute_upsert env) tr (UpsertConfigMap cm # us) = ExOk tr' True \<and> c \<in> set tr' \<and>
    configmap_write c = Some (ns, name, cm') \<and> cm_data cm' = cm_data cm"
proof -
  obtain c cm' where c: "execute_upsert_configmap env tr cm = ExOk (tr @ [GetConfigMap ns name, c]) ()"
    "configmap_write c = Some (ns, name, cm')" "cm_data cm' = cm_data cm"
    using healthy_configmap [OF assms(1,2), of ns tr] assms(3) by auto
  let ?tr = "tr @ [GetConfigMap ns name, c]"
  obtain t ok where "run_all (execute_upsert env) ?tr us = ExOk (?tr @ t) ok"
    using run_upserts_named [OF assms(4), of env ?tr] by blast
  moreover from healthy_run_upserts [OF assms(1,4), of ?tr] this have ok by auto
  ultimately show ?thesis
    using c by (intro exI [of _ "?tr @ t"] exI [of _ c] exI [of _ cm']) (simp add: execute_upsert_def)
qed

lemma healthy_gateway:
  assumes "healthy env" and "programmable w ns n gw"
  shows "\<exists>tr c cm. execute env [] (reconcile_gateway to_json fl w cfg ns n) = ExOk tr (cc_requeue_after_secs cfg) \<and>
    c \<in> set tr \<and> configmap_write c = Some (ns, ''multiway-config-'' @ n, cm) \<and> configures to_json fl w ns n cm"
proof -
  let ?cm = "build_configmap to_json (data_plane_names_new ns n) (gateway_configuration fl w ns gw) gw"
  obtain us where us: "gateway_upserts to_json fl w cfg ns n gw = UpsertConfigMap ?cm # us" "\<forall>u\<in>set us. named u"
    by (simp add: gateway_upserts_def Let_def named_def build_serviceaccount_def build_role_def
        build_rolebinding_def build_service_def build_deployment_def)
  obtain tr c cm where "run_all (execute_upsert env) (map status_call [StatusGateway ns n (programmed_status fl w ns n gw)])
      (UpsertConfigMap ?cm # us) = ExOk tr True"
    "c \<in> set tr" "configmap_write c = Some (ns, ''multiway-config-'' @ n, cm)" "cm_data cm = cm_data ?cm"
    using healthy_first_configmap [OF assms(1) _ _ us(2), of ?cm "''multiway-config-'' @ n" ns]
    by (fastforce simp: build_configmap_def configmap_name_def data_plane_names_new_def)
  moreover from this(4) have "configures to_json fl w ns n cm"
    using assms(2) by (simp add: configures_def programmable_def build_configmap_def)
  ultimately show ?thesis
    by (intro exI [of _ tr] exI [of _ c] exI [of _ cm])
      (simp del: run_all.simps add: reconcile_gateway_programmable [OF assms(2)] execute_def us(1)
        requeue_action_def healthy_run_status [OF assms(1)])
qed

section \<open>Properties\<close>



section \<open>One gateway, from the cluster to a request\<close>

definition demo_backed_route :: HTTPRoute where
  "demo_backed_route = (demo_httproute ''a'')\<lparr>hr_rules := Some [\<lparr>hrl_matches = None, hrl_filters = None,
     hrl_backend_refs = Some [demo_backend], hrl_timeouts = None\<rparr>]\<rparr>"

definition demo_backed_kube :: Cluster where
  "demo_backed_kube = demo_kube\<lparr>k_get_httproute := \<lambda>_ _. Inr demo_backed_route,
     k_list_httproutes := \<lambda>_. Inr [demo_backed_route]\<rparr>"

definition demo_world :: WorldSnapshot where
  "demo_world = (case snapshot_for_gateway demo_backed_kube ''ns'' ''gw'' of Inr s \<Rightarrow> s | Inl _ \<Rightarrow> snapshot_new 0)"

lemma demo_world_fetched: "snapshot_for_gateway demo_backed_kube ''ns'' ''gw'' = Inr demo_world"
  unfolding demo_world_def
  by (simp add: snapshot_for_gateway_def fetch_gateway_with_class_def fetch_routes_for_gateway_def
      fetch_managed_resources_def fetch_nodes_def demo_kube_def demo_backed_kube_def demo_backed_route_def
      references_gateway_def parent_is_def demo_httproute_def fetch_backend_services_def Let_def demo_backend_def)

lemma demo_world_gateway: "get_gateway demo_world ''ns'' ''gw'' = Some demo_gateway"
  by code_simp

lemma demo_world_class: "get_accepted_gateway_class demo_world ''multiway'' = Some demo_gateway_class"
  by code_simp

lemma demo_world_route:
  "route (\<lambda>_. None) (served_for demo_float_ops demo_world ''ns'' demo_gateway) ''http'' demo_request =
     Forward [backend_new ''ns'' ''svc'' 80] [] None"
  by code_simp

lemma demo_world_programmable: "programmable demo_world ''ns'' ''gw'' demo_gateway"
  using demo_world_gateway demo_world_class by (simp add: programmable_def demo_gateway_def listener_ok_def ascii_upper_def byte_def)

definition demo_reading :: json_text where
  "demo_reading = (let j = cp_enc_gateway_config (gateway_configuration demo_float_ops demo_world ''ns'' demo_gateway)
     in (demo_json_text j)\<lparr>jt_print := \<lambda>i. if i = j then Some ''x'' else None\<rparr>)"

lemma demo_reading: "json_reads_back demo_reading"
  "jt_print demo_reading (cp_enc_gateway_config (gateway_configuration demo_float_ops demo_world ''ns'' demo_gateway)) = Some ''x''"
  by (auto simp: json_reads_back_def demo_reading_def demo_json_text_def Let_def)

definition demo_context :: ControllerContext where
  "demo_context = \<lparr>cx_client = \<lparr>cl_cluster = demo_backed_kube, cl_env = demo_env\<rparr>, cx_config = controller_config_default\<rparr>"

lemma demo_context [simp]: "cl_cluster (cx_client demo_context) = demo_backed_kube"
  "cx_config demo_context = controller_config_default" "healthy (cl_env (cx_client demo_context))"
  by (simp_all add: demo_context_def healthy_def demo_env_def is_not_found_def)


definition demo_running :: "ConfigMap \<Rightarrow> system" where
  "demo_running cm = \<lparr>sy_seen = [demo_backed_kube], sy_versions = [cm],
     sy_config = Some (served_for demo_float_ops demo_world ''ns'' demo_gateway)\<rparr>"

lemma demo_reachable: "\<exists>cm. reachable demo_reading demo_float_ops ''ns'' ''gw'' (demo_running cm)"
proof -
  let ?to_json = "gateway_config_to_json demo_reading"
  let ?reachable = "reachable demo_reading demo_float_ops ''ns'' ''gw''"
  let ?seen = "system_start\<lparr>sy_seen := [demo_backed_kube]\<rparr>"
  obtain tr c cm where tr: "execute (cl_env (cx_client demo_context)) []
      (reconcile_gateway ?to_json demo_float_ops demo_world controller_config_default ''ns'' ''gw'') =
        ExOk tr (cc_requeue_after_secs controller_config_default)"
    and c: "c \<in> set tr" "configmap_write c = Some (''ns'', ''multiway-config-'' @ ''gw'', cm)"
    and cm: "configures ?to_json demo_float_ops demo_world ''ns'' ''gw'' cm"
    using healthy_gateway [OF demo_context(3) demo_world_programmable] by blast
  have "handle ?to_json demo_float_ops (GatewayChanged demo_gateway) demo_context =
      ExOk tr (cc_requeue_after_secs controller_config_default)"
    using tr demo_world_fetched by (simp add: handle_def handle_gateway_def demo_gateway_def)
  then have written: "c \<in> set (exec_trace (handle ?to_json demo_float_ops (GatewayChanged demo_gateway) demo_context))"
    using c(1) by simp
  have "?reachable ?seen"
    using step [OF start changed, of demo_reading demo_float_ops "''ns''" "''gw''" demo_backed_kube]
    by (simp add: system_start_def)
  from step [OF this stored [OF _ written c(2)]]
  have stored: "?reachable (?seen\<lparr>sy_versions := [cm]\<rparr>)" by (simp add: system_start_def)
  let ?api = "(demo_kube_api [])\<lparr>ka_get_configmap := \<lambda>ns n. Inr cm\<rparr>"
  let ?args = "\<lparr>ag_gateway_name = ''gw'', ag_gateway_namespace = ''ns'', ag_log_level = ''info'', ag_log_json = False\<rparr>"
  have "dataplane_start demo_reading ?api None (\<lambda>e. ''io'') (Some 2) () ?args =
      Inr (served_for demo_float_ops demo_world ''ns'' demo_gateway, \<lparr>px_config = (), px_worker_threads = 2\<rparr>)"
    using configures_printed [OF demo_reading(1) cm demo_world_gateway demo_reading(2)]
    by (simp add: dataplane_start_def load_config_from_k8s_def proxy_server_build_def psb_config_def
        proxy_server_builder_def demo_kube_api_def)
  from step [OF stored started [OF _ _ _ _ this]]
  have "?reachable (demo_running cm)" by (simp add: system_start_def demo_running_def demo_kube_api_def)
  then show ?thesis ..
qed


end
