(* ===== verification/RoutingTests.thy ===== *)
theory RoutingTests
  imports Routing
begin

text \<open>
  The unit tests of \<open>crates/proxy-core/src/routing.rs\<close>, run on the model: each test is a truth value,
  the conjunction of its assertions over the values it builds, and evaluates to true. The
  regular expression engine is the parameter \<open>re\<close> of the tests that need one, and \<open>no_regex\<close>
  elsewhere.
\<close>

section \<open>Helpers of the tests\<close>

definition no_regex :: regex where
  "no_regex v = None"

fun forwards :: "RoutingDecision \<Rightarrow> bool" where
  "forwards (Forward backends filters timeout) = True"
| "forwards d = False"

fun forwards_to :: "RoutingDecision \<Rightarrow> string \<Rightarrow> bool" where
  "forwards_to (Forward (b # bs) filters timeout) name = (be_name b = name)"
| "forwards_to d name = False"

definition get_request :: "string option \<Rightarrow> string \<Rightarrow> RequestMeta" where
  "get_request host path = \<lparr>rq_host = host, rq_path = path, rq_method = ''GET'', rq_headers = [],
     rq_query_params = []\<rparr>"

text \<open>The gateway of the tests, and its configuration when its one route has one rule.\<close>

definition test_gateway :: ProxyConfig where
  "test_gateway = with_http_listener (proxy_config_builder_new ''default'' ''gw'') ''http'' 80 None"

definition one_rule_config :: "RouteRule \<Rightarrow> ProxyConfig" where
  "one_rule_config rule =
     with_route test_gateway (with_rule (attached_to (route_config_new ''default'' ''route'') ''http'') rule)"

definition svc_rule :: "RouteMatch list \<Rightarrow> RouteRule" where
  "svc_rule ms = with_backend (fold (\<lambda>m r. with_match r m) ms route_rule_builder_new)
     (backend_new ''default'' ''svc'' 8080)"

definition simple_config :: "PathMatchType \<Rightarrow> string \<Rightarrow> string list \<Rightarrow> ProxyConfig" where
  "simple_config path_type path_value hostnames =
     (let builder = attached_to (route_config_new ''default'' ''route-1'') ''http'';
          builder = fold (\<lambda>h b. with_hostname b h) hostnames builder;
          builder = with_rule builder (svc_rule [route_match_default\<lparr>rm_path :=
            Some \<lparr>pm_match_type = path_type, pm_value = path_value\<rparr>\<rparr>])
      in with_route test_gateway builder)"

definition header_config :: "HeaderMatch list \<Rightarrow> ProxyConfig" where
  "header_config hs = one_rule_config (svc_rule
     [route_match_default\<lparr>rm_path := Some path_match_default, rm_headers := hs\<rparr>])"

definition query_config :: "QueryParamMatch list \<Rightarrow> ProxyConfig" where
  "query_config qs = one_rule_config (svc_rule
     [route_match_default\<lparr>rm_path := Some path_match_default, rm_query_params := qs\<rparr>])"

section \<open>Paths\<close>

definition exact_path_matches_identical :: bool where
  "exact_path_matches_identical \<longleftrightarrow>
     (let config = simple_config PathExact ''/one'' []; req = get_request None ''/one''
      in forwards (route no_regex config ''http'' req))"

definition exact_path_does_not_match_trailing_slash :: bool where
  "exact_path_does_not_match_trailing_slash \<longleftrightarrow>
     (let config = simple_config PathExact ''/one'' []; req = get_request None ''/one/''
      in route no_regex config ''http'' req = NotFound)"

definition exact_path_is_case_sensitive :: bool where
  "exact_path_is_case_sensitive \<longleftrightarrow>
     (let config = simple_config PathExact ''/one'' []; req = get_request None ''/One''
      in route no_regex config ''http'' req = NotFound)"

definition exact_path_does_not_match_subpath :: bool where
  "exact_path_does_not_match_subpath \<longleftrightarrow>
     (let config = simple_config PathExact ''/one'' []; req = get_request None ''/one/example''
      in route no_regex config ''http'' req = NotFound)"

lemma exact_path_tests:
  "exact_path_matches_identical" "exact_path_does_not_match_trailing_slash"
  "exact_path_is_case_sensitive" "exact_path_does_not_match_subpath"
  by code_simp+

definition path_prefix_matches_exact :: bool where
  "path_prefix_matches_exact \<longleftrightarrow>
     (let config = simple_config PathPrefix ''/api'' []; req = get_request None ''/api''
      in forwards (route no_regex config ''http'' req))"

definition path_prefix_matches_subpath :: bool where
  "path_prefix_matches_subpath \<longleftrightarrow>
     (let config = simple_config PathPrefix ''/api'' []; req = get_request None ''/api/users''
      in forwards (route no_regex config ''http'' req))"

definition path_prefix_segment_boundary_no_partial_match :: bool where
  "path_prefix_segment_boundary_no_partial_match \<longleftrightarrow>
     (let config = simple_config PathPrefix ''/api'' []; req = get_request None ''/apiversion''
      in route no_regex config ''http'' req = NotFound)"

definition path_prefix_root_matches_everything :: bool where
  "path_prefix_root_matches_everything \<longleftrightarrow>
     (let config = simple_config PathPrefix ''/'' []; req = get_request None ''/anything/at/all''
      in forwards (route no_regex config ''http'' req))"

lemma path_prefix_tests:
  "path_prefix_matches_exact" "path_prefix_matches_subpath"
  "path_prefix_segment_boundary_no_partial_match" "path_prefix_root_matches_everything"
  by code_simp+

text \<open>The tests of regular expressions, for any engine that matches as the expressions mean.\<close>

definition api_version_pattern :: string where
  "api_version_pattern = ''^/api/v'' @ [CHR 0x5C] @ ''d+/.*''"

definition regex_path_matches :: "regex \<Rightarrow> bool" where
  "regex_path_matches re \<longleftrightarrow>
     (let config = simple_config PathRegularExpression api_version_pattern []; req = get_request None ''/api/v2/users''
      in forwards (route re config ''http'' req))"

definition regex_path_does_not_match :: "regex \<Rightarrow> bool" where
  "regex_path_does_not_match re \<longleftrightarrow>
     (let config = simple_config PathRegularExpression api_version_pattern []; req = get_request None ''/api/latest/users''
      in route re config ''http'' req = NotFound)"

lemmas regex_test_simps = Let_def simple_config_def svc_rule_def test_gateway_def get_request_def builder_defs
  route_def hostname_matches_def rule_matches_def single_match_applies_def path_matches_def
  build_decision_def one_rule_config_def header_config_def query_config_def path_match_default_def

lemma regex_path_tests:
  "regex_is_match re api_version_pattern ''/api/v2/users'' \<Longrightarrow> regex_path_matches re"
  "\<not> regex_is_match re api_version_pattern ''/api/latest/users'' \<Longrightarrow> regex_path_does_not_match re"
  by (simp_all add: regex_path_matches_def regex_path_does_not_match_def regex_test_simps)

definition exact_path_beats_prefix :: bool where
  "exact_path_beats_prefix \<longleftrightarrow>
     (let prefix_rule = with_backend (with_path_prefix route_rule_builder_new ''/api'')
            (backend_new ''default'' ''prefix-svc'' 8080);
          exact_rule = with_backend (with_exact_path route_rule_builder_new ''/api'')
            (backend_new ''default'' ''exact-svc'' 9090);
          config = with_route test_gateway
            (with_rule (attached_to (route_config_new ''default'' ''prefix-route'') ''http'') prefix_rule);
          config = with_route config
            (with_rule (attached_to (route_config_new ''default'' ''exact-route'') ''http'') exact_rule);
          req = get_request None ''/api''
      in forwards_to (route no_regex config ''http'' req) ''exact-svc'')"

definition longer_prefix_beats_shorter :: bool where
  "longer_prefix_beats_shorter \<longleftrightarrow>
     (let short_rule = with_backend (with_path_prefix route_rule_builder_new ''/api'')
            (backend_new ''default'' ''short-svc'' 8080);
          long_rule = with_backend (with_path_prefix route_rule_builder_new ''/api/users'')
            (backend_new ''default'' ''long-svc'' 9090);
          config = with_route test_gateway
            (with_rule (attached_to (route_config_new ''default'' ''short-route'') ''http'') short_rule);
          config = with_route config
            (with_rule (attached_to (route_config_new ''default'' ''long-route'') ''http'') long_rule);
          req = get_request None ''/api/users/123''
      in forwards_to (route no_regex config ''http'' req) ''long-svc'')"

lemma path_precedence_tests: "exact_path_beats_prefix" "longer_prefix_beats_shorter"
  by code_simp+

definition prefix_path_unit_tests :: bool where
  "prefix_path_unit_tests \<longleftrightarrow> prefix_path_matches ''/api'' ''/api'' \<and> prefix_path_matches ''/api'' ''/api/users'' \<and>
     \<not> prefix_path_matches ''/api'' ''/apiversion'' \<and> prefix_path_matches ''/'' ''/'' \<and>
     prefix_path_matches ''/'' ''/anything'' \<and> prefix_path_matches ''/a/b'' ''/a/b/c'' \<and>
     \<not> prefix_path_matches ''/a/b'' ''/a/bc''"

definition strip_port_unit_tests :: bool where
  "strip_port_unit_tests \<longleftrightarrow> strip_port ''example.com:8080'' = ''example.com'' \<and>
     strip_port ''example.com'' = ''example.com'' \<and> strip_port ''[::1]:8080'' = ''[::1]:8080''"

lemma path_unit_tests: "prefix_path_unit_tests" "strip_port_unit_tests"
  by code_simp+

section \<open>Hostnames\<close>

definition exact_hostname_matches :: bool where
  "exact_hostname_matches \<longleftrightarrow>
     (let config = simple_config PathPrefix ''/'' [''example.com'']; req = get_request (Some ''example.com'') ''/''
      in forwards (route no_regex config ''http'' req))"

definition exact_hostname_case_insensitive :: bool where
  "exact_hostname_case_insensitive \<longleftrightarrow>
     (let config = simple_config PathPrefix ''/'' [''Example.COM'']; req = get_request (Some ''example.com'') ''/''
      in forwards (route no_regex config ''http'' req))"

definition exact_hostname_no_match :: bool where
  "exact_hostname_no_match \<longleftrightarrow>
     (let config = simple_config PathPrefix ''/'' [''other.com'']; req = get_request (Some ''example.com'') ''/''
      in route no_regex config ''http'' req = NotFound)"

definition wildcard_hostname_matches_subdomain :: bool where
  "wildcard_hostname_matches_subdomain \<longleftrightarrow>
     (let config = simple_config PathPrefix ''/'' [''*.example.com'']; req = get_request (Some ''foo.example.com'') ''/''
      in forwards (route no_regex config ''http'' req))"

definition wildcard_hostname_does_not_match_bare_domain :: bool where
  "wildcard_hostname_does_not_match_bare_domain \<longleftrightarrow>
     (let config = simple_config PathPrefix ''/'' [''*.example.com'']; req = get_request (Some ''example.com'') ''/''
      in route no_regex config ''http'' req = NotFound)"

definition wildcard_hostname_does_not_match_nested_subdomain :: bool where
  "wildcard_hostname_does_not_match_nested_subdomain \<longleftrightarrow>
     (let config = simple_config PathPrefix ''/'' [''*.example.com''];
          req = get_request (Some ''foo.bar.example.com'') ''/''
      in route no_regex config ''http'' req = NotFound)"

lemma hostname_match_tests:
  "exact_hostname_matches" "exact_hostname_case_insensitive" "exact_hostname_no_match"
  "wildcard_hostname_matches_subdomain" "wildcard_hostname_does_not_match_bare_domain"
  "wildcard_hostname_does_not_match_nested_subdomain"
  by code_simp+

definition hostname_port_stripping :: bool where
  "hostname_port_stripping \<longleftrightarrow>
     (let config = simple_config PathPrefix ''/'' [''example.com'']; req = get_request (Some ''example.com:8080'') ''/''
      in forwards (route no_regex config ''http'' req))"

definition empty_hostname_list_matches_all :: bool where
  "empty_hostname_list_matches_all \<longleftrightarrow>
     (let config = simple_config PathPrefix ''/'' []; req = get_request (Some ''anything.example.com'') ''/''
      in forwards (route no_regex config ''http'' req))"

definition no_host_header_with_hostnames_is_not_found :: bool where
  "no_host_header_with_hostnames_is_not_found \<longleftrightarrow>
     (let config = simple_config PathPrefix ''/'' [''example.com'']; req = get_request None ''/''
      in route no_regex config ''http'' req = NotFound)"

lemma host_header_tests:
  "hostname_port_stripping" "empty_hostname_list_matches_all" "no_host_header_with_hostnames_is_not_found"
  by code_simp+

section \<open>Headers, query parameters and methods\<close>

definition request_with_headers :: "(string \<times> string) list \<Rightarrow> RequestMeta" where
  "request_with_headers headers = (get_request None ''/'')\<lparr>rq_headers := headers\<rparr>"

definition request_with_query :: "(string \<times> string) list \<Rightarrow> RequestMeta" where
  "request_with_query qp = (get_request None ''/'')\<lparr>rq_query_params := qp\<rparr>"

definition header_exact_match :: bool where
  "header_exact_match \<longleftrightarrow>
     (let config = header_config [\<lparr>hm_name = ''X-Version'', hm_match_type = HeaderExact, hm_value = ''v2''\<rparr>];
          req = request_with_headers [(''X-Version'', ''v2'')]
      in forwards (route no_regex config ''http'' req))"

definition header_name_case_insensitive :: bool where
  "header_name_case_insensitive \<longleftrightarrow>
     (let config = header_config [\<lparr>hm_name = ''X-Version'', hm_match_type = HeaderExact, hm_value = ''v2''\<rparr>];
          req = request_with_headers [(''x-version'', ''v2'')]
      in forwards (route no_regex config ''http'' req))"

definition header_value_is_case_sensitive :: bool where
  "header_value_is_case_sensitive \<longleftrightarrow>
     (let config = header_config [\<lparr>hm_name = ''X-Version'', hm_match_type = HeaderExact, hm_value = ''v2''\<rparr>];
          req = request_with_headers [(''X-Version'', ''V2'')]
      in route no_regex config ''http'' req = NotFound)"

definition header_and_semantics_all_must_match :: bool where
  "header_and_semantics_all_must_match \<longleftrightarrow>
     (let config = header_config
            [\<lparr>hm_name = ''X-A'', hm_match_type = HeaderExact, hm_value = ''1''\<rparr>,
             \<lparr>hm_name = ''X-B'', hm_match_type = HeaderExact, hm_value = ''2''\<rparr>];
          only_one = request_with_headers [(''X-A'', ''1'')];
          both = request_with_headers [(''X-A'', ''1''), (''X-B'', ''2'')]
      in route no_regex config ''http'' only_one = NotFound \<and> forwards (route no_regex config ''http'' both))"

lemma header_tests:
  "header_exact_match" "header_name_case_insensitive" "header_value_is_case_sensitive"
  "header_and_semantics_all_must_match"
  by code_simp+

definition query_param_exact_match :: bool where
  "query_param_exact_match \<longleftrightarrow>
     (let config = query_config [\<lparr>qm_name = ''page'', qm_match_type = QueryExact, qm_value = ''1''\<rparr>];
          req = request_with_query [(''page'', ''1'')]
      in forwards (route no_regex config ''http'' req))"

definition query_param_case_sensitive :: bool where
  "query_param_case_sensitive \<longleftrightarrow>
     (let config = query_config [\<lparr>qm_name = ''Page'', qm_match_type = QueryExact, qm_value = ''1''\<rparr>];
          req = request_with_query [(''page'', ''1'')]
      in route no_regex config ''http'' req = NotFound)"

definition query_param_and_semantics :: bool where
  "query_param_and_semantics \<longleftrightarrow>
     (let config = query_config
            [\<lparr>qm_name = ''a'', qm_match_type = QueryExact, qm_value = ''1''\<rparr>,
             \<lparr>qm_name = ''b'', qm_match_type = QueryExact, qm_value = ''2''\<rparr>];
          only_one = request_with_query [(''a'', ''1'')];
          both = request_with_query [(''a'', ''1''), (''b'', ''2'')]
      in route no_regex config ''http'' only_one = NotFound \<and> forwards (route no_regex config ''http'' both))"

lemma query_param_tests:
  "query_param_exact_match" "query_param_case_sensitive" "query_param_and_semantics"
  by code_simp+

definition digits_pattern :: string where
  "digits_pattern = ''^'' @ [CHR 0x5C] @ ''d+$''"

definition header_regex_match :: "regex \<Rightarrow> bool" where
  "header_regex_match re \<longleftrightarrow>
     (let config = header_config [\<lparr>hm_name = ''Authorization'', hm_match_type = HeaderRegularExpression,
            hm_value = ''^Bearer .+''\<rparr>];
          bearer = request_with_headers [(''Authorization'', ''Bearer abc123'')];
          basic = request_with_headers [(''Authorization'', ''Basic abc123'')]
      in forwards (route re config ''http'' bearer) \<and> route re config ''http'' basic = NotFound)"

definition query_param_regex_match :: "regex \<Rightarrow> bool" where
  "query_param_regex_match re \<longleftrightarrow>
     (let config = query_config [\<lparr>qm_name = ''id'', qm_match_type = QueryRegularExpression,
            qm_value = digits_pattern\<rparr>];
          digits = request_with_query [(''id'', ''42'')];
          letters = request_with_query [(''id'', ''abc'')]
      in forwards (route re config ''http'' digits) \<and> route re config ''http'' letters = NotFound)"

lemma regex_match_tests:
  "regex_is_match re ''^Bearer .+'' ''Bearer abc123'' \<Longrightarrow> \<not> regex_is_match re ''^Bearer .+'' ''Basic abc123'' \<Longrightarrow>
     header_regex_match re"
  "regex_is_match re digits_pattern ''42'' \<Longrightarrow> \<not> regex_is_match re digits_pattern ''abc'' \<Longrightarrow>
     query_param_regex_match re"
  by (simp_all add: header_regex_match_def query_param_regex_match_def request_with_headers_def
      request_with_query_def header_matches_def query_param_matches_def prefix_path_matches_def regex_test_simps)

definition method_matching_case_insensitive :: bool where
  "method_matching_case_insensitive \<longleftrightarrow>
     (let config = one_rule_config (svc_rule [route_match_default\<lparr>rm_path := Some path_match_default,
            rm_method := Some ''POST''\<rparr>]);
          post = (get_request None ''/'')\<lparr>rq_method := ''post''\<rparr>;
          get = get_request None ''/''
      in forwards (route no_regex config ''http'' post) \<and> route no_regex config ''http'' get = NotFound)"

definition multiple_matches_or_semantics :: bool where
  "multiple_matches_or_semantics \<longleftrightarrow>
     (let config = one_rule_config (svc_rule
            [route_match_default\<lparr>rm_path := Some \<lparr>pm_match_type = PathExact, pm_value = ''/a''\<rparr>\<rparr>,
             route_match_default\<lparr>rm_path := Some \<lparr>pm_match_type = PathExact, pm_value = ''/b''\<rparr>\<rparr>])
      in forwards (route no_regex config ''http'' (get_request None ''/a'')) \<and>
         forwards (route no_regex config ''http'' (get_request None ''/b'')) \<and>
         route no_regex config ''http'' (get_request None ''/c'') = NotFound)"

definition multiple_conditions_and_semantics :: bool where
  "multiple_conditions_and_semantics \<longleftrightarrow>
     (let config = one_rule_config (svc_rule [route_match_default\<lparr>
            rm_path := Some \<lparr>pm_match_type = PathPrefix, pm_value = ''/api''\<rparr>, rm_method := Some ''POST'',
            rm_headers := [\<lparr>hm_name = ''Content-Type'', hm_match_type = HeaderExact,
              hm_value = ''application/json''\<rparr>]\<rparr>]);
          all = (get_request None ''/api/data'')\<lparr>rq_method := ''POST'',
            rq_headers := [(''Content-Type'', ''application/json'')]\<rparr>;
          wrong_method = all\<lparr>rq_method := ''GET''\<rparr>;
          wrong_path = all\<lparr>rq_path := ''/other''\<rparr>;
          missing_header = all\<lparr>rq_headers := []\<rparr>
      in forwards (route no_regex config ''http'' all) \<and> route no_regex config ''http'' wrong_method = NotFound \<and>
         route no_regex config ''http'' wrong_path = NotFound \<and>
         route no_regex config ''http'' missing_header = NotFound)"

lemma condition_tests:
  "method_matching_case_insensitive" "multiple_matches_or_semantics" "multiple_conditions_and_semantics"
  by code_simp+

section \<open>Listeners, empty configurations and decisions\<close>

definition unattached_route_is_not_found :: bool where
  "unattached_route_is_not_found \<longleftrightarrow>
     (let config = with_http_listener test_gateway ''internal'' 8080 None;
          rule = with_backend (with_path_prefix route_rule_builder_new ''/'') (backend_new ''default'' ''svc'' 8080);
          config = with_route config (with_rule (attached_to (route_config_new ''default'' ''route'') ''internal'') rule);
          req = get_request None ''/anything''
      in route no_regex config ''http'' req = NotFound \<and> forwards (route no_regex config ''internal'' req))"

definition no_routes_returns_not_found :: bool where
  "no_routes_returns_not_found \<longleftrightarrow>
     route no_regex test_gateway ''http'' (get_request None ''/anything'') = NotFound"

definition empty_matches_matches_all :: bool where
  "empty_matches_matches_all \<longleftrightarrow>
     (let config = one_rule_config \<lparr>rr_name = None, rr_matches = [], rr_filters = [],
            rr_backends = [backend_new ''default'' ''svc'' 8080], rr_timeout = None\<rparr>;
          req = get_request (Some ''any.host'') ''/any/path''
      in forwards (route no_regex config ''http'' req))"

definition redirect_filter_returns_redirect :: bool where
  "redirect_filter_returns_redirect \<longleftrightarrow>
     (let config = one_rule_config (with_filter (with_path_prefix route_rule_builder_new ''/old'')
            (RequestRedirect (Some ''https'') (Some ''new.example.com'') (Some 443) None (Some 301)));
          req = get_request (Some ''old.example.com'') ''/old/page''
      in case route no_regex config ''http'' req of
           Redirect redir \<Rightarrow> rd_status_code redir = 301 \<and>
             rd_location redir = ''https://new.example.com:443/old/page''
         | _ \<Rightarrow> False)"

text \<open>The timeouts 30.0 and 10.0, as their bits.\<close>

definition forward_returns_backends_filters_timeout :: bool where
  "forward_returns_backends_filters_timeout \<longleftrightarrow>
     (let rule = with_path_prefix route_rule_builder_new ''/'';
          rule = with_backend rule (backend_new ''default'' ''svc-a'' 8080);
          rule = with_backend rule (backend_with_weight (backend_new ''default'' ''svc-b'' 9090) 3);
          rule = with_filter rule (filter_request_header_add [\<lparr>hv_name = ''X-Proxy'', hv_value = ''multiway''\<rparr>]);
          rule = with_timeout rule \<lparr>to_request = Some 0x403E000000000000, to_backend_request = Some 0x4024000000000000\<rparr>;
          req = get_request None ''/anything''
      in case route no_regex (one_rule_config rule) ''http'' req of
           Forward backends filters timeout \<Rightarrow>
             length backends = 2 \<and> be_name (backends ! 0) = ''svc-a'' \<and> be_name (backends ! 1) = ''svc-b'' \<and>
             be_weight (backends ! 1) = 3 \<and> length filters = 1 \<and>
             (case timeout of
                Some t \<Rightarrow> to_request t = Some 0x403E000000000000 \<and> to_backend_request t = Some 0x4024000000000000
              | None \<Rightarrow> False)
         | _ \<Rightarrow> False)"

lemma decision_tests:
  "unattached_route_is_not_found" "no_routes_returns_not_found" "empty_matches_matches_all"
  "redirect_filter_returns_redirect" "forward_returns_backends_filters_timeout"
  by code_simp+

end
