(* ===== verification/TestLib.thy ===== *)
theory TestLib
  imports RustStr "HOL-Library.Code_Target_Nat"
begin

text \<open>
  What the unit tests of the repository share: a test that unwraps a value, or calls a function that may
  panic, goes on with what it gets and fails otherwise. The tests are evaluated with natural numbers
  in binary.
\<close>

fun ok_and :: "'e + 'a \<Rightarrow> ('a \<Rightarrow> bool) \<Rightarrow> bool" where
  "ok_and (Inr x) P = P x"
| "ok_and (Inl e) P = False"

fun some_and :: "'a option \<Rightarrow> ('a \<Rightarrow> bool) \<Rightarrow> bool" where
  "some_and (Some x) P = P x"
| "some_and None P = False"

text \<open>The value at an index, where there is one.\<close>

definition at_and :: "'a list \<Rightarrow> nat \<Rightarrow> ('a \<Rightarrow> bool) \<Rightarrow> bool" where
  "at_and xs i P \<longleftrightarrow> i < length xs \<and> P (xs ! i)"

lemma take_chars_code [code]:
  "take_chars n s =
     (if n = 0 then []
      else case s of
          [] \<Rightarrow> []
        | c # s \<Rightarrow> c # takeWhile is_cont_byte s @ take_chars (n - 1) (dropWhile is_cont_byte s))"
  by (cases n; cases s) simp_all

end
