(* ===== verification/FilterTests.thy ===== *)
theory FilterTests
  imports HttpFilter TestLib
begin

text \<open>The unit tests of \<open>crates/proxy-core/src/filter.rs\<close>, run on the model.\<close>

section \<open>Header modifications\<close>

definition remove_headers_by_name_case_insensitive :: bool where
  "remove_headers_by_name_case_insensitive \<longleftrightarrow>
     (let applied = applied_filter_default\<lparr>af_request_header_remove := [''X-Remove-Me'']\<rparr>;
          headers = [(''x-remove-me'', ''value1''), (''X-Remove-Me'', ''value2''), (''X-Keep'', ''keep'')];
          headers = apply_request_headers headers applied
      in length headers = 1 \<and> fst (headers ! 0) = ''X-Keep'')"

definition set_headers_overwrites_existing :: bool where
  "set_headers_overwrites_existing \<longleftrightarrow>
     (let applied = applied_filter_default\<lparr>af_request_header_set :=
            [\<lparr>hv_name = ''X-Existing'', hv_value = ''new-value''\<rparr>]\<rparr>;
          headers = [(''x-existing'', ''old-value''), (''Other'', ''untouched'')];
          headers = apply_request_headers headers applied
      in length headers = 2 \<and> snd (headers ! 0) = ''new-value'' \<and> snd (headers ! 1) = ''untouched'')"

definition set_headers_inserts_when_absent :: bool where
  "set_headers_inserts_when_absent \<longleftrightarrow>
     (let applied = applied_filter_default\<lparr>af_request_header_set :=
            [\<lparr>hv_name = ''X-New'', hv_value = ''brand-new''\<rparr>]\<rparr>;
          headers = apply_request_headers [(''Other'', ''val'')] applied
      in length headers = 2 \<and> fst (headers ! 1) = ''X-New'' \<and> snd (headers ! 1) = ''brand-new'')"

definition add_headers_appends_without_overwriting :: bool where
  "add_headers_appends_without_overwriting \<longleftrightarrow>
     (let applied = applied_filter_default\<lparr>af_request_header_add :=
            [\<lparr>hv_name = ''X-Existing'', hv_value = ''second''\<rparr>]\<rparr>;
          headers = apply_request_headers [(''X-Existing'', ''first'')] applied
      in length headers = 2 \<and> snd (headers ! 0) = ''first'' \<and> snd (headers ! 1) = ''second'')"

definition combined_remove_set_add_in_correct_order :: bool where
  "combined_remove_set_add_in_correct_order \<longleftrightarrow>
     (let applied = applied_filter_default\<lparr>af_request_header_remove := [''B''],
            af_request_header_set := [\<lparr>hv_name = ''A'', hv_value = ''overwritten''\<rparr>],
            af_request_header_add := [\<lparr>hv_name = ''D'', hv_value = ''added''\<rparr>]\<rparr>;
          headers = [(''A'', ''old''), (''B'', ''remove-me''), (''C'', ''keep'')];
          headers = apply_request_headers headers applied
      in length headers = 3 \<and> headers ! 0 = (''A'', ''overwritten'') \<and> headers ! 1 = (''C'', ''keep'') \<and>
         headers ! 2 = (''D'', ''added''))"

definition response_header_modifications :: bool where
  "response_header_modifications \<longleftrightarrow>
     (let applied = applied_filter_default\<lparr>af_response_header_remove := [''Server''],
            af_response_header_set := [\<lparr>hv_name = ''Cache-Control'', hv_value = ''no-store''\<rparr>],
            af_response_header_add := [\<lparr>hv_name = ''X-Custom'', hv_value = ''yes''\<rparr>]\<rparr>;
          headers = [(''Server'', ''nginx''), (''Cache-Control'', ''public'')];
          headers = apply_response_headers headers applied
      in length headers = 2 \<and> headers ! 0 = (''Cache-Control'', ''no-store'') \<and>
         headers ! 1 = (''X-Custom'', ''yes''))"

lemma header_modification_tests:
  "remove_headers_by_name_case_insensitive" "set_headers_overwrites_existing" "set_headers_inserts_when_absent"
  "add_headers_appends_without_overwriting" "combined_remove_set_add_in_correct_order"
  "response_header_modifications"
  by code_simp+

section \<open>Redirects\<close>

definition hostname_redirect_default_302 :: bool where
  "hostname_redirect_default_302 \<longleftrightarrow>
     (let redirect = RequestRedirect None (Some ''new.example.com'') None None None
      in ok_and (compute_redirect redirect ''/path'' ''old.example.com'' None)
           (\<lambda>result. rd_status_code result = 302 \<and>
              rd_location result = ''http://new.example.com/path''))"

definition hostname_redirect_custom_status_301 :: bool where
  "hostname_redirect_custom_status_301 \<longleftrightarrow>
     (let redirect = RequestRedirect None (Some ''new.example.com'') None None (Some 301)
      in ok_and (compute_redirect redirect ''/path'' ''old.example.com'' None)
           (\<lambda>result. rd_status_code result = 301 \<and>
              rd_location result = ''http://new.example.com/path''))"

definition scheme_redirect_http_to_https :: bool where
  "scheme_redirect_http_to_https \<longleftrightarrow>
     (let redirect = RequestRedirect (Some ''https'') None None None None
      in ok_and (compute_redirect redirect ''/secure'' ''example.com'' None)
           (\<lambda>result. rd_status_code result = 302 \<and>
              rd_location result = ''https://example.com/secure''))"

definition port_redirect_standard_port_omitted :: bool where
  "port_redirect_standard_port_omitted \<longleftrightarrow>
     (let redirect = RequestRedirect (Some ''https'') None (Some 443) None None
      in ok_and (compute_redirect redirect ''/path'' ''example.com'' None)
           (\<lambda>result. rd_location result = ''https://example.com/path''))"

definition port_redirect_nonstandard_port_included :: bool where
  "port_redirect_nonstandard_port_included \<longleftrightarrow>
     (let redirect = RequestRedirect (Some ''https'') None (Some 8443) None None
      in ok_and (compute_redirect redirect ''/path'' ''example.com'' None)
           (\<lambda>result. rd_location result = ''https://example.com:8443/path''))"

definition port_redirect_http_standard_port_omitted :: bool where
  "port_redirect_http_standard_port_omitted \<longleftrightarrow>
     (let redirect = RequestRedirect None None (Some 80) None None
      in ok_and (compute_redirect redirect ''/path'' ''example.com'' None)
           (\<lambda>result. rd_location result = ''http://example.com/path''))"

definition full_path_replacement_redirect :: bool where
  "full_path_replacement_redirect \<longleftrightarrow>
     (let redirect = RequestRedirect None None None (Some (ReplaceFullPath ''/new-path'')) None
      in ok_and (compute_redirect redirect ''/old-path'' ''example.com'' None)
           (\<lambda>result. rd_location result = ''http://example.com/new-path''))"

definition prefix_path_replacement_redirect :: bool where
  "prefix_path_replacement_redirect \<longleftrightarrow>
     (let redirect = RequestRedirect None None None (Some (ReplacePrefixMatch ''/new'')) None
      in ok_and (compute_redirect redirect ''/old/foo/bar'' ''example.com'' (Some ''/old''))
           (\<lambda>result. rd_location result = ''http://example.com/new/foo/bar''))"

definition query_string_preservation :: bool where
  "query_string_preservation \<longleftrightarrow>
     (let redirect = RequestRedirect (Some ''https'') (Some ''new.example.com'') None None None
      in ok_and (compute_redirect redirect ''/path?key=value&other=1'' ''old.example.com'' None)
           (\<lambda>result. rd_location result = ''https://new.example.com/path?key=value&other=1''))"

definition combined_scheme_hostname_port_path_redirect :: bool where
  "combined_scheme_hostname_port_path_redirect \<longleftrightarrow>
     (let redirect = RequestRedirect (Some ''https'') (Some ''new.example.com'') (Some 8443) (Some (ReplaceFullPath ''/landing'')) (Some 307)
      in ok_and (compute_redirect redirect ''/old-path?q=search'' ''old.example.com'' None)
           (\<lambda>result. rd_status_code result = 307 \<and>
              rd_location result = ''https://new.example.com:8443/landing?q=search''))"

lemma redirect_tests:
  "hostname_redirect_default_302" "hostname_redirect_custom_status_301" "scheme_redirect_http_to_https"
  "port_redirect_standard_port_omitted" "port_redirect_nonstandard_port_included"
  "port_redirect_http_standard_port_omitted" "full_path_replacement_redirect"
  "prefix_path_replacement_redirect" "query_string_preservation"
  "combined_scheme_hostname_port_path_redirect"
  by code_simp+

definition redirect_status_code_301 :: bool where
  "redirect_status_code_301 \<longleftrightarrow>
     (let redirect = RequestRedirect None (Some ''x.com'') None None (Some 301)
      in ok_and (compute_redirect redirect ''/'' ''a.com'' None)
           (\<lambda>result. rd_status_code result = 301))"

definition redirect_status_code_302 :: bool where
  "redirect_status_code_302 \<longleftrightarrow>
     (let redirect = RequestRedirect None (Some ''x.com'') None None (Some 302)
      in ok_and (compute_redirect redirect ''/'' ''a.com'' None)
           (\<lambda>result. rd_status_code result = 302))"

definition redirect_status_code_303 :: bool where
  "redirect_status_code_303 \<longleftrightarrow>
     (let redirect = RequestRedirect None (Some ''x.com'') None None (Some 303)
      in ok_and (compute_redirect redirect ''/'' ''a.com'' None)
           (\<lambda>result. rd_status_code result = 303))"

definition redirect_status_code_307 :: bool where
  "redirect_status_code_307 \<longleftrightarrow>
     (let redirect = RequestRedirect None (Some ''x.com'') None None (Some 307)
      in ok_and (compute_redirect redirect ''/'' ''a.com'' None)
           (\<lambda>result. rd_status_code result = 307))"

definition redirect_status_code_308 :: bool where
  "redirect_status_code_308 \<longleftrightarrow>
     (let redirect = RequestRedirect None (Some ''x.com'') None None (Some 308)
      in ok_and (compute_redirect redirect ''/'' ''a.com'' None)
           (\<lambda>result. rd_status_code result = 308))"

definition redirect_default_status_is_302 :: bool where
  "redirect_default_status_is_302 \<longleftrightarrow>
     (let redirect = RequestRedirect None (Some ''x.com'') None None None
      in ok_and (compute_redirect redirect ''/'' ''a.com'' None)
           (\<lambda>result. rd_status_code result = 302))"

lemma redirect_status_tests:
  "redirect_status_code_301" "redirect_status_code_302" "redirect_status_code_303"
  "redirect_status_code_307" "redirect_status_code_308" "redirect_default_status_is_302"
  by code_simp+

section \<open>Rewrites and collecting\<close>

definition rewrite_hostname :: bool where
  "rewrite_hostname \<longleftrightarrow>
     ok_and (compute_rewrite (URLRewrite (Some ''internal.example.com'') None) ''/path'' None)
     (\<lambda>result. rw_hostname result = Some ''internal.example.com'' \<and> rw_path result = None)"

definition rewrite_full_path_replacement :: bool where
  "rewrite_full_path_replacement \<longleftrightarrow>
     ok_and (compute_rewrite (URLRewrite None (Some (ReplaceFullPath ''/brand-new''))) ''/old-path'' None)
     (\<lambda>result. rw_hostname result = None \<and> rw_path result = Some ''/brand-new'')"

definition rewrite_prefix_replacement :: bool where
  "rewrite_prefix_replacement \<longleftrightarrow>
     ok_and (compute_rewrite (URLRewrite None (Some (ReplacePrefixMatch ''/new''))) ''/old/foo/bar'' (Some ''/old''))
     (\<lambda>result. rw_path result = Some ''/new/foo/bar'')"

definition rewrite_prefix_replacement_exact_match :: bool where
  "rewrite_prefix_replacement_exact_match \<longleftrightarrow>
     ok_and (compute_rewrite (URLRewrite None (Some (ReplacePrefixMatch ''/new''))) ''/old'' (Some ''/old''))
     (\<lambda>result. rw_path result = Some ''/new'')"

definition rewrite_prefix_to_root :: bool where
  "rewrite_prefix_to_root \<longleftrightarrow>
     ok_and (compute_rewrite (URLRewrite None (Some (ReplacePrefixMatch ''/''))) ''/old/x'' (Some ''/old''))
     (\<lambda>result. rw_path result = Some ''/x'')"

lemma rewrite_tests:
  "rewrite_hostname" "rewrite_full_path_replacement" "rewrite_prefix_replacement"
  "rewrite_prefix_replacement_exact_match" "rewrite_prefix_to_root"
  by code_simp+

definition collect_filters_accumulates_header_modifiers :: bool where
  "collect_filters_accumulates_header_modifiers \<longleftrightarrow>
     (let filters = [RequestHeaderModifier [\<lparr>hv_name = ''X-A'', hv_value = ''a''\<rparr>] [] [''X-Remove''],
            ResponseHeaderModifier [] [\<lparr>hv_name = ''Server'', hv_value = ''multiway''\<rparr>] []]
      in ok_and (collect_filters filters) (\<lambda>applied. length (af_request_header_add applied) = 1 \<and>
           length (af_request_header_remove applied) = 1 \<and> length (af_response_header_set applied) = 1))"

definition collect_filters_captures_mirrors :: bool where
  "collect_filters_captures_mirrors \<longleftrightarrow>
     (let filters = [RequestMirror (backend_new ''default'' ''mirror-svc'' 9090) (Some 50)]
      in ok_and (collect_filters filters) (\<lambda>applied. length (af_mirrors applied) = 1 \<and>
           mt_percent (af_mirrors applied ! 0) = 50 \<and>
           be_name (mt_backend (af_mirrors applied ! 0)) = ''mirror-svc''))"

definition collect_filters_mirror_default_percent_is_100 :: bool where
  "collect_filters_mirror_default_percent_is_100 \<longleftrightarrow>
     (let filters = [RequestMirror (backend_new ''default'' ''mirror-svc'' 9090) None]
      in ok_and (collect_filters filters) (\<lambda>applied.
           at_and (af_mirrors applied) 0 (\<lambda>m. mt_percent m = 100)))"

definition collect_filters_captures_rewrite :: bool where
  "collect_filters_captures_rewrite \<longleftrightarrow>
     (let filters = [URLRewrite (Some ''internal.example.com'') (Some (ReplaceFullPath ''/api''))]
      in ok_and (collect_filters filters) (\<lambda>applied. some_and (af_rewrite applied) (\<lambda>rewrite.
           rw_hostname rewrite = Some ''internal.example.com'' \<and> rw_path rewrite = Some ''/api'')))"

definition collect_filters_ignores_redirects :: bool where
  "collect_filters_ignores_redirects \<longleftrightarrow>
     (let filters = [RequestRedirect (Some ''https'') None None None (Some 301)]
      in ok_and (collect_filters filters) (\<lambda>applied. af_request_header_add applied = [] \<and>
           af_mirrors applied = [] \<and> af_rewrite applied = None))"

lemma collect_filters_tests:
  "collect_filters_accumulates_header_modifiers" "collect_filters_captures_mirrors"
  "collect_filters_mirror_default_percent_is_100" "collect_filters_captures_rewrite"
  "collect_filters_ignores_redirects"
  by code_simp+

section \<open>Paths\<close>

definition split_uri_with_query :: bool where
  "split_uri_with_query \<longleftrightarrow>
     split_uri ''/path?q=1'' = (''/path'', ''q=1'')"

definition split_uri_without_query :: bool where
  "split_uri_without_query \<longleftrightarrow>
     split_uri ''/path'' = (''/path'', [])"

definition replace_prefix_basic :: bool where
  "replace_prefix_basic \<longleftrightarrow>
     replace_prefix ''/old/foo/bar'' ''/old'' ''/new'' = Inr ''/new/foo/bar''"

definition replace_prefix_exact :: bool where
  "replace_prefix_exact \<longleftrightarrow>
     replace_prefix ''/old'' ''/old'' ''/new'' = Inr ''/new''"

definition replace_prefix_to_root_removes_prefix :: bool where
  "replace_prefix_to_root_removes_prefix \<longleftrightarrow>
     replace_prefix ''/old/x'' ''/old'' ''/'' = Inr ''/x''"

definition replace_prefix_trailing_slash_no_double :: bool where
  "replace_prefix_trailing_slash_no_double \<longleftrightarrow>
     replace_prefix ''/old/x'' ''/old'' ''/new/'' = Inr ''/new/x''"

lemma path_helper_tests:
  "split_uri_with_query" "split_uri_without_query" "replace_prefix_basic" "replace_prefix_exact"
  "replace_prefix_to_root_removes_prefix" "replace_prefix_trailing_slash_no_double"
  by code_simp+

end
