(* ===== verification/PipelineTests.thy ===== *)
theory PipelineTests
  imports Pipeline Upgrade TestLib
begin

text \<open>
  The unit tests of \<open>crates/proxy-core/src/pipeline.rs\<close> that open no socket, run on the model with the
  concrete header maps and URIs of \<open>demo_http\<close>: a URI is its path and its query. Random numbers are a
  parameter of the model: where a test draws many of them, the draws go through all values in turn.
\<close>

section \<open>Requests\<close>

text \<open>The builder of a request parses the names of its headers, which are then in lower case.\<close>

definition built_request ::
  "string \<Rightarrow> string \<times> string option \<Rightarrow> (string \<times> string) list \<Rightarrow>
     (string \<times> string option, (string \<times> string) list) HttpRequest" where
  "built_request meth uri headers = \<lparr>hq_method = meth, hq_uri = uri, hq_version = ''HTTP/1.1'',
     hq_headers = map (\<lambda>(n, v). (to_ascii_lowercase n, v)) headers, hq_body = PayloadNone\<rparr>"

text \<open>The lines of a request head, each closed by \<open>\r\n\<close>, and the empty line.\<close>

definition raw_head :: "string list \<Rightarrow> string" where
  "raw_head ls = concat (map (\<lambda>l. l @ crlf) ls) @ crlf"

section \<open>Metadata of a request\<close>

definition extract_meta_basic :: bool where
  "extract_meta_basic \<longleftrightarrow>
     (let req = built_request ''GET'' (''/api/v1/users'', Some ''page=2&limit=10'')
            [(''host'', ''example.com''), (''x-custom'', ''value'')];
          meta = extract_request_meta demo_http req
      in rq_host meta = Some ''example.com'' \<and> rq_path meta = ''/api/v1/users'' \<and> rq_method meta = ''GET'' \<and>
         (''host'', ''example.com'') \<in> set (rq_headers meta) \<and> (''x-custom'', ''value'') \<in> set (rq_headers meta) \<and>
         rq_query_params meta = [(''page'', ''2''), (''limit'', ''10'')])"

definition extract_meta_strips_port_from_host :: bool where
  "extract_meta_strips_port_from_host \<longleftrightarrow>
     (let req = built_request ''GET'' (''/path'', None) [(''host'', ''example.com:8080'')]
      in rq_host (extract_request_meta demo_http req) = Some ''example.com'')"

definition extract_meta_host_without_port :: bool where
  "extract_meta_host_without_port \<longleftrightarrow>
     (let req = built_request ''GET'' (''/path'', None) [(''host'', ''example.com'')]
      in rq_host (extract_request_meta demo_http req) = Some ''example.com'')"

definition extract_meta_no_host_header :: bool where
  "extract_meta_no_host_header \<longleftrightarrow>
     (let meta = extract_request_meta demo_http (built_request ''POST'' (''/submit'', None) [])
      in rq_host meta = None \<and> rq_method meta = ''POST'')"

definition extract_meta_no_query_params :: bool where
  "extract_meta_no_query_params \<longleftrightarrow>
     (let req = built_request ''GET'' (''/path'', None) [(''host'', ''example.com'')]
      in rq_query_params (extract_request_meta demo_http req) = [])"

definition extract_meta_method_preserved :: bool where
  "extract_meta_method_preserved \<longleftrightarrow>
     list_all (\<lambda>meth. rq_method (extract_request_meta demo_http (built_request meth (''/'', None) [])) = meth)
       [''GET'', ''POST'', ''PUT'', ''DELETE'', ''PATCH'', ''HEAD'', ''OPTIONS'']"

definition extract_meta_multiple_headers :: bool where
  "extract_meta_multiple_headers \<longleftrightarrow>
     (let req = built_request ''GET'' (''/'', None)
            [(''host'', ''example.com''), (''accept'', ''text/html''), (''x-request-id'', ''abc-123'')]
      in length (rq_headers (extract_request_meta demo_http req)) = 3)"

lemma extract_meta_tests:
  "extract_meta_basic" "extract_meta_strips_port_from_host" "extract_meta_host_without_port"
  "extract_meta_no_host_header" "extract_meta_no_query_params" "extract_meta_method_preserved"
  "extract_meta_multiple_headers"
  by code_simp+

section \<open>Responses\<close>

definition not_found_response_status :: bool where
  "not_found_response_status \<longleftrightarrow> ss_status (not_found_response demo_http) = 404"

definition bad_gateway_response_status :: bool where
  "bad_gateway_response_status \<longleftrightarrow> ss_status (bad_gateway_response demo_http) = 502"

definition service_unavailable_response_status :: bool where
  "service_unavailable_response_status \<longleftrightarrow> ss_status (service_unavailable_response demo_http) = 503"

definition gateway_timeout_response_status :: bool where
  "gateway_timeout_response_status \<longleftrightarrow> ss_status (gateway_timeout_response demo_http) = 504"

definition redirect_response_has_location_header :: bool where
  "redirect_response_has_location_header \<longleftrightarrow>
     ok_and (redirect_response demo_http 301 ''https://example.com/new'') (\<lambda>resp. ss_status resp = 301 \<and>
       hm_get demo_http (ss_headers resp) LOCATION = Some ''https://example.com/new'')"

definition redirect_response_302 :: bool where
  "redirect_response_302 \<longleftrightarrow>
     ok_and (redirect_response demo_http 302 ''/other'') (\<lambda>resp. ss_status resp = 302 \<and>
       hm_get demo_http (ss_headers resp) LOCATION = Some ''/other'')"

lemma response_tests:
  "not_found_response_status" "bad_gateway_response_status" "service_unavailable_response_status"
  "gateway_timeout_response_status" "redirect_response_has_location_header" "redirect_response_302"
  by code_simp+

section \<open>Choice of a backend\<close>

text \<open>How often a backend is chosen when the \<open>i\<close>-th draw below \<open>t\<close> is \<open>i mod t\<close>.\<close>

definition times_chosen :: "string \<Rightarrow> nat \<Rightarrow> Backend list \<Rightarrow> nat" where
  "times_chosen name iterations backends =
     length (filter (\<lambda>i. case select_backend (\<lambda>t. of_nat (i mod unat t)) backends of
         Some b \<Rightarrow> be_name b = name | None \<Rightarrow> False) [0..<iterations])"

definition select_backend_empty_returns_none :: bool where
  "select_backend_empty_returns_none \<longleftrightarrow> select_backend (\<lambda>t. 0) [] = None"

definition select_backend_single_returns_that_backend :: bool where
  "select_backend_single_returns_that_backend \<longleftrightarrow>
     some_and (select_backend (\<lambda>t. 0) [backend_new ''ns'' ''svc'' 8080]) (\<lambda>selected. be_name selected = ''svc'')"

definition select_backend_weight_zero_never_selected :: bool where
  "select_backend_weight_zero_never_selected \<longleftrightarrow>
     (let backends = [backend_with_weight (backend_new ''ns'' ''zero-weight'' 8080) 0,
            backend_with_weight (backend_new ''ns'' ''positive'' 8081) 1]
      in times_chosen ''positive'' 100 backends = 100)"

definition select_backend_all_zero_weight_returns_none :: bool where
  "select_backend_all_zero_weight_returns_none \<longleftrightarrow>
     select_backend (\<lambda>t. 0) [backend_with_weight (backend_new ''ns'' ''a'' 8080) 0,
       backend_with_weight (backend_new ''ns'' ''b'' 8081) 0] = None"

definition select_backend_weighted_distribution :: bool where
  "select_backend_weighted_distribution \<longleftrightarrow>
     (let backends = [backend_with_weight (backend_new ''ns'' ''heavy'' 8080) 100,
            backend_with_weight (backend_new ''ns'' ''light'' 8081) 1]
      in times_chosen ''heavy'' 1000 backends > 900)"

definition test_weighted_backends :: bool where
  "test_weighted_backends \<longleftrightarrow>
     (let backends = [backend_with_weight (backend_new ''default'' ''heavy'' 8080) 90,
            backend_with_weight (backend_new ''default'' ''light'' 8081) 10];
          heavy_count = times_chosen ''heavy'' 1000 backends
      in heavy_count > 800 \<and> heavy_count < 980)"

lemma select_backend_tests:
  "select_backend_empty_returns_none" "select_backend_single_returns_that_backend"
  "select_backend_weight_zero_never_selected" "select_backend_all_zero_weight_returns_none"
  by code_simp+

text \<open>Of two backends the first is chosen by the draws below its weight.\<close>

lemma length_filter_period:
  fixes t w :: nat
  assumes "w \<le> t"
  shows "length (filter (\<lambda>i. i mod t < w) [0..<k * t]) = k * w"
proof (induction k)
  case (Suc k)
  have "[0..<Suc k * t] = [0..<k * t] @ map (\<lambda>i. i + k * t) [0..<t]"
    using upt_add_eq_append [of 0 "k * t" t] by (simp add: map_add_upt add.commute [of t])
  moreover have "filter (\<lambda>i. i mod t < w) (map (\<lambda>i. i + k * t) [0..<t]) =
      map (\<lambda>i. i + k * t) (filter (\<lambda>i. i < w) [0..<t])"
    unfolding filter_map comp_def by (rule arg_cong [where f = "map _"], rule filter_cong) simp_all
  moreover have "length (filter (\<lambda>i. i < w) [0..<t]) = w"
  proof -
    have "{i. (i < t \<and> i < w)} = {..<w}" using assms by auto
    then show ?thesis by (simp add: length_filter_conv_card conj_commute cong: conj_cong)
  qed
  ultimately show ?case using Suc by simp
qed simp

lemma select_of_two:
  fixes b c :: Backend and i :: nat
  defines "wb \<equiv> unat (be_weight b)" and "wc \<equiv> unat (be_weight c)"
  assumes "wb + wc < 2 ^ 32" "0 < wb" "0 < wc"
  shows "select_backend (\<lambda>t. of_nat (i mod unat t)) [b, c] = Some (if i mod (wb + wc) < wb then b else c)"
proof -
  define r where "r = i mod (wb + wc)"
  have total: "unat (be_weight b + be_weight c) = wb + wc"
    using assms(3) by (simp add: wb_def wc_def unat_word_ariths)
  have r: "r < wb + wc" using assms(4) by (simp add: r_def)
  then have u: "unat (of_nat r :: u32) = r" using assms(3) by (simp add: unat_of_nat)
  have nz: "be_weight b \<noteq> 0" "be_weight c \<noteq> 0" "be_weight b + be_weight c \<noteq> 0"
    using assms(4,5) total by (auto simp: wb_def wc_def)
  have lt: "(of_nat r :: u32) < be_weight b \<longleftrightarrow> r < wb"
    by (simp add: word_less_nat_alt u wb_def)
  have sub: "(of_nat r :: u32) - be_weight b < be_weight c" if "\<not> r < wb"
    using that r by (simp add: word_less_nat_alt unat_sub word_le_nat_alt u flip: wb_def wc_def)
  show ?thesis
    using nz lt sub by (simp add: select_backend_def total_weight_def Let_def total flip: r_def)
qed

lemma times_first_of_two:
  assumes "unat (be_weight b) + unat (be_weight c) < 2 ^ 32" "0 < unat (be_weight b)" "0 < unat (be_weight c)"
    and "be_name b = name" "be_name c \<noteq> name"
  shows "times_chosen name n [b, c] =
     length (filter (\<lambda>i. i mod (unat (be_weight b) + unat (be_weight c)) < unat (be_weight b)) [0..<n])"
  using assms by (simp add: times_chosen_def select_of_two)

lemma times_of_periods:
  assumes "unat (be_weight b) + unat (be_weight c) < 2 ^ 32" "0 < unat (be_weight b)" "0 < unat (be_weight c)"
    and "be_name b = name" "be_name c \<noteq> name"
  shows "n = k * (unat (be_weight b) + unat (be_weight c)) \<Longrightarrow> times_chosen name n [b, c] = k * unat (be_weight b)"
    and "k * (unat (be_weight b) + unat (be_weight c)) < n \<Longrightarrow> k * unat (be_weight b) < times_chosen name n [b, c]"
proof -
  let ?w = "unat (be_weight b)" and ?t = "unat (be_weight b) + unat (be_weight c)"
  note times = times_first_of_two [OF assms] length_filter_period [of ?w ?t k]
  show "n = k * ?t \<Longrightarrow> times_chosen name n [b, c] = k * ?w" using times by simp
  assume "k * ?t < n"
  then have "[0..<n] = [0..<k * ?t] @ k * ?t # [Suc (k * ?t)..<n]"
    using upt_add_eq_append [of 0 "k * ?t" "n - k * ?t"] by (simp add: upt_conv_Cons)
  then show "k * ?w < times_chosen name n [b, c]" using times assms(2) by simp
qed

lemma test_of_weighted_distribution: select_backend_weighted_distribution
  using times_of_periods(2) [of "backend_with_weight (backend_new ''ns'' ''heavy'' 8080) 100"
      "backend_with_weight (backend_new ''ns'' ''light'' 8081) 1" "''heavy''" 9 1000]
  by (simp add: select_backend_weighted_distribution_def backend_with_weight_def backend_new_def)

lemma test_of_weighted_backends: test_weighted_backends
  using times_of_periods(1) [of "backend_with_weight (backend_new ''default'' ''heavy'' 8080) 90"
      "backend_with_weight (backend_new ''default'' ''light'' 8081) 10" "''heavy''" 1000 10]
  by (simp add: test_weighted_backends_def backend_with_weight_def backend_new_def)

section \<open>WebSocket upgrades\<close>

definition ws_request :: "(string \<times> string) list \<Rightarrow>
    (string \<times> string option, (string \<times> string) list) HttpRequest" where
  "ws_request headers = built_request ''GET'' (''/ws'', None) headers"

definition websocket_upgrade_detects_valid_upgrade :: bool where
  "websocket_upgrade_detects_valid_upgrade \<longleftrightarrow>
     is_websocket_upgrade demo_http (ws_request [
       (''host'', ''example.com''), (''connection'', ''Upgrade''), (''upgrade'', ''websocket''),
       (''sec-websocket-version'', ''13''), (''sec-websocket-key'', ''dGhlIHNhbXBsZSBub25jZQ=='')])"

definition websocket_upgrade_rejects_missing_connection_header :: bool where
  "websocket_upgrade_rejects_missing_connection_header \<longleftrightarrow>
     \<not> is_websocket_upgrade demo_http (ws_request [
       (''host'', ''example.com''), (''upgrade'', ''websocket''),
       (''sec-websocket-version'', ''13''), (''sec-websocket-key'', ''dGhlIHNhbXBsZSBub25jZQ=='')])"

definition websocket_upgrade_rejects_missing_upgrade_header :: bool where
  "websocket_upgrade_rejects_missing_upgrade_header \<longleftrightarrow>
     \<not> is_websocket_upgrade demo_http (ws_request [
       (''host'', ''example.com''), (''connection'', ''Upgrade''),
       (''sec-websocket-version'', ''13''), (''sec-websocket-key'', ''dGhlIHNhbXBsZSBub25jZQ=='')])"

definition websocket_upgrade_rejects_missing_websocket_version :: bool where
  "websocket_upgrade_rejects_missing_websocket_version \<longleftrightarrow>
     \<not> is_websocket_upgrade demo_http (ws_request [
       (''host'', ''example.com''), (''connection'', ''Upgrade''), (''upgrade'', ''websocket''),
       (''sec-websocket-key'', ''dGhlIHNhbXBsZSBub25jZQ=='')])"

definition websocket_upgrade_rejects_missing_websocket_key :: bool where
  "websocket_upgrade_rejects_missing_websocket_key \<longleftrightarrow>
     \<not> is_websocket_upgrade demo_http (ws_request [
       (''host'', ''example.com''), (''connection'', ''Upgrade''), (''upgrade'', ''websocket''),
       (''sec-websocket-version'', ''13'')])"

definition websocket_upgrade_rejects_non_websocket_upgrade :: bool where
  "websocket_upgrade_rejects_non_websocket_upgrade \<longleftrightarrow>
     \<not> is_websocket_upgrade demo_http (ws_request [
       (''host'', ''example.com''), (''connection'', ''Upgrade''), (''upgrade'', ''h2c''),
       (''sec-websocket-version'', ''13''), (''sec-websocket-key'', ''dGhlIHNhbXBsZSBub25jZQ=='')])"

definition websocket_upgrade_is_case_insensitive :: bool where
  "websocket_upgrade_is_case_insensitive \<longleftrightarrow>
     is_websocket_upgrade demo_http (ws_request [
       (''host'', ''example.com''), (''Connection'', ''UPGRADE''), (''Upgrade'', ''WebSocket''),
       (''Sec-WebSocket-Version'', ''13''), (''Sec-WebSocket-Key'', ''dGhlIHNhbXBsZSBub25jZQ=='')])"

definition websocket_upgrade_connection_header_with_multiple_values :: bool where
  "websocket_upgrade_connection_header_with_multiple_values \<longleftrightarrow>
     is_websocket_upgrade demo_http (ws_request [
       (''host'', ''example.com''), (''connection'', ''keep-alive, Upgrade''),
       (''upgrade'', ''websocket''), (''sec-websocket-version'', ''13''),
       (''sec-websocket-key'', ''dGhlIHNhbXBsZSBub25jZQ=='')])"

lemma websocket_upgrade_tests:
  "websocket_upgrade_detects_valid_upgrade" "websocket_upgrade_rejects_missing_connection_header"
  "websocket_upgrade_rejects_missing_upgrade_header" "websocket_upgrade_rejects_missing_websocket_version"
  "websocket_upgrade_rejects_missing_websocket_key" "websocket_upgrade_rejects_non_websocket_upgrade"
  "websocket_upgrade_is_case_insensitive" "websocket_upgrade_connection_header_with_multiple_values"
  by code_simp+

definition raw_websocket_upgrade_detects_valid_upgrade :: bool where
  "raw_websocket_upgrade_detects_valid_upgrade \<longleftrightarrow>
     is_raw_websocket_upgrade (raw_head [
       ''GET /ws HTTP/1.1'', ''Host: example.com'', ''Connection: Upgrade'',
       ''Upgrade: websocket'', ''Sec-WebSocket-Version: 13'', ''Sec-WebSocket-Key: dGhlIHNhbXBsZSBub25jZQ==''])"

definition raw_websocket_upgrade_rejects_normal_request :: bool where
  "raw_websocket_upgrade_rejects_normal_request \<longleftrightarrow>
     \<not> is_raw_websocket_upgrade (raw_head [
       ''GET /hello HTTP/1.1'', ''Host: example.com''])"

definition raw_websocket_upgrade_is_case_insensitive :: bool where
  "raw_websocket_upgrade_is_case_insensitive \<longleftrightarrow>
     is_raw_websocket_upgrade (raw_head [
       ''GET /ws HTTP/1.1'', ''host: example.com'', ''CONNECTION: UPGRADE'',
       ''UPGRADE: WebSocket'', ''sec-websocket-version: 13'', ''sec-websocket-key: dGhlIHNhbXBsZSBub25jZQ==''])"

definition raw_websocket_upgrade_rejects_missing_key :: bool where
  "raw_websocket_upgrade_rejects_missing_key \<longleftrightarrow>
     \<not> is_raw_websocket_upgrade (raw_head [
       ''GET /ws HTTP/1.1'', ''Host: example.com'', ''Connection: Upgrade'',
       ''Upgrade: websocket'', ''Sec-WebSocket-Version: 13''])"

lemma raw_websocket_upgrade_tests:
  "raw_websocket_upgrade_detects_valid_upgrade" "raw_websocket_upgrade_rejects_normal_request"
  "raw_websocket_upgrade_is_case_insensitive" "raw_websocket_upgrade_rejects_missing_key"
  by code_simp+

end
