(* ===== verification/ProxyTests.thy ===== *)
theory ProxyTests
  imports Transport PipelineTests RoutingTests
begin

text \<open>
  The tests of \<open>crates/proxy-core/src/pipeline.rs\<close> that send a request through a whole pipeline to fake
  backends (its modules \<open>pipeline_tests\<close>, \<open>mirror_tests\<close> and \<open>timeout_tests\<close>), run on the model. Sockets,
  codec and clock are parameters of the model and are fake here too: the codec hands over the one request whose
  text was sent, a fake backend is what it answers to a request within a timeout, and a pause of \<open>d\<close>
  seconds outlasts the timeouts below \<open>d\<close>. A test that searches the text of an answer for its status or body
  asks for the status and the body of the answer; what a backend received is the text of the request sent to it.
\<close>

section \<open>Fake backends\<close>

type_synonym test_request = "(string \<times> string option, (string \<times> string) list) HttpRequest"
type_synonym test_response = "(string \<times> string) list HttpResponse"
type_synonym test_net = "(string \<times> string option, (string \<times> string) list) Net"

text \<open>What a backend at an address answers to a request, which it has to do within the timeout.\<close>

type_synonym fake_backend = "string \<Rightarrow> test_request \<Rightarrow> f64 option \<Rightarrow> (string + test_response) option"

definition request_text :: "test_request \<Rightarrow> string" where
  "request_text req = raw_head ((hq_method req @ '' '' @ fst (hq_uri req) @ '' HTTP/1.1'') #
     map (\<lambda>(n, v). n @ '': '' @ v) (hq_headers req))"

definition start_fake_backend :: "(string \<times> string) list \<Rightarrow> string \<Rightarrow> fake_backend" where
  "start_fake_backend headers body = (\<lambda>addr req timeout. Some (Inr
     \<lparr>hs_status = 200, hs_headers = (''content-length'', show_nat (length body)) # headers,
      hs_body = PayloadStream [Inr body]\<rparr>))"

definition start_echo_backend :: fake_backend where
  "start_echo_backend = (\<lambda>addr req timeout. start_fake_backend [] (request_text req) addr req timeout)"

definition start_slow_backend :: "f64 \<Rightarrow> string \<Rightarrow> fake_backend" where
  "start_slow_backend delay body = (\<lambda>addr req timeout.
     (case timeout of
        Some t \<Rightarrow> if t < delay then Some (Inl ''timeout'') else start_fake_backend [] body addr req timeout
      | None \<Rightarrow> start_fake_backend [] body addr req timeout))"

definition start_fast_backend :: "string \<Rightarrow> fake_backend" where
  "start_fast_backend body = start_slow_backend 0 body"

definition start_mirror_backend :: "u16 \<Rightarrow> string \<Rightarrow> fake_backend" where
  "start_mirror_backend status body = (\<lambda>addr req timeout. Some (Inr
     \<lparr>hs_status = status, hs_headers = [(''content-length'', show_nat (length body))],
      hs_body = PayloadStream [Inr body]\<rparr>))"

definition unreachable_addr :: string where
  "unreachable_addr = ''127.0.0.1:1''"

definition fake_net :: "(string \<Rightarrow> u16 \<Rightarrow> io_error + string list) \<Rightarrow> fake_backend \<Rightarrow> test_net" where
  "fake_net resolve backend = \<lparr>nt_random = (\<lambda>i t. 0), nt_resolve = resolve,
     nt_connect = (\<lambda>addr. addr \<noteq> unreachable_addr), nt_send = (\<lambda>addr req timeout. None),
     nt_flush = (\<lambda>addr req timeout. None), nt_next = backend, nt_h2_elapsed = (\<lambda>addr req timeout. False),
     nt_h2_connect = (\<lambda>addr. False), nt_h2_handshake = (\<lambda>addr. None), nt_h2_ready = (\<lambda>addr. None),
     nt_h2_send = (\<lambda>addr req ends. None), nt_h2_data = (\<lambda>addr req data. None),
     nt_h2_response = (\<lambda>addr req. Inl ''no HTTP/2'')\<rparr>"

definition port_mapping_resolve :: "(u16 \<times> string) list \<Rightarrow> string \<Rightarrow> u16 \<Rightarrow> io_error + string list" where
  "port_mapping_resolve addrs host port =
     (case find (\<lambda>(p, addr). p = port) addrs of
        Some (p, addr) \<Rightarrow> Inr [addr]
      | None \<Rightarrow> Inl (OtherIo ''no address for port''))"

section \<open>One request through the pipeline\<close>

definition get_from_example :: "string \<Rightarrow> test_request" where
  "get_from_example path = built_request ''GET'' (path, None) [(''Host'', ''example.com'')]"

text \<open>
  The answers to a connection that sends one request and is closed; \<open>elapsed t\<close> says whether the request
  timeout \<open>t\<close> ends before the inner service answers.
\<close>

definition send_through_proxy :: "ProxyConfig \<Rightarrow> test_net \<Rightarrow> (f64 \<Rightarrow> bool) \<Rightarrow> string \<Rightarrow> test_response option" where
  "send_through_proxy config net elapsed path =
     (let raw = raw_head [''GET '' @ path @ '' HTTP/1.1'', ''Host: example.com''];
          conn = \<lparr>cn_reads = (\<lambda>i. Inr (if i = 0 then raw else [])),
            cn_codec = (\<lambda>s. [Inr (get_from_example path)]), cn_send = (\<lambda>i resp. True),
            cn_flush = (\<lambda>i resp. True)\<rparr>
      in case build_pipeline demo_http no_regex net demo_relay config ''http'' (\<lambda>t fr. elapsed t) conn of
           Session ([resp], SessionOk) \<Rightarrow> Some resp
         | _ \<Rightarrow> None)"

definition answered :: "test_response option \<Rightarrow> u16 \<Rightarrow> (string \<Rightarrow> bool) \<Rightarrow> bool" where
  "answered r status P \<longleftrightarrow>
     some_and r (\<lambda>resp. hs_status resp = status \<and> P (payload_bytes (hs_body resp)))"

text \<open>The requests that the upstream service sends: the one to the chosen backend, then the mirrored ones.\<close>

definition requests_sent :: "ProxyConfig \<Rightarrow> test_net \<Rightarrow> string \<Rightarrow> (string \<times> test_request) list" where
  "requests_sent config net path =
     (let req = get_from_example path; meta = extract_request_meta demo_http req
      in case route no_regex config ''http'' meta of
           Forward backends filters timeout \<Rightarrow>
             (case upstream_call demo_http net (forward_of
                 \<lparr>pq_request = req, pq_meta = meta, pq_listener_name = ''http''\<rparr> backends filters timeout) of
                Inr (resp, mirrors, Some primary) \<Rightarrow> primary # mirrors
              | Inr (resp, mirrors, None) \<Rightarrow> mirrors
              | Inl p \<Rightarrow> [])
         | _ \<Rightarrow> [])"

definition received :: "(string \<times> test_request) list \<Rightarrow> string \<Rightarrow> string \<Rightarrow> bool" where
  "received sent addr part \<longleftrightarrow> list_ex (\<lambda>(a, req). a = addr \<and> sublist part (request_text req)) sent"

definition gateway_with :: "RouteRule \<Rightarrow> ProxyConfig" where
  "gateway_with rule =
     with_route (with_http_listener (proxy_config_builder_new ''default'' ''gw'') ''http'' 80 None)
       (with_rule (attached_to (route_config_new ''default'' ''route-1'') ''http'') rule)"

definition prefix_rule :: "string \<Rightarrow> RouteRule" where
  "prefix_rule p = with_path_prefix route_rule_builder_new p"

definition one_address :: "fake_backend \<Rightarrow> test_net" where
  "one_address backend = fake_net (mock_resolve (mock_resolver_new [''127.0.0.1:9001''])) backend"

definition no_address :: test_net where
  "no_address = fake_net (mock_resolve (mock_resolver_new [])) (start_fake_backend [] [])"

section \<open>The pipeline\<close>

definition test_basic_proxy :: bool where
  "test_basic_proxy \<longleftrightarrow>
     (let config = gateway_with (with_backend (prefix_rule ''/'') (backend_new ''default'' ''svc'' 9001));
          resp = send_through_proxy config (one_address (start_fake_backend [] ''hello'')) (\<lambda>t. False) ''/hello''
      in answered resp 200 (\<lambda>body. sublist ''hello'' body))"

definition test_path_routing :: bool where
  "test_path_routing \<longleftrightarrow>
     (let config = with_route
            (with_route (with_http_listener (proxy_config_builder_new ''default'' ''gw'') ''http'' 80 None)
              (with_rule (attached_to (route_config_new ''default'' ''route-a'') ''http'')
                (with_backend (prefix_rule ''/api'') (backend_new ''default'' ''svc-a'' 9001))))
            (with_rule (attached_to (route_config_new ''default'' ''route-b'') ''http'')
              (with_backend (prefix_rule ''/web'') (backend_new ''default'' ''svc-b'' 9999)));
          resp = send_through_proxy config (one_address (start_fake_backend [] ''backend-a'')) (\<lambda>t. False)
            ''/api/users''
      in answered resp 200 (\<lambda>body. sublist ''backend-a'' body))"

definition test_request_header_modification :: bool where
  "test_request_header_modification \<longleftrightarrow>
     (let config = gateway_with (with_backend
            (with_filter (prefix_rule ''/'')
              (RequestHeaderModifier [\<lparr>hv_name = ''x-added'', hv_value = ''injected''\<rparr>] [] []))
            (backend_new ''default'' ''svc'' 9001));
          resp = send_through_proxy config (one_address start_echo_backend) (\<lambda>t. False) ''/test''
      in answered resp 200 (\<lambda>backend_received. sublist ''x-added'' backend_received))"

definition test_response_header_modification :: bool where
  "test_response_header_modification \<longleftrightarrow>
     (let config = gateway_with (with_backend
            (with_filter (prefix_rule ''/'')
              (ResponseHeaderModifier [\<lparr>hv_name = ''x-proxy'', hv_value = ''multiway''\<rparr>] [] [''x-original'']))
            (backend_new ''default'' ''svc'' 9001));
          resp = send_through_proxy config (one_address (start_fake_backend [(''x-original'', ''yes'')] ''ok''))
            (\<lambda>t. False) ''/test''
      in some_and resp (\<lambda>resp. hs_status resp = 200 \<and>
           hm_get demo_http (hs_headers resp) ''x-proxy'' = Some ''multiway'' \<and>
           hm_get demo_http (hs_headers resp) ''x-original'' = None))"

definition test_url_rewrite :: bool where
  "test_url_rewrite \<longleftrightarrow>
     (let config = gateway_with (with_backend
            (with_filter (prefix_rule ''/'')
              (URLRewrite (Some ''internal.example.com'') (Some (ReplaceFullPath ''/v2/data''))))
            (backend_new ''default'' ''svc'' 9001));
          resp = send_through_proxy config (one_address start_echo_backend) (\<lambda>t. False) ''/old-path''
      in answered resp 200 (\<lambda>backend_received. sublist ''/v2/data'' backend_received \<and>
           sublist ''internal.example.com'' backend_received))"

definition test_redirect :: bool where
  "test_redirect \<longleftrightarrow>
     (let config = gateway_with (with_filter (prefix_rule ''/old'')
            (RequestRedirect (Some ''https'') (Some ''new.example.com'') None None (Some 301)));
          resp = send_through_proxy config no_address (\<lambda>t. False) ''/old/page''
      in some_and resp (\<lambda>resp. hs_status resp = 301 \<and> hm_contains_key demo_http (hs_headers resp) LOCATION))"

definition test_404_no_matching_route :: bool where
  "test_404_no_matching_route \<longleftrightarrow>
     (let config = gateway_with (with_backend (with_exact_path route_rule_builder_new ''/specific'')
            (backend_new ''default'' ''svc'' 8080));
          resp = send_through_proxy config no_address (\<lambda>t. False) ''/nonexistent''
      in answered resp 404 (\<lambda>body. True))"

definition test_503_no_backends :: bool where
  "test_503_no_backends \<longleftrightarrow>
     answered (send_through_proxy (gateway_with (prefix_rule ''/'')) no_address (\<lambda>t. False) ''/test'') 503
       (\<lambda>body. True)"

definition test_backend_failure_502 :: bool where
  "test_backend_failure_502 \<longleftrightarrow>
     (let config = gateway_with (with_backend (prefix_rule ''/'') (backend_new ''default'' ''svc'' 1));
          net = fake_net (mock_resolve (mock_resolver_new [unreachable_addr])) (start_fake_backend [] [])
      in answered (send_through_proxy config net (\<lambda>t. False) ''/test'') 502 (\<lambda>body. True))"

lemma pipeline_tests:
  "test_basic_proxy" "test_path_routing" "test_request_header_modification"
  "test_response_header_modification" "test_url_rewrite" "test_redirect" "test_404_no_matching_route"
  "test_503_no_backends" "test_backend_failure_502"
  by code_simp+

section \<open>Mirrors\<close>

definition mirror_to :: "string \<Rightarrow> u16 \<Rightarrow> Filter" where
  "mirror_to name port = RequestMirror (backend_new ''default'' name port) None"

definition at_addresses :: "(string \<times> fake_backend) list \<Rightarrow> fake_backend" where
  "at_addresses backends = (\<lambda>addr req timeout.
     (case find (\<lambda>(a, b). a = addr) backends of Some (a, b) \<Rightarrow> b addr req timeout | None \<Rightarrow> None))"

definition test_single_mirror :: bool where
  "test_single_mirror \<longleftrightarrow>
     (let config = gateway_with (with_backend (with_filter (prefix_rule ''/'') (mirror_to ''mirror-svc'' 9002))
            (backend_new ''default'' ''primary-svc'' 9001));
          net = fake_net (port_mapping_resolve [(9001, ''127.0.0.1:9001''), (9002, ''127.0.0.1:9002'')])
            (at_addresses [(''127.0.0.1:9001'', start_fake_backend [] ''primary''),
              (''127.0.0.1:9002'', start_mirror_backend 200 ''mirrored'')]);
          sent = requests_sent config net ''/hello''
      in answered (send_through_proxy config net (\<lambda>t. False) ''/hello'') 200 (\<lambda>body. sublist ''primary'' body) \<and>
         received sent ''127.0.0.1:9001'' ''GET /hello'' \<and> received sent ''127.0.0.1:9002'' ''GET /hello'')"

definition test_mirror_failure_isolation :: bool where
  "test_mirror_failure_isolation \<longleftrightarrow>
     (let config = gateway_with (with_backend (with_filter (prefix_rule ''/'') (mirror_to ''mirror-svc'' 1))
            (backend_new ''default'' ''primary-svc'' 9001));
          net = fake_net (port_mapping_resolve [(9001, ''127.0.0.1:9001''), (1, unreachable_addr)])
            (at_addresses [(''127.0.0.1:9001'', start_fake_backend [] ''primary'')])
      in answered (send_through_proxy config net (\<lambda>t. False) ''/test'') 200 (\<lambda>body. sublist ''primary'' body))"

definition test_multiple_mirrors :: bool where
  "test_multiple_mirrors \<longleftrightarrow>
     (let config = gateway_with (with_backend
            (with_filter (with_filter (prefix_rule ''/'') (mirror_to ''mirror-svc-1'' 9002))
              (mirror_to ''mirror-svc-2'' 9003))
            (backend_new ''default'' ''primary-svc'' 9001));
          net = fake_net (port_mapping_resolve [(9001, ''127.0.0.1:9001''), (9002, ''127.0.0.1:9002''),
              (9003, ''127.0.0.1:9003'')])
            (at_addresses [(''127.0.0.1:9001'', start_fake_backend [] ''primary''),
              (''127.0.0.1:9002'', start_mirror_backend 200 ''mirror1''),
              (''127.0.0.1:9003'', start_mirror_backend 200 ''mirror2'')]);
          sent = requests_sent config net ''/multi''
      in answered (send_through_proxy config net (\<lambda>t. False) ''/multi'') 200 (\<lambda>body. sublist ''primary'' body) \<and>
         received sent ''127.0.0.1:9001'' ''GET /multi'' \<and> received sent ''127.0.0.1:9002'' ''GET /multi'' \<and>
         received sent ''127.0.0.1:9003'' ''GET /multi'')"

definition test_mirror_response_discarded :: bool where
  "test_mirror_response_discarded \<longleftrightarrow>
     (let config = gateway_with (with_backend (with_filter (prefix_rule ''/'') (mirror_to ''mirror-svc'' 9002))
            (backend_new ''default'' ''primary-svc'' 9001));
          net = fake_net (port_mapping_resolve [(9001, ''127.0.0.1:9001''), (9002, ''127.0.0.1:9002'')])
            (at_addresses [(''127.0.0.1:9001'', start_fake_backend [] ''primary''),
              (''127.0.0.1:9002'', start_mirror_backend 503 ''mirror-fail'')])
      in answered (send_through_proxy config net (\<lambda>t. False) ''/check'') 200
           (\<lambda>body. sublist ''primary'' body \<and> \<not> sublist ''mirror-fail'' body))"

lemma mirror_tests:
  "test_single_mirror" "test_mirror_failure_isolation" "test_multiple_mirrors" "test_mirror_response_discarded"
  by code_simp+

section \<open>Timeouts\<close>

definition timed_gateway :: "f64 option \<Rightarrow> f64 option \<Rightarrow> ProxyConfig" where
  "timed_gateway request_limit backend_limit = gateway_with (with_timeout
     (with_backend (prefix_rule ''/'') (backend_new ''default'' ''svc'' 9001))
     \<lparr>to_request = request_limit, to_backend_request = backend_limit\<rparr>)"

text \<open>The bit patterns of the numbers of seconds that the tests mention.\<close>

definition s0_1 :: f64 where "s0_1 = 0x3FB999999999999A"
definition s0_2 :: f64 where "s0_2 = 0x3FC999999999999A"
definition s0_5 :: f64 where "s0_5 = 0x3FE0000000000000"
definition s5 :: f64 where "s5 = 0x4014000000000000"

definition test_backend_timeout_fires :: bool where
  "test_backend_timeout_fires \<longleftrightarrow>
     (let resp = send_through_proxy (timed_gateway None (Some s0_2))
            (one_address (start_slow_backend s0_5 ''hello'')) (\<lambda>t. t < s0_5) ''/slow''
      in answered resp 504 (\<lambda>body. True))"

definition test_backend_timeout_not_exceeded :: bool where
  "test_backend_timeout_not_exceeded \<longleftrightarrow>
     (let resp = send_through_proxy (timed_gateway None (Some s5))
            (one_address (start_fast_backend ''hello'')) (\<lambda>t. False) ''/fast''
      in answered resp 200 (\<lambda>body. sublist ''hello'' body))"

definition test_request_timeout_fires :: bool where
  "test_request_timeout_fires \<longleftrightarrow>
     (let resp = send_through_proxy (timed_gateway (Some s0_2) None)
            (one_address (start_slow_backend s0_5 ''hello'')) (\<lambda>t. t < s0_5) ''/slow''
      in answered resp 504 (\<lambda>body. True))"

definition test_request_timeout_not_exceeded :: bool where
  "test_request_timeout_not_exceeded \<longleftrightarrow>
     (let resp = send_through_proxy (timed_gateway (Some s5) None)
            (one_address (start_fast_backend ''hello'')) (\<lambda>t. False) ''/fast''
      in answered resp 200 (\<lambda>body. sublist ''hello'' body))"

definition test_zero_timeout_disables :: bool where
  "test_zero_timeout_disables \<longleftrightarrow>
     (let resp = send_through_proxy (timed_gateway (Some 0) (Some 0))
            (one_address (start_slow_backend s0_1 ''hello'')) (\<lambda>t. t < s0_1) ''/slow''
      in answered resp 200 (\<lambda>body. sublist ''hello'' body))"

text \<open>The backend timeout ends the inner service, so the request timeout of five seconds does not fire.\<close>

definition test_backend_timeout_fires_before_request_timeout :: bool where
  "test_backend_timeout_fires_before_request_timeout \<longleftrightarrow>
     (let resp = send_through_proxy (timed_gateway (Some s5) (Some s0_2))
            (one_address (start_slow_backend s0_5 ''hello'')) (\<lambda>t. t < s0_2) ''/slow''
      in answered resp 504 (\<lambda>body. True))"

lemma timeout_tests:
  "test_backend_timeout_fires" "test_backend_timeout_not_exceeded" "test_request_timeout_fires"
  "test_request_timeout_not_exceeded" "test_zero_timeout_disables"
  "test_backend_timeout_fires_before_request_timeout"
  by code_simp+

end
