(* ===== verification/CpWire.thy ===== *)
theory CpWire
  imports WireRoundtrip
begin

text \<open>
  The control plane's own reader of its configuration, the derived deserializers of the types of
  \<open>crates/controlplane/src/controller/config.rs\<close> behind \<open>GatewayConfig::from_json\<close>, type by type
  from the serde attributes. The two readers are separate code; the theorems show that they accept the same
  JSON and read the same values, and that a configuration survives the way over the data plane and back.
\<close>

section \<open>How the control plane's types are read\<close>

definition cp_default_weight :: u32 where
  "cp_default_weight = 1"

definition cp_dec_gateway_ref :: "json \<Rightarrow> CpGatewayRef option" where
  "cp_dec_gateway_ref j = do {
     l \<leftarrow> struct_fields [(''namespace'', False), (''name'', False)] j;
     ns \<leftarrow> field_req l ''namespace'' dec_string;
     name \<leftarrow> field_req l ''name'' dec_string;
     Some \<lparr>cgr_namespace = ns, cgr_name = name\<rparr> }"

definition cp_dec_protocol :: "json \<Rightarrow> CpProtocol option" where
  "cp_dec_protocol = dec_unit [(''HTTP'', CpHttp), (''HTTPS'', CpHttps)]"

definition cp_dec_tls_mode :: "json \<Rightarrow> CpTlsMode option" where
  "cp_dec_tls_mode = dec_unit [(''terminate'', CpTerminate), (''passthrough'', CpPassthrough)]"

definition cp_dec_certificate_ref :: "json \<Rightarrow> CpCertificateRef option" where
  "cp_dec_certificate_ref j = do {
     l \<leftarrow> struct_fields [(''namespace'', False), (''name'', False)] j;
     ns \<leftarrow> field_req l ''namespace'' dec_string;
     name \<leftarrow> field_req l ''name'' dec_string;
     Some \<lparr>ccr_namespace = ns, ccr_name = name\<rparr> }"

definition cp_dec_inline_certificate :: "json \<Rightarrow> CpInlineCertificate option" where
  "cp_dec_inline_certificate j = do {
     l \<leftarrow> struct_fields [(''cert_pem'', False), (''key_pem'', False), (''hostnames'', True)] j;
     c \<leftarrow> field_req l ''cert_pem'' dec_string;
     k \<leftarrow> field_req l ''key_pem'' dec_string;
     hs \<leftarrow> field_def l ''hostnames'' [] (dec_seq dec_string);
     Some \<lparr>cic_cert_pem = c, cic_key_pem = k, cic_hostnames = hs\<rparr> }"

definition cp_dec_tls_config :: "json \<Rightarrow> CpTlsConfig option" where
  "cp_dec_tls_config j = do {
     l \<leftarrow> struct_fields [(''mode'', False), (''certificates'', False), (''inline_certificates'', True)] j;
     m \<leftarrow> field_req l ''mode'' cp_dec_tls_mode;
     cs \<leftarrow> field_req l ''certificates'' (dec_seq cp_dec_certificate_ref);
     ics \<leftarrow> field_def l ''inline_certificates'' [] (dec_seq cp_dec_inline_certificate);
     Some \<lparr>ctl_mode = m, ctl_certificates = cs, ctl_inline_certificates = ics\<rparr> }"

definition cp_dec_listener_config :: "json \<Rightarrow> CpListenerConfig option" where
  "cp_dec_listener_config j = do {
     l \<leftarrow> struct_fields [(''name'', False), (''port'', False), (''protocol'', False),
            (''hostname'', False), (''tls'', False)] j;
     name \<leftarrow> field_req l ''name'' dec_string;
     port \<leftarrow> field_req l ''port'' dec_word;
     protocol \<leftarrow> field_req l ''protocol'' cp_dec_protocol;
     hostname \<leftarrow> field_opt l ''hostname'' dec_string;
     tls \<leftarrow> field_opt l ''tls'' cp_dec_tls_config;
     Some \<lparr>clc_name = name, clc_port = port, clc_protocol = protocol, clc_hostname = hostname, clc_tls = tls\<rparr> }"

definition cp_dec_path_match_type :: "json \<Rightarrow> CpPathMatchType option" where
  "cp_dec_path_match_type = dec_unit
     [(''Exact'', CpPathExact), (''PathPrefix'', CpPathPrefix), (''RegularExpression'', CpPathRegularExpression)]"

definition cp_dec_path_match :: "json \<Rightarrow> CpPathMatch option" where
  "cp_dec_path_match j = do {
     l \<leftarrow> struct_fields [(''type'', False), (''value'', False)] j;
     t \<leftarrow> field_req l ''type'' cp_dec_path_match_type;
     v \<leftarrow> field_req l ''value'' dec_string;
     Some \<lparr>cpm_match_type = t, cpm_value = v\<rparr> }"

definition cp_dec_header_match_type :: "json \<Rightarrow> CpHeaderMatchType option" where
  "cp_dec_header_match_type = dec_unit
     [(''Exact'', CpHeaderExact), (''RegularExpression'', CpHeaderRegularExpression)]"

definition cp_dec_header_match :: "json \<Rightarrow> CpHeaderMatch option" where
  "cp_dec_header_match j = do {
     l \<leftarrow> struct_fields [(''name'', False), (''type'', False), (''value'', False)] j;
     n \<leftarrow> field_req l ''name'' dec_string;
     t \<leftarrow> field_req l ''type'' cp_dec_header_match_type;
     v \<leftarrow> field_req l ''value'' dec_string;
     Some \<lparr>chm_name = n, chm_match_type = t, chm_value = v\<rparr> }"

definition cp_dec_query_param_match_type :: "json \<Rightarrow> CpQueryParamMatchType option" where
  "cp_dec_query_param_match_type = dec_unit
     [(''Exact'', CpQueryExact), (''RegularExpression'', CpQueryRegularExpression)]"

definition cp_dec_query_param_match :: "json \<Rightarrow> CpQueryParamMatch option" where
  "cp_dec_query_param_match j = do {
     l \<leftarrow> struct_fields [(''name'', False), (''type'', False), (''value'', False)] j;
     n \<leftarrow> field_req l ''name'' dec_string;
     t \<leftarrow> field_req l ''type'' cp_dec_query_param_match_type;
     v \<leftarrow> field_req l ''value'' dec_string;
     Some \<lparr>cqm_name = n, cqm_match_type = t, cqm_value = v\<rparr> }"

definition cp_dec_route_match :: "json \<Rightarrow> CpRouteMatch option" where
  "cp_dec_route_match j = do {
     l \<leftarrow> struct_fields [(''path'', False), (''headers'', True), (''query_params'', True), (''method'', False)] j;
     p \<leftarrow> field_opt l ''path'' cp_dec_path_match;
     hs \<leftarrow> field_def l ''headers'' [] (dec_seq cp_dec_header_match);
     qs \<leftarrow> field_def l ''query_params'' [] (dec_seq cp_dec_query_param_match);
     m \<leftarrow> field_opt l ''method'' dec_string;
     Some \<lparr>crm_path = p, crm_headers = hs, crm_query_params = qs, crm_method = m\<rparr> }"

definition cp_dec_backend_protocol :: "json \<Rightarrow> CpBackendProtocol option" where
  "cp_dec_backend_protocol = dec_unit [(''http1'', CpHttp1), (''h2c'', CpH2c)]"

definition cp_dec_backend :: "json \<Rightarrow> CpBackendRef option" where
  "cp_dec_backend j = do {
     l \<leftarrow> struct_fields [(''namespace'', False), (''name'', False), (''port'', False),
            (''weight'', True), (''protocol'', True)] j;
     ns \<leftarrow> field_req l ''namespace'' dec_string;
     name \<leftarrow> field_req l ''name'' dec_string;
     port \<leftarrow> field_req l ''port'' dec_word;
     weight \<leftarrow> field_def l ''weight'' cp_default_weight dec_word;
     protocol \<leftarrow> field_def l ''protocol'' CpHttp1 cp_dec_backend_protocol;
     Some \<lparr>cbe_namespace = ns, cbe_name = name, cbe_port = port, cbe_weight = weight, cbe_protocol = protocol\<rparr> }"

definition cp_dec_header_value :: "json \<Rightarrow> CpHeaderValue option" where
  "cp_dec_header_value j = do {
     l \<leftarrow> struct_fields [(''name'', False), (''value'', False)] j;
     n \<leftarrow> field_req l ''name'' dec_string;
     v \<leftarrow> field_req l ''value'' dec_string;
     Some \<lparr>chv_name = n, chv_value = v\<rparr> }"

text \<open>
  A path modifier is only ever read inside a filter, out of serde's buffered content, which
  also accepts the index of the variant as the tag.
\<close>

definition cp_dec_path_modifier :: "json \<Rightarrow> CpPathModifier option" where
  "cp_dec_path_modifier j = do {
     (t, body) \<leftarrow> tagged j;
     l \<leftarrow> struct_fields [(''value'', False)] body;
     v \<leftarrow> field_req l ''value'' dec_string;
     (if t = JStr ''ReplaceFullPath'' \<or> t = JInt 0 then Some (CpReplaceFullPath v)
      else if t = JStr ''ReplacePrefixMatch'' \<or> t = JInt 1 then Some (CpReplacePrefixMatch v)
      else None) }"

definition cp_dec_modifier ::
  "(CpHeaderValue list \<Rightarrow> CpHeaderValue list \<Rightarrow> string list \<Rightarrow> CpRouteFilter) \<Rightarrow> json \<Rightarrow> CpRouteFilter option" where
  "cp_dec_modifier con body = do {
     l \<leftarrow> struct_fields [(''add'', True), (''set'', True), (''remove'', True)] body;
     a \<leftarrow> field_def l ''add'' [] (dec_seq cp_dec_header_value);
     s \<leftarrow> field_def l ''set'' [] (dec_seq cp_dec_header_value);
     r \<leftarrow> field_def l ''remove'' [] (dec_seq dec_string);
     Some (con a s r) }"

definition cp_dec_redirect :: "json \<Rightarrow> CpRouteFilter option" where
  "cp_dec_redirect body = do {
     l \<leftarrow> struct_fields [(''scheme'', False), (''hostname'', False), (''port'', False),
            (''path'', False), (''status_code'', False)] body;
     scheme \<leftarrow> field_opt l ''scheme'' dec_string;
     hostname \<leftarrow> field_opt l ''hostname'' dec_string;
     port \<leftarrow> field_opt l ''port'' dec_word;
     path \<leftarrow> field_opt l ''path'' cp_dec_path_modifier;
     status \<leftarrow> field_opt l ''status_code'' dec_word;
     Some (CpRequestRedirect scheme hostname port path status) }"

definition cp_dec_rewrite :: "json \<Rightarrow> CpRouteFilter option" where
  "cp_dec_rewrite body = do {
     l \<leftarrow> struct_fields [(''hostname'', False), (''path'', False)] body;
     hostname \<leftarrow> field_opt l ''hostname'' dec_string;
     path \<leftarrow> field_opt l ''path'' cp_dec_path_modifier;
     Some (CpURLRewrite hostname path) }"

definition cp_dec_mirror :: "json \<Rightarrow> CpRouteFilter option" where
  "cp_dec_mirror body = do {
     l \<leftarrow> struct_fields [(''backend'', False), (''percent'', False)] body;
     backend \<leftarrow> field_req l ''backend'' cp_dec_backend;
     percent \<leftarrow> field_opt l ''percent'' dec_word;
     Some (CpRequestMirror backend percent) }"

definition cp_dec_filter :: "json \<Rightarrow> CpRouteFilter option" where
  "cp_dec_filter j = do {
     (t, body) \<leftarrow> tagged j;
     (if t = JStr ''RequestHeaderModifier'' then cp_dec_modifier CpRequestHeaderModifier body
      else if t = JStr ''ResponseHeaderModifier'' then cp_dec_modifier CpResponseHeaderModifier body
      else if t = JStr ''RequestRedirect'' then cp_dec_redirect body
      else if t = JStr ''URLRewrite'' then cp_dec_rewrite body
      else if t = JStr ''RequestMirror'' then cp_dec_mirror body
      else None) }"

definition cp_dec_timeout :: "(int \<Rightarrow> f64) \<Rightarrow> json \<Rightarrow> CpTimeoutConfig option" where
  "cp_dec_timeout fi j = do {
     l \<leftarrow> struct_fields [(''request'', False), (''backend_request'', False)] j;
     r \<leftarrow> field_opt l ''request'' (dec_f64 fi);
     b \<leftarrow> field_opt l ''backend_request'' (dec_f64 fi);
     Some \<lparr>cto_request = r, cto_backend_request = b\<rparr> }"

definition cp_dec_route_rule :: "(int \<Rightarrow> f64) \<Rightarrow> json \<Rightarrow> CpRouteRule option" where
  "cp_dec_route_rule fi j = do {
     l \<leftarrow> struct_fields [(''name'', False), (''matches'', True), (''filters'', True),
            (''backends'', True), (''timeout'', False)] j;
     name \<leftarrow> field_opt l ''name'' dec_string;
     ms \<leftarrow> field_def l ''matches'' [] (dec_seq cp_dec_route_match);
     fs \<leftarrow> field_def l ''filters'' [] (dec_seq cp_dec_filter);
     bs \<leftarrow> field_def l ''backends'' [] (dec_seq cp_dec_backend);
     t \<leftarrow> field_opt l ''timeout'' (cp_dec_timeout fi);
     Some \<lparr>crr_name = name, crr_matches = ms, crr_filters = fs, crr_backends = bs, crr_timeout = t\<rparr> }"

definition cp_dec_route_config :: "(int \<Rightarrow> f64) \<Rightarrow> json \<Rightarrow> CpRouteConfig option" where
  "cp_dec_route_config fi j = do {
     l \<leftarrow> struct_fields [(''name'', False), (''namespace'', False), (''hostnames'', True),
            (''attached_listeners'', True), (''rules'', False)] j;
     name \<leftarrow> field_req l ''name'' dec_string;
     ns \<leftarrow> field_req l ''namespace'' dec_string;
     hs \<leftarrow> field_def l ''hostnames'' [] (dec_seq dec_string);
     ls \<leftarrow> field_def l ''attached_listeners'' [] (dec_seq dec_string);
     rs \<leftarrow> field_req l ''rules'' (dec_seq (cp_dec_route_rule fi));
     Some \<lparr>crc_name = name, crc_namespace = ns, crc_hostnames = hs, crc_attached_listeners = ls, crc_rules = rs\<rparr> }"

definition cp_dec_gateway_config :: "(int \<Rightarrow> f64) \<Rightarrow> json \<Rightarrow> CpGatewayConfig option" where
  "cp_dec_gateway_config fi j = do {
     l \<leftarrow> struct_fields [(''version'', False), (''gateway'', False), (''listeners'', False), (''routes'', False)] j;
     v \<leftarrow> field_req l ''version'' dec_string;
     g \<leftarrow> field_req l ''gateway'' cp_dec_gateway_ref;
     ls \<leftarrow> field_req l ''listeners'' (dec_seq cp_dec_listener_config);
     rs \<leftarrow> field_req l ''routes'' (dec_seq (cp_dec_route_config fi));
     Some \<lparr>cgc_version = v, cgc_gateway = g, cgc_listeners = ls, cgc_routes = rs\<rparr> }"

definition gateway_config_from_json :: "json_text \<Rightarrow> string \<Rightarrow> CpGatewayConfig option" where
  "gateway_config_from_json jt s = Option.bind (jt_parse jt s) (cp_dec_gateway_config (jt_f64 jt))"

section \<open>The two readers agree\<close>

named_theorems reader_simps "a reader of the data plane as the image of the control plane's"

lemma bind_map_option [reader_simps]: "Option.bind (map_option f x) g = Option.bind x (\<lambda>y. g (f y))"
  by (cases x) simp_all

lemma map_option_bind [reader_simps]: "map_option f (Option.bind x g) = Option.bind x (\<lambda>y. map_option f (g y))"
  by (cases x) simp_all

lemma dec_all_image [reader_simps]:
  "dec_all (\<lambda>j. map_option f (d j)) js = map_option (map f) (dec_all d js)"
  by (induction js) (auto simp: reader_simps split: option.split)

lemma dec_seq_image [reader_simps]:
  "dec_seq (\<lambda>j. map_option f (d j)) = (\<lambda>j. map_option (map f) (dec_seq d j))"
  by (rule ext) (simp add: dec_seq_def reader_simps split: json.split)

lemma dec_opt_image [reader_simps]:
  "dec_opt (\<lambda>j. map_option f (d j)) j = map_option (map_option f) (dec_opt d j)"
  by (simp add: dec_opt_def option.map_comp comp_def)

lemma field_req_image [reader_simps]: "field_req l k (\<lambda>j. map_option f (d j)) = map_option f (field_req l k d)"
  by (simp add: field_req_def reader_simps)

lemma field_opt_image [reader_simps]:
  "field_opt l k (\<lambda>j. map_option f (d j)) = map_option (map_option f) (field_opt l k d)"
  by (simp add: field_opt_def reader_simps split: option.split)

lemma field_def_image:
  "c = f c' \<Longrightarrow> field_def l k c (\<lambda>j. map_option f (d j)) = map_option f (field_def l k c' d)"
  by (simp add: field_def_def split: option.split)

lemma field_nil_image [reader_simps]:
  "field_def l k [] (\<lambda>j. map_option (map f) (d j)) = map_option (map f) (field_def l k [] d)"
  by (rule field_def_image) simp

lemma map_option_if [reader_simps]: "map_option f (if c then x else y) = (if c then map_option f x else map_option f y)"
  by simp

lemma map_of_image: "map_of (map (\<lambda>(k, v). (k, f v)) vs) s = map_option f (map_of vs s)"
  by (induction vs) auto

lemma dec_unit_image: "dec_unit (map (\<lambda>(k, v). (k, f v)) vs) j = map_option f (dec_unit vs j)"
  by (simp add: dec_unit_def map_of_image split: json.split list.split prod.split)

text \<open>One lemma per type: what the data plane reads is the image of what the control plane reads.\<close>

lemma read_gateway_ref [reader_simps]: "dec_gateway_ref = (\<lambda>j. map_option wire_gateway_ref (cp_dec_gateway_ref j))"
  by (rule ext) (simp add: dec_gateway_ref_def cp_dec_gateway_ref_def wire_gateway_ref_def reader_simps)

lemma read_units [reader_simps]:
  "dec_protocol = (\<lambda>j. map_option wire_protocol (cp_dec_protocol j))"
  "dec_tls_mode = (\<lambda>j. map_option wire_tls_mode (cp_dec_tls_mode j))"
  "dec_path_match_type = (\<lambda>j. map_option wire_path_match_type (cp_dec_path_match_type j))"
  "dec_header_match_type = (\<lambda>j. map_option wire_header_match_type (cp_dec_header_match_type j))"
  "dec_query_param_match_type = (\<lambda>j. map_option wire_query_param_match_type (cp_dec_query_param_match_type j))"
  "dec_backend_protocol = (\<lambda>j. map_option wire_backend_protocol (cp_dec_backend_protocol j))"
  by (simp_all add: fun_eq_iff dec_unit_image [symmetric] dec_protocol_def cp_dec_protocol_def dec_tls_mode_def
      cp_dec_tls_mode_def dec_path_match_type_def cp_dec_path_match_type_def dec_header_match_type_def
      cp_dec_header_match_type_def dec_query_param_match_type_def cp_dec_query_param_match_type_def
      dec_backend_protocol_def cp_dec_backend_protocol_def)

lemma read_certificate_ref [reader_simps]:
  "dec_certificate_ref = (\<lambda>j. map_option wire_certificate_ref (cp_dec_certificate_ref j))"
  by (rule ext) (simp add: dec_certificate_ref_def cp_dec_certificate_ref_def wire_certificate_ref_def reader_simps)

lemma read_inline_certificate [reader_simps]:
  "dec_inline_certificate = (\<lambda>j. map_option wire_inline_certificate (cp_dec_inline_certificate j))"
  by (rule ext) (simp add: dec_inline_certificate_def cp_dec_inline_certificate_def wire_inline_certificate_def
      reader_simps)

lemma read_tls_config [reader_simps]: "dec_tls_config = (\<lambda>j. map_option wire_tls_config (cp_dec_tls_config j))"
  by (rule ext) (simp add: dec_tls_config_def cp_dec_tls_config_def wire_tls_config_def reader_simps)

lemma read_listener_config [reader_simps]:
  "dec_listener_config = (\<lambda>j. map_option wire_listener (cp_dec_listener_config j))"
  by (rule ext) (simp add: dec_listener_config_def cp_dec_listener_config_def wire_listener_def reader_simps)

lemma read_matches [reader_simps]:
  "dec_path_match = (\<lambda>j. map_option wire_path_match (cp_dec_path_match j))"
  "dec_header_match = (\<lambda>j. map_option wire_header_match (cp_dec_header_match j))"
  "dec_query_param_match = (\<lambda>j. map_option wire_query_param_match (cp_dec_query_param_match j))"
  by (simp_all add: fun_eq_iff dec_path_match_def cp_dec_path_match_def wire_path_match_def dec_header_match_def
      cp_dec_header_match_def wire_header_match_def dec_query_param_match_def cp_dec_query_param_match_def
      wire_query_param_match_def reader_simps)

lemma read_route_match [reader_simps]: "dec_route_match = (\<lambda>j. map_option wire_route_match (cp_dec_route_match j))"
  by (rule ext) (simp add: dec_route_match_def cp_dec_route_match_def wire_route_match_def reader_simps)

lemma read_backend [reader_simps]: "dec_backend = (\<lambda>j. map_option wire_backend (cp_dec_backend j))"
  by (rule ext) (simp add: dec_backend_def cp_dec_backend_def wire_backend_def default_weight_def
      cp_default_weight_def field_def_image [of Http1 wire_backend_protocol CpHttp1] reader_simps)

lemma read_header_value [reader_simps]: "dec_header_value = (\<lambda>j. map_option wire_header_value (cp_dec_header_value j))"
  by (rule ext) (simp add: dec_header_value_def cp_dec_header_value_def wire_header_value_def reader_simps)

lemma read_path_modifier [reader_simps]:
  "dec_path_modifier = (\<lambda>j. map_option wire_path_modifier (cp_dec_path_modifier j))"
  by (rule ext) (simp add: dec_path_modifier_def cp_dec_path_modifier_def reader_simps split_def cong: if_cong)

lemma read_modifier:
  "(\<And>a s r. con (map wire_header_value a) (map wire_header_value s) r = wire_filter (con' a s r)) \<Longrightarrow>
   dec_modifier con body = map_option wire_filter (cp_dec_modifier con' body)"
  by (simp add: dec_modifier_def cp_dec_modifier_def reader_simps)

lemma read_filter [reader_simps]: "dec_filter = (\<lambda>j. map_option wire_filter (cp_dec_filter j))"
  by (rule ext) (simp add: dec_filter_def cp_dec_filter_def dec_redirect_def cp_dec_redirect_def dec_rewrite_def
      cp_dec_rewrite_def dec_mirror_def cp_dec_mirror_def reader_simps split_def
      read_modifier [of RequestHeaderModifier CpRequestHeaderModifier]
      read_modifier [of ResponseHeaderModifier CpResponseHeaderModifier] cong: if_cong)

lemma read_timeout [reader_simps]: "dec_timeout fi = (\<lambda>j. map_option wire_timeout (cp_dec_timeout fi j))"
  by (rule ext) (simp add: dec_timeout_def cp_dec_timeout_def wire_timeout_def reader_simps)

lemma read_route_rule [reader_simps]: "dec_route_rule fi = (\<lambda>j. map_option wire_rule (cp_dec_route_rule fi j))"
  by (rule ext) (simp add: dec_route_rule_def cp_dec_route_rule_def wire_rule_def reader_simps)

lemma read_route_config [reader_simps]: "dec_route_config fi = (\<lambda>j. map_option wire_route (cp_dec_route_config fi j))"
  by (rule ext) (simp add: dec_route_config_def cp_dec_route_config_def wire_route_def reader_simps)

theorem readers_agree: "dec_proxy_config fi j = map_option wire_config (cp_dec_gateway_config fi j)"
  by (simp add: dec_proxy_config_def cp_dec_gateway_config_def wire_config_def reader_simps)

section \<open>There and back\<close>

text \<open>No two configurations have the same image.\<close>

named_theorems wire_inj "the images of the control plane's values are distinct"

lemma map_image_eq: "(\<And>x y. f x = f y \<longleftrightarrow> x = y) \<Longrightarrow> map f xs = map f ys \<longleftrightarrow> xs = ys"
  by (rule inj_map_eq_map) (simp add: inj_on_def)

lemma map_option_image_eq: "(\<And>x y. f x = f y \<longleftrightarrow> x = y) \<Longrightarrow> map_option f a = map_option f b \<longleftrightarrow> a = b"
  by (cases a; cases b) simp_all

lemmas image_eq = map_image_eq map_option_image_eq

lemma wire_unit_inj [wire_inj]:
  "wire_protocol p = wire_protocol p' \<longleftrightarrow> p = p'"
  "wire_tls_mode m = wire_tls_mode m' \<longleftrightarrow> m = m'"
  "wire_path_match_type t = wire_path_match_type t' \<longleftrightarrow> t = t'"
  "wire_header_match_type ht = wire_header_match_type ht' \<longleftrightarrow> ht = ht'"
  "wire_query_param_match_type qt = wire_query_param_match_type qt' \<longleftrightarrow> qt = qt'"
  "wire_backend_protocol b = wire_backend_protocol b' \<longleftrightarrow> b = b'"
  subgoal by (cases p; cases p') simp_all
  subgoal by (cases m; cases m') simp_all
  subgoal by (cases t; cases t') simp_all
  subgoal by (cases ht; cases ht') simp_all
  subgoal by (cases qt; cases qt') simp_all
  subgoal by (cases b; cases b') simp_all
  done

lemma wire_leaf_inj [wire_inj]:
  "wire_gateway_ref g = wire_gateway_ref g' \<longleftrightarrow> g = g'"
  "wire_certificate_ref c = wire_certificate_ref c' \<longleftrightarrow> c = c'"
  "wire_inline_certificate i = wire_inline_certificate i' \<longleftrightarrow> i = i'"
  "wire_header_value h = wire_header_value h' \<longleftrightarrow> h = h'"
  "wire_timeout t = wire_timeout t' \<longleftrightarrow> t = t'"
  by (auto simp: wire_gateway_ref_def wire_certificate_ref_def wire_inline_certificate_def wire_header_value_def
      wire_timeout_def)

lemma wire_match_inj [wire_inj]:
  "wire_path_match p = wire_path_match p' \<longleftrightarrow> p = p'"
  "wire_header_match h = wire_header_match h' \<longleftrightarrow> h = h'"
  "wire_query_param_match q = wire_query_param_match q' \<longleftrightarrow> q = q'"
  "wire_backend b = wire_backend b' \<longleftrightarrow> b = b'"
  by (auto simp: wire_path_match_def wire_header_match_def wire_query_param_match_def wire_backend_def wire_inj)

lemma wire_tls_inj [wire_inj]: "wire_tls_config t = wire_tls_config t' \<longleftrightarrow> t = t'"
  by (auto simp: wire_tls_config_def wire_inj image_eq)

lemma wire_listener_inj [wire_inj]: "wire_listener l = wire_listener l' \<longleftrightarrow> l = l'"
  by (auto simp: wire_listener_def wire_inj image_eq)

lemma wire_route_match_inj [wire_inj]: "wire_route_match m = wire_route_match m' \<longleftrightarrow> m = m'"
  by (auto simp: wire_route_match_def wire_inj image_eq)

lemma wire_path_modifier_inj [wire_inj]: "wire_path_modifier m = wire_path_modifier m' \<longleftrightarrow> m = m'"
  by (cases m; cases m') simp_all

lemma wire_filter_inj [wire_inj]: "wire_filter f = wire_filter f' \<longleftrightarrow> f = f'"
  by (cases f; cases f') (simp_all add: wire_inj image_eq)

lemma wire_rule_inj [wire_inj]: "wire_rule r = wire_rule r' \<longleftrightarrow> r = r'"
  by (auto simp: wire_rule_def wire_inj image_eq)

lemma wire_route_inj [wire_inj]: "wire_route r = wire_route r' \<longleftrightarrow> r = r'"
  by (auto simp: wire_route_def wire_inj image_eq)

lemma wire_config_inj [wire_inj]: "wire_config c = wire_config c' \<longleftrightarrow> c = c'"
  by (auto simp: wire_config_def wire_inj image_eq)

text \<open>The control plane's configuration without the timeouts that JSON cannot hold.\<close>

definition cp_finite_timeouts :: "CpTimeoutConfig \<Rightarrow> CpTimeoutConfig" where
  "cp_finite_timeouts t = \<lparr>cto_request = finite_timeout (cto_request t),
     cto_backend_request = finite_timeout (cto_backend_request t)\<rparr>"

definition cp_finite_rule :: "CpRouteRule \<Rightarrow> CpRouteRule" where
  "cp_finite_rule r = r\<lparr>crr_timeout := map_option cp_finite_timeouts (crr_timeout r)\<rparr>"

definition cp_finite_route :: "CpRouteConfig \<Rightarrow> CpRouteConfig" where
  "cp_finite_route r = r\<lparr>crc_rules := map cp_finite_rule (crc_rules r)\<rparr>"

definition cp_finite_config :: "CpGatewayConfig \<Rightarrow> CpGatewayConfig" where
  "cp_finite_config c = c\<lparr>cgc_routes := map cp_finite_route (cgc_routes c)\<rparr>"

lemma wire_finite_rule: "wire_rule (cp_finite_rule r) = finite_rule (wire_rule r)"
  by (simp add: wire_rule_def cp_finite_rule_def finite_rule_def wire_timeout_def cp_finite_timeouts_def
      finite_timeouts_def option.map_comp comp_def)

lemma wire_finite_route: "wire_route (cp_finite_route r) = finite_route (wire_route r)"
  by (simp add: wire_route_def cp_finite_route_def finite_route_def wire_finite_rule)

lemma wire_finite_config: "wire_config (cp_finite_config c) = finite_config (wire_config c)"
  by (simp add: wire_config_def cp_finite_config_def finite_config_def wire_finite_route)

theorem control_plane_reads_back:
  "cp_dec_gateway_config fi (cp_enc_gateway_config c) = Some (cp_finite_config c)"
proof -
  have "map_option wire_config (cp_dec_gateway_config fi (cp_enc_gateway_config c)) =
      map_option wire_config (Some (cp_finite_config c))"
    using dec_proxy_config_enc [of fi "wire_config c"]
    by (simp add: readers_agree enc_config_wire wire_finite_config)
  then show ?thesis by (rule map_option_image_eq [OF wire_config_inj, THEN iffD1])
qed

lemma finite_timeout_idem: "finite_timeout (finite_timeout t) = finite_timeout t"
  by (cases t) (simp_all add: finite_timeout_def)

lemma cp_finite_rule_idem: "cp_finite_rule (cp_finite_rule r) = cp_finite_rule r"
  by (cases "crr_timeout r") (simp_all add: cp_finite_rule_def cp_finite_timeouts_def finite_timeout_idem)

lemma cp_finite_route_idem: "cp_finite_route (cp_finite_route r) = cp_finite_route r"
  by (simp add: cp_finite_route_def cp_finite_rule_idem)

lemma cp_finite_config_idem: "cp_finite_config (cp_finite_config c) = cp_finite_config c"
  by (simp add: cp_finite_config_def cp_finite_route_idem)

theorem survives_the_data_plane:
  "Option.bind (dec_proxy_config fi (cp_enc_gateway_config c))
     (\<lambda>p. cp_dec_gateway_config fi (enc_proxy_config p)) = Some (cp_finite_config c)"
  by (simp add: readers_agree control_plane_reads_back enc_config_wire cp_finite_config_idem)

end
