(* ===== verification/ServerTests.thy ===== *)
theory ServerTests
  imports DataPlane WireTests
begin

text \<open>
  The unit tests of \<open>tls.rs\<close>, \<open>transport.rs\<close>, \<open>pool.rs\<close> and \<open>server.rs\<close> in
  \<open>crates/proxy-core/src/\<close> that need no traffic, and that of the data plane's program, run on the model. Certificates and keys are made up: a text
  that starts with \<open>CERT\<close> holds one certificate, one that starts with \<open>KEY\<close> holds a key, any other text
  holds nothing, and rustls accepts what it is given.
\<close>

section \<open>TLS\<close>

definition fake_tls :: "string tls_ops" where
  "fake_tls = \<lparr>tl_certs = (\<lambda>pem. if strip_prefix ''CERT'' pem \<noteq> None then [Inr pem] else []),
     tl_private_key = (\<lambda>pem. Inr (if strip_prefix ''KEY'' pem \<noteq> None then Some pem else None)),
     tl_versions = None, tl_single_cert = (\<lambda>chain key. None),
     tl_from_der = (\<lambda>chain key. Inr key), tl_sni_add = (\<lambda>resolver hostname ck. None)\<rparr>"

definition generate_cert_and_key :: "string list \<Rightarrow> string \<times> string" where
  "generate_cert_and_key hostnames = (''CERT '' @ concat hostnames, ''KEY '' @ concat hostnames)"

definition inline_cert :: "string \<times> string \<Rightarrow> string list \<Rightarrow> InlineCertificate" where
  "inline_cert ck hostnames = \<lparr>ic_cert_pem = fst ck, ic_key_pem = snd ck, ic_hostnames = hostnames\<rparr>"

definition terminating :: "CertificateRef list \<Rightarrow> InlineCertificate list \<Rightarrow> TlsConfig" where
  "terminating certs inlined = \<lparr>tls_mode = Terminate, tls_certificates = certs, tls_inline_certificates = inlined\<rparr>"

definition is_error :: "'e + 'a \<Rightarrow> bool" where
  "is_error r = (case r of Inl e \<Rightarrow> True | Inr x \<Rightarrow> False)"

definition parse_valid_cert_pem :: bool where
  "parse_valid_cert_pem \<longleftrightarrow>
     (let (cert_pem, key_pem) = generate_cert_and_key [''localhost'']
      in ok_and (parse_pem_certs fake_tls cert_pem) (\<lambda>certs. length certs = 1))"

definition parse_valid_key_pem :: bool where
  "parse_valid_key_pem \<longleftrightarrow>
     (let (cert_pem, key_pem) = generate_cert_and_key [''localhost'']
      in \<not> is_error (parse_pem_private_key fake_tls key_pem))"

definition parse_empty_cert_pem_returns_error :: bool where
  "parse_empty_cert_pem_returns_error \<longleftrightarrow>
     (case parse_pem_certs fake_tls [] of
        Inl e \<Rightarrow> sublist ''no certificates'' (tls_setup_error_text e)
      | Inr certs \<Rightarrow> False)"

definition parse_empty_key_pem_returns_error :: bool where
  "parse_empty_key_pem_returns_error \<longleftrightarrow>
     (case parse_pem_private_key fake_tls [] of
        Inl e \<Rightarrow> sublist ''no private key'' (tls_setup_error_text e)
      | Inr key \<Rightarrow> False)"

definition parse_garbage_cert_pem_returns_error :: bool where
  "parse_garbage_cert_pem_returns_error \<longleftrightarrow> is_error (parse_pem_certs fake_tls ''this is not PEM data'')"

definition parse_garbage_key_pem_returns_error :: bool where
  "parse_garbage_key_pem_returns_error \<longleftrightarrow> is_error (parse_pem_private_key fake_tls ''this is not PEM data'')"

definition build_acceptor_single_cert :: bool where
  "build_acceptor_single_cert \<longleftrightarrow>
     (let ck = generate_cert_and_key [''localhost'']; tls_config = terminating [] [inline_cert ck [''localhost'']]
      in ok_and (build_tls_acceptor fake_tls tls_config) (\<lambda>acceptor. acceptor \<noteq> None))"

definition build_acceptor_passthrough_returns_none :: bool where
  "build_acceptor_passthrough_returns_none \<longleftrightarrow>
     (let tls_config = \<lparr>tls_mode = Passthrough, tls_certificates = [], tls_inline_certificates = []\<rparr>
      in ok_and (build_tls_acceptor fake_tls tls_config) (\<lambda>acceptor. acceptor = None))"

definition build_acceptor_no_inline_certs_returns_error :: bool where
  "build_acceptor_no_inline_certs_returns_error \<longleftrightarrow>
     (let tls_config = terminating [\<lparr>cr_namespace = ''default'', cr_name = ''my-cert''\<rparr>] []
      in case build_tls_acceptor fake_tls tls_config of
           Inl e \<Rightarrow> sublist ''no inline certificates'' (tls_setup_error_text e)
         | Inr acceptor \<Rightarrow> False)"

definition build_acceptor_multiple_certs_sni :: bool where
  "build_acceptor_multiple_certs_sni \<longleftrightarrow>
     (let a = generate_cert_and_key [''alpha.example.com'']; b = generate_cert_and_key [''beta.example.com''];
          tls_config = terminating [] [inline_cert a [''alpha.example.com''], inline_cert b [''beta.example.com'']]
      in ok_and (build_tls_acceptor fake_tls tls_config) (\<lambda>acceptor. acceptor \<noteq> None))"

definition build_acceptor_invalid_cert_returns_error :: bool where
  "build_acceptor_invalid_cert_returns_error \<longleftrightarrow>
     (let (cert_pem, key_pem) = generate_cert_and_key [''localhost'']
      in is_error (build_tls_acceptor fake_tls (terminating [] [inline_cert (''not a cert'', key_pem) []])))"

definition build_acceptor_invalid_key_returns_error :: bool where
  "build_acceptor_invalid_key_returns_error \<longleftrightarrow>
     (let (cert_pem, key_pem) = generate_cert_and_key [''localhost'']
      in is_error (build_tls_acceptor fake_tls (terminating [] [inline_cert (cert_pem, ''not a key'') []])))"

definition inline_certificate_roundtrip :: bool where
  "inline_certificate_roundtrip \<longleftrightarrow>
     (let cert = inline_cert (generate_cert_and_key [''example.com'']) [''example.com'']
      in dec_inline_certificate (enc_inline_certificate cert) = Some cert)"

definition tls_config_with_inline_certs_roundtrip :: bool where
  "tls_config_with_inline_certs_roundtrip \<longleftrightarrow>
     (let tls_config = terminating [\<lparr>cr_namespace = ''default'', cr_name = ''my-cert''\<rparr>]
            [inline_cert (generate_cert_and_key [''example.com'']) [''example.com'']]
      in dec_tls_config (enc_tls_config tls_config) = Some tls_config)"

definition tls_config_without_inline_certs_deserializes :: bool where
  "tls_config_without_inline_certs_deserializes \<longleftrightarrow>
     (let json = JObj [(''mode'', JStr ''terminate''), (''certificates'', JArr [
            JObj [(''namespace'', JStr ''default''), (''name'', JStr ''my-cert'')]])]
      in some_and (dec_tls_config json) (\<lambda>tls_config. tls_inline_certificates tls_config = []))"

lemma pem_tests:
  "parse_valid_cert_pem" "parse_valid_key_pem" "parse_empty_cert_pem_returns_error"
  "parse_empty_key_pem_returns_error" "parse_garbage_cert_pem_returns_error"
  "parse_garbage_key_pem_returns_error"
  by code_simp+

lemma tls_acceptor_tests:
  "build_acceptor_single_cert" "build_acceptor_passthrough_returns_none"
  "build_acceptor_no_inline_certs_returns_error" "build_acceptor_multiple_certs_sni"
  "build_acceptor_invalid_cert_returns_error" "build_acceptor_invalid_key_returns_error"
  by code_simp+

lemma tls_wire_tests:
  "inline_certificate_roundtrip" "tls_config_with_inline_certs_roundtrip"
  "tls_config_without_inline_certs_deserializes"
  by code_simp+

section \<open>Resolvers, listeners and connections\<close>

definition mock_resolver_returns_configured_addresses :: bool where
  "mock_resolver_returns_configured_addresses \<longleftrightarrow>
     (let expected = [''127.0.0.1:8080'', ''127.0.0.2:8080'']; resolver = mock_resolver_new expected
      in ok_and (mock_resolve resolver ''anything'' 9999) (\<lambda>addrs. addrs = expected))"

definition mock_resolver_empty_returns_error :: bool where
  "mock_resolver_empty_returns_error \<longleftrightarrow> is_error (mock_resolve (mock_resolver_new []) ''host'' 80)"

text \<open>The listener is number 3, and the client's connection number 4 from \<open>127.0.0.1:50000\<close>.\<close>

definition tcp_acceptor_bind_accept :: bool where
  "tcp_acceptor_bind_accept \<longleftrightarrow>
     (let fresh = \<lparr>mo_reuse_port = False, mo_reuse_addr = False, mo_backlog = 0, mo_send_buf_size = None,
            mo_recv_buf_size = None\<rparr>
      in ok_and (tcp_bind fresh (\<lambda>addr opts. Inr 3) ''127.0.0.1:0'' listener_opts_default) (\<lambda>acceptor.
           ok_and (tcp_accept (\<lambda>l. Inr (\<lparr>st_fd = 4, st_nodelay = False\<rparr>, ''127.0.0.1:50000'')) (\<lambda>s. True) acceptor)
             (\<lambda>(server_stream, peer_addr).
               strip_prefix ''127.0.0.1:'' peer_addr \<noteq> None \<and> st_nodelay server_stream)))"

definition open_connection_reports_open :: bool where
  "open_connection_reports_open \<longleftrightarrow>
     (let conn = poolable_new \<lparr>st_fd = 4, st_nodelay = False\<rparr>
      in poolable_is_open (\<lambda>stream. Inr ''127.0.0.1:50000'') conn)"

lemma transport_tests:
  "mock_resolver_returns_configured_addresses" "mock_resolver_empty_returns_error" "tcp_acceptor_bind_accept"
  "open_connection_reports_open"
  by code_simp+

section \<open>The builder of the server\<close>

definition builder_requires_config :: bool where
  "builder_requires_config \<longleftrightarrow>
     is_error (proxy_server_build None (proxy_server_builder :: ProxyConfig ProxyServerBuilder))"

definition builder_rejects_zero_workers :: bool where
  "builder_rejects_zero_workers \<longleftrightarrow>
     is_error (proxy_server_build None (psb_worker_threads (psb_config proxy_server_builder proxy_config_default) 0))"

definition builder_succeeds_with_valid_config :: bool where
  "builder_succeeds_with_valid_config \<longleftrightarrow>
     \<not> is_error (proxy_server_build None (psb_worker_threads (psb_config proxy_server_builder proxy_config_default) 1))"

lemma server_builder_tests:
  "builder_requires_config" "builder_rejects_zero_workers" "builder_succeeds_with_valid_config"
  by code_simp+

section \<open>The key of the configuration\<close>

definition config_key_matches_control_plane :: bool where
  "config_key_matches_control_plane \<longleftrightarrow> DP_CONFIG_KEY = ''config.json''"

lemma config_key_test: config_key_matches_control_plane
  by code_simp

end
