(* ===== verification/ServerRunTests.thy ===== *)
theory ServerRunTests
  imports Serving ProxyTests ServerTests
begin

text \<open>
  The tests of \<open>crates/proxy-core/src/server.rs\<close> that run a whole server, on the model: a worker loads its
  configuration, binds its listeners, accepts the connections of the test in the rounds in which they arrive,
  and leaves when the shutdown flag is set; each connection is answered by the pipeline that the worker
  handed it to. Threads and sockets are the worker's environment, so a test fixes in which round and on which
  listener a client's connection is taken, which in the test is up to the operating system.
\<close>

section \<open>A worker, its clients and the backend\<close>

definition backend_port :: u16 where
  "backend_port = 9001"

definition test_config :: "string \<Rightarrow> u16 \<Rightarrow> u16 \<Rightarrow> ProxyConfig" where
  "test_config listener_name port backend =
     with_route (with_http_listener (proxy_config_builder_new ''default'' ''gw'') listener_name port None)
       (with_rule (attached_to (route_config_new ''default'' ''route-1'') listener_name)
         (with_backend (with_path_prefix route_rule_builder_new ''/'')
           (backend_new ''default'' ''127.0.0.1'' backend)))"

text \<open>The request of a client, and its connection.\<close>

definition http_request_conn ::
  "string \<Rightarrow> (string \<times> string option, (string \<times> string) list) Conn" where
  "http_request_conn path =
     (let headers = [(''Host'', ''127.0.0.1''), (''Connection'', ''close'')];
          raw = raw_head ((''GET '' @ path @ '' HTTP/1.1'') # map (\<lambda>(n, v). n @ '': '' @ v) headers)
      in \<lparr>cn_reads = (\<lambda>i. Inr (if i = 0 then raw else [])),
          cn_codec = (\<lambda>s. [Inr (built_request ''GET'' (path, None) headers)]),
          cn_send = (\<lambda>i resp. True), cn_flush = (\<lambda>i resp. True)\<rparr>)"

definition std_backend_net :: "string \<Rightarrow> test_net" where
  "std_backend_net body = fake_net
     (\<lambda>host port. if host = ''127.0.0.1'' \<and> port = backend_port then Inr [''127.0.0.1:9001'']
        else Inl (OtherIo ''no address''))
     (start_fake_backend [(''connection'', ''close'')] body)"

definition answer :: "string \<Rightarrow> StdResolver pipeline \<Rightarrow> string \<Rightarrow> (string \<times> string) list served" where
  "answer body pipeline path = service_call demo_http no_regex (\<lambda>pool resolver. std_backend_net body)
     (\<lambda>resolver. demo_relay) pipeline (\<lambda>t fr. False) (http_request_conn path)"

text \<open>
  \<open>clients\<close> are the connections, each with its round, the position of its listener and the path of its request;
  the flag is set in round \<open>stop\<close>.
\<close>

definition server_env ::
  "(nat \<Rightarrow> nat \<times> ProxyConfig) \<Rightarrow> string \<Rightarrow> ((nat \<times> nat) \<times> string) list \<Rightarrow> nat \<Rightarrow> string worker_env" where
  "server_env config body clients stop = \<lparr>we_config = config, we_shutdown = (\<lambda>k j. stop \<le> k),
     we_tls = fake_tls,
     we_monoio = \<lparr>mo_reuse_port = False, mo_reuse_addr = False, mo_backlog = 0, mo_send_buf_size = None,
       mo_recv_buf_size = None\<rparr>,
     we_bind = (\<lambda>n i addr opts. Inr i), we_local_addr = (\<lambda>l. Inr []), we_info_enabled = False,
     we_port_addr = (\<lambda>port. ''0.0.0.0:'' @ show_nat (unat port)),
     we_accept = (\<lambda>k i. case map_of clients (k, i) of
         Some path \<Rightarrow> Some (\<lambda>l. Inr (\<lparr>st_fd = k, st_nodelay = False\<rparr>, ''127.0.0.1:50000'')) | None \<Rightarrow> None),
     we_nodelay_ok = (\<lambda>s. True), we_handshake = (\<lambda>c s. HsDone),
     we_served = (\<lambda>k i p. case map_of clients (k, i) of
         Some path \<Rightarrow> call_of (answer body p path) | None \<Rightarrow> CallPending)\<rparr>"

text \<open>The answers of a worker that left its loop, in the order of its connections.\<close>

definition answers ::
  "string \<Rightarrow> ((nat \<times> nat) \<times> string) list \<Rightarrow> string worker_end option \<Rightarrow> test_response option list" where
  "answers body clients e =
     (case e of
        Some (WorkerOk wk) \<Rightarrow>
          map (\<lambda>ev. case ev of
              ServedPlain k i name p s \<Rightarrow>
                (case map_option (answer body p) (map_of clients (k, i)) of
                   Some (Session ([resp], SessionOk)) \<Rightarrow> Some resp
                 | _ \<Rightarrow> None)
            | _ \<Rightarrow> None) (wk_trace wk)
      | _ \<Rightarrow> [])"

definition served_by ::
  "(nat \<Rightarrow> nat \<times> ProxyConfig) \<Rightarrow> string \<Rightarrow> ((nat \<times> nat) \<times> string) list \<Rightarrow> nat \<Rightarrow> test_response option list" where
  "served_by config body clients stop =
     answers body clients (worker_loop (server_env config body clients stop) (Suc stop))"

section \<open>The tests\<close>

definition single_worker_proxy :: bool where
  "single_worker_proxy \<longleftrightarrow>
     (let config = test_config ''http'' 8080 backend_port;
          responses = served_by (\<lambda>n. (1, config)) ''hello from backend'' [((0, 0), ''/test'')] 1
      in length responses = 1 \<and>
         list_all (\<lambda>r. answered r 200 (\<lambda>body. sublist ''hello from backend'' body)) responses)"

text \<open>Four workers share the port; of the eight clients, each worker takes two, one per round.\<close>

definition multiple_workers_concurrent_requests :: bool where
  "multiple_workers_concurrent_requests \<longleftrightarrow>
     (let config = test_config ''http'' 8080 backend_port;
          clients = (\<lambda>w. [((0, 0), ''/req-'' @ show_nat w), ((1, 0), ''/req-'' @ show_nat (w + 4))]);
          responses = concat (map (\<lambda>w. served_by (\<lambda>n. (1, config)) ''multi-worker-ok'' (clients w) 2) [0..<4]);
          success_count = length (filter (\<lambda>r. answered r 200 (\<lambda>body. sublist ''multi-worker-ok'' body)) responses)
      in success_count \<ge> 1)"

definition multiple_listeners_different_ports :: bool where
  "multiple_listeners_different_ports \<longleftrightarrow>
     (let config = with_route
            (with_http_listener
              (with_http_listener (proxy_config_builder_new ''default'' ''gw'') ''http1'' 8081 None)
              ''http2'' 8082 None)
            (with_rule (attached_to (attached_to (route_config_new ''default'' ''route-1'') ''http1'') ''http2'')
              (with_backend (with_path_prefix route_rule_builder_new ''/'')
                (backend_new ''default'' ''127.0.0.1'' backend_port)));
          responses = served_by (\<lambda>n. (1, config)) ''dual-listener'' [((0, 0), ''/test1''), ((0, 1), ''/test2'')] 1
      in length responses = 2 \<and>
         list_all (\<lambda>r. answered r 200 (\<lambda>body. sublist ''dual-listener'' body)) responses)"

definition graceful_shutdown :: bool where
  "graceful_shutdown \<longleftrightarrow>
     (let config = test_config ''http'' 8080 backend_port;
          clients = [((0, 0), ''/before-shutdown'')];
          env = server_env (\<lambda>n. (1, config)) ''shutdown-test'' clients 1;
          responses = answers ''shutdown-test'' clients (worker_loop env 2);
          result = server_run (\<lambda>w. None) (\<lambda>k. 1 \<le> k) 2 (\<lambda>w. join_worker (run_worker None env 2))
            \<lparr>px_config = config, px_worker_threads = 1\<rparr>
      in length responses = 1 \<and> list_all (\<lambda>r. answered r 200 (\<lambda>body. True)) responses \<and> result = Some (Inr ()))"

text \<open>The configuration is stored between the two requests, at a new address.\<close>

definition config_update_via_arcswap :: bool where
  "config_update_via_arcswap \<longleftrightarrow>
     (let initial_config = with_http_listener (proxy_config_builder_new ''default'' ''gw'') ''http'' 8080 None;
          updated_config = test_config ''http'' 8080 backend_port;
          responses = served_by (\<lambda>n. if n \<le> 1 then (1, initial_config) else (2, updated_config)) ''original''
            [((0, 0), ''/test''), ((1, 0), ''/test'')] 2
      in length responses = 2 \<and> answered (responses ! 0) 404 (\<lambda>body. True) \<and>
         answered (responses ! 1) 200 (\<lambda>body. True))"

lemma server_run_tests:
  "single_worker_proxy" "multiple_workers_concurrent_requests" "multiple_listeners_different_ports"
  "graceful_shutdown" "config_update_via_arcswap"
  by code_simp+

end
