(* ===== verification/CoreTests.thy ===== *)
theory CoreTests
  imports Result Validate TestLib
begin

text \<open>
  The unit tests of \<open>snapshot.rs\<close>, \<open>validate.rs\<close> and \<open>result.rs\<close> in
  \<open>crates/controlplane/src/core/\<close>, run on the model. The builder of a snapshot starts at the time
  0 where the test does not set one.
\<close>

section \<open>Objects of the tests\<close>

definition named_meta :: "string \<Rightarrow> ObjectMeta" where
  "named_meta name = object_meta_default\<lparr>om_name := Some name\<rparr>"

definition namespaced_meta :: "string \<Rightarrow> string \<Rightarrow> ObjectMeta" where
  "namespaced_meta namespace name = object_meta_default\<lparr>om_name := Some name, om_namespace := Some namespace\<rparr>"

definition create_gateway_class :: "string \<Rightarrow> string \<Rightarrow> GatewayClass" where
  "create_gateway_class name controller = \<lparr>gc_metadata = named_meta name, gc_controller_name = controller,
     gc_parameters_ref = None, gc_status = None\<rparr>"

definition create_accepted_gateway_class :: "string \<Rightarrow> GatewayClass" where
  "create_accepted_gateway_class name = \<lparr>gc_metadata = named_meta name, gc_controller_name = CONTROLLER_NAME,
     gc_parameters_ref = None, gc_status = Some \<lparr>gcs_conditions = Some [\<lparr>co_type = ''Accepted'',
       co_status = ''True'', co_observed_generation = Some 1, co_last_transition_time = 0,
       co_reason = ''Accepted'', co_message = ''Accepted''\<rparr>]\<rparr>\<rparr>"

definition create_http_listener :: "string \<Rightarrow> i32 \<Rightarrow> GatewayListeners" where
  "create_http_listener name port = \<lparr>gl_name = name, gl_port = port, gl_protocol = ''HTTP'', gl_hostname = None,
     gl_tls = None, gl_allowed_routes = None\<rparr>"

definition create_https_listener :: "string \<Rightarrow> i32 \<Rightarrow> GatewayListeners" where
  "create_https_listener name port = \<lparr>gl_name = name, gl_port = port, gl_protocol = ''HTTPS'',
     gl_hostname = Some ''example.com'', gl_tls = Some \<lparr>glt_mode = Some LtmTerminate, glt_certificate_refs = Some []\<rparr>,
     gl_allowed_routes = None\<rparr>"

definition create_gateway :: "string \<Rightarrow> string \<Rightarrow> string \<Rightarrow> Gateway" where
  "create_gateway namespace name class_name = \<lparr>gw_metadata = namespaced_meta namespace name,
     gw_gateway_class_name = class_name, gw_listeners = [create_http_listener ''http'' 80], gw_addresses = None\<rparr>"

definition create_httproute :: "string \<Rightarrow> string \<Rightarrow> string \<Rightarrow> string \<Rightarrow> HTTPRoute" where
  "create_httproute namespace name gateway_ns gateway_name = \<lparr>hr_metadata = namespaced_meta namespace name,
     hr_parent_refs = Some [\<lparr>pr_group = Some ''gateway.networking.k8s.io'', pr_kind = Some ''Gateway'',
       pr_name = gateway_name, pr_namespace = Some gateway_ns, pr_port = None, pr_section_name = None\<rparr>],
     hr_hostnames = None, hr_rules = None\<rparr>"

definition create_service :: "string \<Rightarrow> string \<Rightarrow> Service" where
  "create_service namespace name = \<lparr>sv_metadata = namespaced_meta namespace name, sv_spec = None,
     sv_load_balancer_ingress = None\<rparr>"

definition create_grant :: "string \<Rightarrow> string \<Rightarrow> GrantFrom list \<Rightarrow> GrantTo list \<Rightarrow> ReferenceGrant" where
  "create_grant namespace name froms tos = \<lparr>rg_metadata = namespaced_meta namespace name, rg_from = froms, rg_to = tos\<rparr>"

section \<open>Snapshots\<close>

definition test_snapshot_builder :: bool where
  "test_snapshot_builder \<longleftrightarrow>
     (let fixed_time = 1767268800;
          gc = create_gateway_class ''multiway'' ''io.multiway/gateway-controller'';
          gw = create_gateway ''default'' ''my-gateway'' ''multiway'';
          snapshot = with_gateway gw (with_gateway_class gc (at_time fixed_time (snapshot_new 0)))
      in ws_now snapshot = fixed_time \<and> get_gateway_class snapshot ''multiway'' \<noteq> None \<and>
         get_gateway snapshot ''default'' ''my-gateway'' \<noteq> None)"

definition test_routes_for_gateway :: bool where
  "test_routes_for_gateway \<longleftrightarrow>
     (let gc = create_gateway_class ''multiway'' ''io.multiway/gateway-controller'';
          gw = create_gateway ''default'' ''my-gateway'' ''multiway'';
          route1 = create_httproute ''default'' ''route1'' ''default'' ''my-gateway'';
          route2 = create_httproute ''default'' ''route2'' ''default'' ''my-gateway'';
          route3 = create_httproute ''default'' ''route3'' ''default'' ''other-gateway'';
          snapshot = with_gateway gw (with_gateway_class gc (snapshot_new 0));
          snapshot = with_httproute route3 (with_httproute route2 (with_httproute route1 snapshot))
      in length (routes_for_gateway snapshot ''default'' ''my-gateway'') = 2)"

definition test_gateways_for_class :: bool where
  "test_gateways_for_class \<longleftrightarrow>
     (let gc = create_gateway_class ''multiway'' ''io.multiway/gateway-controller'';
          gw1 = create_gateway ''default'' ''gateway1'' ''multiway'';
          gw2 = create_gateway ''default'' ''gateway2'' ''multiway'';
          gw3 = create_gateway ''default'' ''gateway3'' ''other-class'';
          snapshot = with_gateway_class gc (snapshot_new 0);
          snapshot = with_gateway gw3 (with_gateway gw2 (with_gateway gw1 snapshot))
      in length (gateways_for_class snapshot ''multiway'') = 2)"

definition test_service_exists :: bool where
  "test_service_exists \<longleftrightarrow>
     (let svc = create_service ''default'' ''my-service''; snapshot = with_service svc (snapshot_new 0)
      in service_exists snapshot ''default'' ''my-service'' \<and> \<not> service_exists snapshot ''default'' ''nonexistent'' \<and>
         \<not> service_exists snapshot ''other-ns'' ''my-service'')"

definition test_reference_grant_checking :: bool where
  "test_reference_grant_checking \<longleftrightarrow>
     (let grant = create_grant ''backend-ns'' ''allow-routes''
            [\<lparr>gf_group = ''gateway.networking.k8s.io'', gf_kind = ''HTTPRoute'', gf_namespace = ''route-ns''\<rparr>]
            [\<lparr>gt_group = [], gt_kind = ''Service'', gt_name = None\<rparr>];
          snapshot = with_reference_grant grant (snapshot_new 0)
      in is_service_reference_allowed snapshot ''route-ns'' ''backend-ns'' \<and>
         \<not> is_service_reference_allowed snapshot ''other-ns'' ''backend-ns'' \<and>
         \<not> is_service_reference_allowed snapshot ''route-ns'' ''other-ns'')"

lemma snapshot_tests:
  "test_snapshot_builder" "test_routes_for_gateway" "test_gateways_for_class" "test_service_exists"
  "test_reference_grant_checking"
  by code_simp+

section \<open>Gateway classes and listeners\<close>

definition test_validate_gateway_class_accepted :: bool where
  "test_validate_gateway_class_accepted \<longleftrightarrow>
     (let result = validate_gateway_class (create_gateway_class ''multiway'' CONTROLLER_NAME)
      in gcv_accepted result \<and> gcv_reason result = ''Accepted'')"

definition test_is_our_gateway_class :: bool where
  "test_is_our_gateway_class \<longleftrightarrow>
     is_our_gateway_class (create_gateway_class ''multiway'' CONTROLLER_NAME) \<and>
     \<not> is_our_gateway_class (create_gateway_class ''other'' ''other.io/controller'')"

definition test_validate_http_listener :: bool where
  "test_validate_http_listener \<longleftrightarrow>
     (let result = validate_listeners [create_http_listener ''http'' 80]
      in lv_all_valid result \<and> at_and (lv_listeners result) 0 lvr_valid)"

definition test_validate_https_listener :: bool where
  "test_validate_https_listener \<longleftrightarrow> lv_all_valid (validate_listeners [create_https_listener ''https'' 443])"

definition test_validate_https_without_tls :: bool where
  "test_validate_https_without_tls \<longleftrightarrow>
     (let result = validate_listeners [\<lparr>gl_name = ''https'', gl_port = 443, gl_protocol = ''HTTPS'',
            gl_hostname = None, gl_tls = None, gl_allowed_routes = None\<rparr>]
      in \<not> lv_all_valid result \<and> at_and (lv_listeners result) 0 (\<lambda>l. lvr_reason l = ''InvalidTLS''))"

definition test_validate_http_with_tls :: bool where
  "test_validate_http_with_tls \<longleftrightarrow>
     (let result = validate_listeners [\<lparr>gl_name = ''http'', gl_port = 80, gl_protocol = ''HTTP'',
            gl_hostname = None, gl_tls = Some \<lparr>glt_mode = Some LtmTerminate, glt_certificate_refs = Some []\<rparr>,
            gl_allowed_routes = None\<rparr>]
      in \<not> lv_all_valid result \<and> at_and (lv_listeners result) 0 (\<lambda>l. lvr_reason l = ''InvalidTLS''))"

definition test_validate_unsupported_protocol :: bool where
  "test_validate_unsupported_protocol \<longleftrightarrow>
     (let result = validate_listeners [\<lparr>gl_name = ''grpc'', gl_port = 9090, gl_protocol = ''GRPC'',
            gl_hostname = None, gl_tls = None, gl_allowed_routes = None\<rparr>]
      in \<not> lv_all_valid result \<and> at_and (lv_listeners result) 0 (\<lambda>l. lvr_reason l = ''UnsupportedProtocol''))"

definition test_validate_invalid_port :: bool where
  "test_validate_invalid_port \<longleftrightarrow>
     (let result = validate_listeners [create_http_listener ''http'' 0]
      in \<not> lv_all_valid result \<and> at_and (lv_listeners result) 0 (\<lambda>l. lvr_reason l = ''InvalidPort''))"

lemma listener_validation_tests:
  "test_validate_gateway_class_accepted" "test_is_our_gateway_class" "test_validate_http_listener"
  "test_validate_https_listener" "test_validate_https_without_tls" "test_validate_http_with_tls"
  "test_validate_unsupported_protocol" "test_validate_invalid_port"
  by code_simp+

section \<open>Parent and backend references\<close>

text \<open>The first parent reference of a route, validated.\<close>

definition first_parent_validated ::
  "WorldSnapshot \<Rightarrow> HTTPRoute \<Rightarrow> string \<Rightarrow> (ParentRefValidation \<Rightarrow> bool) \<Rightarrow> bool" where
  "first_parent_validated snapshot route namespace P \<longleftrightarrow>
     some_and (hr_parent_refs route) (\<lambda>refs. at_and refs 0 (\<lambda>parent_ref.
       P (validate_parent_ref snapshot route parent_ref namespace)))"

definition test_parent_ref_gateway_not_found :: bool where
  "test_parent_ref_gateway_not_found \<longleftrightarrow>
     (let snapshot = with_gateway_class (create_accepted_gateway_class ''multiway'') (snapshot_new 0);
          route = create_httproute ''default'' ''my-route'' ''default'' ''nonexistent''
      in first_parent_validated snapshot route ''default''
           (\<lambda>result. \<not> prv_accepted result \<and> prv_reason result = ''NoMatchingParent''))"

definition test_parent_ref_gateway_class_not_accepted :: bool where
  "test_parent_ref_gateway_class_not_accepted \<longleftrightarrow>
     (let gc = create_gateway_class ''multiway'' CONTROLLER_NAME;
          snapshot = with_gateway (create_gateway ''default'' ''my-gateway'' ''multiway'')
            (with_gateway_class gc (snapshot_new 0));
          route = create_httproute ''default'' ''my-route'' ''default'' ''my-gateway''
      in first_parent_validated snapshot route ''default''
           (\<lambda>result. \<not> prv_accepted result \<and> prv_reason result = ''NotAllowedByGateway''))"

definition test_parent_ref_accepted :: bool where
  "test_parent_ref_accepted \<longleftrightarrow>
     (let snapshot = with_gateway (create_gateway ''default'' ''my-gateway'' ''multiway'')
            (with_gateway_class (create_accepted_gateway_class ''multiway'') (snapshot_new 0));
          route = create_httproute ''default'' ''my-route'' ''default'' ''my-gateway''
      in first_parent_validated snapshot route ''default''
           (\<lambda>result. prv_accepted result \<and> prv_reason result = ''Accepted'' \<and> prv_attached_listeners result \<noteq> []))"

definition test_cross_namespace_without_grant :: bool where
  "test_cross_namespace_without_grant \<longleftrightarrow>
     (let snapshot = with_gateway (create_gateway ''gateway-ns'' ''my-gateway'' ''multiway'')
            (with_gateway_class (create_accepted_gateway_class ''multiway'') (snapshot_new 0));
          route = create_httproute ''route-ns'' ''my-route'' ''gateway-ns'' ''my-gateway''
      in first_parent_validated snapshot route ''route-ns''
           (\<lambda>result. \<not> prv_accepted result \<and> prv_reason result = ''RefNotPermitted''))"

definition test_cross_namespace_with_grant :: bool where
  "test_cross_namespace_with_grant \<longleftrightarrow>
     (let grant = create_grant ''gateway-ns'' ''allow-routes''
            [\<lparr>gf_group = ''gateway.networking.k8s.io'', gf_kind = ''HTTPRoute'', gf_namespace = ''route-ns''\<rparr>]
            [\<lparr>gt_group = ''gateway.networking.k8s.io'', gt_kind = ''Gateway'', gt_name = None\<rparr>];
          snapshot = with_gateway (create_gateway ''gateway-ns'' ''my-gateway'' ''multiway'')
            (with_gateway_class (create_accepted_gateway_class ''multiway'') (snapshot_new 0));
          snapshot = with_reference_grant grant snapshot;
          route = create_httproute ''route-ns'' ''my-route'' ''gateway-ns'' ''my-gateway''
      in first_parent_validated snapshot route ''route-ns'' prv_accepted)"

lemma parent_ref_tests:
  "test_parent_ref_gateway_not_found" "test_parent_ref_gateway_class_not_accepted" "test_parent_ref_accepted"
  "test_cross_namespace_without_grant" "test_cross_namespace_with_grant"
  by code_simp+

definition port_80_backend :: "string \<Rightarrow> HttpRouteBackendRef" where
  "port_80_backend name = \<lparr>hrb_group = None, hrb_kind = None, hrb_name = name, hrb_namespace = None,
     hrb_port = Some 80, hrb_weight = None\<rparr>"

definition test_validate_backend_not_found :: bool where
  "test_validate_backend_not_found \<longleftrightarrow>
     some_and (validate_backend (snapshot_new 0) ''default'' (port_80_backend ''nonexistent''))
       (\<lambda>error. bve_reason error = ''BackendNotFound'')"

definition test_validate_backend_exists :: bool where
  "test_validate_backend_exists \<longleftrightarrow>
     (let snapshot = with_service (create_service ''default'' ''my-service'') (snapshot_new 0)
      in validate_backend snapshot ''default'' (port_80_backend ''my-service'') = None)"

definition test_validate_backend_unsupported_type :: bool where
  "test_validate_backend_unsupported_type \<longleftrightarrow>
     (let backend = (port_80_backend ''my-backend'')\<lparr>hrb_group := Some ''custom.io'', hrb_kind := Some ''CustomBackend''\<rparr>
      in some_and (validate_backend (snapshot_new 0) ''default'' backend)
           (\<lambda>error. bve_reason error = ''InvalidBackendRef''))"

definition test_validate_backend_cross_namespace_without_grant :: bool where
  "test_validate_backend_cross_namespace_without_grant \<longleftrightarrow>
     (let snapshot = with_service (create_service ''backend-ns'' ''my-service'') (snapshot_new 0);
          backend = (port_80_backend ''my-service'')\<lparr>hrb_namespace := Some ''backend-ns''\<rparr>
      in some_and (validate_backend snapshot ''route-ns'' backend)
           (\<lambda>error. bve_reason error = ''RefNotPermitted''))"

lemma backend_validation_tests:
  "test_validate_backend_not_found" "test_validate_backend_exists" "test_validate_backend_unsupported_type"
  "test_validate_backend_cross_namespace_without_grant"
  by code_simp+

section \<open>Results\<close>

definition test_result_merge :: bool where
  "test_result_merge \<longleftrightarrow>
     (let result1 = emit_normal (with_requeue result_new 60) ''Created'' ''Resource created'';
          result2 = emit_warning (with_requeue result_new 30) ''Updated'' ''Resource updated'';
          merged = merge result1 result2
      in length (res_events merged) = 2 \<and> res_requeue merged = Some (After 30))"

definition test_requeue_decision_min :: bool where
  "test_requeue_decision_min \<longleftrightarrow> requeue_min (After 60) (After 30) = After 30 \<and>
     requeue_min Never (After 30) = After 30 \<and> requeue_min (After 60) (OnError 30) = OnError 30"

definition test_result_accessors :: bool where
  "test_result_accessors \<longleftrightarrow>
     (let deployment = \<lparr>de_metadata = namespaced_meta ''default'' ''test-deployment'', de_spec = None\<rparr>;
          result = upsert_deployment result_new deployment
      in has_upserts result \<and> \<not> has_deletes result \<and> length (deployment_upserts result) = 1 \<and>
         length (service_upserts result) = 0)"

definition test_resource_delete :: bool where
  "test_resource_delete \<longleftrightarrow>
     (let delete = resource_delete_namespaced ''apps/v1'' ''Deployment'' ''default'' ''my-deploy''
      in rdl_api_version delete = ''apps/v1'' \<and> rdl_kind delete = ''Deployment'' \<and>
         rdl_namespace delete = Some ''default'' \<and> rdl_name delete = ''my-deploy'')"

lemma result_tests:
  "test_result_merge" "test_requeue_decision_min" "test_result_accessors" "test_resource_delete"
  by code_simp+

end
