(* ===== verification/ConvertTests.thy ===== *)
theory ConvertTests
  imports Convert CoreTests
begin

text \<open>
  The unit tests of \<open>crates/controlplane/src/controller/httproute.rs\<close>, run on the model. The decimal reading
  of an \<open>f64\<close> is a parameter of the model: \<open>decimal_floats\<close> gives the bit patterns of the numbers the
  tests mention, and the products with 60 and 3600 of those.
\<close>

section \<open>Durations\<close>

definition decimal_floats :: float_ops where
  "decimal_floats = \<lparr>
     parse_f64 = (\<lambda>s. if s = ''0'' then Some 0x0000000000000000
       else if s = ''0.5'' then Some 0x3FE0000000000000
       else if s = ''1'' then Some 0x3FF0000000000000
       else if s = ''1.5'' then Some 0x3FF8000000000000
       else if s = ''2.5'' then Some 0x4004000000000000
       else if s = ''10'' then Some 0x4024000000000000
       else if s = ''30'' then Some 0x403E000000000000
       else None),
     times_60 = (\<lambda>x. if x = 0x3FF0000000000000 then 0x404E000000000000
       else if x = 0x3FF8000000000000 then 0x4056800000000000 else 0),
     times_3600 = (\<lambda>x. if x = 0x3FF0000000000000 then 0x40AC200000000000
       else if x = 0x4004000000000000 then 0x40C1940000000000 else 0)\<rparr>"

definition test_parse_duration :: bool where
  "test_parse_duration \<longleftrightarrow>
     parse_duration decimal_floats ''10s'' = Some 0x4024000000000000 \<and>
     parse_duration decimal_floats ''1m'' = Some 0x404E000000000000 \<and>
     parse_duration decimal_floats ''1h'' = Some 0x40AC200000000000 \<and>
     parse_duration decimal_floats ''30'' = Some 0x403E000000000000 \<and>
     parse_duration decimal_floats ''invalid'' = None"

definition test_parse_duration_fractional :: bool where
  "test_parse_duration_fractional \<longleftrightarrow>
     parse_duration decimal_floats ''0.5s'' = Some 0x3FE0000000000000 \<and>
     parse_duration decimal_floats ''1.5m'' = Some 0x4056800000000000 \<and>
     parse_duration decimal_floats ''2.5h'' = Some 0x40C1940000000000"

definition test_parse_duration_zero :: bool where
  "test_parse_duration_zero \<longleftrightarrow>
     parse_duration decimal_floats ''0s'' = Some 0x0000000000000000 \<and>
     parse_duration decimal_floats ''0m'' = Some 0x0000000000000000"

lemma duration_tests:
  "test_parse_duration" "test_parse_duration_fractional" "test_parse_duration_zero"
  by code_simp+

section \<open>Methods and namespaces\<close>

definition test_convert_method :: bool where
  "test_convert_method \<longleftrightarrow> convert_method HrGet = ''GET'' \<and> convert_method HrPost = ''POST'' \<and>
     convert_method HrPut = ''PUT'' \<and> convert_method HrDelete = ''DELETE'' \<and>
     convert_method HrPatch = ''PATCH'' \<and> convert_method HrHead = ''HEAD'' \<and>
     convert_method HrOptions = ''OPTIONS'' \<and> convert_method HrConnect = ''CONNECT'' \<and>
     convert_method HrTrace = ''TRACE''"

definition test_is_namespace_allowed :: bool where
  "test_is_namespace_allowed \<longleftrightarrow>
     is_namespace_allowed AllowAll ''any-ns'' \<and> is_namespace_allowed AllowAll ''default'' \<and>
     is_namespace_allowed AllowAll ''production'' \<and>
     is_namespace_allowed (AllowSame ''default'') ''default'' \<and>
     \<not> is_namespace_allowed (AllowSame ''default'') ''other'' \<and>
     (let labels = bt_insert ''env'' ''prod'' []
      in is_namespace_allowed (AllowSelector labels) ''some-namespace'')"

lemma method_and_namespace_tests: "test_convert_method" "test_is_namespace_allowed"
  by code_simp+

section \<open>Path, header and query matches\<close>

definition test_convert_path_match_prefix_default :: bool where
  "test_convert_path_match_prefix_default \<longleftrightarrow>
     (let path = \<lparr>hrp_type = None, hrp_value = Some ''/api''\<rparr>
      in ok_and (convert_path_match path) (\<lambda>result. cpm_match_type result = CpPathPrefix \<and> cpm_value result = ''/api''))"

definition test_convert_path_match_exact :: bool where
  "test_convert_path_match_exact \<longleftrightarrow>
     (let path = \<lparr>hrp_type = Some HrPathExact, hrp_value = Some ''/api/v1/users''\<rparr>
      in ok_and (convert_path_match path) (\<lambda>result. cpm_match_type result = CpPathExact \<and>
           cpm_value result = ''/api/v1/users''))"

definition test_convert_path_match_path_prefix :: bool where
  "test_convert_path_match_path_prefix \<longleftrightarrow>
     (let path = \<lparr>hrp_type = Some HrPathPrefix, hrp_value = Some ''/api''\<rparr>
      in ok_and (convert_path_match path) (\<lambda>result. cpm_match_type result = CpPathPrefix \<and> cpm_value result = ''/api''))"

definition test_convert_path_match_regex :: bool where
  "test_convert_path_match_regex \<longleftrightarrow>
     (let path = \<lparr>hrp_type = Some HrPathRegularExpression, hrp_value = Some ''^/api/v[0-9]+/.*''\<rparr>
      in ok_and (convert_path_match path) (\<lambda>result. cpm_match_type result = CpPathRegularExpression \<and>
           cpm_value result = ''^/api/v[0-9]+/.*''))"

definition test_convert_path_match_default_value :: bool where
  "test_convert_path_match_default_value \<longleftrightarrow>
     (let path = \<lparr>hrp_type = Some HrPathPrefix, hrp_value = None\<rparr>
      in ok_and (convert_path_match path) (\<lambda>result. cpm_value result = ''/''))"

definition test_convert_header_match_exact_default :: bool where
  "test_convert_header_match_exact_default \<longleftrightarrow>
     (let header = \<lparr>hrn_name = ''X-Custom-Header'', hrn_type = None, hrn_value = ''expected-value''\<rparr>
      in ok_and (convert_header_match header) (\<lambda>result. chm_match_type result = CpHeaderExact \<and>
           chm_name result = ''X-Custom-Header'' \<and> chm_value result = ''expected-value''))"

definition test_convert_header_match_regex :: bool where
  "test_convert_header_match_regex \<longleftrightarrow>
     (let header = \<lparr>hrn_name = ''X-Request-ID'', hrn_type = Some HrRegularExpression,
            hrn_value = ''^[a-f0-9]{8}-.*''\<rparr>
      in ok_and (convert_header_match header) (\<lambda>result. chm_match_type result = CpHeaderRegularExpression \<and>
           chm_name result = ''X-Request-ID''))"

definition test_convert_query_param_match_exact_default :: bool where
  "test_convert_query_param_match_exact_default \<longleftrightarrow>
     (let param = \<lparr>hrn_name = ''version'', hrn_type = None, hrn_value = ''v2''\<rparr>
      in ok_and (convert_query_param_match param) (\<lambda>result. cqm_match_type result = CpQueryExact \<and>
           cqm_name result = ''version'' \<and> cqm_value result = ''v2''))"

definition test_convert_query_param_match_regex :: bool where
  "test_convert_query_param_match_regex \<longleftrightarrow>
     (let param = \<lparr>hrn_name = ''id'', hrn_type = Some HrRegularExpression, hrn_value = ''^[0-9]+$''\<rparr>
      in ok_and (convert_query_param_match param) (\<lambda>result. cqm_match_type result = CpQueryRegularExpression \<and>
           cqm_name result = ''id''))"

lemma path_match_tests:
  "test_convert_path_match_prefix_default" "test_convert_path_match_exact" "test_convert_path_match_path_prefix"
  "test_convert_path_match_regex" "test_convert_path_match_default_value"
  by code_simp+

lemma header_and_query_match_tests:
  "test_convert_header_match_exact_default" "test_convert_header_match_regex"
  "test_convert_query_param_match_exact_default" "test_convert_query_param_match_regex"
  by code_simp+

section \<open>Filters\<close>

definition no_filter :: "HrFilterType \<Rightarrow> HttpRouteFilter" where
  "no_filter t = \<lparr>hrf_type = t, hrf_request_header_modifier = None, hrf_response_header_modifier = None,
     hrf_request_redirect = None, hrf_url_rewrite = None, hrf_request_mirror = None\<rparr>"

definition test_convert_filter_request_header_modifier :: bool where
  "test_convert_filter_request_header_modifier \<longleftrightarrow>
     (let flt = (no_filter HrRequestHeaderModifier)\<lparr>hrf_request_header_modifier := Some
            \<lparr>hhm_add = Some [\<lparr>hrh_name = ''X-Added'', hrh_value = ''added-value''\<rparr>],
             hhm_set = Some [\<lparr>hrh_name = ''X-Set'', hrh_value = ''set-value''\<rparr>],
             hhm_remove = Some [''X-Remove'']\<rparr>\<rparr>
      in ok_and (convert_filter flt) (\<lambda>result. some_and result (\<lambda>result. case result of
           CpRequestHeaderModifier added sets removed \<Rightarrow>
             length added = 1 \<and> chv_name (added ! 0) = ''X-Added'' \<and> chv_value (added ! 0) = ''added-value'' \<and>
             length sets = 1 \<and> chv_name (sets ! 0) = ''X-Set'' \<and> length removed = 1 \<and> removed ! 0 = ''X-Remove''
         | _ \<Rightarrow> False)))"

definition test_convert_filter_request_redirect :: bool where
  "test_convert_filter_request_redirect \<longleftrightarrow>
     (let flt = (no_filter HrRequestRedirect)\<lparr>hrf_request_redirect := Some
            \<lparr>hrr_scheme = Some HrHttps, hrr_hostname = Some ''new-host.example.com'', hrr_port = Some 8443,
             hrr_path = Some \<lparr>hpm_type = HrReplaceFullPath, hpm_replace_full_path = Some ''/new-path'',
               hpm_replace_prefix_match = None\<rparr>, hrr_status_code = Some 301\<rparr>\<rparr>
      in ok_and (convert_filter flt) (\<lambda>result. some_and result (\<lambda>result. case result of
           CpRequestRedirect scheme hostname port path status_code \<Rightarrow>
             scheme = Some ''https'' \<and> hostname = Some ''new-host.example.com'' \<and> port = Some 8443 \<and>
             path = Some (CpReplaceFullPath ''/new-path'') \<and> status_code = Some 301
         | _ \<Rightarrow> False)))"

definition test_convert_filter_url_rewrite :: bool where
  "test_convert_filter_url_rewrite \<longleftrightarrow>
     (let flt = (no_filter HrUrlRewriteType)\<lparr>hrf_url_rewrite := Some
            \<lparr>hru_hostname = Some ''backend.internal'', hru_path = Some \<lparr>hpm_type = HrReplacePrefixMatch,
               hpm_replace_full_path = None, hpm_replace_prefix_match = Some ''/internal-api''\<rparr>\<rparr>\<rparr>
      in ok_and (convert_filter flt) (\<lambda>result. some_and result (\<lambda>result. case result of
           CpURLRewrite hostname path \<Rightarrow> hostname = Some ''backend.internal'' \<and>
             path = Some (CpReplacePrefixMatch ''/internal-api'')
         | _ \<Rightarrow> False)))"

text \<open>The reference of the extension is a field the converter does not read, and the model leaves it out.\<close>

definition test_convert_filter_extension_ref_unsupported :: bool where
  "test_convert_filter_extension_ref_unsupported \<longleftrightarrow>
     ok_and (convert_filter (no_filter HrExtensionRef)) (\<lambda>result. result = None)"

lemma convert_filter_tests:
  "test_convert_filter_request_header_modifier" "test_convert_filter_request_redirect"
  "test_convert_filter_url_rewrite" "test_convert_filter_extension_ref_unsupported"
  by code_simp+

section \<open>Backends, rules and matches\<close>

definition backend_to :: "string \<Rightarrow> i32 option \<Rightarrow> HttpRouteBackendRef" where
  "backend_to name port = \<lparr>hrb_group = None, hrb_kind = None, hrb_name = name, hrb_namespace = None,
     hrb_port = port, hrb_weight = None\<rparr>"

definition test_convert_backend_defaults :: bool where
  "test_convert_backend_defaults \<longleftrightarrow>
     ok_and (convert_backend (backend_to ''my-service'' None) ''default'') (\<lambda>result.
       cbe_namespace result = ''default'' \<and> cbe_name result = ''my-service'' \<and> cbe_port result = 80 \<and>
       cbe_weight result = 1)"

definition test_convert_backend_explicit :: bool where
  "test_convert_backend_explicit \<longleftrightarrow>
     (let backend = (backend_to ''backend-service'' (Some 8080))\<lparr>hrb_namespace := Some ''other-namespace'',
            hrb_weight := Some 10\<rparr>
      in ok_and (convert_backend backend ''default'') (\<lambda>result.
           cbe_namespace result = ''other-namespace'' \<and> cbe_name result = ''backend-service'' \<and>
           cbe_port result = 8080 \<and> cbe_weight result = 10))"

definition test_convert_rule_no_matches :: bool where
  "test_convert_rule_no_matches \<longleftrightarrow>
     (let rule = \<lparr>hrl_matches = None, hrl_filters = None,
            hrl_backend_refs = Some [backend_to ''default-backend'' (Some 80)], hrl_timeouts = None\<rparr>
      in ok_and (convert_rule decimal_floats rule ''default'') (\<lambda>result. crr_name result = None \<and>
           length (crr_matches result) = 1 \<and> crm_path (crr_matches result ! 0) = None))"

definition test_convert_rule_with_timeouts :: bool where
  "test_convert_rule_with_timeouts \<longleftrightarrow>
     (let rule = \<lparr>hrl_matches = None, hrl_filters = None,
            hrl_backend_refs = Some [backend_to ''backend'' (Some 80)],
            hrl_timeouts = Some \<lparr>hrt_request = Some ''30s'', hrt_backend_request = Some ''10s''\<rparr>\<rparr>
      in ok_and (convert_rule decimal_floats rule ''default'') (\<lambda>result.
           some_and (crr_timeout result) (\<lambda>timeout. cto_request timeout = Some 0x403E000000000000 \<and>
             cto_backend_request timeout = Some 0x4024000000000000)))"

definition test_convert_match_complex :: bool where
  "test_convert_match_complex \<longleftrightarrow>
     (let m = \<lparr>hrm_path = Some \<lparr>hrp_type = Some HrPathPrefix, hrp_value = Some ''/api/v1''\<rparr>,
            hrm_headers = Some [\<lparr>hrn_name = ''X-API-Key'', hrn_type = Some HrExact, hrn_value = ''secret''\<rparr>],
            hrm_query_params = Some [\<lparr>hrn_name = ''format'', hrn_type = Some HrExact, hrn_value = ''json''\<rparr>],
            hrm_method = Some HrPost\<rparr>
      in ok_and (convert_match m) (\<lambda>result.
           some_and (crm_path result) (\<lambda>path. cpm_match_type path = CpPathPrefix \<and> cpm_value path = ''/api/v1'') \<and>
           length (crm_headers result) = 1 \<and> chm_name (crm_headers result ! 0) = ''X-API-Key'' \<and>
           length (crm_query_params result) = 1 \<and> cqm_name (crm_query_params result ! 0) = ''format'' \<and>
           crm_method result = Some ''POST''))"

lemma convert_rule_tests:
  "test_convert_backend_defaults" "test_convert_backend_explicit" "test_convert_rule_no_matches"
  "test_convert_rule_with_timeouts" "test_convert_match_complex"
  by code_simp+

section \<open>Matching listeners\<close>

definition plain_listener :: "string \<Rightarrow> i32 \<Rightarrow> string \<Rightarrow> GatewayListeners" where
  "plain_listener name port protocol = \<lparr>gl_name = name, gl_port = port, gl_protocol = protocol,
     gl_hostname = None, gl_tls = None, gl_allowed_routes = None\<rparr>"

definition two_listener_gateway :: "GatewayListeners \<Rightarrow> GatewayListeners \<Rightarrow> Gateway" where
  "two_listener_gateway l1 l2 = \<lparr>gw_metadata = namespaced_meta ''default'' ''test-gateway'',
     gw_gateway_class_name = ''multiway'', gw_listeners = [l1, l2], gw_addresses = None\<rparr>"

definition test_find_matching_listeners_by_section_name :: bool where
  "test_find_matching_listeners_by_section_name \<longleftrightarrow>
     (let gateway = two_listener_gateway (plain_listener ''http'' 80 ''HTTP'')
            (plain_listener ''https'' 443 ''HTTPS'');
          by_name = find_matching_listeners gateway (Some ''http'') None;
          by_port = find_matching_listeners gateway None (Some 443);
          all = find_matching_listeners gateway None None
      in length by_name = 1 \<and> gl_name (by_name ! 0) = ''http'' \<and>
         length by_port = 1 \<and> gl_name (by_port ! 0) = ''https'' \<and> length all = 2)"

definition test_find_matching_listeners_filters_non_http :: bool where
  "test_find_matching_listeners_filters_non_http \<longleftrightarrow>
     (let gateway = two_listener_gateway (plain_listener ''http'' 80 ''HTTP'') (plain_listener ''tcp'' 9000 ''TCP'');
          matches = find_matching_listeners gateway None None
      in length matches = 1 \<and> gl_name (matches ! 0) = ''http'')"

lemma find_listener_tests:
  "test_find_matching_listeners_by_section_name" "test_find_matching_listeners_filters_non_http"
  by code_simp+

end
