(* ===== verification/ControllerTests.thy ===== *)
theory ControllerTests
  imports Controllers CoreTests
begin

text \<open>
  The unit tests of \<open>gateway.rs\<close>, \<open>gateway_class.rs\<close>, \<open>context.rs\<close> and \<open>reconciler.rs\<close> in
  \<open>crates/controlplane/src/controller/\<close>, and of \<open>shell/executor.rs\<close>, run on the model.
\<close>

section \<open>Listeners of a gateway\<close>

definition test_validate_listeners_http :: bool where
  "test_validate_listeners_http \<longleftrightarrow>
     (let result = validate_listeners [create_http_listener ''http'' 80]
      in lv_all_valid result \<and> length (lv_listeners result) = 1 \<and> lvr_valid (lv_listeners result ! 0))"

definition test_validate_listeners_https_with_tls :: bool where
  "test_validate_listeners_https_with_tls \<longleftrightarrow>
     (let result = validate_listeners [create_https_listener ''https'' 443]
      in lv_all_valid result \<and> at_and (lv_listeners result) 0 lvr_valid)"

definition test_validate_listeners_https_without_tls :: bool where
  "test_validate_listeners_https_without_tls \<longleftrightarrow>
     (let listeners = [\<lparr>gl_name = ''https'', gl_port = 443, gl_protocol = ''HTTPS'', gl_hostname = None,
            gl_tls = None, gl_allowed_routes = None\<rparr>];
          result = validate_listeners listeners
      in \<not> lv_all_valid result \<and> at_and (lv_listeners result) 0 (\<lambda>l. \<not> lvr_valid l \<and> lvr_reason l = ''InvalidTLS''))"

definition test_validate_listeners_http_with_tls :: bool where
  "test_validate_listeners_http_with_tls \<longleftrightarrow>
     (let listeners = [\<lparr>gl_name = ''http'', gl_port = 80, gl_protocol = ''HTTP'', gl_hostname = None,
            gl_tls = Some \<lparr>glt_mode = Some LtmTerminate, glt_certificate_refs = Some []\<rparr>,
            gl_allowed_routes = None\<rparr>];
          result = validate_listeners listeners
      in \<not> lv_all_valid result \<and> at_and (lv_listeners result) 0 (\<lambda>l. \<not> lvr_valid l \<and> lvr_reason l = ''InvalidTLS''))"

definition test_validate_listeners_invalid_protocol :: bool where
  "test_validate_listeners_invalid_protocol \<longleftrightarrow>
     (let listeners = [\<lparr>gl_name = ''invalid'', gl_port = 80, gl_protocol = ''INVALID'', gl_hostname = None,
            gl_tls = None, gl_allowed_routes = None\<rparr>];
          result = validate_listeners listeners
      in \<not> lv_all_valid result \<and>
         at_and (lv_listeners result) 0 (\<lambda>l. \<not> lvr_valid l \<and> lvr_reason l = ''UnsupportedProtocol''))"

definition test_validate_listeners_protocol_case_insensitive :: bool where
  "test_validate_listeners_protocol_case_insensitive \<longleftrightarrow>
     (let listeners = [\<lparr>gl_name = ''http1'', gl_port = 80, gl_protocol = ''http'', gl_hostname = None,
            gl_tls = None, gl_allowed_routes = None\<rparr>,
            \<lparr>gl_name = ''http2'', gl_port = 8080, gl_protocol = ''Http'', gl_hostname = None,
            gl_tls = None, gl_allowed_routes = None\<rparr>];
          result = validate_listeners listeners
      in lv_all_valid result \<and> at_and (lv_listeners result) 0 lvr_valid \<and> at_and (lv_listeners result) 1 lvr_valid)"

definition test_validate_listeners_port_range :: bool where
  "test_validate_listeners_port_range \<longleftrightarrow>
     (let result = validate_listeners [create_http_listener ''http'' 8080] in lv_all_valid result) \<and>
     (let result = validate_listeners [create_http_listener ''http'' 0]
      in \<not> lv_all_valid result \<and> at_and (lv_listeners result) 0 (\<lambda>l. lvr_reason l = ''InvalidPort'')) \<and>
     (let result = validate_listeners [create_http_listener ''http'' (- 1)]
      in \<not> lv_all_valid result \<and> at_and (lv_listeners result) 0 (\<lambda>l. lvr_reason l = ''InvalidPort''))"

definition test_validate_multiple_listeners :: bool where
  "test_validate_multiple_listeners \<longleftrightarrow>
     (let listeners = [create_http_listener ''http'' 80, create_https_listener ''https'' 443,
            create_http_listener ''http-alt'' 8080];
          result = validate_listeners listeners
      in lv_all_valid result \<and> length (lv_listeners result) = 3 \<and> list_all lvr_valid (lv_listeners result))"

definition test_validate_listeners_partial_invalid :: bool where
  "test_validate_listeners_partial_invalid \<longleftrightarrow>
     (let listeners = [create_http_listener ''http'' 80, \<lparr>gl_name = ''invalid'', gl_port = 80,
            gl_protocol = ''GRPC'', gl_hostname = None, gl_tls = None, gl_allowed_routes = None\<rparr>];
          result = validate_listeners listeners
      in \<not> lv_all_valid result \<and> at_and (lv_listeners result) 0 lvr_valid \<and>
         at_and (lv_listeners result) 1 (\<lambda>l. \<not> lvr_valid l))"

lemma listener_tests:
  "test_validate_listeners_http" "test_validate_listeners_https_with_tls"
  "test_validate_listeners_https_without_tls" "test_validate_listeners_http_with_tls"
  "test_validate_listeners_invalid_protocol" "test_validate_listeners_protocol_case_insensitive"
  "test_validate_listeners_port_range" "test_validate_multiple_listeners"
  "test_validate_listeners_partial_invalid"
  by code_simp+

section \<open>Allowed namespaces\<close>

definition test_allowed_namespaces_default :: bool where
  "test_allowed_namespaces_default \<longleftrightarrow>
     (let listener = create_http_listener ''http'' 80
      in case get_allowed_route_namespaces listener ''default'' of
           AllowSame ns \<Rightarrow> ns = ''default''
         | _ \<Rightarrow> False)"

definition test_allowed_namespaces_all :: bool where
  "test_allowed_namespaces_all \<longleftrightarrow>
     (let listener = (create_http_listener ''http'' 80)\<lparr>gl_allowed_routes := Some
            \<lparr>ar_namespaces = Some \<lparr>rn_from = Some FromAll, rn_selector = None\<rparr>\<rparr>\<rparr>
      in get_allowed_route_namespaces listener ''default'' = AllowAll)"

definition test_allowed_namespaces_same :: bool where
  "test_allowed_namespaces_same \<longleftrightarrow>
     (let listener = (create_http_listener ''http'' 80)\<lparr>gl_allowed_routes := Some
            \<lparr>ar_namespaces = Some \<lparr>rn_from = Some FromSame, rn_selector = None\<rparr>\<rparr>\<rparr>
      in case get_allowed_route_namespaces listener ''my-namespace'' of
           AllowSame ns \<Rightarrow> ns = ''my-namespace''
         | _ \<Rightarrow> False)"

definition test_allowed_namespaces_selector :: bool where
  "test_allowed_namespaces_selector \<longleftrightarrow>
     (let selector_labels = bt_insert ''env'' ''production'' [];
          listener = (create_http_listener ''http'' 80)\<lparr>gl_allowed_routes := Some
            \<lparr>ar_namespaces = Some \<lparr>rn_from = Some FromSelector,
              rn_selector = Some \<lparr>ls_match_labels = Some selector_labels\<rparr>\<rparr>\<rparr>\<rparr>
      in case get_allowed_route_namespaces listener ''default'' of
           AllowSelector match_labels \<Rightarrow> bt_get ''env'' match_labels = Some ''production''
         | _ \<Rightarrow> False)"

lemma allowed_namespaces_tests:
  "test_allowed_namespaces_default" "test_allowed_namespaces_all" "test_allowed_namespaces_same"
  "test_allowed_namespaces_selector"
  by code_simp+

section \<open>Names and labels of the data plane\<close>

definition test_data_plane_names :: bool where
  "test_data_plane_names \<longleftrightarrow>
     (let names = data_plane_names_new ''default'' ''my-gateway''
      in deployment_name names = ''multiway-dp-my-gateway'' \<and>
         configmap_name names = ''multiway-config-my-gateway'' \<and>
         service_name names = ''multiway-dp-my-gateway'' \<and> dp_namespace names = ''default'')"

definition test_data_plane_labels :: bool where
  "test_data_plane_labels \<longleftrightarrow>
     (let names = data_plane_names_new ''default'' ''my-gateway''; ls = labels names
      in bt_get MANAGED_BY_LABEL ls = Some MANAGED_BY_VALUE \<and>
         bt_get GATEWAY_NAME_LABEL ls = Some ''my-gateway'' \<and>
         bt_get ''gateway.networking.k8s.io/gateway-namespace'' ls = Some ''default'')"

definition test_data_plane_selector_labels :: bool where
  "test_data_plane_selector_labels \<longleftrightarrow>
     (let names = data_plane_names_new ''default'' ''my-gateway''; selector = selector_labels names
      in bt_get GATEWAY_NAME_LABEL selector = Some ''my-gateway'' \<and>
         bt_get ''app.kubernetes.io/component'' selector = Some ''dataplane'')"

lemma data_plane_name_tests:
  "test_data_plane_names" "test_data_plane_labels" "test_data_plane_selector_labels"
  by code_simp+

section \<open>Accepted gateway classes\<close>

definition create_test_gateway_class :: "string \<Rightarrow> GatewayClass" where
  "create_test_gateway_class controller_name = \<lparr>
     gc_metadata = (named_meta ''test-class'')\<lparr>om_generation := Some 1\<rparr>,
     gc_controller_name = controller_name, gc_parameters_ref = None, gc_status = None\<rparr>"

definition class_with_conditions :: "Condition list \<Rightarrow> GatewayClass" where
  "class_with_conditions conditions = (create_test_gateway_class CONTROLLER_NAME)
     \<lparr>gc_status := Some \<lparr>gcs_conditions = Some conditions\<rparr>\<rparr>"

definition condition_of :: "string \<Rightarrow> string \<Rightarrow> int \<Rightarrow> string \<Rightarrow> string \<Rightarrow> Condition" where
  "condition_of t status generation reason message = \<lparr>co_type = t, co_status = status,
     co_observed_generation = Some generation, co_last_transition_time = 0, co_reason = reason,
     co_message = message\<rparr>"

definition test_controller_name_format :: bool where
  "test_controller_name_format \<longleftrightarrow>
     CHR ''/'' \<in> set CONTROLLER_NAME \<and> strip_prefix ''io.multiway'' CONTROLLER_NAME \<noteq> None"

definition test_is_gateway_class_accepted :: bool where
  "test_is_gateway_class_accepted \<longleftrightarrow>
     \<not> gateway_class_accepted (create_test_gateway_class ''other-controller'') \<and>
     \<not> gateway_class_accepted (create_test_gateway_class CONTROLLER_NAME) \<and>
     gateway_class_accepted (class_with_conditions
       [condition_of ''Accepted'' ''True'' 1 ''Accepted'' ''Accepted''])"

definition test_is_gateway_class_not_accepted_with_false_status :: bool where
  "test_is_gateway_class_not_accepted_with_false_status \<longleftrightarrow>
     \<not> gateway_class_accepted (class_with_conditions
       [condition_of ''Accepted'' ''False'' 1 ''InvalidConfiguration'' ''Configuration is invalid''])"

definition test_observed_generation_tracking :: bool where
  "test_observed_generation_tracking \<longleftrightarrow>
     (let gc = class_with_conditions [condition_of ''Accepted'' ''True'' 5 ''Accepted'' ''Accepted'']
      in gateway_class_accepted (gc\<lparr>gc_metadata := (gc_metadata gc)\<lparr>om_generation := Some 5\<rparr>\<rparr>))"

definition test_empty_conditions_not_accepted :: bool where
  "test_empty_conditions_not_accepted \<longleftrightarrow> \<not> gateway_class_accepted (class_with_conditions [])"

definition test_missing_accepted_condition :: bool where
  "test_missing_accepted_condition \<longleftrightarrow>
     \<not> gateway_class_accepted (class_with_conditions
       [condition_of ''SomeOtherCondition'' ''True'' 1 ''Something'' ''Something''])"

lemma accepted_class_tests:
  "test_controller_name_format" "test_is_gateway_class_accepted"
  "test_is_gateway_class_not_accepted_with_false_status" "test_observed_generation_tracking"
  "test_empty_conditions_not_accepted" "test_missing_accepted_condition"
  by code_simp+

section \<open>Supported features\<close>

definition test_supported_features :: bool where
  "test_supported_features \<longleftrightarrow> ''Gateway'' \<in> set SUPPORTED_FEATURES \<and> ''HTTPRoute'' \<in> set SUPPORTED_FEATURES"

definition test_extended_httproute_matching_features :: bool where
  "test_extended_httproute_matching_features \<longleftrightarrow>
     ''HTTPRouteMethodMatching'' \<in> set SUPPORTED_FEATURES \<and>
     ''HTTPRouteQueryParamMatching'' \<in> set SUPPORTED_FEATURES"

definition test_extended_httproute_filter_features :: bool where
  "test_extended_httproute_filter_features \<longleftrightarrow>
     ''HTTPRouteRequestHeaderModifier'' \<in> set SUPPORTED_FEATURES \<and>
     ''HTTPRouteResponseHeaderModifier'' \<in> set SUPPORTED_FEATURES \<and>
     ''HTTPRouteRequestRedirect'' \<in> set SUPPORTED_FEATURES \<and>
     ''HTTPRouteRequestMirror'' \<in> set SUPPORTED_FEATURES"

definition test_extended_httproute_rewrite_features :: bool where
  "test_extended_httproute_rewrite_features \<longleftrightarrow>
     ''HTTPRouteHostRewrite'' \<in> set SUPPORTED_FEATURES \<and>
     ''HTTPRoutePathRewrite'' \<in> set SUPPORTED_FEATURES \<and>
     ''HTTPRoutePathRedirect'' \<in> set SUPPORTED_FEATURES \<and>
     ''HTTPRouteSchemeRedirect'' \<in> set SUPPORTED_FEATURES \<and>
     ''HTTPRoutePortRedirect'' \<in> set SUPPORTED_FEATURES"

definition test_backend_destination_port_feature :: bool where
  "test_backend_destination_port_feature \<longleftrightarrow> ''HTTPRouteDestinationPortMatching'' \<in> set SUPPORTED_FEATURES"

lemma supported_feature_tests:
  "test_supported_features" "test_extended_httproute_matching_features"
  "test_extended_httproute_filter_features" "test_extended_httproute_rewrite_features"
  "test_backend_destination_port_feature"
  by code_simp+

section \<open>The configuration and its builders\<close>

definition test_default_config :: bool where
  "test_default_config \<longleftrightarrow>
     (let config = controller_config_default
      in cc_default_replicas config = 1 \<and> cc_requeue_after_secs config = 300 \<and> \<not> cc_leader_election config)"

definition test_config_builder :: bool where
  "test_config_builder \<longleftrightarrow>
     (let config = ccb_build (ccb_leader_election (ccb_default_replicas (ccb_dataplane_image
            controller_config_builder ''my-image:v1'') 3) True)
      in cc_dataplane_image config = ''my-image:v1'' \<and> cc_default_replicas config = 3 \<and>
         cc_leader_election config)"

definition test_builder_defaults :: bool where
  "test_builder_defaults \<longleftrightarrow>
     (let builder = gateway_controller_builder_new
      in cc_dataplane_image (gb_config builder) = ''ghcr.io/wack/multiway-dataplane:latest'' \<and>
         cc_default_replicas (gb_config builder) = 1)"

definition test_builder_custom_config :: bool where
  "test_builder_custom_config \<longleftrightarrow>
     (let builder = gb_requeue_after_secs (gb_default_replicas (gb_dataplane_image
            gateway_controller_builder_new ''custom-image:v1'') 3) 600
      in cc_dataplane_image (gb_config builder) = ''custom-image:v1'' \<and>
         cc_default_replicas (gb_config builder) = 3 \<and> cc_requeue_after_secs (gb_config builder) = 600)"

lemma controller_config_tests:
  "test_default_config" "test_config_builder" "test_builder_defaults" "test_builder_custom_config"
  by code_simp+

section \<open>Results handed to the executor\<close>

definition test_result_to_action_conversion :: bool where
  "test_result_to_action_conversion \<longleftrightarrow>
     res_requeue (with_requeue result_new 60) = Some (After 60) \<and>
     res_requeue (with_requeue_on_error result_new 5) = Some (OnError 5)"

definition test_result_events :: bool where
  "test_result_events \<longleftrightarrow>
     (let result = emit_warning (emit_normal result_new ''Created'' ''Resource created successfully'')
            ''Warning'' ''Something might be wrong''
      in length (res_events result) = 2 \<and> re_severity (res_events result ! 0) = EventSeverity.Normal \<and>
         re_severity (res_events result ! 1) = EventSeverity.Warning)"

lemma executor_tests: "test_result_to_action_conversion" "test_result_events"
  by code_simp+

end
