(* ===== verification/Tests.thy ===== *)
theory Tests
  imports RoutingTests FilterTests ProxyTests ServerTests ServerRunTests ConvertTests ReconcileTests ControllerTests
begin

text \<open>
  The repository's own unit tests, gathered. Each test of the modules \<open>#[cfg(test)]\<close> is a definition of a
  truth value with the test's name, which builds the test's input with the model's functions and states its assertions;
  each is evaluated to true in the kernel. So the model answers the inputs that the authors of the code chose
  as they expect the code to answer. Tests that need a regular expression are proved for every engine that
  answers the patterns of the test as the test assumes.

  Left out are the tests that only exercise other crates (the HTTP codec, the pool of connections, the name
  resolution of the system, the text of a JSON syntax error), and \<open>test_percentage_mirroring\<close>, which repeats
  the condition it tests instead of calling the code. \<open>test_data_plane_names_config\<close> is the test
  \<open>test_data_plane_names\<close> of \<open>controller/config.rs\<close>; another module has a test of that name.
\<close>

lemmas data_plane_tests =
  exact_path_tests path_prefix_tests regex_path_tests path_precedence_tests path_unit_tests
  hostname_match_tests host_header_tests header_tests query_param_tests regex_match_tests
  condition_tests decision_tests header_modification_tests redirect_tests redirect_status_tests
  rewrite_tests collect_filters_tests path_helper_tests extract_meta_tests response_tests
  select_backend_tests test_of_weighted_distribution test_of_weighted_backends websocket_upgrade_tests
  raw_websocket_upgrade_tests pipeline_tests mirror_tests timeout_tests pem_tests tls_acceptor_tests
  tls_wire_tests transport_tests server_builder_tests server_run_tests config_key_test

lemmas configuration_tests =
  proxy_roundtrip_tests proxy_filter_roundtrip_tests proxy_leaf_roundtrip_tests proxy_default_tests
  proxy_builder_tests control_plane_wire_tests control_plane_tls_wire_tests full_roundtrip_test

lemmas control_plane_tests =
  snapshot_tests listener_validation_tests parent_ref_tests backend_validation_tests result_tests
  duration_tests method_and_namespace_tests path_match_tests header_and_query_match_tests
  convert_filter_tests convert_rule_tests find_listener_tests gateway_class_reconcile_tests
  gateway_reconcile_tests httproute_reconcile_tests port_tests gateway_address_tests listener_tls_tests
  listener_tests allowed_namespaces_tests data_plane_name_tests accepted_class_tests
  supported_feature_tests controller_config_tests executor_tests

end
