(* ===== verification/Spec2Isabelle.thy ===== *)
theory Spec2Isabelle
  imports Upgrade Cli Serving System Tests
begin

text \<open>
  A model of multiway, a Kubernetes Gateway API implementation in Rust, and its correctness.

  The program has two halves. The control plane watches Gateway API objects. For each object that
  changes a controller (\<open>controller/gateway.rs\<close> and its siblings) fetches a snapshot of the cluster
  (\<open>shell/fetcher.rs\<close>), computes from it what to do (\<open>core/reconcile.rs\<close>, pure functions over
  \<open>core/snapshot.rs\<close> with the checks of \<open>core/validate.rs\<close>), and executes the result
  (\<open>shell/executor.rs\<close>). One of its effects is a ConfigMap that holds the gateway's configuration
  as JSON. The data plane (\<open>dataplane/src/main.rs\<close>) reads that ConfigMap, follows its changes, and runs
  a server (\<open>server.rs\<close>) whose workers accept connections, terminate TLS (\<open>tls.rs\<close>) and proxy HTTP
  requests: a pipeline of services (\<open>pipeline.rs\<close>) selects a rule for every request
  (\<open>routing.rs\<close>), applies the rule's filters (\<open>filter.rs\<close>) and forwards it to a backend.

  Theories, all paths below \<open>crates/\<close>:

  \<^item> \<open>Prelude\<close> and \<open>RustStr\<close> hold what the code uses of Rust's standard library: \<open>BTreeMap\<close> as a
    sorted association list, integers at their width, strings as byte sequences with the slicing
    that panics. \<open>Selection\<close> is the interface of a loop that keeps the first best element.
  \<^item> \<open>Config\<close> is \<open>proxy-core/src/config.rs\<close>; \<open>Routing\<close> is \<open>proxy-core/src/routing.rs\<close>; \<open>HttpFilter\<close>
    is \<open>proxy-core/src/filter.rs\<close>.
  \<^item> \<open>RequestHead\<close>, \<open>HttpTypes\<close>, \<open>Upstream\<close>, \<open>Pipeline\<close>, \<open>Upgrade\<close> and \<open>Factory\<close> are
    \<open>proxy-core/src/pipeline.rs\<close>: the raw bytes of a request head and the prefixed stream; requests,
    responses and header rewriting; the forwarder to backends; routing with filters, the session
    loop and the WebSocket relay; the two checks for an upgrade; the service structs and the factories that
    build them.
  \<^item> \<open>Transport\<close> is \<open>proxy-core/src/transport.rs\<close> and \<open>pool.rs\<close>; \<open>Tls\<close> is \<open>tls.rs\<close>; \<open>Server\<close> is
    \<open>server.rs\<close>, with its invariant and properties in \<open>ServerFacts\<close>. \<open>Serving\<close> joins it with the pipeline
    that serves its connections.
  \<^item> \<open>Json\<close> and \<open>Wire\<close> are the JSON form of both configuration modules, from their serde attributes;
    \<open>WireRoundtrip\<close> shows that it is kept across the wire, and \<open>CpWire\<close> is the control plane's own reader
    of it. \<open>DataPlane\<close> is \<open>dataplane/src/main.rs\<close>.
  \<^item> \<open>Kube\<close> declares the Kubernetes and Gateway API objects as far as the controllers read them;
    their Rust types are generated or come from libraries.
  \<^item> \<open>CpConfig\<close>, \<open>CpError\<close>, \<open>Convert\<close> are \<open>config.rs\<close> and \<open>context.rs\<close>, \<open>error.rs\<close>, and the conversion in
    \<open>httproute.rs\<close> of \<open>controlplane/src/controller/\<close>; \<open>Controllers\<close> is the rest of that directory,
    \<open>Cli\<close> is \<open>controlplane/src/cli/\<close> and \<open>bin/main.rs\<close>.
  \<^item> \<open>Snapshot\<close>, \<open>Result\<close>, \<open>Validate\<close>, \<open>Resources\<close> with \<open>Reconcile\<close> are \<open>snapshot.rs\<close>,
    \<open>result.rs\<close>, \<open>validate.rs\<close> and \<open>reconcile.rs\<close> of \<open>controlplane/src/core/\<close>.
  \<^item> \<open>Fetcher\<close> and \<open>Executor\<close> are \<open>controlplane/src/shell/\<close>.
  \<^item> \<open>System\<close> puts both halves into one step relation: the cluster changes, handlers of any controller
    run interleaved and store ConfigMaps, any call may fail, and the data plane of one gateway starts
    and follows what is stored.
  \<^item> The theories whose names end in \<open>Tests\<close>, gathered in \<open>Tests\<close> and with \<open>TestLib\<close> for what they share,
    are the unit tests in the source files: \<open>RoutingTests\<close>, \<open>FilterTests\<close>, \<open>PipelineTests\<close> and
    \<open>ProxyTests\<close> (the tests of \<open>pipeline.rs\<close> that send a request through a whole pipeline), \<open>ServerTests\<close>
    (with TLS and transport), \<open>ServerRunTests\<close> (whole servers), \<open>WireTests\<close> (both \<open>config.rs\<close>), \<open>CoreTests\<close>, \<open>ConvertTests\<close>,
    \<open>ReconcileTests\<close> and \<open>ControllerTests\<close>. One definition per test, evaluated to true.

  Conventions. A struct is a record whose fields carry a prefix per struct; an enum is a datatype
  with the constructors of the source; types that both halves declare have the prefix \<open>Cp\<close> on the
  control plane's side. Strings are lists of bytes, \<open>usize\<close> is \<open>nat\<close>, \<open>u16\<close> and \<open>u32\<close> are words,
  \<open>i32\<close> is \<open>int\<close> with its casts written out, a duration is a number of seconds, \<open>f64\<close> is its bit
  pattern. A panic or an error is the left side of a sum. Each loop is a recursion over the list
  it walks. What other crates compute is a parameter: the regular expression engine, JSON text,
  floating point operations, HTTP types and codecs, PEM and rustls, the Kubernetes API (a record
  of answers in \<open>Fetcher\<close>, answers that depend on all earlier calls in \<open>Executor\<close>), the bytes a
  socket delivers. A worker of the server runs against a record of what it meets in each round:
  the configuration loaded with its address, the shutdown flag, the outcomes of binding,
  accepting, handshakes, and whether a connection ever ends.

  What the lemmas show. \<open>Routing\<close>: the nested loops of the router choose the first of the best
  matching rules, by its interface \<open>strict_weak_order\<close>; path, hostname and match semantics.
  \<open>HttpFilter\<close>: what filters collect, when that panics, and what header modification leaves under
  every name, for any header container that satisfies the interface \<open>header_store\<close>. \<open>Upstream\<close> and
  \<open>Pipeline\<close>: which backend is called with which headers, every error response, the answers of a
  session in order, the verbatim relay of WebSockets and when it ends. \<open>Upgrade\<close>: the check on raw
  bytes agrees with the one on parsed headers. \<open>ServerFacts\<close>: an invariant of the accept loop; each
  connection is served with the current configuration and, while binding works, under its own
  listener; workers and the server stop on shutdown; what goes wrong when binding or TLS set-up fails.
  \<open>Serving\<close>: a connection can only panic, and so end its worker, under rules of three kinds. \<open>Tls\<close>: which
  certificates an acceptor holds. \<open>WireRoundtrip\<close> and \<open>CpWire\<close>: both halves write the same
  JSON, their readers accept the same JSON and read the same from it, and it reads back. \<open>DataPlane\<close>: the last valid configuration stays in use. \<open>Snapshot\<close>: the maps of a snapshot stay
  sorted and keyed by their objects, by the interface \<open>resource_store\<close>. \<open>Validate\<close>: each check as an
  equivalence with its declarative condition. \<open>Reconcile\<close>: what is deployed and when, that the
  status tells the truth, and that the two handlers agree. \<open>Fetcher\<close>: what a snapshot contains.
  \<open>Executor\<close>: the order of effects for every behaviour of the API. \<open>Controllers\<close>: no handler panics or
  touches an object that is not its own. \<open>System\<close>: every ConfigMap that a handler stores was computed from
  objects that it fetched; by rule induction, so was the configuration that a data plane serves in
  any reachable state, and no request goes to a backend that no route of the gateway names; and a
  handling whose calls succeed gets its configuration to the data plane. This theory holds the
  properties that span both halves: what is deployed is loaded, and where a request on a
  connection of a worker goes.

  Bounds. Reading the request head ends because every round adds at least one byte to a buffer that ends
  the loop above 65536 bytes. The accept loop of a worker and the wait for shutdown take a number of
  rounds: round \<open>n\<close> is the last when the flag is set at its head, so \<open>Suc n\<close> rounds are enough,
  which is proved.

  Assumptions on other code are hypotheses of the theorems that use them: that the JSON library reads
  back what it printed (its reader may in fact be off by one unit in the last place of a timeout,
  the only floating point number, on which no conclusion about routing depends); that no two
  configurations of a worker are ever at one address (which the code does not ensure); that only
  the controllers write a gateway's ConfigMap, which is how \<open>System\<close> is built.

  Not modelled: the watch machinery of the kube runtime (which objects are handed to the
  handlers and when), the system calls behind sockets and threads, the TLS handshake itself, the
  reuse of pooled connections, HTTP codecs, argument parsing and logging. They belong to
  other crates; the sources only call them. Of the tests, those that exercise only such code;
  \<open>Tests\<close> lists them.
\<close>

section \<open>From the controllers to the data plane\<close>

text \<open>C2: what is deployed is what is served. When a gateway can be programmed, its reconciliation
  writes the ConfigMap whose namespace and name the data plane derives from the environment that
  the same reconciliation puts on its pods; and a data plane that is answered with that ConfigMap
  starts with the gateway's configuration, of which only timeouts that are not finite are lost. The JSON
  library is assumed to read back the one document that it printed.\<close>

theorem deployed_configuration_is_loaded:
  assumes gw: "programmable s ns n gw" "name_any (gw_metadata gw) = n"
    and json: "jt_print jt (cp_enc_gateway_config (gateway_configuration fl s ns gw)) = Some content"
      "jt_parse jt content = Some (cp_enc_gateway_config (gateway_configuration fl s ns gw))"
    and cm: "cm = build_configmap (gateway_config_to_json jt) (data_plane_names_new ns n) (gateway_configuration fl s ns gw) gw"
    and api: "ka_client_error api = None" "ka_get_configmap api ns (''multiway-config-'' @ n) = Inr cm"
    and args: "ag_gateway_name args = n" "ag_gateway_namespace args = ns"
  shows "UpsertConfigMap cm \<in> set (res_upserts (reconcile_gateway (gateway_config_to_json jt) fl s ccfg ns n)) \<and>
    upsert_object (UpsertConfigMap cm) = (''ConfigMap'', Some ns, ''multiway-config-'' @ n) \<and>
    (\<exists>dep spec c env. UpsertDeployment dep \<in> set (res_upserts (reconcile_gateway (gateway_config_to_json jt) fl s ccfg ns n)) \<and>
       de_spec dep = Some spec \<and> ds_containers spec = [c] \<and> ct_env c = Some env \<and>
       \<lparr>ev_name = ''GATEWAY_NAME'', ev_value = Some n\<rparr> \<in> set env \<and>
       \<lparr>ev_name = ''GATEWAY_NAMESPACE'', ev_value = Some ns\<rparr> \<in> set env) \<and>
    dataplane_start jt api None io_text (Some (Suc cpus)) cell args =
      Inr (finite_config (wire_config (gateway_configuration fl s ns gw)),
           \<lparr>px_config = cell, px_worker_threads = Suc cpus\<rparr>)"
proof (intro conjI)
  note r = reconcile_gateway_programmable [OF gw(1)]
  show "UpsertConfigMap cm \<in> set (res_upserts (reconcile_gateway (gateway_config_to_json jt) fl s ccfg ns n))"
    by (simp add: r gateway_upserts_def Let_def cm)
  show "upsert_object (UpsertConfigMap cm) = (''ConfigMap'', Some ns, ''multiway-config-'' @ n)"
    by (simp add: cm upsert_object_def build_configmap_def name_any_def data_plane_names_new_def configmap_name_def)
  show "\<exists>dep spec c env. UpsertDeployment dep \<in> set (res_upserts (reconcile_gateway (gateway_config_to_json jt) fl s ccfg ns n)) \<and>
       de_spec dep = Some spec \<and> ds_containers spec = [c] \<and> ct_env c = Some env \<and>
       \<lparr>ev_name = ''GATEWAY_NAME'', ev_value = Some n\<rparr> \<in> set env \<and>
       \<lparr>ev_name = ''GATEWAY_NAMESPACE'', ev_value = Some ns\<rparr> \<in> set env"
    by (rule exI [of _ "build_deployment (data_plane_names_new ns n) gw ccfg"])
      (simp add: r gateway_upserts_def Let_def build_deployment_def gw(2) dp_namespace_def data_plane_names_new_def)
  have "parse_config_from_configmap jt cm = Inr (finite_config (wire_config (gateway_configuration fl s ns gw)))"
    using json dec_proxy_config_enc [of "jt_f64 jt" "wire_config (gateway_configuration fl s ns gw)"]
    by (simp add: cm parse_config_from_configmap_def build_configmap_def gateway_config_to_json_def
        proxy_config_from_json_def DP_CONFIG_KEY_def CONFIG_KEY_def enc_config_wire bt_get_def)
  then show "dataplane_start jt api None io_text (Some (Suc cpus)) cell args =
      Inr (finite_config (wire_config (gateway_configuration fl s ns gw)),
           \<lparr>px_config = cell, px_worker_threads = Suc cpus\<rparr>)"
    using api args by (simp add: dataplane_start_def load_config_from_k8s_def proxy_server_build_def
        psb_config_def proxy_server_builder_def)
qed

text \<open>Where a forwarded request comes from and where it goes. A data plane that serves the
  configuration of a gateway forwards a request only to the backends of one rule of an HTTPRoute
  that names this gateway as a parent, on a listener of this gateway; each backend carries the
  name, namespace, port and weight of the reference at its place in that rule, defaulted as the
  Gateway API says. The forwarder then sends it to the first address of a reference of that rule
  whose weight is not 0, by the reference's name and port, or the client gets 502 or 503.\<close>

theorem forwarded_to_backends_of_a_route_of_the_gateway:
  assumes "route re (finite_config (wire_config (gateway_configuration fl s ns gw)))
     (pq_listener_name req) (pq_meta req) = Forward backends filters timeout"
    and "upstream_call ht net (forward_of req backends filters timeout) = Inr (resp, mirrors, sent)"
  shows "\<exists>r rule. r \<in> set (routes_for_gateway s ns (name_any (gw_metadata gw))) \<and>
    rule \<in> set (unwrap_or [] (hr_rules r)) \<and> pq_listener_name req \<in> gl_name ` set (gw_listeners gw) \<and>
    list_all2 (\<lambda>b ref. be_name b = hrb_name ref \<and>
        be_namespace b = unwrap_or (namespace_or_default (hr_metadata r)) (hrb_namespace ref) \<and>
        be_port b = word_of_int (unwrap_or 80 (hrb_port ref)) \<and>
        be_weight b = word_of_int (unwrap_or 1 (hrb_weight ref)))
      backends (unwrap_or [] (hrl_backend_refs rule)) \<and>
    (case sent of
       Some (addr, up) \<Rightarrow> \<exists>ref\<in>set (unwrap_or [] (hrl_backend_refs rule)).
         word_of_int (unwrap_or 1 (hrb_weight ref)) \<noteq> (0 :: u32) \<and>
         (\<exists>as. nt_resolve net (hrb_name ref) (word_of_int (unwrap_or 80 (hrb_port ref))) = Inr (addr # as))
     | None \<Rightarrow> hs_status resp = 502 \<or> hs_status resp = 503)"
proof -
  obtain r rule where r: "r \<in> set (routes_for_gateway s ns (name_any (gw_metadata gw)))"
    and rule: "rule \<in> set (unwrap_or [] (hr_rules r))"
    and attached: "pq_listener_name req \<in> gl_name ` set (gw_listeners gw)"
    and "list_all2 (backend_of r) backends (unwrap_or [] (hrl_backend_refs rule))"
    using served_forward [OF assms(1) [folded served_for_def]] by blast
  note refs = this(4) [unfolded backend_of_def]
  let ?refs = "unwrap_or [] (hrl_backend_refs rule)"
  have sent: "case sent of
       Some (addr, up) \<Rightarrow> \<exists>ref\<in>set ?refs. word_of_int (unwrap_or 1 (hrb_weight ref)) \<noteq> (0 :: u32) \<and>
         (\<exists>as. nt_resolve net (hrb_name ref) (word_of_int (unwrap_or 80 (hrb_port ref))) = Inr (addr # as))
     | None \<Rightarrow> hs_status resp = 502 \<or> hs_status resp = 503"
    proof (cases sent)
    case None
    with upstream_call_sent [OF assms(2)] show ?thesis by simp
  next
    case (Some p)
    obtain addr up where p: "p = (addr, up)" by fastforce
    with Some obtain b as where "b \<in> set backends" "be_weight b \<noteq> 0"
      "nt_resolve net (be_name b) (be_port b) = Inr (addr # as)"
      using upstream_call_sent [OF assms(2)] by (auto simp: forward_of_def)
    with list_all2_mem [OF refs] Some p show ?thesis by fastforce
  qed
  from r rule attached refs sent show ?thesis by blast
qed


text \<open>A route with a rule, beside the demonstration gateway.\<close>

definition demo_backed_cluster :: WorldSnapshot where
  "demo_backed_cluster = with_httproute demo_backed_route demo_cluster"

definition demo_pipeline_request :: "(string \<times> string option, (string \<times> string) list) PipelineRequest" where
  "demo_pipeline_request = \<lparr>pq_request = demo_http_request, pq_meta = demo_request, pq_listener_name = ''http''\<rparr>"

lemma demo_forward:
  "route (\<lambda>_. None) (finite_config (wire_config (gateway_configuration demo_float_ops demo_backed_cluster ''ns'' demo_gateway)))
     (pq_listener_name demo_pipeline_request) (pq_meta demo_pipeline_request) =
   Forward [backend_new ''ns'' ''svc'' 80] [] None"
  by code_simp

theorem forwarded_to_backends_of_a_route_of_the_gateway_witness:
  "\<exists>r\<in>set (routes_for_gateway demo_backed_cluster ''ns'' (name_any (gw_metadata demo_gateway))).
     \<exists>rule\<in>set (unwrap_or [] (hr_rules r)). length (unwrap_or [] (hrl_backend_refs rule)) = 1"
proof -
  let ?fr = "forward_of demo_pipeline_request [backend_new ''ns'' ''svc'' 80] [] None"
  have "af_timeout (fr_applied_filter ?fr) = None" by (simp add: forward_of_def)
  then obtain resp mirrors sent where "upstream_call demo_http demo_net ?fr = Inr (resp, mirrors, sent)"
    by (cases rule: upstream_call_cases [of ?fr demo_net demo_http]) auto
  from forwarded_to_backends_of_a_route_of_the_gateway [OF demo_forward this] show ?thesis
    by (fastforce dest: list_all2_lengthD)
qed

definition demo_deployed :: CpGatewayConfig where
  "demo_deployed = gateway_configuration demo_float_ops demo_cluster ''ns'' demo_gateway"

theorem deployed_configuration_is_loaded_witness:
  "dataplane_start (demo_json_text (cp_enc_gateway_config demo_deployed))
     ((demo_kube_api [])\<lparr>ka_get_configmap := \<lambda>ns n. Inr (build_configmap
        (gateway_config_to_json (demo_json_text (cp_enc_gateway_config demo_deployed)))
        (data_plane_names_new ''ns'' ''gw'') demo_deployed demo_gateway)\<rparr>) None (\<lambda>e. ''io'') (Some 2) ()
     \<lparr>ag_gateway_name = ''gw'', ag_gateway_namespace = ''ns'', ag_log_level = ''info'', ag_log_json = False\<rparr> =
   Inr (finite_config (wire_config demo_deployed), \<lparr>px_config = (), px_worker_threads = 2\<rparr>)"
proof -
  let ?jt = "demo_json_text (cp_enc_gateway_config demo_deployed)"
  let ?cm = "build_configmap (gateway_config_to_json ?jt) (data_plane_names_new ''ns'' ''gw'') demo_deployed demo_gateway"
  let ?api = "(demo_kube_api [])\<lparr>ka_get_configmap := \<lambda>ns n. Inr ?cm\<rparr>"
  have "name_any (gw_metadata demo_gateway) = ''gw''" by (simp add: demo_gateway_def)
  moreover have "jt_print ?jt (cp_enc_gateway_config demo_deployed) = Some ''x''"
    "jt_parse ?jt ''x'' = Some (cp_enc_gateway_config demo_deployed)" by (simp_all add: demo_json_text_def)
  moreover have "ka_client_error ?api = None" "ka_get_configmap ?api ''ns'' (''multiway-config-'' @ ''gw'') = Inr ?cm"
    by (simp_all add: demo_kube_api_def)
  ultimately show ?thesis
    using deployed_configuration_is_loaded [OF demo_programmable, of ?jt demo_float_ops "''x''" ?cm ?api
        "\<lparr>ag_gateway_name = ''gw'', ag_gateway_namespace = ''ns'', ag_log_level = ''info'', ag_log_json = False\<rparr>"
        controller_config_default "\<lambda>e. ''io''" 1 "()"]
    by (simp add: demo_deployed_def numeral_2_eq_2)
qed

text \<open>One gateway, one route and one request on the first connection of a worker.\<close>

definition demo_served :: ProxyConfig where
  "demo_served = served_for demo_float_ops demo_world ''ns'' demo_gateway"

lemma demo_served_listeners: "pc_listeners demo_served = [listener_http ''http'' 80 None]"
  by code_simp

lemma demo_served_run:
  "\<exists>wk. worker_loop (demo_worker_env (\<lambda>n. (0, demo_served)) (\<lambda>n. Inr n)) 2 = Some (WorkerOk wk) \<and>
     wk_trace wk = [ServedPlain 0 0 ''http'' (pipelines_for demo_served ! 0) \<lparr>st_fd = 7, st_nodelay = True\<rparr>]"
  by (simp add: demo_worker_simps demo_served_listeners numeral_2_eq_2 listener_opts_default_def)

lemma demo_served_sent:
  "\<exists>resp mirrors up. upstream_call demo_http demo_net
     (forward_of demo_pipeline_request [backend_new ''ns'' ''svc'' 80] [] None) = Inr (resp, mirrors, Some (''svc'', up))"
proof -
  have "case upstream_call demo_http demo_net (forward_of demo_pipeline_request [backend_new ''ns'' ''svc'' 80] [] None) of
      Inr (resp, mirrors, Some (a, up)) \<Rightarrow> a = ''svc'' | _ \<Rightarrow> False" by code_simp
  then show ?thesis by (auto split: sum.splits option.splits)
qed


end
